(* ===== verification/Prelude.thy ===== *)
theory Prelude
  imports Complex_Main "HOL-Library.Word"
begin

text \<open>
  What every component of the model shares: Go's outcomes (a value, an error return or a
  panic), the parts of Go's standard library the repository uses on strings (package strings,
  strconv and fmt's %d), and arithmetic facts on machine integers.

  A Go string is a sequence of bytes, and so is a \<open>string\<close> here (a list of 8-bit characters).
\<close>

named_theorems go_res "case rules of outcomes"

subsection \<open>Outcomes\<close>

text \<open>A call returns a value, returns an error, or panics with a message.\<close>

datatype ('e, 'a) res = Ok 'a | Err 'e | Panic string

fun bind_res :: "('e, 'a) res \<Rightarrow> ('a \<Rightarrow> ('e, 'b) res) \<Rightarrow> ('e, 'b) res" where
  "bind_res (Ok x) f = f x"
| "bind_res (Err e) f = Err e"
| "bind_res (Panic m) f = Panic m"

fun map_ok :: "('a \<Rightarrow> 'b) \<Rightarrow> ('e, 'a) res \<Rightarrow> ('e, 'b) res" where
  "map_ok f (Ok x) = Ok (f x)"
| "map_ok f (Err e) = Err e"
| "map_ok f (Panic m) = Panic m"

definition is_panic :: "('e, 'a) res \<Rightarrow> bool" where
  "is_panic r \<longleftrightarrow> (case r of Panic m \<Rightarrow> True | _ \<Rightarrow> False)"

lemma is_panic_simps [simp]:
  "\<not> is_panic (Ok x)" "\<not> is_panic (Err e)" "is_panic (Panic m)"
  by (simp_all add: is_panic_def)

lemma bind_res_Ok [go_res]: "bind_res r f = Ok y \<longleftrightarrow> (\<exists>x. r = Ok x \<and> f x = Ok y)"
  by (cases r) auto

lemma map_ok_Ok [go_res]: "map_ok f r = Ok y \<longleftrightarrow> (\<exists>x. r = Ok x \<and> y = f x)"
  by (cases r) auto

lemma bind_res_assoc: "bind_res (bind_res r f) g = bind_res r (\<lambda>x. bind_res (f x) g)"
  by (cases r) auto

lemma bind_res_cong [fundef_cong]:
  "r = r' \<Longrightarrow> (\<And>x. r' = Ok x \<Longrightarrow> f x = g x) \<Longrightarrow> bind_res r f = bind_res r' g"
  by (cases r') auto

text \<open>How a call that changes a state ends, where the state after a panic matters.\<close>

datatype 'a outcome = Returned 'a | Panicked string

subsection \<open>Package strings\<close>

fun has_prefix :: "string \<Rightarrow> string \<Rightarrow> bool" where
  "has_prefix s [] = True"
| "has_prefix [] (p # ps) = False"
| "has_prefix (c # cs) (p # ps) = (c = p \<and> has_prefix cs ps)"

definition has_suffix :: "string \<Rightarrow> string \<Rightarrow> bool" where
  "has_suffix s p = has_prefix (rev s) (rev p)"

fun str_contains :: "string \<Rightarrow> string \<Rightarrow> bool" where
  "str_contains [] p = (p = [])"
| "str_contains (c # cs) p = (has_prefix (c # cs) p \<or> str_contains cs p)"

text \<open>
  \<open>strings.Split(s, sep)\<close> for a nonempty separator: the pieces between non-overlapping
  occurrences of it, found from left to right; \<open>acc\<close> holds the current piece, reversed.
\<close>

function split_acc :: "string \<Rightarrow> string \<Rightarrow> string \<Rightarrow> string list" where
  "split_acc sep acc [] = [rev acc]"
| "split_acc sep acc (c # cs) =
     (if has_prefix (c # cs) sep
      then rev acc # split_acc sep [] (drop (length sep - 1) cs)
      else split_acc sep (c # acc) cs)"
  by pat_completeness auto
termination by (relation "measure (\<lambda>(sep, acc, s). length s)") auto

definition split_str :: "string \<Rightarrow> string \<Rightarrow> string list" where
  "split_str s sep = split_acc sep [] s"

fun join_str :: "string \<Rightarrow> string list \<Rightarrow> string" where
  "join_str sep [] = []"
| "join_str sep [x] = x"
| "join_str sep (x # y # ys) = x @ sep @ join_str sep (y # ys)"

lemma has_prefix_iff: "has_prefix s p \<longleftrightarrow> (\<exists>t. s = p @ t)"
  by (induction s p rule: has_prefix.induct) auto

lemma has_prefix_self [simp]: "has_prefix (p @ t) p"
  by (auto simp: has_prefix_iff)

lemma has_suffix_iff: "has_suffix s p \<longleftrightarrow> (\<exists>t. s = t @ p)"
proof
  assume "has_suffix s p"
  then obtain t where "rev s = rev p @ t"
    by (auto simp: has_suffix_def has_prefix_iff)
  then have "s = rev t @ p"
    by (metis rev_append rev_rev_ident)
  then show "\<exists>t. s = t @ p" ..
qed (auto simp: has_suffix_def has_prefix_iff)

lemma str_contains_iff: "str_contains s p \<longleftrightarrow> (\<exists>a b. s = a @ p @ b)"
proof (induction s)
  case (Cons c cs)
  then show ?case
    by (auto simp: has_prefix_iff Cons_eq_append_conv)
qed auto

lemma split_acc_nonempty [simp]: "split_acc sep acc s \<noteq> []"
  by (induction sep acc s rule: split_acc.induct) auto

lemma split_str_nonempty [simp]: "split_str s sep \<noteq> []"
  by (simp add: split_str_def)

lemma split_acc_join:
  "sep \<noteq> [] \<Longrightarrow> join_str sep (split_acc sep acc s) = rev acc @ s"
proof (induction sep acc s rule: split_acc.induct)
  case (2 sep acc c cs)
  show ?case
  proof (cases "has_prefix (c # cs) sep")
    case True
    then obtain t where t: "c # cs = sep @ t"
      by (auto simp: has_prefix_iff)
    then have d: "drop (length sep - 1) cs = t"
      using "2.prems" by (cases sep) auto
    have ne: "split_acc sep [] t \<noteq> []" by simp
    have "join_str sep (split_acc sep [] t) = t"
      using "2.IH"(1)[OF True] "2.prems" d by simp
    moreover have "split_acc sep acc (c # cs) = rev acc # split_acc sep [] t"
      using True d by simp
    ultimately have "join_str sep (split_acc sep acc (c # cs)) = rev acc @ sep @ t"
      using ne by (cases "split_acc sep [] t") auto
    then show ?thesis using t by simp
  next
    case False
    with 2 show ?thesis by simp
  qed
qed auto

lemma join_split: "sep \<noteq> [] \<Longrightarrow> join_str sep (split_str s sep) = s"
  by (simp add: split_str_def split_acc_join)

text \<open>Splitting at one character: the pieces hold none of it.\<close>

lemma has_prefix_single [simp]: "has_prefix (c # cs) [d] \<longleftrightarrow> c = d"
  by auto

lemma split_acc_no_sep: "c \<notin> set s \<Longrightarrow> split_acc [c] acc s = [rev acc @ s]"
  by (induction s arbitrary: acc) auto

lemma split_acc_single:
  "c \<notin> set x \<Longrightarrow> split_acc [c] acc (x @ c # s) = (rev acc @ x) # split_acc [c] [] s"
  by (induction x arbitrary: acc) auto

lemma split_str_no_sep: "c \<notin> set s \<Longrightarrow> split_str s [c] = [s]"
  by (simp add: split_str_def split_acc_no_sep)

lemma split_str_single: "c \<notin> set x \<Longrightarrow> split_str (x @ c # s) [c] = x # split_str s [c]"
  by (simp add: split_str_def split_acc_single)

text \<open>\<open>strings.TrimRight(s, cutset)\<close> for a cutset of one character.\<close>

definition trim_right :: "char \<Rightarrow> string \<Rightarrow> string" where
  "trim_right c s = rev (dropWhile (\<lambda>x. x = c) (rev s))"

lemma dropWhile_replicate: "\<exists>n. s = replicate n c @ dropWhile (\<lambda>x. x = c) s"
proof (induction s)
  case (Cons d s)
  then obtain n where n: "s = replicate n c @ dropWhile (\<lambda>x. x = c) s" ..
  show ?case
  proof (cases "d = c")
    case True
    then have "d # s = replicate (Suc n) c @ dropWhile (\<lambda>x. x = c) (d # s)" using n by simp
    then show ?thesis ..
  next
    case False
    then have "d # s = replicate 0 c @ dropWhile (\<lambda>x. x = c) (d # s)" by simp
    then show ?thesis ..
  qed
qed simp

lemma trim_right_split: "\<exists>n. s = trim_right c s @ replicate n c"
proof -
  obtain n where "rev s = replicate n c @ dropWhile (\<lambda>x. x = c) (rev s)"
    using dropWhile_replicate [of "rev s" c] by (elim exE)
  then have "rev (rev s) = rev (replicate n c @ dropWhile (\<lambda>x. x = c) (rev s))"
    by (rule arg_cong)
  then have "s = trim_right c s @ replicate n c"
    by (simp only: rev_rev_ident rev_append rev_replicate trim_right_def)
  then show ?thesis ..
qed

text \<open>
  \<open>strings.TrimSpace\<close>: the UTF-8 encodings of the code points \<open>unicode.IsSpace\<close> accepts
  are cut off at both ends.
\<close>

definition bytes :: "nat list \<Rightarrow> string" where
  "bytes ns = map char_of ns"

definition space_runes :: "string list" where
  "space_runes = map bytes
     ([[9], [10], [11], [12], [13], [32], [0xC2, 0x85], [0xC2, 0xA0], [0xE1, 0x9A, 0x80],
       [0xE2, 0x80, 0xA8], [0xE2, 0x80, 0xA9], [0xE2, 0x80, 0xAF], [0xE2, 0x81, 0x9F],
       [0xE3, 0x80, 0x80]] @ map (\<lambda>i. [0xE2, 0x80, 0x80 + i]) [0..<11])"

fun find_prefix :: "string list \<Rightarrow> string \<Rightarrow> nat" where
  "find_prefix [] s = 0"
| "find_prefix (p # ps) s = (if has_prefix s p then length p else find_prefix ps s)"

function trim_left_runes :: "string list \<Rightarrow> string \<Rightarrow> string" where
  "trim_left_runes ps s =
     (if find_prefix ps s = 0 \<or> s = [] then s
      else trim_left_runes ps (drop (find_prefix ps s) s))"
  by pat_completeness simp
termination
proof (relation "measure (\<lambda>(ps, s). length s)")
  fix ps :: "string list" and s :: string
  assume "\<not> (find_prefix ps s = 0 \<or> s = [])"
  then have "0 < find_prefix ps s" and "0 < length s" by auto
  then show "((ps, drop (find_prefix ps s) s), ps, s) \<in> measure (\<lambda>(ps, s). length s)"
    by (simp only: in_measure prod.case length_drop diff_less)
qed (rule wf_measure)

declare trim_left_runes.simps [simp del]

definition trim_space :: "string \<Rightarrow> string" where
  "trim_space s =
     rev (trim_left_runes (map rev space_runes) (rev (trim_left_runes space_runes s)))"

lemma trim_left_runes_Nil [simp]: "trim_left_runes ps [] = []"
  by (simp add: trim_left_runes.simps)

lemma trim_space_Nil [simp]: "trim_space [] = []"
  by (simp add: trim_space_def)

text \<open>Splitting what was joined, when the pieces do not hold the separator's first character.\<close>

lemma split_acc_sep:
  "d \<notin> set x \<Longrightarrow> split_acc (d # ds) acc (x @ (d # ds) @ s) = (rev acc @ x) # split_acc (d # ds) [] s"
proof (induction x arbitrary: acc)
  case Nil
  have "has_prefix (d # ds @ s) (d # ds)" using has_prefix_self [of "d # ds" s] by simp
  then show ?case by (simp del: has_prefix.simps)
qed auto

lemma split_acc_end: "d \<notin> set x \<Longrightarrow> split_acc (d # ds) acc x = [rev acc @ x]"
  by (induction x arbitrary: acc) auto

lemma split_join:
  assumes "xs \<noteq> []" "\<forall>x \<in> set xs. d \<notin> set x"
  shows "split_str (join_str (d # ds) xs) (d # ds) = xs"
proof -
  have "split_acc (d # ds) [] (join_str (d # ds) xs) = xs"
    using assms
  proof (induction "d # ds" xs rule: join_str.induct)
    case (3 x y ys)
    then show ?case
      using split_acc_sep [of d x ds "[]" "join_str (d # ds) (y # ys)"] by simp
  qed (simp_all add: split_acc_end)
  then show ?thesis by (simp add: split_str_def)
qed

lemma find_prefix_set: "c \<notin> \<Union> (set ` set ps) \<Longrightarrow> c \<in> set s \<Longrightarrow> c \<in> set (drop (find_prefix ps s) s)"
  by (induction ps) (auto simp: has_prefix_iff)

lemma trim_left_runes_keeps:
  "c \<notin> \<Union> (set ` set ps) \<Longrightarrow> c \<in> set s \<Longrightarrow> c \<in> set (trim_left_runes ps s)"
proof (induction ps s rule: trim_left_runes.induct)
  case (1 ps s)
  show ?case
  proof (cases "find_prefix ps s = 0 \<or> s = []")
    case True
    then show ?thesis using 1 by (simp add: trim_left_runes.simps)
  next
    case False
    then show ?thesis
      using "1.IH" [OF False] "1.prems" find_prefix_set by (subst trim_left_runes.simps) auto
  qed
qed

lemma trim_space_keeps: "c \<notin> \<Union> (set ` set space_runes) \<Longrightarrow> c \<in> set s \<Longrightarrow> c \<in> set (trim_space s)"
  unfolding trim_space_def set_rev
  by (rule trim_left_runes_keeps) (auto intro: trim_left_runes_keeps)

text \<open>UTF-8 encoding, for the literals of the source that are not ASCII.\<close>

definition utf8_char :: "nat \<Rightarrow> string" where
  "utf8_char n =
     bytes (if n < 0x80 then [n]
            else if n < 0x800 then [0xC0 + n div 64, 0x80 + n mod 64]
            else if n < 0x10000 then [0xE0 + n div 4096, 0x80 + n div 64 mod 64, 0x80 + n mod 64]
            else [0xF0 + n div 262144, 0x80 + n div 4096 mod 64, 0x80 + n div 64 mod 64, 0x80 + n mod 64])"

definition utf8 :: "nat list \<Rightarrow> string" where
  "utf8 ns = concat (map utf8_char ns)"

text \<open>
  A JSON value, as the code builds it from maps and structs or a decoder reads it: \<open>JInt\<close> is a number
  written as an integer, \<open>JNum\<close> any other number literal.
\<close>

datatype json =
    JNull | JBool bool | JInt int | JNum string | JStr string | JArr "json list"
  | JObj "(string \<times> json) list"

definition to_lower :: "char \<Rightarrow> char" where
  "to_lower c = (if 65 \<le> (of_char c :: nat) \<and> (of_char c :: nat) \<le> 90
                 then char_of ((of_char c :: nat) + 32) else c)"

text \<open>Hexadecimal digits.\<close>

definition hex_val :: "char \<Rightarrow> nat option" where
  "hex_val c =
     (let n = of_char c in
      if 48 \<le> n \<and> n \<le> 57 then Some (n - 48)
      else if 97 \<le> n \<and> n \<le> 102 then Some (n - 87)
      else if 65 \<le> n \<and> n \<le> 70 then Some (n - 55) else None)"

definition hex_char :: "nat \<Rightarrow> char" where
  "hex_char n = char_of (if n < 10 then 48 + n else 87 + n)"

subsection \<open>Go's division\<close>

text \<open>The quotient truncates towards zero, the remainder has the sign of the dividend.\<close>

definition quo :: "int \<Rightarrow> int \<Rightarrow> int" where
  "quo a b = sgn a * sgn b * (\<bar>a\<bar> div \<bar>b\<bar>)"

definition rem :: "int \<Rightarrow> int \<Rightarrow> int" where
  "rem a b = a - b * quo a b"

subsection \<open>Decimal digits\<close>

definition digit_char :: "nat \<Rightarrow> char" where
  "digit_char d = char_of (48 + d)"

definition char_digit :: "char \<Rightarrow> nat" where
  "char_digit c = of_char c - 48"

definition is_digit :: "char \<Rightarrow> bool" where
  "is_digit c \<longleftrightarrow> 48 \<le> (of_char c :: nat) \<and> (of_char c :: nat) \<le> 57"

fun show_nat :: "nat \<Rightarrow> string" where
  "show_nat n = (if n < 10 then [digit_char n] else show_nat (n div 10) @ [digit_char (n mod 10)])"

declare show_nat.simps [simp del]

definition show_int :: "int \<Rightarrow> string" where
  "show_int i = (if i < 0 then CHR ''-'' # show_nat (nat (- i)) else show_nat (nat i))"

definition digits_val :: "string \<Rightarrow> nat" where
  "digits_val s = foldl (\<lambda>a c. 10 * a + char_digit c) 0 s"

lemma of_digit_char: "d < 10 \<Longrightarrow> (of_char (digit_char d) :: nat) = 48 + d"
  by (simp add: digit_char_def)

lemma is_digit_digit_char [simp]: "d < 10 \<Longrightarrow> is_digit (digit_char d)"
  by (simp add: is_digit_def of_digit_char)

lemma char_digit_digit_char [simp]: "d < 10 \<Longrightarrow> char_digit (digit_char d) = d"
  by (simp add: char_digit_def of_digit_char)

lemma digit_char_eq_zero: "d < 10 \<Longrightarrow> digit_char d = CHR ''0'' \<longleftrightarrow> d = 0"
proof -
  assume d: "d < 10"
  have "char_digit (CHR ''0'') = 0" by (simp add: char_digit_def)
  moreover have "digit_char 0 = CHR ''0''" by code_simp
  ultimately show ?thesis using char_digit_digit_char [OF d] by auto
qed

lemma show_nat_nonempty [simp]: "show_nat n \<noteq> []"
  by (subst show_nat.simps) simp

lemma show_nat_digits: "list_all is_digit (show_nat n)"
proof (induction n rule: show_nat.induct)
  case (1 n)
  show ?case by (subst show_nat.simps) (use 1 in auto)
qed

lemma digits_val_snoc: "digits_val (s @ [c]) = 10 * digits_val s + char_digit c"
  by (simp add: digits_val_def)

lemma digits_val_show_nat [simp]: "digits_val (show_nat n) = n"
proof (induction n rule: show_nat.induct)
  case (1 n)
  show ?case
  proof (cases "n < 10")
    case True
    then show ?thesis by (subst show_nat.simps) (simp add: digits_val_def)
  next
    case False
    then show ?thesis using 1 by (subst show_nat.simps) (simp add: digits_val_snoc)
  qed
qed

lemma foldl_digits: "foldl (\<lambda>a c. 10 * a + char_digit c) a s
    = a * 10 ^ length s + foldl (\<lambda>a c. 10 * a + char_digit c) 0 s"
proof (induction s arbitrary: a)
  case (Cons c cs)
  show ?case
    using Cons [of "10 * a + char_digit c"] Cons [of "char_digit c"]
    by (simp add: algebra_simps)
qed simp

lemma digits_val_append: "digits_val (s @ t) = digits_val s * 10 ^ length t + digits_val t"
  unfolding digits_val_def foldl_append by (subst foldl_digits) simp

lemma digits_val_Cons: "digits_val (c # s) = char_digit c * 10 ^ length s + digits_val s"
  using digits_val_append [of "[c]" s] by (simp add: digits_val_def)

lemma char_digit_zero [simp]: "char_digit (CHR ''0'') = 0"
  by (simp add: char_digit_def)

lemma digits_val_zeros [simp]: "digits_val (replicate n (CHR ''0'')) = 0"
  by (induction n) (auto simp: digits_val_Cons, simp add: digits_val_def)

lemma is_digit_chars [simp]:
  "is_digit (CHR ''0'')" "\<not> is_digit (CHR ''-'')" "\<not> is_digit (CHR ''+'')"
  "\<not> is_digit (CHR ''.'')" "\<not> is_digit (CHR ''e'')" "\<not> is_digit (CHR ''E'')"
  by (simp_all add: is_digit_def)

lemma not_in_digits: "list_all is_digit s \<Longrightarrow> \<not> is_digit c \<Longrightarrow> c \<notin> set s"
  by (auto simp: list_all_iff)

lemma length_show_nat: "0 < k \<Longrightarrow> length (show_nat n) \<le> k \<longleftrightarrow> n < 10 ^ k"
proof (induction n arbitrary: k rule: show_nat.induct)
  case (1 n)
  show ?case
  proof (cases "n < 10")
    case True
    have "(10::nat) \<le> 10 ^ k"
      using "1.prems" by (metis One_nat_def Suc_leI power_increasing power_one_right
          one_le_numeral)
    with True "1.prems" show ?thesis by (subst show_nat.simps) auto
  next
    case False
    show ?thesis
    proof (cases "k = 1")
      case True
      with False show ?thesis by (subst show_nat.simps) auto
    next
      case k: False
      with "1.prems" obtain j where j: "k = Suc j" "j > 0" by (cases k) auto
      have "length (show_nat (n div 10)) \<le> j \<longleftrightarrow> n div 10 < 10 ^ j"
        using "1.IH" [OF False j(2)] j(2) by auto
      also have "n div 10 < 10 ^ j \<longleftrightarrow> n < 10 ^ k"
        using j by (simp add: less_mult_imp_div_less div_less_iff_less_mult mult.commute)
      finally show ?thesis using False j by (subst show_nat.simps) auto
    qed
  qed
qed

subsection \<open>Package strconv\<close>

text \<open>
  \<open>strconv.ParseUint(s, 10, bits)\<close> and \<open>strconv.ParseInt(s, 10, bits)\<close>: the value returned
  beside the error (0 for a syntax error, the bound for a range error), and the error. The loop
  reports the first character at which it fails; the 64-bit overflow tests of the Go loop all
  amount to the accumulated number passing the bound \<open>m\<close>.
\<close>

datatype num_error = ErrSyntax | ErrRange

fun parse_uint_loop :: "nat \<Rightarrow> nat \<Rightarrow> string \<Rightarrow> nat \<times> num_error option" where
  "parse_uint_loop m n [] = (n, None)"
| "parse_uint_loop m n (c # cs) =
     (if \<not> is_digit c then (0, Some ErrSyntax)
      else if m < 10 * n + char_digit c then (m, Some ErrRange)
      else parse_uint_loop m (10 * n + char_digit c) cs)"

definition parse_uint :: "nat \<Rightarrow> string \<Rightarrow> nat \<times> num_error option" where
  "parse_uint bits s =
     (if s = [] then (0, Some ErrSyntax) else parse_uint_loop (2 ^ bits - 1) 0 s)"

definition parse_int :: "nat \<Rightarrow> string \<Rightarrow> int \<times> num_error option" where
  "parse_int bits s =
     (if s = [] then (0, Some ErrSyntax)
      else
        let neg = (hd s = CHR ''-'');
            t = (if hd s = CHR ''+'' \<or> hd s = CHR ''-'' then tl s else s);
            (un, err) = parse_uint bits t;
            cutoff = 2 ^ (bits - 1)
        in if err = Some ErrSyntax then (0, Some ErrSyntax)
           else if \<not> neg \<and> cutoff \<le> un then (int cutoff - 1, Some ErrRange)
           else if neg \<and> cutoff < un then (- int cutoff, Some ErrRange)
           else (if neg then - int un else int un, None))"

lemma parse_uint_loop_digits:
  "list_all is_digit s \<Longrightarrow> n * 10 ^ length s + digits_val s \<le> m \<Longrightarrow>
   parse_uint_loop m n s = (n * 10 ^ length s + digits_val s, None)"
proof (induction m n s rule: parse_uint_loop.induct)
  case (1 m n)
  then show ?case by (simp add: digits_val_def)
next
  case (2 m n c cs)
  have eq: "n * 10 ^ length (c # cs) + digits_val (c # cs)
      = (10 * n + char_digit c) * 10 ^ length cs + digits_val cs"
    by (simp add: digits_val_Cons algebra_simps)
  have "10 * n + char_digit c \<le> (10 * n + char_digit c) * 10 ^ length cs" by simp
  then have "\<not> m < 10 * n + char_digit c" using "2.prems"(2) unfolding eq by linarith
  then show ?case using 2 unfolding eq by simp
qed

lemma parse_uint_show: "n < 2 ^ bits \<Longrightarrow> parse_uint bits (show_nat n) = (n, None)"
  using parse_uint_loop_digits [OF show_nat_digits, of 0 n "2 ^ bits - 1"]
  by (simp add: parse_uint_def)

subsection \<open>Machine integers\<close>

type_synonym int32 = "32 word"
type_synonym int64 = "64 word"
type_synonym uint64 = "64 word"
type_synonym uint32 = "32 word"
type_synonym uint16 = "16 word"
type_synonym byte = "8 word"

definition min_int32 :: int where "min_int32 = - (2 ^ 31)"
definition max_int32 :: int where "max_int32 = 2 ^ 31 - 1"

lemma sint_range32: "min_int32 \<le> sint (x :: int32)" "sint (x :: int32) \<le> max_int32"
  using sint_ge [of x] sint_lt [of x] by (simp_all add: min_int32_def max_int32_def)

lemma sint_add32: "min_int32 \<le> sint x + sint y \<Longrightarrow> sint x + sint y \<le> max_int32
    \<Longrightarrow> sint (x + y :: int32) = sint x + sint y"
  by (simp add: sint_word_ariths signed_take_bit_int_eq_self min_int32_def max_int32_def)

lemma sint_sub32: "min_int32 \<le> sint x - sint y \<Longrightarrow> sint x - sint y \<le> max_int32
    \<Longrightarrow> sint (x - y :: int32) = sint x - sint y"
  by (simp add: sint_word_ariths signed_take_bit_int_eq_self min_int32_def max_int32_def)

lemma sint_neg32: "sint x \<noteq> min_int32 \<Longrightarrow> sint (- x :: int32) = - sint x"
  using sint_range32 [of x]
  by (simp add: sint_word_ariths signed_take_bit_int_eq_self min_int32_def max_int32_def)

lemma sint_of_int32: "min_int32 \<le> i \<Longrightarrow> i \<le> max_int32 \<Longrightarrow> sint (word_of_int i :: int32) = i"
  by (simp add: sint_sbintrunc' signed_take_bit_int_eq_self min_int32_def max_int32_def)

subsection \<open>Database values\<close>

text \<open>
  A value read from the database, by its dynamic type. A float32 is held as the float64 the code
  converts it to.
\<close>

datatype sql_value =
    SqlNil | SqlFloat32 uint64 | SqlFloat64 uint64 | SqlInt64 int64 | SqlString string
  | SqlBytes string | SqlOther

end
