(* ===== verification/Decimal.thy ===== *)
theory Decimal
  imports Prelude
begin

text \<open>
  Model of \<^verbatim>\<open>pkg/util/decimal.go\<close>: arbitrary-precision fixed-point decimals. A
  decimal is a coefficient (a \<open>*big.Int\<close>, nil in the zero value of the type, hence an option)
  and an exponent kept as an int32. Operations on the coefficient are integer arithmetic;
  operations on the exponent wrap as the code's do. A nil coefficient that is dereferenced, and
  every explicit \<open>panic\<close>, is a \<open>Panic\<close> outcome. The meaning of a decimal is the rational number
  \<open>denote d\<close>; the lemmas say what each operation computes in terms of it.
\<close>

unbundle bit_operations_syntax

record decimal =
  coef :: "int option"
  dexp :: int32

datatype dec_error =
    FracTooLong string
  | ExpNotNumeric string
  | TooManyDots string
  | CantConvert string
  | ErrorDecoding string dec_error
  | CouldNotConvert
  | GobVersion byte

type_synonym 'a dres = "(dec_error, 'a) res"

subsection \<open>Arithmetic of \<open>math/big\<close>\<close>

text \<open>\<open>Quo\<close> and its remainder truncate towards zero (\<open>quo\<close>, \<open>rem\<close>); \<open>DivMod\<close> is Euclidean.\<close>

definition div_euclid :: "int \<Rightarrow> int \<Rightarrow> int" where
  "div_euclid a b = (if b < 0 then - (a div (- b)) else a div b)"

definition mod_euclid :: "int \<Rightarrow> int \<Rightarrow> int" where
  "mod_euclid a b = a mod \<bar>b\<bar>"

subsection \<open>Construction and rescaling\<close>

definition New :: "int64 \<Rightarrow> int32 \<Rightarrow> decimal" where
  "New v e = \<lparr>coef = Some (sint v), dexp = e\<rparr>"

definition NewFromBigInt :: "int \<Rightarrow> int32 \<Rightarrow> decimal" where
  "NewFromBigInt v e = \<lparr>coef = Some v, dexp = e\<rparr>"

definition Zero_dec :: decimal where
  "Zero_dec = New 0 1"

definition ensureInitialized :: "decimal \<Rightarrow> decimal" where
  "ensureInitialized d = (case coef d of None \<Rightarrow> d\<lparr>coef := Some 0\<rparr> | Some v \<Rightarrow> d)"

text \<open>The coefficient an operation reads after \<open>ensureInitialized\<close>.\<close>

definition dval :: "decimal \<Rightarrow> int" where
  "dval d = the (coef (ensureInitialized d))"

text \<open>The coefficient an operation reads without it: a nil pointer panics.\<close>

definition deref :: "decimal \<Rightarrow> int dres" where
  "deref d = (case coef d of None \<Rightarrow> Panic ''nil pointer dereference'' | Some v \<Rightarrow> Ok v)"

definition min_dec :: "int32 \<Rightarrow> int32 \<Rightarrow> int32" where
  "min_dec x y = (if sint y \<le> sint x then y else x)"

definition rescale :: "decimal \<Rightarrow> int32 \<Rightarrow> decimal" where
  "rescale d e =
     (let diff = \<bar>sint e - sint (dexp d)\<bar>;
          v = dval d;
          expScale = 10 ^ nat diff
      in \<lparr>coef = Some (if sint (dexp d) < sint e then quo v expScale
                       else if sint e < sint (dexp d) then v * expScale else v),
          dexp = e\<rparr>)"

subsection \<open>Arithmetic\<close>

definition Abs_dec :: "decimal \<Rightarrow> decimal" where
  "Abs_dec d = \<lparr>coef = Some \<bar>dval d\<bar>, dexp = dexp d\<rparr>"

definition Add :: "decimal \<Rightarrow> decimal \<Rightarrow> decimal" where
  "Add d d2 =
     (let baseScale = min_dec (dexp d) (dexp d2);
          rd = rescale d baseScale;
          rd2 = rescale d2 baseScale
      in \<lparr>coef = Some (dval rd + dval rd2), dexp = baseScale\<rparr>)"

definition Sub :: "decimal \<Rightarrow> decimal \<Rightarrow> decimal" where
  "Sub d d2 =
     (let baseScale = min_dec (dexp d) (dexp d2);
          rd = rescale d baseScale;
          rd2 = rescale d2 baseScale
      in \<lparr>coef = Some (dval rd - dval rd2), dexp = baseScale\<rparr>)"

definition Neg :: "decimal \<Rightarrow> decimal" where
  "Neg d = \<lparr>coef = Some (- dval d), dexp = dexp d\<rparr>"

definition Mul :: "decimal \<Rightarrow> decimal \<Rightarrow> decimal dres" where
  "Mul d d2 =
     (let expInt64 = sint (dexp d) + sint (dexp d2)
      in if max_int32 < expInt64 \<or> expInt64 < min_int32
         then Panic (''exponent '' @ show_int expInt64 @ '' overflows an int32!'')
         else Ok \<lparr>coef = Some (dval d * dval d2), dexp = word_of_int expInt64\<rparr>)"

definition Shift :: "decimal \<Rightarrow> int32 \<Rightarrow> decimal" where
  "Shift d shift = \<lparr>coef = Some (dval d), dexp = dexp d + shift\<rparr>"

subsection \<open>Comparison\<close>

definition cmp_int :: "int \<Rightarrow> int \<Rightarrow> int" where
  "cmp_int a b = (if a < b then - 1 else if a = b then 0 else 1)"

definition Cmp :: "decimal \<Rightarrow> decimal \<Rightarrow> int" where
  "Cmp d d2 =
     (if dexp d = dexp d2 then cmp_int (dval d) (dval d2)
      else let baseExp = min_dec (dexp d) (dexp d2)
           in cmp_int (dval (rescale d baseExp)) (dval (rescale d2 baseExp)))"

definition Equal :: "decimal \<Rightarrow> decimal \<Rightarrow> bool" where
  "Equal d d2 \<longleftrightarrow> Cmp d d2 = 0"

definition Equals :: "decimal \<Rightarrow> decimal \<Rightarrow> bool" where
  "Equals d d2 = Equal d d2"

definition GreaterThan :: "decimal \<Rightarrow> decimal \<Rightarrow> bool" where
  "GreaterThan d d2 \<longleftrightarrow> Cmp d d2 = 1"

definition GreaterThanOrEqual :: "decimal \<Rightarrow> decimal \<Rightarrow> bool" where
  "GreaterThanOrEqual d d2 = (let cmp = Cmp d d2 in cmp = 1 \<or> cmp = 0)"

definition LessThan :: "decimal \<Rightarrow> decimal \<Rightarrow> bool" where
  "LessThan d d2 \<longleftrightarrow> Cmp d d2 = - 1"

definition LessThanOrEqual :: "decimal \<Rightarrow> decimal \<Rightarrow> bool" where
  "LessThanOrEqual d d2 = (let cmp = Cmp d d2 in cmp = - 1 \<or> cmp = 0)"

definition Sign_dec :: "decimal \<Rightarrow> int" where
  "Sign_dec d = (case coef d of None \<Rightarrow> 0 | Some v \<Rightarrow> sgn v)"

definition Exponent :: "decimal \<Rightarrow> int32" where
  "Exponent d = dexp d"

definition Coefficient :: "decimal \<Rightarrow> int dres" where
  "Coefficient d = deref d"

text \<open>\<open>big.Int.Int64\<close> keeps the low 64 bits.\<close>

definition IntPart :: "decimal \<Rightarrow> int64" where
  "IntPart d = word_of_int (dval (rescale d 0))"

definition Rat_dec :: "decimal \<Rightarrow> rat" where
  "Rat_dec d =
     (if sint (dexp d) \<le> 0 then of_int (dval d) / of_int (10 ^ nat (- sint (dexp d)))
      else of_int (dval d * 10 ^ nat (sint (dexp d))))"

definition Min_dec :: "decimal \<Rightarrow> decimal list \<Rightarrow> decimal" where
  "Min_dec first rest = foldl (\<lambda>ans item. if Cmp item ans < 0 then item else ans) first rest"

definition Max_dec :: "decimal \<Rightarrow> decimal list \<Rightarrow> decimal" where
  "Max_dec first rest = foldl (\<lambda>ans item. if 0 < Cmp item ans then item else ans) first rest"

definition Sum_dec :: "decimal \<Rightarrow> decimal list \<Rightarrow> decimal" where
  "Sum_dec first rest = foldl Add first rest"

subsection \<open>Rounding\<close>

definition Round :: "decimal \<Rightarrow> int32 \<Rightarrow> decimal" where
  "Round d places =
     (let ret = rescale d (- places - 1);
          v = (if dval ret < 0 then dval ret - 5 else dval ret + 5);
          q = div_euclid v 10;
          m = mod_euclid v 10
      in \<lparr>coef = Some (if q < 0 \<and> m \<noteq> 0 then q + 1 else q), dexp = dexp ret + 1\<rparr>)"

definition RoundBank :: "decimal \<Rightarrow> int32 \<Rightarrow> decimal" where
  "RoundBank d places =
     (let round = Round d places;
          remainder = Abs_dec (Sub d round);
          half = New 5 (- places - 1)
      in if Cmp remainder half = 0 \<and> odd (dval round)
         then round\<lparr>coef := Some (if dval round < 0 then dval round + 1 else dval round - 1)\<rparr>
         else round)"

definition Floor :: "decimal \<Rightarrow> decimal" where
  "Floor d =
     (if 0 \<le> sint (dexp d) then ensureInitialized d
      else \<lparr>coef = Some (div_euclid (dval d) (10 ^ nat (- sint (dexp d)))), dexp = 0\<rparr>)"

definition Ceil :: "decimal \<Rightarrow> decimal" where
  "Ceil d =
     (if 0 \<le> sint (dexp d) then ensureInitialized d
      else let e = 10 ^ nat (- sint (dexp d));
               z = div_euclid (dval d) e;
               m = mod_euclid (dval d) e
           in \<lparr>coef = Some (if m \<noteq> 0 then z + 1 else z), dexp = 0\<rparr>)"

definition Truncate :: "decimal \<Rightarrow> int32 \<Rightarrow> decimal" where
  "Truncate d precision =
     (if 0 \<le> sint precision \<and> sint (dexp d) < sint (- precision) then rescale d (- precision)
      else ensureInitialized d)"

subsection \<open>Division\<close>

text \<open>
  The exponent of the quotient is computed in int32 before it is widened, so the overflow test
  that follows sees the wrapped value.
\<close>

definition QuoRem :: "decimal \<Rightarrow> decimal \<Rightarrow> int32 \<Rightarrow> (decimal \<times> decimal) dres" where
  "QuoRem d d2 precision =
     (if dval d2 = 0 then Panic ''decimal division by 0''
      else
        let scale = - precision;
            e = sint (dexp d - dexp d2 - scale)
        in if max_int32 < e \<or> e < min_int32 then Panic ''overflow in decimal QuoRem''
           else
             let (aa, bb, scalerest) =
                   (if e < 0 then (dval d, dval d2 * 10 ^ nat (- e), dexp d)
                    else (dval d * 10 ^ nat e, dval d2, scale + dexp d2))
             in Ok (\<lparr>coef = Some (quo aa bb), dexp = scale\<rparr>,
                    \<lparr>coef = Some (rem aa bb), dexp = scalerest\<rparr>))"

definition DivRound :: "decimal \<Rightarrow> decimal \<Rightarrow> int32 \<Rightarrow> decimal dres" where
  "DivRound d d2 precision =
     bind_res (QuoRem d d2 precision) (\<lambda>(q, r).
       let rv2 = push_bit 1 \<bar>dval r\<bar>;
           r2 = \<lparr>coef = Some rv2, dexp = dexp r + precision\<rparr>;
           c = Cmp r2 (Abs_dec d2)
       in if c < 0 then Ok q
          else bind_res (deref d) (\<lambda>v. bind_res (deref d2) (\<lambda>v2.
            if sgn v * sgn v2 < 0 then Ok (Sub q (New 1 (- precision)))
            else Ok (Add q (New 1 (- precision))))))"

text \<open>\<open>DivisionPrecision\<close> is a package variable, set to 16: a parameter of the operations.\<close>

definition DivisionPrecision :: int where "DivisionPrecision = 16"

definition Div :: "int \<Rightarrow> decimal \<Rightarrow> decimal \<Rightarrow> decimal dres" where
  "Div dp d d2 = DivRound d d2 (word_of_int dp)"

definition Mod_dec :: "int \<Rightarrow> decimal \<Rightarrow> decimal \<Rightarrow> decimal dres" where
  "Mod_dec dp d d2 =
     bind_res (Div dp d d2) (\<lambda>x. bind_res (Mul d2 (Truncate x 0)) (\<lambda>p. Ok (Sub d p)))"

definition Avg :: "int \<Rightarrow> decimal \<Rightarrow> decimal list \<Rightarrow> decimal dres" where
  "Avg dp first rest =
     Div dp (Sum_dec first rest) (New (word_of_int (int (length rest) + 1)) 0)"

definition RoundCash :: "int \<Rightarrow> decimal \<Rightarrow> byte \<Rightarrow> decimal dres" where
  "RoundCash dp d interval =
     bind_res
       (if interval = 5 then Ok (20, d)
        else if interval = 10 then Ok (10, d)
        else if interval = 15 then
          (if sint (dexp d) < 0 then
             let orgExp = dexp d;
                 dOne = New ((10 :: int64) XOR (- word_of_int (sint orgExp))) orgExp;
                 d2 = d\<lparr>dexp := 0\<rparr>
             in bind_res (Mod_dec dp d2 (New 5 0)) (\<lambda>m.
                  Ok (10, if Equal m (New 0 1) then Sub (d2\<lparr>dexp := orgExp\<rparr>) dOne else d))
           else Ok (10, d))
        else if interval = 25 then Ok (4, d)
        else if interval = 50 then Ok (2, d)
        else if interval = 100 then Ok (1, d)
        else Panic (''Decimal does not support this Cash rounding interval `''
                    @ show_nat (unat interval)
                    @ ''`. Supported: 5, 10, 15, 25, 50, 100''))
       (\<lambda>(iVal, d).
          let dVal = \<lparr>coef = Some iVal, dexp = 0\<rparr>
          in bind_res (Mul d dVal) (\<lambda>p.
               bind_res (Div dp (Round p 0) dVal) (\<lambda>x. Ok (Truncate x 2))))"

subsection \<open>Meaning\<close>

definition denote :: "decimal \<Rightarrow> rat" where
  "denote d = of_int (dval d) * 10 powi sint (dexp d)"

text \<open>The unit of the last place at exponent \<open>e\<close>, and truncation towards zero.\<close>

definition rtrunc :: "rat \<Rightarrow> int" where
  "rtrunc x = (if x < 0 then \<lceil>x\<rceil> else \<lfloor>x\<rfloor>)"

text \<open>Rounding to the nearest integer, ties away from zero.\<close>

definition rnear :: "rat \<Rightarrow> int" where
  "rnear x = (if x < 0 then \<lceil>x - 1/2\<rceil> else \<lfloor>x + 1/2\<rfloor>)"

text \<open>
  The nil coefficient occurs in the zero value \<open>Decimal{}\<close> only: the invariant under which no
  operation dereferences nil.
\<close>

definition nil_ok :: "decimal \<Rightarrow> bool" where
  "nil_ok d \<longleftrightarrow> coef d = None \<longrightarrow> dexp d = 0"

lemma dval_Some [simp]: "dval \<lparr>coef = Some v, dexp = e\<rparr> = v"
  by (simp add: dval_def ensureInitialized_def)

lemma dval_None [simp]: "dval \<lparr>coef = None, dexp = e\<rparr> = 0"
  by (simp add: dval_def ensureInitialized_def)

lemma dval_update_Some [simp]: "dval (d\<lparr>coef := Some v\<rparr>) = v"
  by (simp add: dval_def ensureInitialized_def)

lemma dval_cases: "dval d = (case coef d of None \<Rightarrow> 0 | Some v \<Rightarrow> v)"
  by (simp add: dval_def ensureInitialized_def split: option.split)

lemma ensureInitialized_simps [simp]:
  "dval (ensureInitialized d) = dval d" "dexp (ensureInitialized d) = dexp d"
  "coef (ensureInitialized d) = Some (dval d)" "denote (ensureInitialized d) = denote d"
  by (simp_all add: denote_def dval_cases ensureInitialized_def split: option.split)

lemma deref_Some: "coef d = Some v \<Longrightarrow> deref d = Ok (dval d)"
  by (simp add: deref_def dval_cases)

lemma powi10_pos [simp]: "0 < (10::rat) powi k"
  by (simp add: zero_less_power_int)

lemma powi10_nz [simp]: "(10::rat) powi k \<noteq> 0"
  by (simp add: power_int_eq_0_iff)

lemma powi10_not_neg [simp]: "\<not> (10::rat) powi k < 0"
  using powi10_pos [of k] by (rule less_not_sym)

lemma powi10_split: "m \<le> n \<Longrightarrow> (10::rat) powi n = 10 ^ nat (n - m) * 10 powi m"
proof -
  assume "m \<le> n"
  then have n: "n = int (nat (n - m)) + m" by simp
  have "(10::rat) powi (int (nat (n - m)) + m) = 10 powi int (nat (n - m)) * 10 powi m"
    by (rule power_int_add) simp
  then show ?thesis using n by (metis power_int_of_nat)
qed

lemma powi10_add: "(10::rat) powi (m + n) = 10 powi m * 10 powi n"
  by (simp add: power_int_add)

lemma powi10_neg: "(10::rat) powi (- n) = 1 / 10 powi n"
  by (simp add: power_int_minus field_simps)

lemma quo_rtrunc: "0 < b \<Longrightarrow> quo a b = rtrunc (of_int a / of_int b)"
proof (cases "a < 0")
  case True
  assume b: "0 < b"
  have "\<lceil>(of_int a :: rat) / of_int b\<rceil> = - ((- a) div b)"
    using floor_divide_of_int_eq [of "- a" b, where 'a = rat] by (simp add: ceiling_def)
  with True b show ?thesis
    by (simp add: quo_def rtrunc_def divide_less_0_iff sgn_if)
next
  case False
  assume b: "0 < b"
  with False show ?thesis
    by (auto simp: quo_def rtrunc_def divide_less_0_iff sgn_if floor_divide_of_int_eq)
qed

lemma rtrunc_of_int [simp]: "rtrunc (of_int k) = k"
  by (simp add: rtrunc_def)

lemma dexp_rescale [simp]: "dexp (rescale d e) = e"
  by (simp add: rescale_def Let_def)

lemma coef_rescale: "coef (rescale d e) = Some (dval (rescale d e))"
  by (simp add: rescale_def Let_def)

lemma denote_rescale: "sint e \<le> sint (dexp d) \<Longrightarrow> denote (rescale d e) = denote d"
  by (auto simp: denote_def rescale_def Let_def powi10_split [of "sint e" "sint (dexp d)"]
      abs_if)

lemma dval_rescale: "dval (rescale d e) = rtrunc (denote d / 10 powi sint e)"
proof (cases "sint e \<le> sint (dexp d)")
  case True
  have "denote d / 10 powi sint e = of_int (dval (rescale d e))"
    unfolding denote_rescale [OF True, symmetric] by (simp add: denote_def)
  then show ?thesis by simp
next
  case False
  then have "denote d / 10 powi sint e
      = of_int (dval d) / of_int (10 ^ nat (sint e - sint (dexp d)))"
    by (simp add: denote_def powi10_split [of "sint (dexp d)" "sint e"])
  with False show ?thesis
    by (simp add: rescale_def Let_def quo_rtrunc)
qed

lemma min_dec_le: "sint (min_dec x y) \<le> sint x" "sint (min_dec x y) \<le> sint y"
  by (auto simp: min_dec_def)

subsection \<open>What the operations compute\<close>

lemma denote_Add [simp]: "denote (Add d d2) = denote d + denote d2"
proof -
  let ?b = "min_dec (dexp d) (dexp d2)"
  have "denote (Add d d2) = denote (rescale d ?b) + denote (rescale d2 ?b)"
    by (simp add: Add_def Let_def denote_def algebra_simps)
  then show ?thesis by (simp add: denote_rescale min_dec_le)
qed

lemma denote_Sub [simp]: "denote (Sub d d2) = denote d - denote d2"
proof -
  let ?b = "min_dec (dexp d) (dexp d2)"
  have "denote (Sub d d2) = denote (rescale d ?b) - denote (rescale d2 ?b)"
    by (simp add: Sub_def Let_def denote_def algebra_simps)
  then show ?thesis by (simp add: denote_rescale min_dec_le)
qed

lemma denote_Neg [simp]: "denote (Neg d) = - denote d"
  by (simp add: Neg_def denote_def)

lemma denote_Abs [simp]: "denote (Abs_dec d) = \<bar>denote d\<bar>"
  by (simp add: Abs_dec_def denote_def abs_mult)

lemma denote_Mul: "Mul d d2 = Ok p \<Longrightarrow> denote p = denote d * denote d2"
proof -
  assume "Mul d d2 = Ok p"
  then have r: "min_int32 \<le> sint (dexp d) + sint (dexp d2)"
      "sint (dexp d) + sint (dexp d2) \<le> max_int32"
    and p: "p = \<lparr>coef = Some (dval d * dval d2),
      dexp = word_of_int (sint (dexp d) + sint (dexp d2))\<rparr>"
    by (auto simp: Mul_def Let_def not_less split: if_splits)
  from sint_of_int32 [OF r] show ?thesis
    by (simp add: p denote_def powi10_add)
qed

lemma Rat_denote: "Rat_dec d = denote d"
proof (cases "sint (dexp d) \<le> 0")
  case True
  have "(10::rat) powi sint (dexp d) = 1 / 10 ^ nat (- sint (dexp d))"
    using powi10_neg [of "- sint (dexp d)"] power_int_of_nat [of "10::rat" "nat (- sint (dexp d))"]
      True by simp
  with True show ?thesis by (simp add: Rat_dec_def denote_def)
next
  case False
  then have "(10::rat) powi sint (dexp d) = 10 ^ nat (sint (dexp d))"
    using power_int_of_nat [of "10::rat" "nat (sint (dexp d))"] by simp
  with False show ?thesis by (simp add: Rat_dec_def denote_def)
qed

lemma cmp_int_scale: "0 < (u::rat) \<Longrightarrow>
    cmp_int a b = (if of_int a * u < of_int b * u then - 1
                   else if of_int a * u = of_int b * u then 0 else 1)"
  by (auto simp: cmp_int_def)

lemma Cmp_denote:
  "Cmp d d2 = (if denote d < denote d2 then - 1 else if denote d = denote d2 then 0 else 1)"
proof -
  let ?b = "min_dec (dexp d) (dexp d2)"
  have same: "Cmp d d2 = cmp_int (dval (rescale d ?b)) (dval (rescale d2 ?b))"
    by (auto simp: Cmp_def Let_def min_dec_def rescale_def)
  show ?thesis
    unfolding same cmp_int_scale [OF powi10_pos [of "sint ?b"]]
    using denote_rescale [of ?b d, OF min_dec_le(1)] denote_rescale [of ?b d2, OF min_dec_le(2)]
    by (simp add: denote_def)
qed

lemmas cmp_defs = Equal_def Equals_def GreaterThan_def GreaterThanOrEqual_def LessThan_def
  LessThanOrEqual_def Let_def Cmp_denote

lemma Equal_denote [simp]: "Equal d d2 \<longleftrightarrow> denote d = denote d2"
  by (simp add: cmp_defs)

lemma denote_Sum: "denote (Sum_dec first rest) = denote first + sum_list (map denote rest)"
  unfolding Sum_dec_def by (induction rest arbitrary: first) (auto simp: algebra_simps)

subsection \<open>What rounding computes\<close>

lemma ceiling_close: "of_int k - 1 < x \<Longrightarrow> x \<le> of_int k \<Longrightarrow> \<lceil>x\<rceil> = k" for x :: rat
  by (rule ceiling_unique)

lemma floor_close: "of_int k \<le> x \<Longrightarrow> x < of_int k + 1 \<Longrightarrow> \<lfloor>x\<rfloor> = k" for x :: rat
  by (rule floor_unique)

lemma round_digit:
  fixes x :: rat
  assumes v: "v = rtrunc (10 * x)"
    and w: "w = (if v < 0 then v - 5 else v + 5)"
  shows "(if w div 10 < 0 \<and> w mod 10 \<noteq> 0 then w div 10 + 1 else w div 10) = rnear x"
proof (cases "x < 0")
  case True
  then have v': "of_int v - 1 < 10 * x" "10 * x \<le> of_int v" "v \<le> 0"
    using v ceiling_correct [of "10 * x"] by (auto simp: rtrunc_def)
  show ?thesis
  proof (cases "v = 0")
    case True
    have "\<lceil>x - 1 / 2\<rceil> = 0" using v'(1,2) \<open>x < 0\<close> True by (intro ceiling_close) auto
    with True \<open>x < 0\<close> show ?thesis by (simp add: w rnear_def)
  next
    case False
    define q where "q = w div 10"
    define m where "m = w mod 10"
    define k where "k = (if m \<noteq> 0 then q + 1 else q)"
    have wq: "w = 10 * q + m" "0 \<le> m" "m < 10" by (auto simp: q_def m_def)
    have w5: "w = v - 5" "q < 0" using False v'(3) w by (auto simp: q_def)
    have "10 * k - 4 \<le> v" "v \<le> 10 * k + 5" using wq w5 by (auto simp: k_def)
    then have "of_int (10 * k - 4) \<le> (of_int v :: rat)" "(of_int v :: rat) \<le> of_int (10 * k + 5)"
      by (simp_all only: of_int_le_iff)
    then have "\<lceil>x - 1 / 2\<rceil> = k" using v'(1,2) by (intro ceiling_close) auto
    with \<open>x < 0\<close> w5(2) show ?thesis by (simp add: rnear_def k_def flip: q_def m_def)
  qed
next
  case False
  then have v': "of_int v \<le> 10 * x" "10 * x < of_int v + 1" "0 \<le> v"
    using v floor_correct [of "10 * x"] by (auto simp: rtrunc_def)
  define q where "q = w div 10"
  define m where "m = w mod 10"
  have wq: "w = 10 * q + m" "0 \<le> m" "m < 10" by (auto simp: q_def m_def)
  have w5: "w = v + 5" "0 \<le> q" using v'(3) w by (auto simp: q_def)
  have "10 * q - 5 \<le> v" "v \<le> 10 * q + 4" using wq w5 by auto
  then have "of_int (10 * q - 5) \<le> (of_int v :: rat)" "(of_int v :: rat) \<le> of_int (10 * q + 4)"
    by (simp_all only: of_int_le_iff)
  then have "\<lfloor>x + 1 / 2\<rfloor> = q" using v'(1,2) by (intro floor_close) auto
  with False w5(2) show ?thesis by (simp add: rnear_def flip: q_def m_def)
qed

lemma sint_not_places: "sint (- p - 1 :: int32) = - sint p - 1"
proof -
  have "sint (- 1 - p) = sint (- 1 :: int32) - sint p"
    using sint_range32 [of p] by (intro sint_sub32) (simp_all add: min_int32_def max_int32_def)
  then show ?thesis by (simp add: minus_diff_commute)
qed

lemma dexp_Round: "dexp (Round d places) = - places"
  by (simp add: Round_def Let_def)

lemma dval_Round: "dval (Round d places) = rnear (denote d * 10 powi sint places)"
proof -
  have "denote d / 10 powi (- sint places - 1) = 10 * (denote d * 10 powi sint places)"
    using powi10_neg [of "sint places + 1"] by (simp add: powi10_add)
  then have v: "dval (rescale d (- places - 1)) = rtrunc (10 * (denote d * 10 powi sint places))"
    by (simp add: dval_rescale sint_not_places)
  show ?thesis
    using round_digit [OF v refl]
    by (simp add: Round_def Let_def div_euclid_def mod_euclid_def)
qed

lemma rnear_bounds: "x - 1 / 2 \<le> of_int (rnear x)" "of_int (rnear x) \<le> x + 1 / 2"
  using ceiling_correct [of "x - 1/2"] floor_correct [of "x + 1/2"]
  unfolding rnear_def by (simp_all split: if_split)

lemma rnear_error: "\<bar>x - of_int (rnear x)\<bar> \<le> 1 / 2"
  using rnear_bounds [of x] by linarith

lemma rnear_away: "\<bar>x - of_int (rnear x)\<bar> = 1 / 2 \<Longrightarrow> \<bar>of_int (rnear x)\<bar> = \<bar>x\<bar> + 1 / 2"
proof (cases "x < 0")
  case True
  assume h: "\<bar>x - of_int (rnear x)\<bar> = 1 / 2"
  have "x - 1/2 \<le> of_int (rnear x)" "of_int (rnear x) < x + 1/2"
    using True ceiling_correct [of "x - 1/2"] by (simp_all add: rnear_def)
  then have "of_int (rnear x) = x - 1/2" using h by (simp add: abs_if split: if_splits)
  with True show ?thesis by simp
next
  case False
  assume h: "\<bar>x - of_int (rnear x)\<bar> = 1 / 2"
  have "of_int (rnear x) \<le> x + 1/2" "x - 1/2 < of_int (rnear x)"
    using False floor_correct [of "x + 1/2"] by (simp_all add: rnear_def)
  then have "of_int (rnear x) = x + 1/2" using h by (simp add: abs_if split: if_splits)
  with False show ?thesis by simp
qed

text \<open>Rounding to the nearest integer, ties to the even one.\<close>

definition rnear_even :: "rat \<Rightarrow> int" where
  "rnear_even x =
     (if \<bar>x - of_int (rnear x)\<bar> = 1 / 2 \<and> odd (rnear x)
      then (if rnear x < 0 then rnear x + 1 else rnear x - 1) else rnear x)"

lemma rnear_even_error: "\<bar>x - of_int (rnear_even x)\<bar> \<le> 1 / 2"
proof (cases "\<bar>x - of_int (rnear x)\<bar> = 1 / 2 \<and> odd (rnear x)")
  case True
  with rnear_away [of x] have a: "\<bar>of_int (rnear x)\<bar> = \<bar>x\<bar> + 1 / 2"
    and e: "\<bar>x - of_int (rnear x)\<bar> = 1 / 2" by auto
  show ?thesis
  proof (cases "rnear x < 0")
    case neg: True
    then have "rnear x \<le> - 1" by simp
    then have "(of_int (rnear x) :: rat) \<le> of_int (- 1)" by (simp only: of_int_le_iff)
    with True neg a e show ?thesis by (auto simp: rnear_even_def abs_if split: if_splits)
  next
    case nonneg: False
    with True a e show ?thesis by (auto simp: rnear_even_def abs_if split: if_splits)
  qed
next
  case False
  then have "rnear_even x = rnear x" unfolding rnear_even_def by (rule if_not_P)
  then show ?thesis using rnear_error [of x] by simp
qed

lemma rnear_even_tie: "\<bar>x - of_int (rnear_even x)\<bar> = 1 / 2 \<Longrightarrow> even (rnear_even x)"
  by (auto simp: rnear_even_def abs_if split: if_splits)

lemma scale_eq_iff: "0 < (u::rat) \<Longrightarrow> \<bar>a - b * u\<bar> = c * u \<longleftrightarrow> \<bar>a / u - b\<bar> = c"
proof -
  assume u: "0 < u"
  then have "a - b * u = (a / u - b) * u" by (simp add: left_diff_distrib)
  then have "\<bar>a - b * u\<bar> = \<bar>a / u - b\<bar> * u" using u by (simp add: abs_mult)
  then show ?thesis using u by simp
qed

lemma dexp_RoundBank: "dexp (RoundBank d places) = - places"
  by (simp add: RoundBank_def Let_def dexp_Round)

lemma dval_RoundBank:
  assumes p: "sint places \<noteq> min_int32"
  shows "dval (RoundBank d places) = rnear_even (denote d * 10 powi sint places)"
proof -
  let ?x = "denote d * 10 powi sint places" and ?u = "(10::rat) powi (- sint places)"
  have u: "denote d / ?u = ?x" by (simp add: powi10_neg)
  have r: "denote (Round d places) = of_int (rnear ?x) * ?u"
    by (simp add: denote_def dval_Round dexp_Round sint_neg32 [OF p])
  have "(10::rat) powi (- sint places - 1) = ?u / 10"
    using powi10_add [of "- sint places" "-1"] by (simp add: power_int_minus)
  then have h: "denote (New 5 (- places - 1)) = 1 / 2 * ?u"
    by (simp add: New_def denote_def sint_not_places)
  have "Cmp (Abs_dec (Sub d (Round d places))) (New 5 (- places - 1)) = 0
      \<longleftrightarrow> \<bar>denote d - of_int (rnear ?x) * ?u\<bar> = 1 / 2 * ?u"
    by (simp add: Cmp_denote h r)
  also have "\<dots> \<longleftrightarrow> \<bar>?x - of_int (rnear ?x)\<bar> = 1 / 2"
    unfolding scale_eq_iff [OF powi10_pos] u ..
  finally show ?thesis
    by (simp add: RoundBank_def Let_def rnear_even_def dval_Round)
qed

lemma denote_int_exp: "sint (dexp d) \<le> 0 \<Longrightarrow>
    denote d = of_int (dval d) / of_int (10 ^ nat (- sint (dexp d)))"
  using Rat_denote [of d] by (simp add: Rat_dec_def)

lemma denote_nonneg_exp: "0 \<le> sint (dexp d) \<Longrightarrow>
    denote d = of_int (dval d * 10 ^ nat (sint (dexp d)))"
  using power_int_of_nat [of "10::rat" "nat (sint (dexp d))"] by (simp add: denote_def)

lemma denote_Floor: "denote (Floor d) = of_int \<lfloor>denote d\<rfloor>"
proof (cases "0 \<le> sint (dexp d)")
  case True
  then show ?thesis by (simp add: Floor_def denote_nonneg_exp)
next
  case False
  let ?e = "10 ^ nat (- sint (dexp d)) :: int"
  have "denote d = of_int (dval d) / of_int ?e" using False by (intro denote_int_exp) simp
  then have "\<lfloor>denote d\<rfloor> = dval d div ?e" by (simp only: floor_divide_of_int_eq)
  with False show ?thesis by (simp add: Floor_def denote_def div_euclid_def not_less)
qed

lemma div_ceiling: "0 < (e::int) \<Longrightarrow>
   \<lceil>(of_int a :: rat) / of_int e\<rceil> = (if a mod e \<noteq> 0 then a div e + 1 else a div e)"
proof -
  assume e: "0 < e"
  have "a = e * (a div e) + a mod e" by simp
  then have "(of_int a :: rat) = of_int e * of_int (a div e) + of_int (a mod e)"
    by (metis of_int_add of_int_mult)
  then have q: "(of_int a :: rat) / of_int e = of_int (a div e) + of_int (a mod e) / of_int e"
    using e by (simp add: field_simps)
  have "0 \<le> a mod e" "a mod e < e" using e by auto
  then have m: "0 \<le> (of_int (a mod e) :: rat)" "(of_int (a mod e) :: rat) < of_int e"
    by (simp_all only: of_int_0_le_iff of_int_less_iff)
  show ?thesis
  proof (cases "a mod e = 0")
    case True
    then show ?thesis by (simp add: q)
  next
    case False
    then have "0 < (of_int (a mod e) :: rat) / of_int e" "(of_int (a mod e) :: rat) / of_int e < 1"
      using m e \<open>0 \<le> a mod e\<close> by (simp_all add: le_less)
    then have "\<lceil>(of_int a :: rat) / of_int e\<rceil> = a div e + 1"
      unfolding q by (intro ceiling_close) auto
    with False show ?thesis by simp
  qed
qed

lemma denote_Ceil: "denote (Ceil d) = of_int \<lceil>denote d\<rceil>"
proof (cases "0 \<le> sint (dexp d)")
  case True
  then show ?thesis by (simp add: Ceil_def denote_nonneg_exp)
next
  case False
  let ?e = "10 ^ nat (- sint (dexp d)) :: int"
  have "denote d = of_int (dval d) / of_int ?e" using False by (intro denote_int_exp) simp
  moreover have "\<lceil>(of_int (dval d) :: rat) / of_int ?e\<rceil>
      = (if dval d mod ?e \<noteq> 0 then dval d div ?e + 1 else dval d div ?e)"
    by (rule div_ceiling) simp
  ultimately show ?thesis
    using False by (simp add: Ceil_def Let_def denote_def div_euclid_def mod_euclid_def not_less)
qed

lemma denote_Truncate:
  assumes "0 \<le> sint p"
  shows "denote (Truncate d p) = of_int (rtrunc (denote d * 10 powi sint p)) * 10 powi (- sint p)"
proof -
  have n: "sint (- p) = - sint p" using assms by (intro sint_neg32) (simp add: min_int32_def)
  show ?thesis
  proof (cases "sint (dexp d) < - sint p")
    case True
    then have "Truncate d p = rescale d (- p)" using assms by (simp add: Truncate_def n)
    then have "denote (Truncate d p) = of_int (dval (rescale d (- p))) * 10 powi (- sint p)"
      by (simp add: denote_def n)
    then show ?thesis by (simp add: dval_rescale n powi10_neg)
  next
    case False
    then have "denote d = of_int (dval d * 10 ^ nat (sint (dexp d) + sint p)) * 10 powi (- sint p)"
      by (simp add: denote_def powi10_split [of "- sint p" "sint (dexp d)"])
    moreover have "\<dots> * 10 powi sint p = of_int (dval d * 10 ^ nat (sint (dexp d) + sint p))"
      by (simp add: powi10_neg)
    ultimately have "of_int (rtrunc (denote d * 10 powi sint p)) * 10 powi (- sint p) = denote d"
      by (metis rtrunc_of_int)
    with False assms show ?thesis by (simp add: Truncate_def n)
  qed
qed

subsection \<open>What division computes\<close>

lemma quo_rem: "a = b * quo a b + rem a b"
  by (simp add: rem_def)

lemma rem_eq: "rem a b = sgn a * (\<bar>a\<bar> mod \<bar>b\<bar>)"
proof -
  have "\<bar>a\<bar> = \<bar>b\<bar> * (\<bar>a\<bar> div \<bar>b\<bar>) + \<bar>a\<bar> mod \<bar>b\<bar>" by simp
  then have "sgn a * \<bar>a\<bar> = sgn a * (\<bar>b\<bar> * (\<bar>a\<bar> div \<bar>b\<bar>)) + sgn a * (\<bar>a\<bar> mod \<bar>b\<bar>)"
    by (metis distrib_left)
  moreover have "sgn a * \<bar>a\<bar> = a" by (simp add: sgn_mult_abs)
  moreover have "b * sgn b = \<bar>b\<bar>" by (simp add: abs_sgn)
  ultimately show ?thesis
    by (simp add: rem_def quo_def mult.left_commute mult.assoc [symmetric])
       (metis add_diff_cancel_left' mult.commute mult.left_commute)
qed

lemma rem_bound: "b \<noteq> 0 \<Longrightarrow> \<bar>rem a b\<bar> < \<bar>b\<bar>"
  by (simp add: rem_eq abs_mult abs_sgn_eq)

lemma rem_sign: "0 \<le> a \<Longrightarrow> 0 \<le> rem a b" "a \<le> 0 \<Longrightarrow> rem a b \<le> 0"
  by (cases "b = 0"; simp add: rem_eq sgn_if)+

text \<open>
  Exponents and precisions up to 2 to the 29 in absolute value: no int32 sum below wraps.
\<close>

definition small32 :: "int32 \<Rightarrow> bool" where
  "small32 x \<longleftrightarrow> \<bar>sint x\<bar> \<le> 2 ^ 29"

lemma small_sints:
  assumes "small32 p" "small32 x" "small32 y"
  shows "sint (- p) = - sint p"
    and "sint (x - y + p) = sint x - sint y + sint p"
    and "sint (y - p) = sint y - sint p"
    and "sint (x + p) = sint x + sint p"
proof -
  have b: "\<bar>sint p\<bar> \<le> 2 ^ 29" "\<bar>sint x\<bar> \<le> 2 ^ 29" "\<bar>sint y\<bar> \<le> 2 ^ 29"
    using assms by (simp_all add: small32_def)
  show n: "sint (- p) = - sint p"
    using b by (intro sint_neg32) (auto simp: min_int32_def)
  have d: "sint (x - y) = sint x - sint y"
    using b by (intro sint_sub32) (auto simp: min_int32_def max_int32_def)
  show "sint (x - y + p) = sint x - sint y + sint p"
    using b d sint_add32 [of "x - y" p] by (auto simp: min_int32_def max_int32_def)
  show "sint (y - p) = sint y - sint p"
    using b by (intro sint_sub32) (auto simp: min_int32_def max_int32_def)
  show "sint (x + p) = sint x + sint p"
    using b by (intro sint_add32) (auto simp: min_int32_def max_int32_def)
qed

lemma QuoRem_zero: "dval d2 = 0 \<Longrightarrow> is_panic (QuoRem d d2 p)"
  by (simp add: QuoRem_def)

lemma QuoRem_overflow_dead: "dval d2 \<noteq> 0 \<Longrightarrow> \<exists>q r. QuoRem d d2 p = Ok (q, r)"
  using sint_range32 [of "dexp d - dexp d2 - - p"]
  by (auto simp: QuoRem_def Let_def not_less split: prod.split)

lemma QuoRem_spec:
  assumes s: "small32 p" "small32 (dexp d)" "small32 (dexp d2)"
    and qr: "QuoRem d d2 p = Ok (q, r)"
  shows "denote d = denote d2 * denote q + denote r"
    and "\<bar>denote r\<bar> < \<bar>denote d2\<bar> * 10 powi (- sint p)"
    and "dexp q = - p"
    and "0 \<le> denote d * denote r"
    and "denote q = of_int (dval q) * 10 powi (- sint p)"
    and "sint (dexp r + p) = sint (dexp r) + sint p"
proof -
  note ss = small_sints [OF s]
  let ?e = "sint (dexp d) - sint (dexp d2) + sint p"
  have nz: "dval d2 \<noteq> 0" using qr QuoRem_zero [of d2 d p] by auto
  have c: "denote d = of_int (dval d) * 10 powi sint (dexp d)"
    "denote d2 = of_int (dval d2) * 10 powi sint (dexp d2)" by (simp_all add: denote_def)
  define aa bb where "aa = (if ?e < 0 then dval d else dval d * 10 ^ nat ?e)"
    and "bb = (if ?e < 0 then dval d2 * 10 ^ nat (- ?e) else dval d2)"
  define f where "f = (if ?e < 0 then sint (dexp d) else sint (dexp d2) - sint p)"
  have q: "dval q = quo aa bb" "dexp q = - p" and r: "dval r = rem aa bb" "sint (dexp r) = f"
    and rp: "sint (dexp r + p) = f + sint p"
    using qr nz by (auto simp: QuoRem_def Let_def aa_def bb_def f_def ss split: if_splits)
  show "dexp q = - p" by (rule q)
  show dq: "denote q = of_int (dval q) * 10 powi (- sint p)" by (simp add: denote_def q(2) ss)
  show "sint (dexp r + p) = sint (dexp r) + sint p" by (simp add: rp r)
  have bb0: "bb \<noteq> 0" using nz by (simp add: bb_def)
  have d: "denote d = of_int aa * 10 powi f"
  proof (cases "?e < 0")
    case False
    have "nat ?e = nat (sint (dexp d) - (sint (dexp d2) - sint p))" by simp
    with False show ?thesis
      using powi10_split [of "sint (dexp d2) - sint p" "sint (dexp d)"]
      by (simp add: c aa_def f_def)
  qed (simp add: c aa_def f_def)
  have d2: "denote d2 * 10 powi (- sint p) = of_int bb * 10 powi f"
  proof (cases "?e < 0")
    case True
    have "nat (- ?e) = nat (sint (dexp d2) - sint p - sint (dexp d))" by simp
    with True show ?thesis
      using powi10_split [of "sint (dexp d)" "sint (dexp d2) - sint p"]
      by (simp add: c bb_def f_def powi10_add [symmetric])
  next
    case False
    then show ?thesis by (simp add: c bb_def f_def powi10_add [symmetric])
  qed
  have dr: "denote r = of_int (rem aa bb) * 10 powi f" by (simp add: denote_def r)
  have "denote d2 * denote q + denote r = of_int (bb * quo aa bb + rem aa bb) * 10 powi f"
    using d2 by (simp add: dq q(1) dr algebra_simps)
  then show "denote d = denote d2 * denote q + denote r"
    by (simp add: d flip: quo_rem)
  have "(of_int \<bar>rem aa bb\<bar> :: rat) < of_int \<bar>bb\<bar>"
    using rem_bound [OF bb0, of aa] by (simp only: of_int_less_iff)
  then have "\<bar>denote r\<bar> < \<bar>of_int bb * 10 powi f\<bar>" by (simp add: dr abs_mult)
  then show "\<bar>denote r\<bar> < \<bar>denote d2\<bar> * 10 powi (- sint p)"
    by (simp add: abs_mult flip: d2)
  have "0 \<le> aa * rem aa bb"
    using rem_sign [of aa bb] by (cases "0 \<le> aa") (auto intro: mult_nonneg_nonneg mult_nonpos_nonpos)
  then have "0 \<le> (of_int (aa * rem aa bb) :: rat)" by (simp only: of_int_0_le_iff)
  then show "0 \<le> denote d * denote r"
    using powi10_pos [of f] by (auto simp: d dr zero_le_mult_iff mult_le_0_iff)
qed

lemma rnear_of_quotient:
  fixes f :: rat
  assumes x: "x = of_int q + f" and f: "\<bar>f\<bar> < 1" and xf: "0 \<le> x * f"
  shows "rnear x = (if \<bar>f\<bar> < 1 / 2 then q else if x < 0 then q - 1 else q + 1)"
    and "\<not> \<bar>f\<bar> < 1 / 2 \<Longrightarrow> x \<noteq> 0"
proof -
  show nz: "\<not> \<bar>f\<bar> < 1 / 2 \<Longrightarrow> x \<noteq> 0"
  proof
    assume h: "\<not> \<bar>f\<bar> < 1 / 2" and "x = 0"
    then have q: "of_int q = - f" using x by simp
    then have "(of_int (- 1) :: rat) < of_int q" "(of_int q :: rat) < of_int 1" using f by auto
    then have "- 1 < q" "q < 1" by (simp_all only: of_int_less_iff)
    then have "q = 0" by simp
    with q h show False by simp
  qed
  show "rnear x = (if \<bar>f\<bar> < 1 / 2 then q else if x < 0 then q - 1 else q + 1)"
  proof (cases "\<bar>f\<bar> < 1 / 2")
    case True
    then have "\<lceil>x - 1 / 2\<rceil> = q" "\<lfloor>x + 1 / 2\<rfloor> = q"
      using x by (auto intro!: ceiling_close floor_close simp: abs_less_iff)
    with True show ?thesis by (simp add: rnear_def)
  next
    case False
    show ?thesis
    proof (cases "x < 0")
      case True
      with xf have "f \<le> 0" by (auto simp: zero_le_mult_iff)
      with False f x have "\<lceil>x - 1 / 2\<rceil> = q - 1" by (intro ceiling_close) auto
      with True False show ?thesis by (simp add: rnear_def)
    next
      case pos: False
      with xf nz [OF False] have "0 \<le> f" by (auto simp: zero_le_mult_iff)
      with False f x have "\<lfloor>x + 1 / 2\<rfloor> = q + 1" by (intro floor_close) auto
      with pos False show ?thesis by (simp add: rnear_def)
    qed
  qed
qed

lemma sgn_prod_less: "sgn a * sgn b < (0::int) \<longleftrightarrow> (a < 0 \<and> 0 < b) \<or> (0 < a \<and> b < 0)"
  by (auto simp: sgn_if)

lemma denote_less_zero: "denote d < 0 \<longleftrightarrow> dval d < 0" "0 < denote d \<longleftrightarrow> 0 < dval d"
  using powi10_pos [of "sint (dexp d)"]
  by (auto simp: denote_def zero_less_mult_iff mult_less_0_iff)

lemma denote_zero: "denote d = 0 \<longleftrightarrow> dval d = 0"
  by (simp add: denote_def)

lemma deref_nonzero: "denote d \<noteq> 0 \<Longrightarrow> deref d = Ok (dval d)"
  by (auto simp: deref_def dval_cases denote_zero split: option.splits)

lemma DivRound_spec:
  assumes s: "small32 p" "small32 (dexp d)" "small32 (dexp d2)" and nz: "denote d2 \<noteq> 0"
  shows "\<exists>z. DivRound d d2 p = Ok z \<and> denote z
     = of_int (rnear (denote d / denote d2 * 10 powi sint p)) * 10 powi (- sint p)"
proof -
  obtain q r where qr: "QuoRem d d2 p = Ok (q, r)"
    using QuoRem_overflow_dead [of d2 d p] nz by (auto simp: denote_zero)
  note spec = QuoRem_spec [OF s qr]
  define u where "u = (10::rat) powi (- sint p)"
  define x where "x = denote d / denote d2 * 10 powi sint p"
  define f where "f = denote r / (denote d2 * u)"
  have u: "0 < u" "10 powi sint p = 1 / u" by (simp_all add: u_def powi10_neg)
  have np: "sint (- p) = - sint p" by (rule small_sints(1) [OF s])
  have one: "denote (New 1 (- p)) = u" by (simp add: New_def denote_def np u_def)
  have dq: "denote q = of_int (dval q) * u" using spec(5) by (simp add: u_def)
  have x: "x = of_int (dval q) + f"
    using spec(1) nz u(1) by (simp add: x_def f_def u(2) dq field_simps)
  have f1: "\<bar>f\<bar> < 1"
    using spec(2) nz u(1) by (simp add: f_def abs_mult u_def [symmetric] pos_divide_less_eq)
  have "x * f = denote d * denote r / ((denote d2 * u) * (denote d2 * u))"
    by (simp add: x_def f_def u(2))
  then have xf: "0 \<le> x * f" using spec(4) by (simp add: zero_le_divide_iff)
  define R where "R = \<lparr>coef = Some (push_bit 1 \<bar>dval r\<bar>), dexp = dexp r + p\<rparr>"
  define c where "c = Cmp R (Abs_dec d2)"
  have c': "Cmp \<lparr>coef = Some (\<bar>dval r\<bar> * 2), dexp = dexp r + p\<rparr> (Abs_dec d2) = c"
    by (simp add: c_def R_def)
  have "denote R = of_int (2 * \<bar>dval r\<bar>) * 10 powi sint (dexp r + p)"
    by (simp add: R_def denote_def push_bit_eq_mult)
  also have "\<dots> = 2 * \<bar>denote r\<bar> / u"
    by (simp add: denote_def spec(6) powi10_add u(2) abs_mult)
  finally have r2: "denote R = 2 * \<bar>denote r\<bar> / u" .
  have "c < 0 \<longleftrightarrow> denote R < \<bar>denote d2\<bar>" by (simp add: c_def Cmp_denote)
  also have "\<dots> \<longleftrightarrow> \<bar>f\<bar> < 1 / 2"
    using nz u(1) by (simp add: r2 f_def abs_mult pos_divide_less_eq mult.commute)
  finally have c: "c < 0 \<longleftrightarrow> \<bar>f\<bar> < 1 / 2" .
  note near = rnear_of_quotient [OF x f1 xf]
  show ?thesis
  proof (cases "c < 0")
    case True
    then have "DivRound d d2 p = Ok q"
      by (simp add: DivRound_def qr Let_def c')
    moreover have "rnear x = dval q" using near(1) True c by simp
    ultimately show ?thesis
      unfolding x_def [symmetric] u_def [symmetric] by (simp add: dq)
  next
    case False
    then have nx: "x \<noteq> 0" using near(2) c by simp
    then have "denote d \<noteq> 0" by (auto simp: x_def)
    note de = deref_nonzero [OF this] deref_nonzero [OF nz]
    have sg: "sgn (dval d) * sgn (dval d2) < 0 \<longleftrightarrow> x < 0"
      unfolding sgn_prod_less using u(1)
      by (auto simp: x_def u(2) divide_less_0_iff zero_less_mult_iff mult_less_0_iff less_asym
          simp flip: denote_less_zero)
    have "DivRound d d2 p
        = Ok (if x < 0 then Sub q (New 1 (- p)) else Add q (New 1 (- p)))"
      using False by (simp add: DivRound_def qr Let_def de sg c')
    moreover have "rnear x = (if x < 0 then dval q - 1 else dval q + 1)"
      using near(1) False c by simp
    ultimately show ?thesis
      unfolding x_def [symmetric] u_def [symmetric] by (simp add: dq one algebra_simps)
  qed
qed

subsection \<open>Properties\<close>

text \<open>
  The specifications of the roundings: \<open>n\<close> is an integer nearest to \<open>x\<close>, and of two equally near
  it is the one farther from zero, or the even one.
\<close>

definition nearest_away :: "rat \<Rightarrow> int \<Rightarrow> bool" where
  "nearest_away x n \<longleftrightarrow>
     \<bar>x - of_int n\<bar> \<le> 1 / 2 \<and> (\<bar>x - of_int n\<bar> = 1 / 2 \<longrightarrow> \<bar>of_int n\<bar> = \<bar>x\<bar> + 1 / 2)"

definition nearest_even :: "rat \<Rightarrow> int \<Rightarrow> bool" where
  "nearest_even x n \<longleftrightarrow>
     \<bar>x - of_int n\<bar> \<le> 1 / 2 \<and> (\<bar>x - of_int n\<bar> = 1 / 2 \<longrightarrow> even n)"

lemma nearest_away_rnear: "nearest_away x (rnear x)"
  unfolding nearest_away_def using rnear_error rnear_away by blast

lemma nearest_even_rnear_even: "nearest_even x (rnear_even x)"
  unfolding nearest_even_def using rnear_even_error rnear_even_tie by blast

lemma Mul_cases:
  "Mul a b = (if min_int32 \<le> sint (dexp a) + sint (dexp b) \<and> sint (dexp a) + sint (dexp b) \<le> max_int32
     then Ok \<lparr>coef = Some (dval a * dval b), dexp = word_of_int (sint (dexp a) + sint (dexp b))\<rparr>
     else Panic (''exponent '' @ show_int (sint (dexp a) + sint (dexp b)) @ '' overflows an int32!''))"
  by (simp add: Mul_def Let_def not_less)

text \<open>C15: addition, subtraction, negation, absolute value and summation of decimals are exact on
  the numbers they denote, whatever the exponents and also for the zero value with its nil
  coefficient; multiplication is exact when it returns, and it panics exactly when the sum of the
  exponents is outside int32; it never returns an error.\<close>

theorem decimal_arithmetic_exact:
  "denote (Add a b) = denote a + denote b \<and> denote (Sub a b) = denote a - denote b
   \<and> denote (Neg a) = - denote a \<and> denote (Abs_dec a) = \<bar>denote a\<bar>
   \<and> denote (Sum_dec a ds) = denote a + sum_list (map denote ds)
   \<and> Rat_dec a = denote a
   \<and> (case Mul a b of
        Ok p \<Rightarrow> denote p = denote a * denote b
      | Err e \<Rightarrow> False
      | Panic m \<Rightarrow> sint (dexp a) + sint (dexp b) \<notin> {min_int32..max_int32})"
  using denote_Mul [of a b]
  by (auto simp: denote_Sum Rat_denote Mul_cases)

lemma foldl_min:
  "denote (foldl (\<lambda>ans item. if Cmp item ans < 0 then item else ans) x ds)
     = Min (set (map denote (x # ds)))"
proof (induction ds arbitrary: x)
  case (Cons d ds)
  have "Min (set (map denote (x # d # ds)))
      = Min (set (map denote ((if denote d < denote x then d else x) # ds)))"
    by (cases "ds = []") (auto simp: min_def)
  then show ?case using Cons [of d] Cons [of x] by (simp add: Cmp_denote split: if_split)
qed simp

lemma foldl_max:
  "denote (foldl (\<lambda>ans item. if 0 < Cmp item ans then item else ans) x ds)
     = Max (set (map denote (x # ds)))"
proof (induction ds arbitrary: x)
  case (Cons d ds)
  have "Max (set (map denote (x # d # ds)))
      = Max (set (map denote ((if denote x < denote d then d else x) # ds)))"
    by (cases "ds = []") (auto simp: max_def)
  then show ?case using Cons [of d] Cons [of x] by (auto simp: Cmp_denote split: if_splits)
qed simp

text \<open>The comparison of decimals is the order of the numbers they denote, for any two
  exponents: \<open>Cmp\<close> returns -1, 0 or 1 by that order, every derived comparison agrees with it,
  \<open>Sign\<close> is the sign of the number, and \<open>Min\<close> and \<open>Max\<close> return a smallest and a largest one.\<close>

theorem decimal_comparison:
  "Cmp a b = (if denote a < denote b then - 1 else if denote a = denote b then 0 else 1)
   \<and> Equal a b = (denote a = denote b) \<and> Equals a b = (denote a = denote b)
   \<and> LessThan a b = (denote a < denote b) \<and> LessThanOrEqual a b = (denote a \<le> denote b)
   \<and> GreaterThan a b = (denote b < denote a) \<and> GreaterThanOrEqual a b = (denote b \<le> denote a)
   \<and> of_int (Sign_dec a) = sgn (denote a)
   \<and> denote (Min_dec a ds) = Min (set (map denote (a # ds)))
   \<and> denote (Max_dec a ds) = Max (set (map denote (a # ds)))"
proof -
  have sg: "Sign_dec a = sgn (dval a)"
    by (simp add: Sign_dec_def dval_cases split: option.split)
  have "of_int (Sign_dec a) = sgn (denote a)"
    unfolding sg denote_def sgn_mult by (simp add: sgn_if)
  moreover have "denote (Min_dec a ds) = Min (set (map denote (a # ds)))"
    "denote (Max_dec a ds) = Max (set (map denote (a # ds)))"
    unfolding Min_dec_def Max_dec_def by (rule foldl_min, rule foldl_max)
  ultimately show ?thesis by (auto simp: cmp_defs)
qed

text \<open>C16: \<open>Round(places)\<close> returns a decimal with exponent \<open>-places\<close> (as an int32) whose
  coefficient is the integer nearest to the number scaled by \<open>10^places\<close>, ties away from zero, for
  every decimal and every number of places, negative ones included.\<close>

theorem Round_nearest_away:
  "dexp (Round d places) = - places
   \<and> nearest_away (denote d * 10 powi sint places) (dval (Round d places))"
  by (simp add: dexp_Round dval_Round nearest_away_rnear)

text \<open>\<open>RoundBank(places)\<close> rounds to a nearest multiple of \<open>10^-places\<close>, a tie to the one with
  an even coefficient, for every decimal and every number of places but the least int32 (whose
  negation wraps).\<close>

theorem RoundBank_nearest_even:
  assumes "sint places \<noteq> min_int32"
  shows "dexp (RoundBank d places) = - places
    \<and> nearest_even (denote d * 10 powi sint places) (dval (RoundBank d places))"
  using dval_RoundBank [OF assms] by (simp add: dexp_RoundBank nearest_even_rnear_even)

lemma RoundBank_nearest_even_witness:
  "dexp (RoundBank (New (- 25) (- 1)) 0) = 0
   \<and> nearest_even (denote (New (- 25) (- 1)) * 10 powi sint (0 :: int32))
       (dval (RoundBank (New (- 25) (- 1)) 0))"
  using RoundBank_nearest_even [of 0 "New (- 25) (- 1)"] by (simp add: min_int32_def)

text \<open>\<open>Floor\<close> and \<open>Ceil\<close> denote the floor and the ceiling of the number, and
  \<open>Truncate(precision)\<close> for a precision that is not negative keeps that many digits after the
  point and drops the rest towards zero.\<close>

theorem decimal_floor_ceil_truncate:
  assumes "0 \<le> sint precision"
  shows "denote (Floor d) = of_int \<lfloor>denote d\<rfloor> \<and> denote (Ceil d) = of_int \<lceil>denote d\<rceil>
    \<and> denote (Truncate d precision)
        = of_int (rtrunc (denote d * 10 powi sint precision)) * 10 powi (- sint precision)"
  using denote_Truncate [OF assms] by (simp add: denote_Floor denote_Ceil)

lemma decimal_floor_ceil_truncate_witness:
  "denote (Truncate (New (- 12345) (- 3)) 2)
     = of_int (rtrunc (denote (New (- 12345) (- 3)) * 10 powi sint (2 :: int32)))
       * 10 powi (- sint (2 :: int32))"
  using decimal_floor_ceil_truncate [of 2 "New (- 12345) (- 3)"] by simp

text \<open>\<open>QuoRem(d2, precision)\<close> with a divisor that is not 0 always returns, whatever the
  exponents (its overflow check cannot fire, because the exponent it tests was computed in int32);
  with a zero divisor it panics. For exponents and a precision of at most \<open>2^29\<close> in absolute
  value the quotient and the remainder satisfy the contract the code states: the dividend is
  divisor times quotient plus remainder, the quotient is a multiple of \<open>10^-precision\<close>, the
  remainder is smaller than the divisor times that unit and has the sign of the dividend.\<close>

theorem QuoRem_contract:
  assumes "small32 p" "small32 (dexp d)" "small32 (dexp d2)"
  shows "case QuoRem d d2 p of
      Ok (q, r) \<Rightarrow> denote d2 \<noteq> 0 \<and> denote d = denote d2 * denote q + denote r \<and> dexp q = - p
        \<and> \<bar>denote r\<bar> < \<bar>denote d2\<bar> * 10 powi (- sint p) \<and> 0 \<le> denote d * denote r
    | Err e \<Rightarrow> False
    | Panic m \<Rightarrow> denote d2 = 0"
proof (cases "dval d2 = 0")
  case True
  then show ?thesis by (simp add: QuoRem_def denote_zero)
next
  case False
  then obtain q r where qr: "QuoRem d d2 p = Ok (q, r)" using QuoRem_overflow_dead by blast
  show ?thesis using QuoRem_spec [OF assms qr] False by (simp add: qr denote_zero)
qed

lemma QuoRem_contract_witness:
  "case QuoRem (New 7 0) (New (- 2) 0) 0 of
      Ok (q, r) \<Rightarrow> denote (New (- 2) 0) \<noteq> 0
        \<and> denote (New 7 0) = denote (New (- 2) 0) * denote q + denote r \<and> dexp q = - 0
        \<and> \<bar>denote r\<bar> < \<bar>denote (New (- 2) 0)\<bar> * 10 powi (- sint (0 :: int32))
        \<and> 0 \<le> denote (New 7 0) * denote r
    | Err e \<Rightarrow> False
    | Panic m \<Rightarrow> denote (New (- 2) 0) = 0"
  by (rule QuoRem_contract) (simp_all add: small32_def New_def)

text \<open>\<open>DivRound(d2, precision)\<close> by a divisor that is not 0 returns the multiple of
  \<open>10^-precision\<close> nearest to the exact quotient, ties away from zero, for all exponents and
  precisions up to \<open>2^29\<close> in absolute value; so does \<open>Div\<close>, at its 16 digits.\<close>

theorem DivRound_nearest:
  assumes "small32 p" "small32 (dexp d)" "small32 (dexp d2)" "denote d2 \<noteq> 0"
  shows "\<exists>z n. DivRound d d2 p = Ok z \<and> denote z = of_int n * 10 powi (- sint p)
           \<and> nearest_away (denote d / denote d2 * 10 powi sint p) n
           \<and> (p = 16 \<longrightarrow> Div DivisionPrecision d d2 = Ok z)"
proof -
  obtain z where "DivRound d d2 p = Ok z" "denote z
     = of_int (rnear (denote d / denote d2 * 10 powi sint p)) * 10 powi (- sint p)"
    using DivRound_spec [OF assms] by (elim exE conjE)
  then show ?thesis
    using nearest_away_rnear [of "denote d / denote d2 * 10 powi sint p"]
    by (auto simp: Div_def DivisionPrecision_def)
qed

lemma DivRound_nearest_witness:
  "\<exists>z n. DivRound (New 2 0) (New (- 3) 0) 16 = Ok z \<and> denote z = of_int n * 10 powi (- sint (16 :: int32))
     \<and> nearest_away (denote (New 2 0) / denote (New (- 3) 0) * 10 powi sint (16 :: int32)) n
     \<and> ((16 :: int32) = 16 \<longrightarrow> Div DivisionPrecision (New 2 0) (New (- 3) 0) = Ok z)"
  by (rule DivRound_nearest) (simp_all add: small32_def New_def denote_def)

end
