(* ===== verification/DecimalText.thy ===== *)
theory DecimalText
  imports Decimal
begin

text \<open>
  The text, binary and float64 forms of decimals (\<^verbatim>\<open>pkg/util/decimal.go\<close>): parsing and
  printing, the JSON, text, gob and SQL interfaces and \<open>NullDecimal\<close>. A byte slice is a
  \<open>string\<close>, as a Go conversion between the two copies the bytes.
\<close>

unbundle bit_operations_syntax

subsection \<open>Parsing\<close>

text \<open>\<open>big.Int.SetString(s, 10)\<close>: an optional sign and at least one digit, nothing else.\<close>

definition set_string :: "string \<Rightarrow> int option" where
  "set_string s =
     (let neg = (s \<noteq> [] \<and> hd s = CHR ''-'');
          t = (if s \<noteq> [] \<and> (hd s = CHR ''+'' \<or> hd s = CHR ''-'') then tl s else s)
      in if t = [] \<or> \<not> list_all is_digit t then None
         else Some (if neg then - int (digits_val t) else int (digits_val t)))"

definition not_exp :: "char \<Rightarrow> bool" where
  "not_exp c \<longleftrightarrow> c \<noteq> CHR ''E'' \<and> c \<noteq> CHR ''e''"

text \<open>The part after the exponent is split off: \<open>e10\<close> is its value, or 0.\<close>

definition parse_mantissa :: "string \<Rightarrow> string \<Rightarrow> int \<Rightarrow> decimal dres" where
  "parse_mantissa originalInput value e10 =
     (let parts = split_str value ''.''
      in bind_res
        (if length parts = 1 then Ok (value, e10)
         else if length parts = 2 then
           let decimalPart = trim_right (CHR ''0'') (parts ! 1)
           in Ok (parts ! 0 @ decimalPart, e10 - int (length decimalPart))
         else Err (TooManyDots value))
        (\<lambda>(intString, e10).
          case set_string intString of
            None \<Rightarrow> Err (CantConvert value)
          | Some dValue \<Rightarrow>
              if e10 < min_int32 \<or> max_int32 < e10 then Err (FracTooLong originalInput)
              else Ok \<lparr>coef = Some dValue, dexp = word_of_int e10\<rparr>))"

definition NewFromString :: "string \<Rightarrow> decimal dres" where
  "NewFromString value =
     (let eIndex = length (takeWhile not_exp value)
      in if eIndex < length value then
           (case parse_int 32 (drop (eIndex + 1) value) of
              (expInt, Some ErrRange) \<Rightarrow> Err (FracTooLong value)
            | (expInt, Some ErrSyntax) \<Rightarrow> Err (ExpNotNumeric value)
            | (expInt, None) \<Rightarrow> parse_mantissa value (take eIndex value) expInt)
         else parse_mantissa value value 0)"

definition RequireFromString :: "string \<Rightarrow> decimal dres" where
  "RequireFromString value =
     (case NewFromString value of Ok d \<Rightarrow> Ok d | Err e \<Rightarrow> Panic value | Panic m \<Rightarrow> Panic m)"

subsection \<open>Printing\<close>

definition string_dec :: "decimal \<Rightarrow> bool \<Rightarrow> string dres" where
  "string_dec d trimTrailingZeros =
     (if 0 \<le> sint (dexp d) then Ok (show_int (dval (rescale d 0)))
      else bind_res (deref d) (\<lambda>v.
        let str = show_nat (nat \<bar>v\<bar>);
            k = nat (- sint (dexp d));
            (intPart, fractionalPart) =
              (if k < length str then (take (length str - k) str, drop (length str - k) str)
               else (''0'', replicate (k - length str) (CHR ''0'') @ str));
            fractionalPart =
              (if trimTrailingZeros then trim_right (CHR ''0'') fractionalPart else fractionalPart);
            number = (if fractionalPart \<noteq> [] then intPart @ ''.'' @ fractionalPart else intPart)
        in Ok (if v < 0 then ''-'' @ number else number)))"

definition String_dec :: "decimal \<Rightarrow> string dres" where
  "String_dec d = string_dec d True"

definition StringFixed :: "decimal \<Rightarrow> int32 \<Rightarrow> string dres" where
  "StringFixed d places = string_dec (Round d places) False"

definition StringFixedBank :: "decimal \<Rightarrow> int32 \<Rightarrow> string dres" where
  "StringFixedBank d places = string_dec (RoundBank d places) False"

definition StringFixedCash :: "int \<Rightarrow> decimal \<Rightarrow> byte \<Rightarrow> string dres" where
  "StringFixedCash dp d interval =
     bind_res (RoundCash dp d interval) (\<lambda>rounded. string_dec rounded False)"

definition StringScaled :: "decimal \<Rightarrow> int32 \<Rightarrow> string dres" where
  "StringScaled d e = String_dec (rescale d e)"

subsection \<open>JSON, text and SQL\<close>

definition zero_dec :: decimal where
  "zero_dec = \<lparr>coef = None, dexp = 0\<rparr>"

definition unquote :: "string \<Rightarrow> string" where
  "unquote bs =
     (if 2 < length bs \<and> hd bs = CHR 0x22 \<and> last bs = CHR 0x22 then butlast (tl bs) else bs)"

text \<open>
  A decoder assigns \<open>*d\<close> before it looks at the error: the receiver's new value, and the error.
\<close>

definition UnmarshalText :: "decimal \<Rightarrow> string \<Rightarrow> decimal \<times> dec_error option" where
  "UnmarshalText d text =
     (case NewFromString text of
        Ok dec \<Rightarrow> (dec, None)
      | Err e \<Rightarrow> (zero_dec, Some (ErrorDecoding text e))
      | Panic m \<Rightarrow> (d, None))"

definition UnmarshalJSON :: "decimal \<Rightarrow> string \<Rightarrow> decimal \<times> dec_error option" where
  "UnmarshalJSON d decimalBytes =
     (if decimalBytes = ''null'' then (d, None) else UnmarshalText d (unquote decimalBytes))"

definition MarshalText :: "decimal \<Rightarrow> string dres" where
  "MarshalText d = String_dec d"

definition Value_dec :: "decimal \<Rightarrow> string dres" where
  "Value_dec d = String_dec d"

definition MarshalJSON :: "bool \<Rightarrow> decimal \<Rightarrow> string dres" where
  "MarshalJSON withoutQuotes d =
     (if withoutQuotes then String_dec d
      else bind_res (String_dec d) (\<lambda>s. Ok ([CHR 0x22] @ s @ [CHR 0x22])))"

subsection \<open>Binary form\<close>

definition be32 :: "uint32 \<Rightarrow> string" where
  "be32 w = map (\<lambda>k. char_of (unat (drop_bit k w AND 255))) [24, 16, 8, 0]"

fun bytes_val :: "nat \<Rightarrow> string \<Rightarrow> nat" where
  "bytes_val a [] = a"
| "bytes_val a (c # cs) = bytes_val (256 * a + of_char c) cs"

fun nat_bytes :: "nat \<Rightarrow> string" where
  "nat_bytes n = (if n = 0 then [] else nat_bytes (n div 256) @ [char_of (n mod 256)])"

declare nat_bytes.simps [simp del]

text \<open>\<open>big.Int.GobEncode\<close> (nothing for a nil pointer) and \<open>GobDecode\<close>: a version byte whose
  low bit is the sign, then the magnitude, big-endian.\<close>

definition gob_int :: "int option \<Rightarrow> string" where
  "gob_int x =
     (case x of None \<Rightarrow> []
      | Some v \<Rightarrow> char_of (if v < 0 then 3 else 2 :: nat) # nat_bytes (nat \<bar>v\<bar>))"

definition ungob_int :: "string \<Rightarrow> (dec_error, int) res" where
  "ungob_int buf =
     (case buf of [] \<Rightarrow> Ok 0
      | b # bs \<Rightarrow>
          if (of_char b :: nat) div 2 \<noteq> 1 then Err (GobVersion (of_char b))
          else Ok (if odd (of_char b :: nat) then - int (bytes_val 0 bs) else int (bytes_val 0 bs)))"

definition MarshalBinary :: "decimal \<Rightarrow> string" where
  "MarshalBinary d = be32 (dexp d) @ gob_int (coef d)"

definition UnmarshalBinary :: "string \<Rightarrow> (dec_error, decimal \<times> dec_error option) res" where
  "UnmarshalBinary data =
     (if length data < 4 then Panic ''slice bounds out of range''
      else let e = word_of_nat (bytes_val 0 (take 4 data))
           in case ungob_int (drop 4 data) of
                Ok v \<Rightarrow> Ok (\<lparr>coef = Some v, dexp = e\<rparr>, None)
              | Err err \<Rightarrow> Ok (\<lparr>coef = Some 0, dexp = e\<rparr>, Some err)
              | Panic m \<Rightarrow> Panic m)"

definition GobEncode :: "decimal \<Rightarrow> string" where
  "GobEncode d = MarshalBinary d"

definition GobDecode :: "string \<Rightarrow> (dec_error, decimal \<times> dec_error option) res" where
  "GobDecode data = UnmarshalBinary data"

subsection \<open>From float64\<close>

text \<open>
  A float64 is given by its bits (\<open>math.Float64bits\<close>). The loop that shifts out the trailing
  zeros of the mantissa stops because the mantissa is not 0; the test \<open>m = 0\<close> only makes the
  function total.
\<close>

fun shift_out :: "nat \<Rightarrow> int32 \<Rightarrow> nat \<times> int32" where
  "shift_out m e = (if m = 0 \<or> odd m then (m, e) else shift_out (m div 2) (e + 1))"

declare shift_out.simps [simp del]

definition float_mant :: "uint64 \<Rightarrow> nat" where
  "float_mant bits = unat (bits AND (push_bit 52 1 - 1))"

definition float_exp :: "uint64 \<Rightarrow> nat" where
  "float_exp bits = unat (drop_bit 52 bits AND 2047)"

definition float_sign :: "uint64 \<Rightarrow> bool" where
  "float_sign bits \<longleftrightarrow> drop_bit 63 bits = 1"

definition NewFromFloatWithExponent :: "uint64 \<Rightarrow> int32 \<Rightarrow> decimal dres" where
  "NewFromFloatWithExponent bits e10 =
     (if float_exp bits = 2047
      then Panic (''Cannot create a Decimal from ''
             @ (if float_mant bits \<noteq> 0 then ''NaN'' else if float_sign bits then ''-Inf''
                else ''+Inf''))
      else if float_exp bits = 0 \<and> float_mant bits = 0 then Ok zero_dec
      else
        let mant = (if float_exp bits = 0 then float_mant bits else float_mant bits + 2 ^ 52);
            exp2 = word_of_nat (if float_exp bits = 0 then 1 else float_exp bits) - (1023 + 52);
            (mant, exp2) = shift_out mant exp2;
            e10 = (if sint e10 < 0 \<and> sint e10 < sint exp2
                   then (if sint exp2 < 0 then exp2 else 0) else e10);
            exp2 = exp2 - e10;
            temp = (if 0 < sint e10 then 5 ^ nat (sint e10) else 1 :: int);
            dMant = (if sint e10 < 0 then int mant * 5 ^ nat (- sint e10) else int mant);
            dMant = (if 0 < sint exp2 then push_bit (nat (sint exp2)) dMant else dMant);
            temp = (if sint exp2 < 0
                    then push_bit (unat (word_of_int (sint (- exp2)) :: uint64)) temp else temp);
            dMant = (if 0 < sint e10 \<or> sint exp2 < 0
                     then quo (dMant + drop_bit 1 temp) temp else dMant)
        in Ok \<lparr>coef = Some (if float_sign bits then - dMant else dMant), dexp = e10\<rparr>)"

definition NewFromFloat :: "uint64 \<Rightarrow> decimal dres" where
  "NewFromFloat bits = NewFromFloatWithExponent bits (word_of_int min_int32)"

text \<open>The receiver's new value and the error; an operation that panics leaves nothing.\<close>

definition Scan_dec :: "decimal \<Rightarrow> sql_value \<Rightarrow> (dec_error, decimal \<times> dec_error option) res" where
  "Scan_dec d value =
     (let from_string = (\<lambda>s. case NewFromString (unquote s) of
            Ok x \<Rightarrow> Ok (x, None) | Err e \<Rightarrow> Ok (zero_dec, Some e) | Panic m \<Rightarrow> Panic m)
      in case value of
        SqlFloat32 v \<Rightarrow> bind_res (NewFromFloat v) (\<lambda>x. Ok (x, None))
      | SqlFloat64 v \<Rightarrow> bind_res (NewFromFloat v) (\<lambda>x. Ok (x, None))
      | SqlInt64 v \<Rightarrow> Ok (New v 0, None)
      | SqlString s \<Rightarrow> from_string s
      | SqlBytes s \<Rightarrow> from_string s
      | SqlNil \<Rightarrow> Ok (d, Some CouldNotConvert)
      | SqlOther \<Rightarrow> Ok (d, Some CouldNotConvert))"

record null_decimal =
  nd_decimal :: decimal
  nd_valid :: bool

definition Scan_null :: "null_decimal \<Rightarrow> sql_value
    \<Rightarrow> (dec_error, null_decimal \<times> dec_error option) res" where
  "Scan_null n value =
     (if value = SqlNil then Ok (n\<lparr>nd_valid := False\<rparr>, None)
      else bind_res (Scan_dec (nd_decimal n) value) (\<lambda>(d, err).
             Ok (\<lparr>nd_decimal = d, nd_valid = True\<rparr>, err)))"

definition Value_null :: "null_decimal \<Rightarrow> string option dres" where
  "Value_null n =
     (if \<not> nd_valid n then Ok None else bind_res (Value_dec (nd_decimal n)) (\<lambda>s. Ok (Some s)))"

definition UnmarshalJSON_null :: "null_decimal \<Rightarrow> string \<Rightarrow> null_decimal \<times> dec_error option" where
  "UnmarshalJSON_null n bs =
     (if bs = ''null'' then (n\<lparr>nd_valid := False\<rparr>, None)
      else let (d, err) = UnmarshalJSON (nd_decimal n) bs
           in (\<lparr>nd_decimal = d, nd_valid = True\<rparr>, err))"

definition MarshalJSON_null :: "bool \<Rightarrow> null_decimal \<Rightarrow> string dres" where
  "MarshalJSON_null withoutQuotes n =
     (if \<not> nd_valid n then Ok ''null'' else MarshalJSON withoutQuotes (nd_decimal n))"

subsection \<open>What parsing computes\<close>

text \<open>A decimal literal: a sign, digits, optionally a point and digits, optionally an exponent.\<close>

definition sign_str :: "bool \<Rightarrow> string" where
  "sign_str neg = (if neg then ''-'' else [])"

definition literal :: "bool \<Rightarrow> string \<Rightarrow> string option \<Rightarrow> int option \<Rightarrow> string" where
  "literal neg ip fp e =
     sign_str neg @ ip @ (case fp of None \<Rightarrow> [] | Some f \<Rightarrow> CHR ''.'' # f)
     @ (case e of None \<Rightarrow> [] | Some i \<Rightarrow> CHR ''e'' # show_int i)"

definition signed_val :: "bool \<Rightarrow> string \<Rightarrow> int" where
  "signed_val neg s = (if neg then - int (digits_val s) else int (digits_val s))"

lemma signed_val_zeros:
  "signed_val neg (s @ replicate n (CHR ''0'')) = signed_val neg s * 10 ^ n"
  by (simp add: signed_val_def digits_val_append)

lemma not_digit_hd: "list_all is_digit s \<Longrightarrow> s \<noteq> [] \<Longrightarrow> hd s \<noteq> CHR ''-'' \<and> hd s \<noteq> CHR ''+''"
  by (cases s) auto

lemma set_string_sign:
  "list_all is_digit s \<Longrightarrow> s \<noteq> [] \<Longrightarrow> set_string (sign_str neg @ s) = Some (signed_val neg s)"
  using not_digit_hd [of s] by (auto simp: set_string_def sign_str_def signed_val_def Let_def)

lemma show_int_sign: "show_int i = sign_str (i < 0) @ show_nat (nat \<bar>i\<bar>)"
  by (simp add: show_int_def sign_str_def)

lemma signed_val_show: "signed_val (i < 0) (show_nat (nat \<bar>i\<bar>)) = i"
  by (simp add: signed_val_def)

lemma set_string_show_int [simp]: "set_string (show_int i) = Some i"
  by (simp add: show_int_sign set_string_sign show_nat_digits signed_val_show)

lemma parse_int_show_int:
  assumes "- (2 ^ (n - 1)) \<le> i" "i < 2 ^ (n - 1)" "0 < n"
  shows "parse_int n (show_int i) = (i, None)"
proof -
  have p: "(2::nat) ^ n = 2 * 2 ^ (n - 1)" using assms(3) by (cases n) auto
  have "nat \<bar>i\<bar> \<le> 2 ^ (n - 1)" using assms by (simp add: nat_le_iff abs_le_iff)
  moreover have "(0::nat) < 2 ^ (n - 1)" by simp
  ultimately have "nat \<bar>i\<bar> < 2 ^ n" unfolding p by linarith
  then have u: "parse_uint n (show_nat (nat \<bar>i\<bar>)) = (nat \<bar>i\<bar>, None)" by (rule parse_uint_show)
  have h: "hd (show_nat (nat \<bar>i\<bar>)) \<noteq> CHR ''-''" "hd (show_nat (nat \<bar>i\<bar>)) \<noteq> CHR ''+''"
    using not_digit_hd [OF show_nat_digits] by auto
  show ?thesis
  proof (cases "i < 0")
    case True
    have "\<not> 2 ^ (n - 1) < nat \<bar>i\<bar>" using \<open>nat \<bar>i\<bar> \<le> 2 ^ (n - 1)\<close> by simp
    with True show ?thesis using u by (simp add: parse_int_def show_int_sign sign_str_def Let_def)
  next
    case False
    have "nat \<bar>i\<bar> < 2 ^ (n - 1)" using assms False by (simp add: nat_less_iff)
    then have "\<not> 2 ^ (n - 1) \<le> nat \<bar>i\<bar>" by simp
    with False show ?thesis
      using u h by (simp add: parse_int_def show_int_sign sign_str_def Let_def)
  qed
qed

lemma takeWhile_not_exp:
  "list_all is_digit ip \<Longrightarrow> (\<forall>f. fp = Some f \<longrightarrow> list_all is_digit f) \<Longrightarrow>
   takeWhile not_exp (literal neg ip fp (Some i)) = literal neg ip fp None \<and>
   takeWhile not_exp (literal neg ip fp None) = literal neg ip fp None"
proof -
  assume d: "list_all is_digit ip" "\<forall>f. fp = Some f \<longrightarrow> list_all is_digit f"
  have dig: "is_digit c \<Longrightarrow> not_exp c" for c by (auto simp: not_exp_def)
  have sgn: "\<forall>c \<in> set (sign_str neg). not_exp c" by (simp add: sign_str_def not_exp_def)
  have "\<forall>c \<in> set ip. not_exp c" "\<And>f. fp = Some f \<Longrightarrow> \<forall>c \<in> set f. not_exp c"
    using d dig by (auto simp: list_all_iff)
  moreover have "not_exp (CHR ''.'')" by (simp add: not_exp_def)
  ultimately have all: "\<forall>c \<in> set (literal neg ip fp None). not_exp c"
    using sgn by (cases fp) (simp_all add: literal_def ball_Un)
  have "literal neg ip fp (Some i) = literal neg ip fp None @ CHR ''e'' # show_int i"
    by (simp add: literal_def)
  then show ?thesis using all by (simp add: takeWhile_append2 not_exp_def)
qed

lemma parse_mantissa_literal:
  assumes ip: "list_all is_digit ip" "ip \<noteq> []"
    and fp: "\<And>f. fp = Some f \<Longrightarrow> list_all is_digit f"
    and e: "min_int32 + int (length (case fp of None \<Rightarrow> [] | Some f \<Rightarrow> f)) \<le> e" "e \<le> max_int32"
  shows "\<exists>d. parse_mantissa orig (literal neg ip fp None) e = Ok d \<and> coef d \<noteq> None
    \<and> denote d = of_int (signed_val neg (ip @ (case fp of None \<Rightarrow> [] | Some f \<Rightarrow> f)))
        * 10 powi (e - int (length (case fp of None \<Rightarrow> [] | Some f \<Rightarrow> f)))"
proof (cases fp)
  case None
  have "CHR ''.'' \<notin> set (sign_str neg @ ip)"
    using ip not_in_digits [of ip "CHR ''.''"] by (simp add: sign_str_def)
  then have "split_str (literal neg ip fp None) ''.'' = [sign_str neg @ ip]"
    by (simp add: literal_def None split_str_no_sep)
  then show ?thesis
    using ip e None by (simp add: parse_mantissa_def set_string_sign denote_def sint_of_int32
        literal_def)
next
  case (Some f)
  have f: "list_all is_digit f" using fp Some by simp
  define g where "g = trim_right (CHR ''0'') f"
  obtain n where n: "f = g @ replicate n (CHR ''0'')"
    using trim_right_split [of f "CHR ''0''"] unfolding g_def by (elim exE)
  have len: "length f = length g + n" using n by simp
  have g: "list_all is_digit g" using f n by simp
  have "CHR ''.'' \<notin> set (sign_str neg @ ip)" "CHR ''.'' \<notin> set f"
    using ip f not_in_digits [of ip "CHR ''.''"] not_in_digits [of f "CHR ''.''"]
    by (simp_all add: sign_str_def)
  then have sp: "split_str (literal neg ip fp None) ''.'' = [sign_str neg @ ip, f]"
    using split_str_single [of "CHR ''.''" "sign_str neg @ ip" f]
    by (simp add: literal_def Some split_str_no_sep)
  have ss: "set_string ((sign_str neg @ ip) @ g) = Some (signed_val neg (ip @ g))"
    using ip g set_string_sign [of "ip @ g" neg] by simp
  have r: "min_int32 \<le> e - int (length g)" "e - int (length g) \<le> max_int32"
    using e Some len by simp_all
  have pm: "parse_mantissa orig (literal neg ip fp None) e
      = Ok \<lparr>coef = Some (signed_val neg (ip @ g)), dexp = word_of_int (e - int (length g))\<rparr>"
    using r ss by (simp add: parse_mantissa_def sp Let_def g_def [symmetric])
  have "signed_val neg (ip @ f) = signed_val neg (ip @ g) * 10 ^ n"
    using signed_val_zeros [of neg "ip @ g" n] n by simp
  moreover have "(10::rat) powi (e - int (length g)) = 10 ^ n * 10 powi (e - int (length f))"
    using powi10_split [of "e - int (length f)" "e - int (length g)"] len by simp
  moreover have "sint (word_of_int (e - int (length g)) :: int32) = e - int (length g)"
    by (rule sint_of_int32 [OF r])
  ultimately show ?thesis
    unfolding pm by (simp add: denote_def Some del: of_int_diff of_int_of_nat_eq)
qed

lemma NewFromString_literal:
  assumes ip: "list_all is_digit ip" "ip \<noteq> []"
    and fp: "\<And>f. fp = Some f \<Longrightarrow> list_all is_digit f"
    and e: "min_int32 + int (length (case fp of None \<Rightarrow> [] | Some f \<Rightarrow> f))
        \<le> (case ex of None \<Rightarrow> 0 | Some i \<Rightarrow> i)"
      "(case ex of None \<Rightarrow> 0 | Some i \<Rightarrow> i) \<le> max_int32"
  shows "\<exists>d. NewFromString (literal neg ip fp ex) = Ok d \<and> coef d \<noteq> None
    \<and> denote d = of_int (signed_val neg (ip @ (case fp of None \<Rightarrow> [] | Some f \<Rightarrow> f)))
        * 10 powi ((case ex of None \<Rightarrow> 0 | Some i \<Rightarrow> i)
                   - int (length (case fp of None \<Rightarrow> [] | Some f \<Rightarrow> f)))"
proof (cases ex)
  case None
  then have "NewFromString (literal neg ip fp ex)
      = parse_mantissa (literal neg ip fp None) (literal neg ip fp None) 0"
    using takeWhile_not_exp [of ip fp neg 0] ip fp
    by (simp add: NewFromString_def Let_def del: takeWhile_eq_all_conv)
  then show ?thesis
    using parse_mantissa_literal [OF ip fp, where e = 0 and neg = neg] e None by simp
next
  case (Some i)
  define l where "l = literal neg ip fp (Some i)"
  define m where "m = literal neg ip fp None"
  have l: "l = m @ CHR ''e'' # show_int i" by (simp add: l_def m_def literal_def)
  have tw: "takeWhile not_exp l = m"
    using takeWhile_not_exp [of ip fp neg i] ip fp by (simp add: l_def m_def)
  have "parse_int 32 (show_int i) = (i, None)"
    using e Some by (intro parse_int_show_int) (simp_all add: min_int32_def max_int32_def)
  then have "NewFromString l = parse_mantissa l m i"
    unfolding NewFromString_def tw by (simp add: l)
  then show ?thesis
    using parse_mantissa_literal [OF ip fp, where e = i and neg = neg and orig = l] e Some
    by (simp add: l_def m_def)
qed

subsection \<open>What printing writes\<close>

lemma split_digits:
  assumes "(ip, f) = (if k < length (show_nat m)
      then (take (length (show_nat m) - k) (show_nat m), drop (length (show_nat m) - k) (show_nat m))
      else (''0'', replicate (k - length (show_nat m)) (CHR ''0'') @ show_nat m))"
  shows "list_all is_digit ip" "ip \<noteq> []" "list_all is_digit f" "length f = k"
    "digits_val (ip @ f) = m"
proof -
  have d: "list_all is_digit (show_nat m)" by (rule show_nat_digits)
  have td: "list_all is_digit (take j (show_nat m))" "list_all is_digit (drop j (show_nat m))" for j
    using d by (auto simp: list_all_iff dest: in_set_takeD in_set_dropD)
  show "list_all is_digit ip" "ip \<noteq> []" "list_all is_digit f" "length f = k"
    using assms d td by (auto split: if_splits simp: list_all_iff)
  have "digits_val ((CHR ''0'' # replicate j (CHR ''0'')) @ show_nat m) = m" for j
    using digits_val_append [of "replicate (Suc j) (CHR ''0'')" "show_nat m"]
      digits_val_zeros [of "Suc j"] by simp
  then show "digits_val (ip @ f) = m"
    using assms by (auto split: if_splits)
qed

lemma string_dec_literal:
  assumes "nil_ok d"
  shows "\<exists>neg ip fp. string_dec d trim = Ok (literal neg ip fp None)
    \<and> list_all is_digit ip \<and> ip \<noteq> [] \<and> (\<forall>f. fp = Some f \<longrightarrow> list_all is_digit f)
    \<and> int (length (case fp of None \<Rightarrow> [] | Some f \<Rightarrow> f)) \<le> - min_int32
    \<and> denote d = of_int (signed_val neg (ip @ (case fp of None \<Rightarrow> [] | Some f \<Rightarrow> f)))
        * 10 powi (- int (length (case fp of None \<Rightarrow> [] | Some f \<Rightarrow> f)))
    \<and> (\<not> trim \<longrightarrow> length (case fp of None \<Rightarrow> [] | Some f \<Rightarrow> f) = nat (- sint (dexp d)))"
proof (cases "0 \<le> sint (dexp d)")
  case True
  let ?v = "dval (rescale d 0)"
  have "denote d = of_int ?v"
    using denote_rescale [of 0 d] True by (simp add: denote_def)
  then show ?thesis
    using True by (intro exI [of _ "?v < 0"] exI [of _ "show_nat (nat \<bar>?v\<bar>)"] exI [of _ None])
      (simp add: string_dec_def literal_def show_int_sign show_nat_digits signed_val_show
        min_int32_def)
next
  case False
  then obtain v where v: "coef d = Some v" using assms by (auto simp: nil_ok_def)
  define k where "k = nat (- sint (dexp d))"
  have k: "0 < k" "int k = - sint (dexp d)" "int k \<le> - min_int32"
    using False sint_range32 [of "dexp d"] by (simp_all add: k_def)
  obtain ip f where sp: "(ip, f) = (if k < length (show_nat (nat \<bar>v\<bar>))
      then (take (length (show_nat (nat \<bar>v\<bar>)) - k) (show_nat (nat \<bar>v\<bar>)),
            drop (length (show_nat (nat \<bar>v\<bar>)) - k) (show_nat (nat \<bar>v\<bar>)))
      else (''0'', replicate (k - length (show_nat (nat \<bar>v\<bar>))) (CHR ''0'') @ show_nat (nat \<bar>v\<bar>)))"
    by (metis surj_pair)
  note digs = split_digits [OF sp]
  define g where "g = (if trim then trim_right (CHR ''0'') f else f)"
  obtain n where n: "f = g @ replicate n (CHR ''0'')"
    using trim_right_split [of f "CHR ''0''"] unfolding g_def
    by (metis append_Nil2 replicate_0)
  have len: "k = length g + n" using n digs(4) by (metis length_append length_replicate)
  have gd: "list_all is_digit g" using digs(3) n by (metis list_all_append)
  have "v = signed_val (v < 0) (ip @ f)" by (simp add: signed_val_def digs(5))
  also have "\<dots> = signed_val (v < 0) (ip @ g) * 10 ^ n"
    using signed_val_zeros [of "v < 0" "ip @ g" n] n by simp
  finally have "denote d = of_int (signed_val (v < 0) (ip @ g) * 10 ^ n) * 10 powi (- int k)"
    using k(2) v by (simp add: denote_def dval_cases)
  moreover have "(10::rat) powi (- int (length g)) = 10 ^ n * 10 powi (- int k)"
    using powi10_split [of "- int k" "- int (length g)"] len by simp
  ultimately have den: "denote d
      = of_int (signed_val (v < 0) (ip @ g)) * 10 powi (- int (length g))" by simp
  define fp where "fp = (if g = [] then None else Some g)"
  have fp: "(case fp of None \<Rightarrow> [] | Some f \<Rightarrow> f) = g" by (simp add: fp_def)
  have "string_dec d trim = Ok (literal (v < 0) ip fp None)"
    using False v by (auto simp: string_dec_def deref_def Let_def fp_def literal_def sign_str_def
        k_def [symmetric] g_def sp [symmetric])
  moreover have "\<not> trim \<longrightarrow> length g = nat (- sint (dexp d))"
    using digs(4) by (simp add: g_def k_def)
  ultimately show ?thesis
    using digs(1,2) gd den len k(3) fp
    by (intro exI [of _ "v < 0"] exI [of _ ip] exI [of _ fp]) (auto simp: fp_def)
qed

lemma string_roundtrip:
  assumes "nil_ok d"
  shows "\<exists>s x. string_dec d trim = Ok s \<and> NewFromString s = Ok x \<and> coef x \<noteq> None
    \<and> denote x = denote d"
proof -
  obtain neg ip fp where l: "string_dec d trim = Ok (literal neg ip fp None)"
    "list_all is_digit ip" "ip \<noteq> []" "\<And>f. fp = Some f \<Longrightarrow> list_all is_digit f"
    "int (length (case fp of None \<Rightarrow> [] | Some f \<Rightarrow> f)) \<le> - min_int32"
    "denote d = of_int (signed_val neg (ip @ (case fp of None \<Rightarrow> [] | Some f \<Rightarrow> f)))
        * 10 powi (- int (length (case fp of None \<Rightarrow> [] | Some f \<Rightarrow> f)))"
    using string_dec_literal [OF assms, of trim] by blast
  show ?thesis
    using NewFromString_literal [OF l(2,3,4), where ex = None and neg = neg] l(1,5,6)
    by (simp add: max_int32_def)
qed

lemma unat_byte: "unat (drop_bit k (w :: uint32) AND 255) = unat w div 2 ^ k mod 256"
proof -
  have "drop_bit k w AND 255 = take_bit 8 (drop_bit k w)"
    by (simp only: take_bit_eq_mask mask_eq_exp_minus_1) simp
  moreover have "unat (take_bit 8 (drop_bit k w)) = take_bit 8 (drop_bit k (unat w))"
    by (simp only: unsigned_take_bit_eq unsigned_drop_bit_eq take_bit_nat_eq_self [OF unsigned_less])
  ultimately show ?thesis by (simp only: take_bit_eq_mod drop_bit_eq_div) simp
qed

lemma bytes_val_be32 [simp]: "bytes_val 0 (be32 w) = unat w"
proof -
  let ?n = "unat w"
  have "?n < 2 ^ 32" using unsigned_less [of w] by simp
  then have "?n div 16777216 mod 256 = ?n div 16777216" by simp
  moreover have "256 * (?n div 16777216) + ?n div 65536 mod 256 = ?n div 65536"
    "256 * (?n div 65536) + ?n div 256 mod 256 = ?n div 256" "256 * (?n div 256) + ?n mod 256 = ?n"
    using mult_div_mod_eq [of 256 "?n div 65536"] mult_div_mod_eq [of 256 "?n div 256"]
    by (simp_all add: div_mult2_eq [symmetric])
  ultimately show ?thesis by (simp add: be32_def unat_byte)
qed

lemma length_be32 [simp]: "length (be32 w) = 4"
  by (simp add: be32_def)

lemma bytes_val_append: "bytes_val a (s @ t) = bytes_val (bytes_val a s) t"
  by (induction a s rule: bytes_val.induct) auto

lemma bytes_val_nat_bytes [simp]: "bytes_val 0 (nat_bytes n) = n"
proof (induction n rule: nat_bytes.induct)
  case (1 n)
  then show ?case by (subst nat_bytes.simps) (simp add: bytes_val_append)
qed

lemma ungob_gob_int: "ungob_int (gob_int x) = Ok (case x of None \<Rightarrow> 0 | Some v \<Rightarrow> v)"
  by (simp add: gob_int_def ungob_int_def split: option.split)

subsection \<open>Properties\<close>


lemma literal_example:
  "literal True ''12'' (Some ''500'') (Some 3) = ''-12.500e3''" "literal True ''12'' None None = ''-12''"
  by code_simp+


lemma literal_first:
  "list_all is_digit ip \<Longrightarrow> ip \<noteq> [] \<Longrightarrow>
   literal neg ip fp e \<noteq> [] \<and> hd (literal neg ip fp e) \<noteq> CHR 0x22
   \<and> hd (literal neg ip fp e) \<noteq> CHR ''n''"
proof -
  have n: "\<not> is_digit (CHR 0x22)" "\<not> is_digit (CHR ''n'')" by (simp_all add: is_digit_def)
  assume "list_all is_digit ip" "ip \<noteq> []"
  then obtain c cs where "ip = c # cs" "is_digit c" by (cases ip) auto
  then show ?thesis using n by (auto simp: literal_def sign_str_def)
qed

lemma String_dec_first:
  assumes "nil_ok d" "String_dec d = Ok s"
  shows "s \<noteq> []" "hd s \<noteq> CHR 0x22" "hd s \<noteq> CHR ''n''"
  using string_dec_literal [OF assms(1), of True] assms(2) literal_first
  by (auto simp: String_dec_def)

lemma unquote_quoted: "s \<noteq> [] \<Longrightarrow> unquote (CHR 0x22 # s @ [CHR 0x22]) = s"
  by (cases s) (auto simp: unquote_def)

text \<open>C18: printing a decimal and reading the text back gives the same number, for every decimal
  but a negative exponent with a nil coefficient (which no constructor makes): through
  \<open>String\<close> and \<open>NewFromString\<close>, through JSON with or without quotes, and through the value
  written to a database and scanned back.\<close>

theorem decimal_text_roundtrip:
  assumes "nil_ok d"
  shows "\<exists>s j x. String_dec d = Ok s \<and> MarshalJSON b d = Ok j \<and> Value_dec d = Ok s
    \<and> denote x = denote d \<and> NewFromString s = Ok x
    \<and> UnmarshalText d0 s = (x, None) \<and> UnmarshalJSON d0 j = (x, None)
    \<and> Scan_dec d0 (SqlString s) = Ok (x, None) \<and> Scan_dec d0 (SqlBytes s) = Ok (x, None)"
proof -
  obtain s x where s: "String_dec d = Ok s" "NewFromString s = Ok x" "denote x = denote d"
    using string_roundtrip [OF assms, of True] unfolding String_dec_def by blast
  note f = String_dec_first [OF assms s(1)]
  have u: "unquote s = s" using f by (auto simp: unquote_def)
  have n: "s \<noteq> ''null''" using f by auto
  show ?thesis
  proof (cases b)
    case True
    then show ?thesis
      using s u n by (auto simp: MarshalJSON_def UnmarshalJSON_def UnmarshalText_def Scan_dec_def
          Value_dec_def)
  next
    case False
    then show ?thesis
      using s u n unquote_quoted [OF f(1)]
      by (auto simp: MarshalJSON_def UnmarshalJSON_def UnmarshalText_def Scan_dec_def
          Value_dec_def)
  qed
qed

lemma decimal_text_roundtrip_witness:
  "\<exists>s j x. String_dec (New (- 1250) (- 2)) = Ok s \<and> MarshalJSON False (New (- 1250) (- 2)) = Ok j
    \<and> Value_dec (New (- 1250) (- 2)) = Ok s
    \<and> denote x = denote (New (- 1250) (- 2)) \<and> NewFromString s = Ok x
    \<and> UnmarshalText zero_dec s = (x, None) \<and> UnmarshalJSON zero_dec j = (x, None)
    \<and> Scan_dec zero_dec (SqlString s) = Ok (x, None) \<and> Scan_dec zero_dec (SqlBytes s) = Ok (x, None)"
  by (rule decimal_text_roundtrip) (simp add: nil_ok_def New_def)

text \<open>The binary form (and the gob form, which is the same) is lossless: decoding the encoding
  of any decimal gives that decimal, coefficient and exponent, a nil coefficient read back as 0;
  decoding fewer than four bytes panics.\<close>

theorem decimal_binary_roundtrip:
  "UnmarshalBinary (MarshalBinary d) = Ok (ensureInitialized d, None)
   \<and> GobDecode (GobEncode d) = Ok (ensureInitialized d, None)
   \<and> (is_panic (UnmarshalBinary data) = (length data < 4))"
proof -
  have "UnmarshalBinary (MarshalBinary d) = Ok (ensureInitialized d, None)"
    by (cases d) (simp add: UnmarshalBinary_def MarshalBinary_def ungob_gob_int Let_def
        ensureInitialized_def split: option.split)
  moreover have "ungob_int bs \<noteq> Panic m" for bs m
    by (simp add: ungob_int_def split: list.split)
  then have "is_panic (UnmarshalBinary data) = (length data < 4)"
    by (cases "ungob_int (drop 4 data)") (auto simp: UnmarshalBinary_def Let_def)
  ultimately show ?thesis by (simp add: GobDecode_def GobEncode_def)
qed

text \<open>\<open>StringFixed(places)\<close> with a positive number of places, not the least int32, never
  panics and writes exactly that many digits after the point; the number it writes is the rounded
  number, so it is within half a unit of its last place; reading the text back gives it.\<close>

theorem StringFixed_digits:
  assumes "0 < sint places"
  shows "\<exists>neg ip f x. StringFixed d places = Ok (literal neg ip (Some f) None)
    \<and> list_all is_digit ip \<and> ip \<noteq> [] \<and> list_all is_digit f \<and> length f = nat (sint places)
    \<and> NewFromString (literal neg ip (Some f) None) = Ok x
    \<and> denote x = denote (Round d places)
    \<and> \<bar>denote x - denote d\<bar> \<le> 1 / 2 * 10 powi (- sint places)"
proof -
  let ?r = "Round d places"
  have neg: "sint (- places) = - sint places"
    using assms by (intro sint_neg32) (simp add: min_int32_def)
  have ok: "nil_ok ?r" by (simp add: nil_ok_def Round_def Let_def)
  obtain neg ip fp where l: "string_dec ?r False = Ok (literal neg ip fp None)"
    "list_all is_digit ip" "ip \<noteq> []" "\<And>f. fp = Some f \<Longrightarrow> list_all is_digit f"
    "length (case fp of None \<Rightarrow> [] | Some f \<Rightarrow> f) = nat (sint places)"
    using string_dec_literal [OF ok, of False] by (auto simp: dexp_Round neg)
  obtain x where x: "NewFromString (literal neg ip fp None) = Ok x" "denote x = denote ?r"
    using string_roundtrip [OF ok, of False] l(1) by auto
  obtain f where f: "fp = Some f" using l(5) assms by (cases fp) auto
  let ?u = "(10::rat) powi (- sint places)" and ?y = "denote d * 10 powi sint places"
  have "denote ?r - denote d = (of_int (rnear ?y) - ?y) * ?u"
    by (simp add: denote_def dexp_Round dval_Round neg powi10_neg algebra_simps)
  then have "\<bar>denote ?r - denote d\<bar> = \<bar>of_int (rnear ?y) - ?y\<bar> * ?u"
    by (simp add: abs_mult)
  also have "\<dots> \<le> 1 / 2 * ?u"
    using rnear_error [of ?y] by (intro mult_right_mono) (simp_all add: less_imp_le abs_minus_commute)
  finally have "\<bar>denote x - denote d\<bar> \<le> 1 / 2 * ?u" using x(2) by simp
  then show ?thesis
    using l x f unfolding StringFixed_def
    by (intro exI [of _ neg] exI [of _ ip] exI [of _ f] exI [of _ x]) simp
qed

lemma StringFixed_digits_witness:
  "\<exists>neg ip f x. StringFixed (New 545 (- 2)) 1 = Ok (literal neg ip (Some f) None)
    \<and> list_all is_digit ip \<and> ip \<noteq> [] \<and> list_all is_digit f \<and> length f = nat (sint (1 :: int32))
    \<and> NewFromString (literal neg ip (Some f) None) = Ok x
    \<and> denote x = denote (Round (New 545 (- 2)) 1)
    \<and> \<bar>denote x - denote (New 545 (- 2))\<bar> \<le> 1 / 2 * 10 powi (- sint (1 :: int32))"
  by (rule StringFixed_digits) simp

subsection \<open>What the conversion from float64 computes\<close>

text \<open>The number an IEEE 754 float64 that is neither infinite nor NaN stands for.\<close>

definition float_pow :: "uint64 \<Rightarrow> int" where
  "float_pow bits = int (if float_exp bits = 0 then 1 else float_exp bits) - 1075"

definition float_full_mant :: "uint64 \<Rightarrow> nat" where
  "float_full_mant bits = (if float_exp bits = 0 then float_mant bits else float_mant bits + 2 ^ 52)"

definition float_value :: "uint64 \<Rightarrow> rat" where
  "float_value bits =
     (if float_sign bits then - 1 else 1) * of_nat (float_full_mant bits) * 2 powi float_pow bits"

lemma shift_out_spec:
  "0 < m \<Longrightarrow> \<exists>j. m = fst (shift_out m e) * 2 ^ j \<and> snd (shift_out m e) = e + word_of_nat j"
proof (induction m e rule: shift_out.induct)
  case (1 m e)
  show ?case
  proof (cases "odd m")
    case True
    then show ?thesis by (subst (1 2) shift_out.simps) (auto intro: exI [of _ 0])
  next
    case False
    then obtain j where j: "m div 2 = fst (shift_out (m div 2) (e + 1)) * 2 ^ j"
      "snd (shift_out (m div 2) (e + 1)) = e + 1 + word_of_nat j"
      using "1.IH" "1.prems" by (auto elim!: evenE)
    have "m = 2 * (m div 2)" using False by simp
    then have "m = fst (shift_out (m div 2) (e + 1)) * 2 ^ Suc j" using j(1) by simp
    moreover have "snd (shift_out (m div 2) (e + 1)) = e + word_of_nat (Suc j)"
      using j(2) by simp
    ultimately show ?thesis
      using False "1.prems" by (subst (1 2) shift_out.simps) (auto intro!: exI [of _ "Suc j"])
  qed
qed

lemma float_bounds: "float_mant bits < 2 ^ 52" "float_exp bits < 2 ^ 11"
proof -
  have "bits AND (push_bit 52 1 - 1) = take_bit 52 bits"
    by (simp add: take_bit_eq_mask mask_eq_exp_minus_1 push_bit_eq_mult)
  then show "float_mant bits < 2 ^ 52"
    by (simp only: float_mant_def unsigned_take_bit_eq) (rule take_bit_nat_less_exp)
  have "drop_bit 52 bits AND 2047 = take_bit 11 (drop_bit 52 bits)"
    by (simp only: take_bit_eq_mask mask_eq_exp_minus_1) simp
  then show "float_exp bits < 2 ^ 11"
    by (simp only: float_exp_def unsigned_take_bit_eq) (rule take_bit_nat_less_exp)
qed

lemma float_shift:
  assumes "float_full_mant bits = m" "0 < m" "(m', e') = shift_out m
      (word_of_nat (if float_exp bits = 0 then 1 else float_exp bits) - (1023 + 52))"
  shows "of_nat m * (2::rat) powi float_pow bits = of_nat m' * 2 powi sint e'"
    and "min_int32 < sint e'"
proof -
  let ?x = "if float_exp bits = 0 then 1 else float_exp bits"
  obtain j where j: "m = m' * 2 ^ j" "e' = word_of_nat ?x - (1023 + 52) + word_of_nat j"
    using shift_out_spec [OF assms(2)] assms(3) by (metis fst_conv snd_conv)
  have "m < 2 ^ 53"
    using float_bounds(1) [of bits] assms(1) by (auto simp: float_full_mant_def split: if_splits)
  moreover have "2 ^ j \<le> m" using j(1) assms(2) by (cases m') auto
  ultimately have "(2::nat) ^ j < 2 ^ 53" by linarith
  then have j53: "j < 53" by (rule power_less_imp_less_exp [rotated]) simp
  have "e' = word_of_int (int ?x - 1075 + int j)" by (simp add: j(2))
  moreover have "min_int32 \<le> int ?x - 1075 + int j" "int ?x - 1075 + int j \<le> max_int32"
    using j53 float_bounds(2) [of bits] by (simp_all add: min_int32_def max_int32_def)
  ultimately have "sint e' = float_pow bits + int j"
    by (simp only: sint_of_int32 float_pow_def)
  then show "of_nat m * (2::rat) powi float_pow bits = of_nat m' * 2 powi sint e'"
    and "min_int32 < sint e'"
    by (simp_all add: j(1) power_int_add float_pow_def min_int32_def)
qed

lemma powi_split_base: "i < 0 \<Longrightarrow> 5 ^ nat (- i) * (10::rat) powi i = 2 powi i"
proof -
  assume "i < 0"
  then obtain n where n: "i = - int n" using int_cases2 [of i] by auto
  have "(10::rat) ^ n = 2 ^ n * 5 ^ n" by (simp flip: power_mult_distrib)
  then show ?thesis by (simp add: n power_int_minus field_simps)
qed

lemma NewFromFloat_finite:
  assumes "float_exp bits \<noteq> 2047"
  shows "\<exists>d. NewFromFloat bits = Ok d \<and> denote d = float_value bits"
proof (cases "float_full_mant bits = 0")
  case True
  then have "float_exp bits = 0" "float_mant bits = 0"
    by (auto simp: float_full_mant_def split: if_splits)
  with True show ?thesis
    by (simp add: NewFromFloat_def NewFromFloatWithExponent_def float_value_def zero_dec_def
        denote_def)
next
  case False
  let ?x = "if float_exp bits = 0 then 1 else float_exp bits"
  define m where "m = float_full_mant bits"
  have m: "0 < m" using False by (simp add: m_def)
  obtain m' e' where sh: "(m', e') = shift_out m (word_of_nat ?x - (1023 + 52))"
    by (metis surj_pair)
  note val = float_shift [OF m_def [symmetric] m sh]
  let ?s = "if float_sign bits then - 1 else (1::int)"
  have nz: "\<not> (float_exp bits = 0 \<and> float_mant bits = 0)"
    using False by (auto simp: float_full_mant_def split: if_splits)
  have mn: "sint (word_of_int min_int32 :: int32) = min_int32"
    by (simp add: min_int32_def)
  have mn0: "min_int32 < 0" by (simp add: min_int32_def)
  have full: "(if float_exp bits = 0 then float_mant bits else float_mant bits + 2 ^ 52) = m"
    by (simp only: m_def float_full_mant_def)
  show ?thesis
  proof (cases "sint e' < 0")
    case True
    then have "NewFromFloat bits = Ok \<lparr>coef = Some (?s * (int m' * 5 ^ nat (- sint e'))), dexp = e'\<rparr>"
      using assms nz val(2) True
      unfolding NewFromFloat_def NewFromFloatWithExponent_def Let_def full sh [symmetric]
      by (auto simp: mn)
    moreover have "denote \<lparr>coef = Some (?s * (int m' * 5 ^ nat (- sint e'))), dexp = e'\<rparr>
        = of_int ?s * (of_nat m' * (5 ^ nat (- sint e') * 10 powi sint e'))"
      by (simp add: denote_def)
    moreover have "of_int ?s * (of_nat m' * (2::rat) powi sint e') = float_value bits"
      using val(1) by (simp add: float_value_def m_def)
    ultimately show ?thesis unfolding powi_split_base [OF True] by (simp only: res.inject) blast
  next
    case False
    have "NewFromFloat bits = Ok \<lparr>coef = Some (?s * (int m' * 2 ^ nat (sint e'))), dexp = 0\<rparr>"
      using assms nz val(2) False
      unfolding NewFromFloat_def NewFromFloatWithExponent_def Let_def full sh [symmetric]
      by (simp add: mn mn0 push_bit_eq_mult del: neq0_conv) blast
    moreover have "(2::rat) powi sint e' = 2 ^ nat (sint e')"
      using False power_int_of_nat [of "2::rat" "nat (sint e')"] by simp
    ultimately show ?thesis
      using val(1) by (simp add: float_value_def denote_def m_def)
  qed
qed

text \<open>\<open>NewFromFloat\<close> converts every finite float64, normal or subnormal, to a decimal that
  denotes exactly its value (the binary expansion, not the shortest decimal that reads back as the
  same float), and panics on NaN and on the infinities.\<close>

theorem NewFromFloat_exact:
  "case NewFromFloat bits of
      Ok d \<Rightarrow> float_exp bits \<noteq> 2047 \<and> denote d = float_value bits
    | Err e \<Rightarrow> False
    | Panic m \<Rightarrow> float_exp bits = 2047"
proof (cases "float_exp bits = 2047")
  case True
  then show ?thesis by (simp add: NewFromFloat_def NewFromFloatWithExponent_def)
next
  case False
  then show ?thesis using NewFromFloat_finite [OF False] by auto
qed

end
