(* ===== verification/Uuid.thy ===== *)
theory Uuid
  imports Prelude
begin

text \<open>
  Model of \<^verbatim>\<open>pkg/util/uuid.go\<close>: UUIDs as lists of 16 bytes, their text, binary and
  SQL forms, and the generators of versions 1 to 5. What the operating system provides (the clock,
  random bytes, the network interfaces) and the hash functions are arguments. \<open>String\<close> and
  \<open>UnmarshalText\<close> are inverse; generated UUIDs carry their version and variant; version 1 UUIDs
  do not repeat.
\<close>

unbundle bit_operations_syntax

type_synonym uuid = "byte list"

datatype uuid_error =
    UuidTooShort string | UuidTooLong string | UuidInvalidFormat | InvalidByte char
  | UuidNotSixteen nat | UuidCannotConvert

definition char_of_byte :: "byte \<Rightarrow> char" where
  "char_of_byte b = char_of (unat b)"

definition byte_of_char :: "char \<Rightarrow> byte" where
  "byte_of_char c = word_of_nat (of_char c)"

definition nil_uuid :: uuid where
  "nil_uuid = replicate 16 0"

subsection \<open>Package hex\<close>

fun hex_encode :: "byte list \<Rightarrow> string" where
  "hex_encode [] = []"
| "hex_encode (b # bs) = hex_char (unat b div 16) # hex_char (unat b mod 16) # hex_encode bs"

text \<open>\<open>hex.Decode\<close> on an even number of digits: the bytes written, and the error.\<close>

fun hex_decode :: "string \<Rightarrow> byte list \<times> uuid_error option" where
  "hex_decode (p # q # s) =
     (case hex_val p of None \<Rightarrow> ([], Some (InvalidByte p))
      | Some a \<Rightarrow> (case hex_val q of None \<Rightarrow> ([], Some (InvalidByte q))
        | Some b \<Rightarrow> (let (bs, err) = hex_decode s in (word_of_nat (16 * a + b) # bs, err))))"
| "hex_decode s = ([], None)"

subsection \<open>Operations\<close>

definition And :: "uuid \<Rightarrow> uuid \<Rightarrow> uuid" where
  "And u1 u2 = map (\<lambda>i. u1 ! i AND u2 ! i) [0..<16]"

definition Or :: "uuid \<Rightarrow> uuid \<Rightarrow> uuid" where
  "Or u1 u2 = map (\<lambda>i. u1 ! i OR u2 ! i) [0..<16]"

definition Equal_uuid :: "uuid \<Rightarrow> uuid \<Rightarrow> bool" where
  "Equal_uuid u1 u2 \<longleftrightarrow> u1 = u2"

definition Version :: "uuid \<Rightarrow> nat" where
  "Version u = unat (drop_bit 4 (u ! 6))"

datatype uuid_variant = VariantNCS | VariantRFC4122 | VariantMicrosoft | VariantFuture

definition Variant :: "uuid \<Rightarrow> uuid_variant" where
  "Variant u =
     (if u ! 8 AND 0x80 = 0 then VariantNCS
      else if (u ! 8 AND 0xc0) OR 0x80 = 0x80 then VariantRFC4122
      else if (u ! 8 AND 0xe0) OR 0xc0 = 0xc0 then VariantMicrosoft
      else VariantFuture)"

definition SetVersion :: "byte \<Rightarrow> uuid \<Rightarrow> uuid" where
  "SetVersion v u = u[6 := (u ! 6 AND 0x0f) OR push_bit 4 v]"

definition SetVariant :: "uuid \<Rightarrow> uuid" where
  "SetVariant u = u[8 := (u ! 8 AND 0xbf) OR 0x80]"

definition slice :: "nat \<Rightarrow> nat \<Rightarrow> 'a list \<Rightarrow> 'a list" where
  "slice i j xs = drop i (take j xs)"

definition String_uuid :: "uuid \<Rightarrow> string" where
  "String_uuid u =
     hex_encode (slice 0 4 u) @ ''-'' @ hex_encode (slice 4 6 u) @ ''-'' @ hex_encode (slice 6 8 u)
     @ ''-'' @ hex_encode (slice 8 10 u) @ ''-'' @ hex_encode (drop 10 u)"

definition write_at :: "nat \<Rightarrow> 'a list \<Rightarrow> 'a list \<Rightarrow> 'a list" where
  "write_at off xs u = take off u @ xs @ drop (off + length xs) u"

text \<open>
  The loop over the byte groups: the index of the group, the groups left, whether the text was
  braced, the text left, the position in the UUID, the UUID. Bytes decoded before an error stay
  written. \<open>t[0]\<close> on an empty slice panics.
\<close>

fun unmarshal_groups ::
  "string \<Rightarrow> nat \<Rightarrow> nat list \<Rightarrow> bool \<Rightarrow> string \<Rightarrow> nat \<Rightarrow> uuid
    \<Rightarrow> (uuid_error, uuid \<times> uuid_error option) res" where
  "unmarshal_groups text i [] braced t off u = Ok (u, None)"
| "unmarshal_groups text i (g # gs) braced t off u =
     (if 0 < i \<and> t = [] then Panic ''index out of range''
      else if 0 < i \<and> hd t \<noteq> CHR ''-'' then Ok (u, Some UuidInvalidFormat)
      else
        let t = (if 0 < i then tl t else t) in
        if length t < g then Ok (u, Some (UuidTooShort text))
        else if i = 4 \<and> g < length t
            \<and> (braced \<and> t ! g \<noteq> CHR ''}'' \<or> 1 < length (drop g t) \<or> \<not> braced)
        then Ok (u, Some (UuidTooLong text))
        else
          let (bs, err) = hex_decode (take g t);
              u = write_at off bs u
          in case err of
               Some e \<Rightarrow> Ok (u, Some e)
             | None \<Rightarrow> unmarshal_groups text (i + 1) gs braced (drop g t) (off + g div 2) u)"

definition urnPrefix :: string where "urnPrefix = ''urn:uuid:''"

definition byteGroups :: "nat list" where "byteGroups = [8, 4, 4, 4, 12]"

definition UnmarshalText_uuid ::
  "uuid \<Rightarrow> string \<Rightarrow> (uuid_error, uuid \<times> uuid_error option) res" where
  "UnmarshalText_uuid u text =
     (if length text < 32 then Ok (u, Some (UuidTooShort text))
      else if take 9 text = urnPrefix
      then unmarshal_groups text 0 byteGroups False (drop 9 text) 0 u
      else if hd text = CHR ''{'' then unmarshal_groups text 0 byteGroups True (tl text) 0 u
      else unmarshal_groups text 0 byteGroups False text 0 u)"

definition MarshalText_uuid :: "uuid \<Rightarrow> string" where
  "MarshalText_uuid u = String_uuid u"

definition MarshalBinary_uuid :: "uuid \<Rightarrow> string" where
  "MarshalBinary_uuid u = map char_of_byte u"

definition UnmarshalBinary_uuid :: "uuid \<Rightarrow> string \<Rightarrow> uuid \<times> uuid_error option" where
  "UnmarshalBinary_uuid u data =
     (if length data \<noteq> 16 then (u, Some (UuidNotSixteen (length data)))
      else (map byte_of_char data, None))"

definition Value_uuid :: "uuid \<Rightarrow> string" where
  "Value_uuid u = String_uuid u"

definition Scan_uuid :: "uuid \<Rightarrow> sql_value \<Rightarrow> (uuid_error, uuid \<times> uuid_error option) res" where
  "Scan_uuid u src =
     (case src of
        SqlBytes b \<Rightarrow> (if length b = 16 then Ok (UnmarshalBinary_uuid u b) else UnmarshalText_uuid u b)
      | SqlString s \<Rightarrow> UnmarshalText_uuid u s
      | _ \<Rightarrow> Ok (u, Some UuidCannotConvert))"

record null_uuid =
  nu_uuid :: uuid
  nu_valid :: bool

definition Value_null_uuid :: "null_uuid \<Rightarrow> string option" where
  "Value_null_uuid n = (if \<not> nu_valid n then None else Some (Value_uuid (nu_uuid n)))"

definition Scan_null_uuid ::
  "null_uuid \<Rightarrow> sql_value \<Rightarrow> (uuid_error, null_uuid \<times> uuid_error option) res" where
  "Scan_null_uuid n src =
     (if src = SqlNil then Ok (\<lparr>nu_uuid = nil_uuid, nu_valid = False\<rparr>, None)
      else bind_res (Scan_uuid (nu_uuid n) src)
             (\<lambda>(u, err). Ok (\<lparr>nu_uuid = u, nu_valid = True\<rparr>, err)))"

definition FromBytes :: "string \<Rightarrow> uuid \<times> uuid_error option" where
  "FromBytes input = UnmarshalBinary_uuid nil_uuid input"

definition FromBytesOrNil :: "string \<Rightarrow> uuid" where
  "FromBytesOrNil input = (case FromBytes input of (u, Some e) \<Rightarrow> nil_uuid | (u, None) \<Rightarrow> u)"

definition FromString :: "string \<Rightarrow> (uuid_error, uuid \<times> uuid_error option) res" where
  "FromString input = UnmarshalText_uuid nil_uuid input"

definition FromStringOrNil :: "string \<Rightarrow> (uuid_error, uuid) res" where
  "FromStringOrNil input =
     map_ok (\<lambda>r. case r of (u, Some e) \<Rightarrow> nil_uuid | (u, None) \<Rightarrow> u) (FromString input)"

subsection \<open>Generators\<close>

text \<open>
  What a generator reads from outside: the clock in 100-nanosecond intervals since 1582, the
  hardware addresses of the network interfaces (or an error), and the bytes that
  \<open>rand.Read\<close> returns for the clock sequence, for the hardware address and for a version 4 UUID
  (or an error, on which \<open>safeRandom\<close> panics).
\<close>

record uuid_env =
  timeNow :: uint64
  interfaces :: "byte list list option"
  rand_clock :: "(byte \<times> byte) option"
  rand_hw :: "byte list option"
  rand_v4 :: "byte list option"

record uuid_store =
  storageOnce :: bool
  clockSequence :: uint16
  lastTime :: uint64
  hardwareAddr :: "byte list"

type_synonym 'a ures = "(uuid_error, 'a) res"

definition epochStart :: uint64 where "epochStart = 122192928000000000"

definition unixTimeFunc :: "int64 \<Rightarrow> uint64" where
  "unixTimeFunc unixNano = epochStart + word_of_int (sgn (sint unixNano) * (\<bar>sint unixNano\<bar> div 100))"

definition safeRandom :: "'a option \<Rightarrow> 'a ures" where
  "safeRandom r = (case r of None \<Rightarrow> Panic ''rand.Read'' | Some bs \<Rightarrow> Ok bs)"

definition initClockSequence :: "uuid_env \<Rightarrow> uint16 ures" where
  "initClockSequence e =
     map_ok (\<lambda>(hi, lo). push_bit 8 (ucast hi) OR ucast lo) (safeRandom (rand_clock e))"

definition initHardwareAddr :: "uuid_env \<Rightarrow> byte list ures" where
  "initHardwareAddr e =
     (case interfaces e of
        Some ifs \<Rightarrow>
          (case find (\<lambda>hw. 6 \<le> length hw) ifs of
             Some hw \<Rightarrow> Ok (take 6 hw)
           | None \<Rightarrow> map_ok (\<lambda>bs. bs[0 := bs ! 0 OR 1]) (safeRandom (rand_hw e)))
      | None \<Rightarrow> map_ok (\<lambda>bs. bs[0 := bs ! 0 OR 1]) (safeRandom (rand_hw e)))"

definition initStorage :: "uuid_env \<Rightarrow> uuid_store \<Rightarrow> uuid_store ures" where
  "initStorage e st =
     bind_res (initClockSequence e) (\<lambda>c. bind_res (initHardwareAddr e) (\<lambda>hw.
       Ok (st\<lparr>storageOnce := True, clockSequence := c, hardwareAddr := hw\<rparr>)))"

definition getStorage :: "uuid_env \<Rightarrow> uuid_store \<Rightarrow> (uint64 \<times> uint16 \<times> byte list \<times> uuid_store) ures" where
  "getStorage e st =
     bind_res (if storageOnce st then Ok st else initStorage e st) (\<lambda>st.
       let c = (if timeNow e \<le> lastTime st then clockSequence st + 1 else clockSequence st)
       in Ok (timeNow e, c, hardwareAddr st, st\<lparr>clockSequence := c, lastTime := timeNow e\<rparr>))"

definition put16 :: "nat \<Rightarrow> uint16 \<Rightarrow> uuid \<Rightarrow> uuid" where
  "put16 off w u = write_at off [ucast (drop_bit 8 w), ucast w] u"

definition put32 :: "nat \<Rightarrow> uint32 \<Rightarrow> uuid \<Rightarrow> uuid" where
  "put32 off w u =
     write_at off [ucast (drop_bit 24 w), ucast (drop_bit 16 w), ucast (drop_bit 8 w), ucast w] u"

definition NewV1 :: "uuid_env \<Rightarrow> uuid_store \<Rightarrow> (uuid \<times> uuid_store) ures" where
  "NewV1 e st =
     map_ok (\<lambda>(t, c, hw, st).
       let u = put32 0 (ucast t) nil_uuid;
           u = put16 4 (ucast (drop_bit 32 t)) u;
           u = put16 6 (ucast (drop_bit 48 t)) u;
           u = put16 8 c u;
           u = write_at 10 hw u
       in (SetVariant (SetVersion 1 u), st)) (getStorage e st)"

definition NewV2 :: "uint32 \<Rightarrow> uint32 \<Rightarrow> byte \<Rightarrow> uuid_env \<Rightarrow> uuid_store \<Rightarrow> (uuid \<times> uuid_store) ures" where
  "NewV2 posixUID posixGID domain e st =
     map_ok (\<lambda>(t, c, hw, st).
       let u = (if domain = 0 then put32 0 posixUID nil_uuid
                else if domain = 1 then put32 0 posixGID nil_uuid else nil_uuid);
           u = put16 4 (ucast (drop_bit 32 t)) u;
           u = put16 6 (ucast (drop_bit 48 t)) u;
           u = put16 8 c u;
           u = u[9 := domain];
           u = write_at 10 hw u
       in (SetVariant (SetVersion 2 u), st)) (getStorage e st)"

text \<open>\<open>h\<close> is the hash of what was written, at least 16 bytes for MD5 and SHA-1.\<close>

definition newFromHash :: "(byte list \<Rightarrow> byte list) \<Rightarrow> uuid \<Rightarrow> string \<Rightarrow> uuid" where
  "newFromHash h ns name = write_at 0 (take 16 (h (ns @ map byte_of_char name))) nil_uuid"

definition NewV3 :: "(byte list \<Rightarrow> byte list) \<Rightarrow> uuid \<Rightarrow> string \<Rightarrow> uuid" where
  "NewV3 md5 ns name = SetVariant (SetVersion 3 (newFromHash md5 ns name))"

definition NewV4 :: "uuid_env \<Rightarrow> uuid ures" where
  "NewV4 e = map_ok (\<lambda>u. SetVariant (SetVersion 4 u)) (safeRandom (rand_v4 e))"

definition NewV5 :: "(byte list \<Rightarrow> byte list) \<Rightarrow> uuid \<Rightarrow> string \<Rightarrow> uuid" where
  "NewV5 sha1 ns name = SetVariant (SetVersion 5 (newFromHash sha1 ns name))"

subsection \<open>Text\<close>

lemma unat_byte_less [simp]: "unat (b :: byte) < 256"
  using unsigned_less [of b] by simp

lemma hex_val_char: "n < 16 \<Longrightarrow> hex_val (hex_char n) = Some n"
  by (simp add: hex_val_def hex_char_def Let_def)

lemma hex_decode_encode [simp]: "hex_decode (hex_encode bs) = (bs, None)"
proof (induction bs)
  case (Cons b bs)
  have "unat b div 16 < 16" by (simp add: less_mult_imp_div_less)
  then show ?case using Cons by (simp add: hex_val_char)
qed simp

lemma length_hex_encode [simp]: "length (hex_encode bs) = 2 * length bs"
  by (induction bs) auto

lemma hex_encode_decode:
  "hex_decode s = (bs, None) \<Longrightarrow> even (length s) \<Longrightarrow> length s = 2 * length bs"
  by (induction s arbitrary: bs rule: hex_decode.induct) (auto split: option.splits prod.splits)

lemma length_write_at [simp]:
  "off + length xs \<le> length u \<Longrightarrow> length (write_at off xs u) = length u"
  by (simp add: write_at_def)

lemma unmarshal_first:
  "g = 2 * length bs \<Longrightarrow>
   unmarshal_groups text 0 (g # gs) braced (hex_encode bs @ t) off u
     = unmarshal_groups text 1 gs braced t (off + length bs) (write_at off bs u)"
  by simp

lemma unmarshal_next:
  "g = 2 * length bs \<Longrightarrow> 0 < i \<Longrightarrow> i \<noteq> 4 \<or> t = [] \<or> braced \<and> t = ''}'' \<Longrightarrow>
   unmarshal_groups text i (g # gs) braced (CHR ''-'' # hex_encode bs @ t) off u
     = unmarshal_groups text (i + 1) gs braced t (off + length bs) (write_at off bs u)"
  by (auto simp: nth_append)

lemma unmarshal_String:
  assumes u: "length u = 16" and u0: "length u0 = 16" and t: "t = [] \<or> braced \<and> t = ''}''"
  shows "unmarshal_groups text 0 byteGroups braced (String_uuid u @ t) 0 u0 = Ok (u, None)"
proof -
  have l: "length (slice 0 4 u) = 4" "length (slice 4 6 u) = 2" "length (slice 6 8 u) = 2"
    "length (slice 8 10 u) = 2" "length (drop 10 u) = 6"
    using u by (simp_all add: slice_def)
  have w: "write_at 10 (drop 10 u) (write_at 8 (slice 8 10 u) (write_at 6 (slice 6 8 u)
      (write_at 4 (slice 4 6 u) (write_at 0 (slice 0 4 u) u0)))) = u"
    by (rule nth_equalityI) (use u u0 in \<open>auto simp: write_at_def slice_def nth_append\<close>)
  show ?thesis
    unfolding byteGroups_def String_uuid_def append_assoc append_Cons append_Nil
    using l t w
    by (simp add: unmarshal_first unmarshal_next del: unmarshal_groups.simps(2))
qed

lemma String_uuid_shape:
  assumes "length u = 16"
  shows "length (String_uuid u) = 36 \<and> hd (String_uuid u) \<noteq> CHR ''u''
    \<and> hd (String_uuid u) \<noteq> CHR ''{''"
proof -
  obtain b bs where b: "slice 0 4 u = b # bs"
    using assms by (cases "slice 0 4 u") (auto simp: slice_def)
  have "unat b div 16 < 16" by (simp add: less_mult_imp_div_less)
  then have "hex_val (hex_char (unat b div 16)) = Some (unat b div 16)" by (rule hex_val_char)
  moreover have "hex_val (CHR ''u'') = None" "hex_val (CHR ''{'') = None"
    by (simp_all add: hex_val_def)
  ultimately have "hex_char (unat b div 16) \<noteq> CHR ''u''" "hex_char (unat b div 16) \<noteq> CHR ''{''"
    by auto
  moreover have "length (String_uuid u) = 36"
    using assms by (simp add: String_uuid_def slice_def)
  moreover have "hd (String_uuid u) = hex_char (unat b div 16)"
    by (simp add: String_uuid_def b)
  ultimately show ?thesis by simp
qed

lemma byte_of_char_of_byte [simp]: "byte_of_char (char_of_byte b) = b"
proof -
  have "unat b < 256" by simp
  then show ?thesis by (simp add: byte_of_char_def char_of_byte_def)
qed

lemma UnmarshalText_String:
  assumes "length u = 16" "length u0 = 16"
  shows "UnmarshalText_uuid u0 (String_uuid u) = Ok (u, None)"
proof -
  note sh = String_uuid_shape [OF assms(1)]
  obtain c s where s: "String_uuid u = c # s" using sh by (cases "String_uuid u") auto
  then have "urnPrefix \<noteq> take 9 (String_uuid u)" using sh by (auto simp: urnPrefix_def)
  then show ?thesis
    using sh unmarshal_String [OF assms, of "[]" False] by (auto simp: UnmarshalText_uuid_def)
qed

text \<open>C20: the text form of a UUID reads back as that UUID whatever the receiver held: the canonical
  string, the string in braces and the string with the \<open>urn:uuid:\<close> prefix are all accepted and
  give all 16 bytes; so do the binary form, a scanned string, a scanned 36-byte slice and a scanned
  16-byte slice.\<close>

theorem uuid_roundtrip:
  assumes "length u = 16" "length u0 = 16"
  shows "UnmarshalText_uuid u0 (String_uuid u) = Ok (u, None)
    \<and> UnmarshalText_uuid u0 (''{'' @ String_uuid u @ ''}'') = Ok (u, None)
    \<and> UnmarshalText_uuid u0 (urnPrefix @ String_uuid u) = Ok (u, None)
    \<and> UnmarshalBinary_uuid u0 (MarshalBinary_uuid u) = (u, None)
    \<and> Scan_uuid u0 (SqlString (Value_uuid u)) = Ok (u, None)
    \<and> Scan_uuid u0 (SqlBytes (MarshalText_uuid u)) = Ok (u, None)
    \<and> Scan_uuid u0 (SqlBytes (MarshalBinary_uuid u)) = Ok (u, None)"
proof -
  note sh = String_uuid_shape [OF assms(1)]
  note 1 = UnmarshalText_String [OF assms]
  have 2: "UnmarshalText_uuid u0 (''{'' @ String_uuid u @ ''}'') = Ok (u, None)"
    using sh unmarshal_String [OF assms, of "''}''" True]
    by (auto simp: UnmarshalText_uuid_def urnPrefix_def)
  have 3: "UnmarshalText_uuid u0 (urnPrefix @ String_uuid u) = Ok (u, None)"
    using sh unmarshal_String [OF assms, of "[]" False]
    by (auto simp: UnmarshalText_uuid_def urnPrefix_def)
  have 4: "UnmarshalBinary_uuid u0 (MarshalBinary_uuid u) = (u, None)"
    using assms by (simp add: UnmarshalBinary_uuid_def MarshalBinary_uuid_def comp_def)
  have "length (MarshalBinary_uuid u) = 16" using assms by (simp add: MarshalBinary_uuid_def)
  with 1 2 3 4 sh show ?thesis by (simp add: Scan_uuid_def Value_uuid_def MarshalText_uuid_def)
qed

lemma uuid_roundtrip_witness:
  "FromString (String_uuid (replicate 16 0xab)) = Ok (replicate 16 0xab, None)"
  using uuid_roundtrip [of "replicate 16 0xab" nil_uuid]
  by (simp add: FromString_def nil_uuid_def)

subsection \<open>Acceptance\<close>

lemma hex_char_val: "hex_val c = Some n \<Longrightarrow> n < 16 \<and> hex_char n = to_lower c"
proof -
  assume h: "hex_val c = Some n"
  have c: "char_of (of_char c :: nat) = c" by simp
  show ?thesis
    using h by (auto simp: hex_val_def hex_char_def to_lower_def Let_def split: if_splits)
qed

lemma hex_decode_sound:
  "hex_decode s = (bs, None) \<Longrightarrow> even (length s) \<Longrightarrow> hex_encode bs = map to_lower s"
proof (induction s arbitrary: bs rule: hex_decode.induct)
  case (1 p q s)
  then obtain a b cs where h: "hex_val p = Some a" "hex_val q = Some b"
    "hex_decode s = (cs, None)" "bs = word_of_nat (16 * a + b) # cs"
    by (auto split: option.splits prod.splits)
  have ab: "a < 16" "b < 16" using hex_char_val h(1,2) by blast+
  then have "unat (word_of_nat (16 * a + b) :: byte) = 16 * a + b"
    by (simp only: unsigned_of_nat) (simp add: take_bit_nat_eq_self)
  then show ?case
    using 1 h ab hex_char_val [OF h(1)] hex_char_val [OF h(2)] by simp
qed auto

lemma unmarshal_inv:
  assumes "unmarshal_groups text i (g # gs) braced t off u = Ok (u', None)" "even g"
  obtains x bs r where "t = (if 0 < i then ''-'' else []) @ x @ r" "length x = g"
    "hex_encode bs = map to_lower x" "2 * length bs = g"
    "unmarshal_groups text (i + 1) gs braced r (off + length bs) (write_at off bs u) = Ok (u', None)"
    "i = 4 \<Longrightarrow> r = [] \<or> braced \<and> r = ''}''"
proof -
  define t' where "t' = (if 0 < i then tl t else t)"
  obtain bs where h: "\<not> (0 < i \<and> t = [])" "\<not> (0 < i \<and> hd t \<noteq> CHR ''-'')" "g \<le> length t'"
    "\<not> (i = 4 \<and> g < length t' \<and> (braced \<and> t' ! g \<noteq> CHR ''}'' \<or> 1 < length (drop g t') \<or> \<not> braced))"
    "hex_decode (take g t') = (bs, None)"
    "unmarshal_groups text (i + 1) gs braced (drop g t') (off + g div 2) (write_at off bs u) = Ok (u', None)"
    using assms(1) unfolding t'_def
    by (auto simp: Let_def split: if_splits prod.splits option.splits)
  have len: "2 * length bs = g"
    using hex_encode_decode [OF h(5)] h(3) assms(2) by simp
  show thesis
  proof (rule that)
    show "t = (if 0 < i then ''-'' else []) @ take g t' @ drop g t'"
      using h(1,2) by (cases t) (auto simp: t'_def)
    show "hex_encode bs = map to_lower (take g t')"
      using hex_decode_sound [OF h(5)] h(3) assms(2) by simp
    show "unmarshal_groups text (i + 1) gs braced (drop g t') (off + length bs) (write_at off bs u) = Ok (u', None)"
      using h(6) by (simp flip: len)
    show "drop g t' = [] \<or> braced \<and> drop g t' = ''}''" if "i = 4"
    proof (cases "g < length t'")
      case True
      then have "drop g t' = t' ! g # drop (Suc g) t'" by (simp add: Cons_nth_drop_Suc)
      with that h(4) True show ?thesis by auto
    qed simp
  qed (use h(3) len in simp_all)
qed

lemma to_lower_dash [simp]: "to_lower (CHR ''-'') = CHR ''-''"
  by (simp add: to_lower_def)

lemma unmarshal_sound:
  assumes a: "unmarshal_groups text 0 byteGroups braced t 0 u0 = Ok (u, None)" and u0: "length u0 = 16"
  shows "\<exists>core post. t = core @ post \<and> (post = [] \<or> braced \<and> post = ''}'')
    \<and> map to_lower core = String_uuid u \<and> length u = 16"
proof -
  note a = a [unfolded byteGroups_def]
  obtain x0 b0 r0 where 0: "t = x0 @ r0" "hex_encode b0 = map to_lower x0" "length b0 = 4"
    "unmarshal_groups text 1 [4, 4, 4, 12] braced r0 4 (write_at 0 b0 u0) = Ok (u, None)"
    by (rule unmarshal_inv [OF a]) auto
  obtain x1 b1 r1 where 1: "r0 = ''-'' @ x1 @ r1" "hex_encode b1 = map to_lower x1" "length b1 = 2"
    "unmarshal_groups text 2 [4, 4, 12] braced r1 6 (write_at 4 b1 (write_at 0 b0 u0)) = Ok (u, None)"
    by (rule unmarshal_inv [OF 0(4)])
      (auto simp: numeral_2_eq_2 [symmetric] simp del: unmarshal_groups.simps)
  obtain x2 b2 r2 where 2: "r1 = ''-'' @ x2 @ r2" "hex_encode b2 = map to_lower x2" "length b2 = 2"
    "unmarshal_groups text 3 [4, 12] braced r2 8
       (write_at 6 b2 (write_at 4 b1 (write_at 0 b0 u0))) = Ok (u, None)"
    by (rule unmarshal_inv [OF 1(4)]) (auto simp del: unmarshal_groups.simps)
  obtain x3 b3 r3 where 3: "r2 = ''-'' @ x3 @ r3" "hex_encode b3 = map to_lower x3" "length b3 = 2"
    "unmarshal_groups text 4 [12] braced r3 10
       (write_at 8 b3 (write_at 6 b2 (write_at 4 b1 (write_at 0 b0 u0)))) = Ok (u, None)"
    by (rule unmarshal_inv [OF 2(4)]) (auto simp del: unmarshal_groups.simps)
  obtain x4 b4 r4 where 4: "r3 = ''-'' @ x4 @ r4" "hex_encode b4 = map to_lower x4" "length b4 = 6"
    "u = write_at 10 b4 (write_at 8 b3 (write_at 6 b2 (write_at 4 b1 (write_at 0 b0 u0))))"
    "r4 = [] \<or> braced \<and> r4 = ''}''"
    by (rule unmarshal_inv [OF 3(4)]) auto
  note l = 0(3) 1(3) 2(3) 3(3) 4(3)
  have u: "u = b0 @ b1 @ b2 @ b3 @ b4"
    unfolding 4(4) using l u0 by (simp add: write_at_def)
  have "slice 0 4 u = b0" "slice 4 6 u = b1" "slice 6 8 u = b2" "slice 8 10 u = b3" "drop 10 u = b4"
    using l by (simp_all add: u slice_def)
  then have "String_uuid u = map to_lower (x0 @ ''-'' @ x1 @ ''-'' @ x2 @ ''-'' @ x3 @ ''-'' @ x4)"
    using 0(2) 1(2) 2(2) 3(2) 4(2) by (simp add: String_uuid_def)
  moreover have "t = (x0 @ ''-'' @ x1 @ ''-'' @ x2 @ ''-'' @ x3 @ ''-'' @ x4) @ r4"
    using 0(1) 1(1) 2(1) 3(1) 4(1) by simp
  moreover have "length u = 16" using l by (simp add: u)
  ultimately show ?thesis using 4(5) by metis
qed

text \<open>Whatever \<open>UnmarshalText\<close> accepts is the canonical form of the UUID it returns up to the
  case of the hexadecimal digits: alone, after the \<open>urn:uuid:\<close> prefix, or after an opening brace
  (the closing brace may be missing). Text shorter than 32 bytes is an error and leaves the
  receiver as it was.\<close>

theorem uuid_accepts_only_canonical:
  assumes "length u0 = 16" "UnmarshalText_uuid u0 s = Ok (u, None)"
  shows "\<exists>pre core post. s = pre @ core @ post \<and> map to_lower core = String_uuid u
    \<and> (pre, post) \<in> {([], []), (urnPrefix, []), (''{'', []), (''{'', ''}'')} \<and> length u = 16"
proof -
  have s: "32 \<le> length s" using assms(2) by (auto simp: UnmarshalText_uuid_def split: if_splits)
  consider (urn) "take 9 s = urnPrefix" "unmarshal_groups s 0 byteGroups False (drop 9 s) 0 u0 = Ok (u, None)"
    | (brace) "hd s = CHR ''{''" "unmarshal_groups s 0 byteGroups True (tl s) 0 u0 = Ok (u, None)"
    | (plain) "unmarshal_groups s 0 byteGroups False s 0 u0 = Ok (u, None)"
    using assms(2) s by (auto simp: UnmarshalText_uuid_def split: if_splits)
  then show ?thesis
  proof cases
    case urn
    obtain core post where c: "drop 9 s = core @ post" "post = []"
      "map to_lower core = String_uuid u" "length u = 16"
      using unmarshal_sound [OF urn(2) assms(1)] by auto
    have "s = urnPrefix @ core @ post" using urn(1) c(1) append_take_drop_id [of 9 s] by simp
    with c show ?thesis by (intro exI [of _ urnPrefix] exI [of _ core] exI [of _ post]) simp
  next
    case brace
    obtain core post where c: "tl s = core @ post" "post = [] \<or> post = ''}''"
      "map to_lower core = String_uuid u" "length u = 16"
      using unmarshal_sound [OF brace(2) assms(1)] by auto
    have "s = ''{'' @ core @ post" using brace(1) s c(1) by (cases s) auto
    with c show ?thesis by (intro exI [of _ "''{''"] exI [of _ core] exI [of _ post]) auto
  next
    case plain
    obtain core where c: "s = core" "map to_lower core = String_uuid u" "length u = 16"
      using unmarshal_sound [OF plain assms(1)] by auto
    then show ?thesis by (intro exI [of _ "[]"] exI [of _ core]) simp
  qed
qed

lemma uuid_accepts_only_canonical_witness:
  "\<exists>pre core post. String_uuid nil_uuid = pre @ core @ post
    \<and> map to_lower core = String_uuid nil_uuid
    \<and> (pre, post) \<in> {([], []), (urnPrefix, []), (''{'', []), (''{'', ''}'')} \<and> length nil_uuid = 16"
  by (rule uuid_accepts_only_canonical [of nil_uuid, OF _ UnmarshalText_String]) (simp_all add: nil_uuid_def)

text \<open>A text the loop runs out of: the fifth group's separator is read from an empty slice.\<close>

lemma UnmarshalText_panics: "is_panic (UnmarshalText_uuid nil_uuid ''urn:uuid:6ba7b810-9dad-11d1-80b4'')"
  by code_simp

subsection \<open>What the generators produce\<close>

definition is_rfc4122 :: "nat \<Rightarrow> uuid \<Rightarrow> bool" where
  "is_rfc4122 v u \<longleftrightarrow> length u = 16 \<and> Version u = v \<and> Variant u = VariantRFC4122"

lemma drop_version:
  "v \<in> {1, 2, 3, 4, 5} \<Longrightarrow> drop_bit 4 (((b :: byte) AND 0x0f) OR push_bit 4 v) = v"
  by (rule bit_word_eqI)
    (auto simp: bit_simps bit_numeral_rec numeral_eq_Suc less_Suc_eq bit_1_iff)

lemma drop_variant:
  "((b AND 0xbf) OR 0x80) AND 0x80 = (0x80 :: byte)"
  "(((b AND 0xbf) OR 0x80) AND 0xc0) OR 0x80 = (0x80 :: byte)"
  by (rule bit_word_eqI; auto simp: bit_simps bit_numeral_rec numeral_eq_Suc less_Suc_eq)+

lemma is_rfc4122_set:
  assumes "length u = 16" "v \<in> {1, 2, 3, 4, 5}"
  shows "is_rfc4122 (unat v) (SetVariant (SetVersion v u))"
  using assms(1) drop_version [OF assms(2)] drop_variant
  by (simp add: is_rfc4122_def Version_def Variant_def SetVariant_def SetVersion_def)

lemma length_put [simp]:
  "off + 2 \<le> length u \<Longrightarrow> length (put16 off w u) = length u"
  "off + 4 \<le> length u \<Longrightarrow> length (put32 off x u) = length u"
  by (simp_all add: put16_def put32_def)

lemma length_nil_uuid [simp]: "length nil_uuid = 16"
  by (simp add: nil_uuid_def)

definition store_ok :: "uuid_store \<Rightarrow> bool" where
  "store_ok st \<longleftrightarrow> (storageOnce st \<longrightarrow> length (hardwareAddr st) = 6)"

definition env_ok :: "uuid_env \<Rightarrow> bool" where
  "env_ok e \<longleftrightarrow> (case rand_hw e of None \<Rightarrow> True | Some bs \<Rightarrow> length bs = 6)
     \<and> (case rand_v4 e of None \<Rightarrow> True | Some bs \<Rightarrow> length bs = 16)"

lemma initHardwareAddr_length:
  "env_ok e \<Longrightarrow> initHardwareAddr e = Ok hw \<Longrightarrow> length hw = 6"
  by (auto simp: initHardwareAddr_def env_ok_def safeRandom_def find_Some_iff
      split: option.splits)

lemma getStorage_ok:
  assumes "store_ok st" "env_ok e" "getStorage e st = Ok (t, c, hw, st')"
  shows "length hw = 6" "storageOnce st'" "store_ok st'" "t = timeNow e" "lastTime st' = t"
    "clockSequence st' = c" "hardwareAddr st' = hw"
proof -
  obtain s where s: "(if storageOnce st then Ok st else initStorage e st) = Ok s"
    "storageOnce s \<and> length (hardwareAddr s) = 6"
    using assms initHardwareAddr_length [OF assms(2)]
    by (auto simp: getStorage_def initStorage_def store_ok_def go_res split: if_splits)
  with assms(3) show "length hw = 6" "storageOnce st'" "store_ok st'" "t = timeNow e"
    "lastTime st' = t" "clockSequence st' = c" "hardwareAddr st' = hw"
    by (auto simp: getStorage_def store_ok_def Let_def)
qed

text \<open>C21: every generator returns 16 bytes with the version number it is named for and the RFC 4122
  variant, for every clock, interface list, random source, domain, hash (of at least 16 bytes),
  namespace and name; versions 1, 2 and 4 return no error, and panic only when the random source
  fails. The generators of versions 1 and 2 keep the store well-formed.\<close>

theorem uuid_generators_stamp:
  assumes "store_ok st" "env_ok e" "\<forall>bs. 16 \<le> length (h bs)"
  shows "(case NewV1 e st of Ok (u, st') \<Rightarrow> is_rfc4122 1 u \<and> store_ok st' | Err x \<Rightarrow> False
          | Panic m \<Rightarrow> rand_clock e = None \<or> rand_hw e = None)
    \<and> (case NewV2 uid gid domain e st of Ok (u, st') \<Rightarrow> is_rfc4122 2 u \<and> store_ok st'
          | Err x \<Rightarrow> False | Panic m \<Rightarrow> rand_clock e = None \<or> rand_hw e = None)
    \<and> is_rfc4122 3 (NewV3 h ns name)
    \<and> (case NewV4 e of Ok u \<Rightarrow> is_rfc4122 4 u | Err x \<Rightarrow> False | Panic m \<Rightarrow> rand_v4 e = None)
    \<and> is_rfc4122 5 (NewV5 h ns name)"
proof -
  have st: "case getStorage e st of Ok (t, c, hw, st') \<Rightarrow> length hw = 6 \<and> store_ok st'
      | Err x \<Rightarrow> False | Panic m \<Rightarrow> rand_clock e = None \<or> rand_hw e = None"
  proof (cases "getStorage e st")
    case (Ok r)
    then show ?thesis using getStorage_ok [OF assms(1,2)] by (cases r) auto
  qed (auto simp: getStorage_def initStorage_def initClockSequence_def initHardwareAddr_def
      safeRandom_def Let_def split: if_splits option.splits)
  have n: "length (newFromHash h ns name) = 16"
    using assms(3) by (simp add: newFromHash_def)
  have 1: "case NewV1 e st of Ok (u, st') \<Rightarrow> is_rfc4122 1 u \<and> store_ok st' | Err x \<Rightarrow> False
      | Panic m \<Rightarrow> rand_clock e = None \<or> rand_hw e = None"
    using st is_rfc4122_set [where v = 1]
    by (auto simp: NewV1_def Let_def split: res.splits prod.splits)
  have 2: "case NewV2 uid gid domain e st of Ok (u, st') \<Rightarrow> is_rfc4122 2 u \<and> store_ok st'
      | Err x \<Rightarrow> False | Panic m \<Rightarrow> rand_clock e = None \<or> rand_hw e = None"
    using st is_rfc4122_set [where v = 2]
    by (auto simp: NewV2_def Let_def split: res.splits prod.splits)
  have 4: "case NewV4 e of Ok u \<Rightarrow> is_rfc4122 4 u | Err x \<Rightarrow> False | Panic m \<Rightarrow> rand_v4 e = None"
    using assms(2) is_rfc4122_set [where v = 4]
    by (auto simp: NewV4_def safeRandom_def env_ok_def split: option.splits)
  show ?thesis
    using 1 2 4 is_rfc4122_set [OF n, of 3] is_rfc4122_set [OF n, of 5]
    by (simp add: NewV3_def NewV5_def)
qed

definition sample_env :: uuid_env where
  "sample_env = \<lparr>timeNow = epochStart, interfaces = Some [[1, 2], [1, 2, 3, 4, 5, 6]],
     rand_clock = Some (18, 52), rand_hw = None, rand_v4 = Some (replicate 16 255)\<rparr>"

definition sample_store :: uuid_store where
  "sample_store = \<lparr>storageOnce = True, clockSequence = 7, lastTime = 0,
     hardwareAddr = [1, 2, 3, 4, 5, 6]\<rparr>"

lemma uuid_generators_stamp_witness:
  "is_rfc4122 3 (NewV3 (\<lambda>bs. replicate 16 255) nil_uuid ''a'')"
  using uuid_generators_stamp [of sample_store sample_env "\<lambda>bs. replicate 16 255" 0 0 0 nil_uuid "''a''"]
  by (simp add: store_ok_def env_ok_def sample_store_def sample_env_def)

subsection \<open>Version 1 UUIDs do not repeat\<close>

text \<open>A run of the generator, one environment per call.\<close>

fun run_v1 :: "uuid_env list \<Rightarrow> uuid_store \<Rightarrow> uuid list ures" where
  "run_v1 [] st = Ok []"
| "run_v1 (e # es) st =
     bind_res (NewV1 e st) (\<lambda>(u, st). map_ok (\<lambda>us. u # us) (run_v1 es st))"

definition v1_of :: "byte list \<Rightarrow> uint64 \<Rightarrow> uint16 \<Rightarrow> uuid" where
  "v1_of hw t c =
     [ucast (drop_bit 24 (ucast t :: uint32)), ucast (drop_bit 16 (ucast t :: uint32)),
      ucast (drop_bit 8 (ucast t :: uint32)), ucast (ucast t :: uint32),
      ucast (drop_bit 8 (ucast (drop_bit 32 t) :: uint16)), ucast (ucast (drop_bit 32 t) :: uint16),
      (ucast (drop_bit 8 (ucast (drop_bit 48 t) :: uint16)) AND 0x0f) OR push_bit 4 1,
      ucast (ucast (drop_bit 48 t) :: uint16),
      (ucast (drop_bit 8 c) AND 0xbf) OR 0x80, ucast c] @ hw"

text \<open>How often the clock did not advance, and hence the sequence number grew.\<close>

fun backsteps :: "uint64 \<Rightarrow> uint64 list \<Rightarrow> nat" where
  "backsteps l [] = 0"
| "backsteps l (t # ts) = (if t \<le> l then 1 else 0) + backsteps t ts"

lemma backsteps_le: "backsteps l ts \<le> length ts"
  by (induction ts arbitrary: l) (auto intro: le_SucI)

lemma backsteps_zero: "backsteps l ts = 0 \<Longrightarrow> t \<in> set ts \<Longrightarrow> l < t"
proof (induction ts arbitrary: l)
  case (Cons a ts)
  then have "l < a" "backsteps a ts = 0" by (auto simp: not_le split: if_splits)
  with Cons show ?case by (metis set_ConsD less_trans)
qed simp

lemma NewV1_once:
  assumes "storageOnce st" "length (hardwareAddr st) = 6"
  shows "NewV1 e st = (let c = clockSequence st + of_nat (backsteps (lastTime st) [timeNow e])
    in Ok (v1_of (hardwareAddr st) (timeNow e) c, st\<lparr>clockSequence := c, lastTime := timeNow e\<rparr>))"
proof -
  have "SetVariant (SetVersion 1 (write_at 10 hw (put16 8 c (put16 6 (ucast (drop_bit 48 t))
      (put16 4 (ucast (drop_bit 32 t)) (put32 0 (ucast t) nil_uuid)))))) = v1_of hw t c"
    if "length hw = 6" for hw c and t :: uint64
    using that by (simp add: v1_of_def put16_def put32_def write_at_def nil_uuid_def
        SetVariant_def SetVersion_def numeral_eq_Suc)
  then show ?thesis
    using assms by (simp add: NewV1_def getStorage_def Let_def)
qed

lemma run_v1_nth:
  assumes "storageOnce st" "length (hardwareAddr st) = 6"
  shows "run_v1 es st = Ok (map (\<lambda>k. v1_of (hardwareAddr st) (timeNow (es ! k))
    (clockSequence st + of_nat (backsteps (lastTime st) (take (Suc k) (map timeNow es))))) [0..<length es])"
  using assms
proof (induction es arbitrary: st)
  case (Cons e es)
  let ?st = "st\<lparr>clockSequence := clockSequence st + of_nat (backsteps (lastTime st) [timeNow e]),
      lastTime := timeNow e\<rparr>"
  have "[0..<length (e # es)] = 0 # map Suc [0..<length es]"
    by (simp add: upt_conv_Cons map_Suc_upt del: upt_Suc)
  then show ?case
    using Cons.IH [of ?st] Cons.prems
    by (simp add: NewV1_once Let_def add.assoc comp_def del: upt_Suc)
qed simp

lemma v1_bits:
  assumes "v1_of hw t c = v1_of hw' t' c'"
  shows "n < 60 \<Longrightarrow> bit t n = bit t' n" "n < 14 \<Longrightarrow> bit c n = bit c' n"
proof -
  have b: "bit (v1_of hw t c ! k) i = bit (v1_of hw' t' c' ! k) i" for k i
    by (simp add: assms)
  have i16: "i < 8 \<Longrightarrow> i < 16" "i < 8 \<Longrightarrow> i < 32" "i < 4 \<Longrightarrow> i < 8" for i :: nat by auto
  have low: "bit t i = bit t' i" "bit t (8 + i) = bit t' (8 + i)"
    "bit t (16 + i) = bit t' (16 + i)" "bit t (24 + i) = bit t' (24 + i)"
    "bit t (32 + i) = bit t' (32 + i)" "bit t (40 + i) = bit t' (40 + i)"
    "bit t (48 + i) = bit t' (48 + i)" "bit c i = bit c' i" if "i < 8" for i
    using that b [of 0 i] b [of 1 i] b [of 2 i] b [of 3 i] b [of 4 i] b [of 5 i] b [of 7 i] b [of 9 i]
    by (simp_all add: v1_of_def bit_simps add.commute)
  have "bit (0x0f :: byte) i" "\<not> bit (0x10 :: byte) i" if "i < 4" for i
    using that by (auto simp: bit_numeral_rec numeral_eq_Suc less_Suc_eq)
  then have hi: "bit t (56 + i) = bit t' (56 + i)" if "i < 4" for i
    using that b [of 6 i] by (simp add: v1_of_def bit_simps add.commute)
  have "bit (0xbf :: byte) i" "\<not> bit (0x80 :: byte) i" if "i < 6" for i
    using that by (auto simp: bit_numeral_rec numeral_eq_Suc less_Suc_eq)
  then have ch: "bit c (8 + i) = bit c' (8 + i)" if "i < 6" for i
    using that b [of 8 i] by (simp add: v1_of_def bit_simps add.commute)
  show "bit t n = bit t' n" if n: "n < 60"
  proof -
    consider "n < 8" | "8 \<le> n" "n < 16" | "16 \<le> n" "n < 24" | "24 \<le> n" "n < 32" | "32 \<le> n" "n < 40"
      | "40 \<le> n" "n < 48" | "48 \<le> n" "n < 56" | "56 \<le> n" using n by linarith
    then show ?thesis
      using low(1) [of n] low(2) [of "n - 8"] low(3) [of "n - 16"] low(4) [of "n - 24"]
        low(5) [of "n - 32"] low(6) [of "n - 40"] low(7) [of "n - 48"] hi [of "n - 56"] n
      by cases simp_all
  qed
  show "bit c n = bit c' n" if "n < 14"
    using low(8) [of n] ch [of "n - 8"] that by (cases "n < 8") simp_all
qed

lemma v1_inject:
  assumes "v1_of hw t c = v1_of hw' t' c'" "unat t < 2 ^ 60" "unat t' < 2 ^ 60"
  shows "t = t'" "take_bit 14 c = take_bit 14 c'"
proof -
  have h: "\<not> bit x n" if "unat x < 2 ^ 60" "60 \<le> n" for x :: uint64 and n
  proof -
    have "unat (take_bit 60 x) = unat x"
      by (simp only: unsigned_take_bit_eq take_bit_nat_eq_self [OF that(1)])
    then have "take_bit 60 x = x" by (simp only: word_unat_eq_iff)
    moreover have "\<not> bit (take_bit 60 x) n" using that(2) by (simp add: bit_take_bit_iff)
    ultimately show ?thesis by simp
  qed
  show "t = t'"
    using v1_bits(1) [OF assms(1)] h [OF assms(2)] h [OF assms(3)]
    by (intro bit_word_eqI) (metis not_le)
  show "take_bit 14 c = take_bit 14 c'"
    using v1_bits(2) [OF assms(1)] by (intro bit_word_eqI) (auto simp: bit_take_bit_iff)
qed

lemma backsteps_append:
  "backsteps l (xs @ ys) = backsteps l xs + backsteps (if xs = [] then l else last xs) ys"
  by (induction xs arbitrary: l) auto

lemma backsteps_between:
  assumes "i < j" "j < length ts" "ts ! i = ts ! j"
  shows "\<exists>n. 0 < n \<and> n \<le> j - i
    \<and> backsteps l (take (Suc j) ts) = backsteps l (take (Suc i) ts) + n"
proof -
  define ys where "ys = take (j - i) (drop (Suc i) ts)"
  have t: "take (Suc j) ts = take (Suc i) ts @ ys"
    using assms(1) take_add [of "Suc i" "j - i" ts] by (simp add: ys_def)
  have "ts ! j \<in> set ys"
    using assms(1,2) by (auto simp: ys_def in_set_conv_nth intro!: exI [of _ "j - Suc i"])
  then have "backsteps (ts ! i) ys \<noteq> 0" using assms(3) backsteps_zero by fastforce
  moreover have "backsteps (ts ! i) ys \<le> j - i"
    using backsteps_le [of "ts ! i" ys] by (simp add: ys_def)
  moreover have "last (take (Suc i) ts) = ts ! i" "take (Suc i) ts \<noteq> []"
    using assms(1,2) by (auto simp: take_Suc_conv_app_nth)
  ultimately show ?thesis unfolding t backsteps_append by auto
qed

lemma take_bit_seq:
  assumes "take_bit 14 (c :: uint16) = take_bit 14 (c + of_nat n)" "n < 2 ^ 14"
  shows "n = 0"
proof -
  have u: "unat (take_bit 14 x) = unat x mod 2 ^ 14" for x :: uint16
    by (simp only: unsigned_take_bit_eq) (simp only: take_bit_eq_mod)
  have "unat (of_nat n :: uint16) = n"
    using assms(2) by (simp only: unsigned_of_nat) (simp add: take_bit_nat_eq_self)
  then have "unat (c + of_nat n) = (unat c + n) mod 2 ^ 16"
    by (simp only: unat_word_ariths) simp
  then have "unat c mod 2 ^ 14 = (unat c + n) mod 2 ^ 16 mod 2 ^ 14"
    using arg_cong [OF assms(1), of unat] by (simp only: u)
  also have "\<dots> = (unat c + n) mod 2 ^ 14" by (rule mod_mod_cancel) simp
  finally have "2 ^ 14 dvd unat c + n - unat c"
    by (simp only: mod_eq_dvd_iff_nat [of "unat c" "unat c + n", OF le_add1, symmetric])
  then show ?thesis using assms(2) by (auto dest: dvd_imp_le)
qed

text \<open>C22: with an initialised store, any run of up to \<open>2^14\<close> calls of \<open>NewV1\<close> returns pairwise
  different UUIDs, whatever the clock does between the calls (stand still, go back, repeat), as
  long as its readings fit the 60 bits the format has for them: a reading that does not advance
  bumps the clock sequence, of which the UUID keeps 14 bits.\<close>

theorem NewV1_distinct:
  assumes "storageOnce st" "length (hardwareAddr st) = 6" "length es \<le> 2 ^ 14"
    and "\<forall>e \<in> set es. unat (timeNow e) < 2 ^ 60"
  shows "\<exists>us. run_v1 es st = Ok us \<and> length us = length es \<and> distinct us"
proof -
  let ?ts = "map timeNow es"
  let ?c = "\<lambda>k. clockSequence st + of_nat (backsteps (lastTime st) (take (Suc k) ?ts))"
  let ?u = "\<lambda>k. v1_of (hardwareAddr st) (timeNow (es ! k)) (?c k)"
  have ne: "?u i \<noteq> ?u j" if ij: "i < j" "j < length es" for i j
  proof
    assume eq: "?u i = ?u j"
    have s: "unat (timeNow (es ! i)) < 2 ^ 60" "unat (timeNow (es ! j)) < 2 ^ 60"
      using assms(4) ij by auto
    have t: "?ts ! i = ?ts ! j" using v1_inject(1) [OF eq s] ij by simp
    obtain n where n: "0 < n" "n \<le> j - i"
      "backsteps (lastTime st) (take (Suc j) ?ts) = backsteps (lastTime st) (take (Suc i) ?ts) + n"
      using backsteps_between [OF ij(1) _ t, of "lastTime st"] ij by auto
    have "take_bit 14 (?c i) = take_bit 14 (?c i + of_nat n)"
      using v1_inject(2) [OF eq s] n(3) by (simp add: add.assoc)
    then have "n = 0" by (rule take_bit_seq) (use n ij assms(3) in simp)
    with n(1) show False by simp
  qed
  have "distinct (map ?u [0..<length es])"
    unfolding distinct_conv_nth using ne by (auto simp: neq_iff) metis
  then show ?thesis
    unfolding run_v1_nth [OF assms(1,2)] by (intro exI conjI) (rule refl, simp_all)
qed

lemma NewV1_distinct_witness:
  "\<exists>us. run_v1 (replicate 3 sample_env) sample_store = Ok us
    \<and> length us = length (replicate 3 sample_env) \<and> distinct us"
  by (rule NewV1_distinct) (simp_all add: sample_store_def sample_env_def epochStart_def)

end
