(* ===== verification/Systems.thy ===== *)
theory Systems
  imports Prelude
begin

text \<open>
  What the concurrent components share: reachability of a labelled step relation, the locale of a
  system with an inductive invariant and its extension by a simulation of an abstract system, and
  counting the processes that are at given program points.
\<close>

inductive reach :: "('s \<Rightarrow> bool) \<Rightarrow> ('s \<Rightarrow> 'l \<Rightarrow> 's \<Rightarrow> bool) \<Rightarrow> 's \<Rightarrow> bool"
  for init :: "'s \<Rightarrow> bool" and step :: "'s \<Rightarrow> 'l \<Rightarrow> 's \<Rightarrow> bool" where
  reach_init: "init s \<Longrightarrow> reach init step s"
| reach_step: "reach init step s \<Longrightarrow> step s l t \<Longrightarrow> reach init step t"

text \<open>A run: the labels of consecutive steps.\<close>

inductive run :: "('s \<Rightarrow> 'l \<Rightarrow> 's \<Rightarrow> bool) \<Rightarrow> 's \<Rightarrow> 'l list \<Rightarrow> 's \<Rightarrow> bool"
  for step :: "'s \<Rightarrow> 'l \<Rightarrow> 's \<Rightarrow> bool" where
  run_Nil: "run step s [] s"
| run_Cons: "step s l t \<Longrightarrow> run step t ls u \<Longrightarrow> run step s (l # ls) u"

inductive_simps run_Nil_iff [simp]: "run step s [] t"
inductive_simps run_Cons_iff: "run step s (l # ls) t"

lemma reach_run: "reach init step s \<Longrightarrow> run step s ls t \<Longrightarrow> reach init step t"
  by (induction ls arbitrary: s) (auto simp: run_Cons_iff intro: reach_step)

locale invariant_system =
  fixes init :: "'s \<Rightarrow> bool" and step :: "'s \<Rightarrow> 'l \<Rightarrow> 's \<Rightarrow> bool" and inv :: "'s \<Rightarrow> bool"
  assumes init_inv: "init s \<Longrightarrow> inv s"
    and step_inv: "inv s \<Longrightarrow> step s l t \<Longrightarrow> inv t"
begin

lemma reach_inv: "reach init step s \<Longrightarrow> inv s"
  by (induction rule: reach.induct) (auto intro: init_inv step_inv)

lemma run_inv: "run step s ls t \<Longrightarrow> inv s \<Longrightarrow> inv t"
  by (induction rule: run.induct) (auto intro: step_inv)

end

text \<open>
  A functional simulation: every step of the concrete system is a step of the abstract one with the
  same label.
\<close>

locale refinement_system = invariant_system init step inv
  for init :: "'s \<Rightarrow> bool" and step :: "'s \<Rightarrow> 'l \<Rightarrow> 's \<Rightarrow> bool" and inv :: "'s \<Rightarrow> bool" +
  fixes abs :: "'s \<Rightarrow> 'a" and ainit :: "'a \<Rightarrow> bool" and astep :: "'a \<Rightarrow> 'l \<Rightarrow> 'a \<Rightarrow> bool"
  assumes abs_init: "init s \<Longrightarrow> ainit (abs s)"
    and abs_step: "inv s \<Longrightarrow> step s l t \<Longrightarrow> astep (abs s) l (abs t)"
begin

lemma abs_run: "run step s ls t \<Longrightarrow> inv s \<Longrightarrow> run astep (abs s) ls (abs t)"
  by (induction rule: run.induct) (auto intro: run_Nil run_Cons abs_step step_inv)

lemma abs_reach: "reach init step s \<Longrightarrow> reach ainit astep (abs s)"
  by (induction rule: reach.induct) (auto intro: reach_init reach_step abs_init abs_step reach_inv)

end

subsection \<open>Counting processes\<close>

lemma card_fun_upd:
  assumes "finite {q. P (f q)}"
  shows "int (card {q. P ((f(p := y)) q)}) = int (card {q. P (f q)}) + of_bool (P y) - of_bool (P (f p))"
proof (cases "P (f p)")
  case True
  then have s: "{q. P (f q)} = insert p ({q. P (f q)} - {p})" by auto
  have "{q. P ((f(p := y)) q)} = (if P y then {q. P (f q)} else {q. P (f q)} - {p})"
    using True by auto
  moreover have "0 < card {q. P (f q)}" using True assms by (auto simp: card_gt_0_iff)
  ultimately show ?thesis using True assms by (auto simp: card_Diff_singleton)
next
  case False
  then have "{q. P ((f(p := y)) q)} = (if P y then insert p {q. P (f q)} else {q. P (f q)})"
    by auto
  with False assms show ?thesis by auto
qed

lemma finite_fun_upd: "finite {q. P (f q)} \<Longrightarrow> finite {q. P ((f(p := y)) q)}"
  by (rule finite_subset [of _ "insert p {q. P (f q)}"]) auto

lemma card_one_eq: "card {q. P q} \<le> 1 \<Longrightarrow> finite {q. P q} \<Longrightarrow> P a \<Longrightarrow> P b \<Longrightarrow> a = b"
  by (metis (mono_tags) One_nat_def card_le_Suc0_iff_eq mem_Collect_eq)

end
