(* ===== verification/KeyLock.thy ===== *)
theory KeyLock
  imports Systems
begin

text \<open>
  Model of \<^verbatim>\<open>pkg/keylock/keylock.go\<close>: a mutex per key, created on demand and removed
  by \<open>Clean\<close> when nobody uses it. The \<open>*innerLock\<close> objects live in a heap; a mutex has no owner in
  Go, so \<open>locked\<close> is a flag. Each section of the code under the map's read-write lock is one step:
  write sections exclude all others, and read sections look one key up and add to one counter
  atomically. Any number of clients lock and unlock concurrently while \<open>Clean\<close> runs.
\<close>

record innerLock =
  count :: int
  locked :: bool

record KeyLock =
  locks :: "string \<rightharpoonup> nat"
  heap :: "nat \<Rightarrow> innerLock"
  fresh :: nat

definition newInnerLock :: innerLock where
  "newInnerLock = \<lparr>count = 0, locked = False\<rparr>"

definition NewKeyLock :: KeyLock where
  "NewKeyLock = \<lparr>locks = Map.empty, heap = (\<lambda>a. newInnerLock), fresh = 0\<rparr>"

definition add :: "nat \<Rightarrow> KeyLock \<Rightarrow> KeyLock" where
  "add a l = l\<lparr>heap := (heap l)(a := heap l a\<lparr>count := count (heap l a) + 1\<rparr>)\<rparr>"

definition done_inner :: "nat \<Rightarrow> KeyLock \<Rightarrow> KeyLock" where
  "done_inner a l = l\<lparr>heap := (heap l)(a := heap l a\<lparr>count := count (heap l a) - 1\<rparr>)\<rparr>"

text \<open>The section of \<open>Lock\<close> under the read lock, and the one under the write lock.\<close>

definition Lock_read :: "string \<Rightarrow> KeyLock \<Rightarrow> nat option \<times> KeyLock" where
  "Lock_read key l = (case locks l key of Some a \<Rightarrow> (Some a, add a l) | None \<Rightarrow> (None, l))"

definition Lock_write :: "string \<Rightarrow> KeyLock \<Rightarrow> nat \<times> KeyLock" where
  "Lock_write key l =
     (let (a, l) = (case locks l key of
            Some a \<Rightarrow> (a, l)
          | None \<Rightarrow> (fresh l, l\<lparr>locks := (locks l)(key \<mapsto> fresh l),
                             heap := (heap l)(fresh l := newInnerLock), fresh := fresh l + 1\<rparr>))
      in (a, add a l))"

text \<open>\<open>sync.Mutex\<close>: locking waits for the flag; unlocking an unlocked mutex is a fatal error.\<close>

definition mutex_lock :: "nat \<Rightarrow> KeyLock \<Rightarrow> KeyLock option" where
  "mutex_lock a l =
     (if locked (heap l a) then None
      else Some (l\<lparr>heap := (heap l)(a := heap l a\<lparr>locked := True\<rparr>)\<rparr>))"

definition mutex_unlock :: "nat \<Rightarrow> KeyLock \<Rightarrow> KeyLock option" where
  "mutex_unlock a l =
     (if locked (heap l a) then Some (l\<lparr>heap := (heap l)(a := heap l a\<lparr>locked := False\<rparr>)\<rparr>)
      else None)"

text \<open>The section of \<open>Unlock\<close> under the read lock: the mutex is looked up by its key again.\<close>

definition Unlock_read :: "string \<Rightarrow> KeyLock \<Rightarrow> nat option \<times> KeyLock" where
  "Unlock_read key l =
     (case locks l key of Some a \<Rightarrow> (Some a, done_inner a l) | None \<Rightarrow> (None, l))"

definition Clean :: "KeyLock \<Rightarrow> KeyLock" where
  "Clean l = l\<lparr>locks := (\<lambda>k. case locks l k of
       Some a \<Rightarrow> if count (heap l a) = 0 then None else Some a | None \<Rightarrow> None)\<rparr>"

text \<open>The clean-up goroutine: what its \<open>select\<close> receives, in order.\<close>

datatype clean_event = Tick | StopChan

fun cleanLoop :: "clean_event list \<Rightarrow> KeyLock \<Rightarrow> KeyLock" where
  "cleanLoop [] l = l"
| "cleanLoop (Tick # es) l = cleanLoop es (Clean l)"
| "cleanLoop (StopChan # es) l = l"

subsection \<open>Clients\<close>

text \<open>
  Where a client is: outside, between the two sections of \<open>Lock\<close>, waiting for the mutex it found,
  inside (\<open>Lock\<close> has returned), in \<open>Unlock\<close> with the mutex still to release, and dead after a
  fatal error.
\<close>

datatype kl_pc =
    Idle | Missed string | Waiting string nat | Inside string nat | Leaving string nat | Fatal

record kl_sys =
  kl :: KeyLock
  pcs :: "nat \<Rightarrow> kl_pc"

datatype kl_label = LockCall nat string | LockWrite nat | Acquire nat | UnlockCall nat | Release nat
  | CleanCall

inductive kl_step :: "kl_sys \<Rightarrow> kl_label \<Rightarrow> kl_sys \<Rightarrow> bool" where
  lock_hit: "pcs s p = Idle \<Longrightarrow> Lock_read k (kl s) = (Some a, l) \<Longrightarrow>
    kl_step s (LockCall p k) \<lparr>kl = l, pcs = (pcs s)(p := Waiting k a)\<rparr>"
| lock_miss: "pcs s p = Idle \<Longrightarrow> Lock_read k (kl s) = (None, l) \<Longrightarrow>
    kl_step s (LockCall p k) \<lparr>kl = l, pcs = (pcs s)(p := Missed k)\<rparr>"
| lock_write: "pcs s p = Missed k \<Longrightarrow> Lock_write k (kl s) = (a, l) \<Longrightarrow>
    kl_step s (LockWrite p) \<lparr>kl = l, pcs = (pcs s)(p := Waiting k a)\<rparr>"
| acquire: "pcs s p = Waiting k a \<Longrightarrow> mutex_lock a (kl s) = Some l \<Longrightarrow>
    kl_step s (Acquire p) \<lparr>kl = l, pcs = (pcs s)(p := Inside k a)\<rparr>"
| unlock_hit: "pcs s p = Inside k a \<Longrightarrow> Unlock_read k (kl s) = (Some b, l) \<Longrightarrow>
    kl_step s (UnlockCall p) \<lparr>kl = l, pcs = (pcs s)(p := Leaving k b)\<rparr>"
| unlock_miss: "pcs s p = Inside k a \<Longrightarrow> Unlock_read k (kl s) = (None, l) \<Longrightarrow>
    kl_step s (UnlockCall p) \<lparr>kl = l, pcs = (pcs s)(p := Idle)\<rparr>"
| release: "pcs s p = Leaving k a \<Longrightarrow> mutex_unlock a (kl s) = Some l \<Longrightarrow>
    kl_step s (Release p) \<lparr>kl = l, pcs = (pcs s)(p := Idle)\<rparr>"
| release_fatal: "pcs s p = Leaving k a \<Longrightarrow> mutex_unlock a (kl s) = None \<Longrightarrow>
    kl_step s (Release p) \<lparr>kl = kl s, pcs = (pcs s)(p := Fatal)\<rparr>"
| clean: "kl_step s CleanCall \<lparr>kl = Clean (kl s), pcs = pcs s\<rparr>"

inductive_cases kl_stepE: "kl_step s l t"

definition kl_init :: "kl_sys \<Rightarrow> bool" where
  "kl_init s \<longleftrightarrow> s = \<lparr>kl = NewKeyLock, pcs = (\<lambda>p. Idle)\<rparr>"

subsection \<open>Invariant\<close>

definition using_at :: "nat \<Rightarrow> kl_pc \<Rightarrow> bool" where
  "using_at a pc \<longleftrightarrow> (case pc of Waiting k b \<Rightarrow> a = b | Inside k b \<Rightarrow> a = b | _ \<Rightarrow> False)"

definition holding_at :: "nat \<Rightarrow> kl_pc \<Rightarrow> bool" where
  "holding_at a pc \<longleftrightarrow> (case pc of Inside k b \<Rightarrow> a = b | Leaving k b \<Rightarrow> a = b | _ \<Rightarrow> False)"

text \<open>How many clients wait for or hold a mutex, and how many hold it.\<close>

definition users :: "(nat \<Rightarrow> kl_pc) \<Rightarrow> nat \<Rightarrow> int" where
  "users f a = int (card {p. using_at a (f p)})"

definition holders :: "(nat \<Rightarrow> kl_pc) \<Rightarrow> nat \<Rightarrow> int" where
  "holders f a = int (card {p. holding_at a (f p)})"

definition few_active :: "(nat \<Rightarrow> kl_pc) \<Rightarrow> bool" where
  "few_active f \<longleftrightarrow> finite {p. f p \<noteq> Idle}"

definition pc_ok :: "(string \<rightharpoonup> nat) \<Rightarrow> nat \<Rightarrow> kl_pc \<Rightarrow> bool" where
  "pc_ok m n pc \<longleftrightarrow>
     (case pc of Waiting k a \<Rightarrow> m k = Some a | Inside k a \<Rightarrow> m k = Some a | Leaving k a \<Rightarrow> a < n
       | Fatal \<Rightarrow> False | _ \<Rightarrow> True)"

definition kl_inv :: "kl_sys \<Rightarrow> bool" where
  "kl_inv s \<longleftrightarrow>
     few_active (pcs s)
     \<and> (\<forall>p. pc_ok (locks (kl s)) (fresh (kl s)) (pcs s p))
     \<and> (\<forall>k a. locks (kl s) k = Some a \<longrightarrow> a < fresh (kl s))
     \<and> inj_on (locks (kl s)) (dom (locks (kl s)))
     \<and> (\<forall>k a. locks (kl s) k = Some a \<longrightarrow>
          count (heap (kl s) a) = users (pcs s) a)
     \<and> (\<forall>a. holders (pcs s) a = of_bool (locked (heap (kl s) a)))"

lemma at_simps [simp]:
  "\<not> using_at a Idle" "\<not> using_at a (Missed k)" "\<not> using_at a (Leaving k b)" "\<not> using_at a Fatal"
  "using_at a (Waiting k b) \<longleftrightarrow> a = b" "using_at a (Inside k b) \<longleftrightarrow> a = b"
  "\<not> holding_at a Idle" "\<not> holding_at a (Missed k)" "\<not> holding_at a (Waiting k b)"
  "\<not> holding_at a Fatal" "holding_at a (Inside k b) \<longleftrightarrow> a = b" "holding_at a (Leaving k b) \<longleftrightarrow> a = b"
  by (simp_all add: using_at_def holding_at_def)

lemma pc_ok_simps [simp]:
  "pc_ok m n Idle" "pc_ok m n (Missed k)" "pc_ok m n (Waiting k a) \<longleftrightarrow> m k = Some a"
  "pc_ok m n (Inside k a) \<longleftrightarrow> m k = Some a" "pc_ok m n (Leaving k a) \<longleftrightarrow> a < n" "\<not> pc_ok m n Fatal"
  by (simp_all add: pc_ok_def)

lemma pc_ok_alloc: "pc_ok m n pc \<Longrightarrow> m k = None \<Longrightarrow> pc_ok (m(k \<mapsto> n)) (Suc n) pc"
  by (cases pc) auto

lemma kl_init_inv: "kl_init s \<Longrightarrow> kl_inv s"
  by (simp add: kl_init_def kl_inv_def few_active_def NewKeyLock_def newInnerLock_def users_def holders_def)

lemma finite_at:
  assumes "few_active f"
  shows "finite {p. using_at a (f p)}" "finite {p. holding_at a (f p)}"
    "few_active (f(p := y))"
proof -
  have "{p. using_at a (f p)} \<subseteq> {p. f p \<noteq> Idle}" "{p. holding_at a (f p)} \<subseteq> {p. f p \<noteq> Idle}"
    by auto
  then show "finite {p. using_at a (f p)}" "finite {p. holding_at a (f p)}"
    using assms finite_subset unfolding few_active_def by blast+
  show "few_active (f(p := y))" using assms unfolding few_active_def by (rule finite_fun_upd)
qed

lemma upd_counts:
  assumes "few_active f"
  shows "users (f(p := y)) a = users f a + of_bool (using_at a y) - of_bool (using_at a (f p))"
    and "holders (f(p := y)) a = holders f a + of_bool (holding_at a y) - of_bool (holding_at a (f p))"
  unfolding users_def holders_def
  by (rule card_fun_upd [where P = "using_at a"], rule finite_at [OF assms])
    (rule card_fun_upd [where P = "holding_at a"], rule finite_at [OF assms])

lemma kl_inv_parts:
  assumes "kl_inv s"
  shows "few_active (pcs s)" "pc_ok (locks (kl s)) (fresh (kl s)) (pcs s p)"
    "locks (kl s) k = Some a \<Longrightarrow> a < fresh (kl s)"
    "locks (kl s) k = Some a \<Longrightarrow> locks (kl s) k' = Some a \<Longrightarrow> k = k'"
    "locks (kl s) k = Some a \<Longrightarrow> count (heap (kl s) a) = users (pcs s) a"
    "holders (pcs s) a = of_bool (locked (heap (kl s) a))"
  using assms by (auto simp: kl_inv_def inj_on_def dom_def)

lemma kl_invI:
  assumes "few_active f" "\<And>p. pc_ok (locks l) (fresh l) (f p)"
    "\<And>k a. locks l k = Some a \<Longrightarrow> a < fresh l"
    "\<And>k k' a. locks l k = Some a \<Longrightarrow> locks l k' = Some a \<Longrightarrow> k = k'"
    "\<And>k a. locks l k = Some a \<Longrightarrow> count (heap l a) = users f a"
    "\<And>a. holders f a = of_bool (locked (heap l a))"
  shows "kl_inv \<lparr>kl = l, pcs = f\<rparr>"
  using assms by (fastforce simp: kl_inv_def inj_on_def dom_def)

text \<open>Nobody is at an address that is not allocated yet.\<close>

lemma kl_fresh_unused:
  assumes "kl_inv s" "fresh (kl s) \<le> a"
  shows "users (pcs s) a = 0" "holders (pcs s) a = 0"
proof -
  have "\<not> using_at a (pcs s p) \<and> \<not> holding_at a (pcs s p)" for p
    using kl_inv_parts(2) [OF assms(1), of p] kl_inv_parts(3) [OF assms(1)] assms(2)
    by (cases "pcs s p") fastforce+
  then show "users (pcs s) a = 0" "holders (pcs s) a = 0" by (simp_all add: users_def holders_def)
qed

lemma at_pos:
  assumes "kl_inv s"
  shows "using_at a (pcs s p) \<Longrightarrow> 0 < users (pcs s) a"
    and "holding_at a (pcs s p) \<Longrightarrow> 0 < holders (pcs s) a"
  using finite_at(1,2) [OF kl_inv_parts(1) [OF assms]]
  by (auto simp: users_def holders_def card_gt_0_iff)

lemmas kl_section_defs = Lock_read_def Lock_write_def Unlock_read_def mutex_lock_def
  mutex_unlock_def add_def done_inner_def Clean_def newInnerLock_def

lemma kl_step_inv: "kl_inv s \<Longrightarrow> kl_step s l t \<Longrightarrow> kl_inv t"
proof -
  assume inv: "kl_inv s" and st: "kl_step s l t"
  note I = kl_inv_parts [OF inv]
  note U = upd_counts [OF I(1)]
  from st show ?thesis
  proof (cases rule: kl_step.cases)
    case (lock_hit p k a l)
    show ?thesis unfolding lock_hit
      by (rule kl_invI) (use lock_hit I in \<open>auto simp: kl_section_defs U finite_at split: option.splits if_splits\<close>)
  next
    case (lock_miss p k l)
    show ?thesis unfolding lock_miss
      by (rule kl_invI) (use lock_miss I in \<open>auto simp: kl_section_defs U finite_at split: option.splits if_splits\<close>)
  next
    case (lock_write p k a l)
    note new = kl_fresh_unused [OF inv order_refl]
    show ?thesis
    proof (cases "locks (kl s) k")
      case None
      have I3: "\<And>k a. locks (kl s) k = Some a \<Longrightarrow> a < Suc (fresh (kl s))"
        "\<And>k. locks (kl s) k \<noteq> Some (fresh (kl s))" using I(3) by fastforce+
      have "pc_ok ((locks (kl s))(k \<mapsto> fresh (kl s))) (Suc (fresh (kl s))) (pcs s q)" for q
        using pc_ok_alloc [OF I(2) None] by simp
      then show ?thesis unfolding lock_write
        by (intro kl_invI)
          (use lock_write I(4,5,6) I3 None new in \<open>auto simp: kl_section_defs U finite_at I(1) split: option.splits if_splits\<close>)
    next
      case (Some b)
      show ?thesis unfolding lock_write
        by (rule kl_invI)
          (use lock_write I Some in \<open>auto simp: kl_section_defs U finite_at split: option.splits if_splits\<close>)
    qed
  next
    case (acquire p k a l)
    then have "locks (kl s) k = Some a" using I(2) [of p] by simp
    then show ?thesis unfolding acquire
      by (intro kl_invI) (use acquire I in \<open>auto simp: kl_section_defs U finite_at split: option.splits if_splits\<close>)
  next
    case (unlock_hit p k a b l)
    then have "b = a" using I(2) [of p] by (auto simp: kl_section_defs split: option.splits)
    then show ?thesis unfolding unlock_hit
      by (intro kl_invI)
        (use unlock_hit I in \<open>auto simp: kl_section_defs U finite_at split: option.splits if_splits\<close>)
  next
    case (unlock_miss p k a l)
    then show ?thesis using I(2) [of p] by (simp add: kl_section_defs split: option.splits)
  next
    case (release p k a l)
    show ?thesis unfolding release
      by (rule kl_invI) (use release I in \<open>auto simp: kl_section_defs U finite_at split: option.splits if_splits\<close>)
  next
    case (release_fatal p k a)
    then have "0 < holders (pcs s) a" by (intro at_pos(2) [OF inv, of _ p]) simp
    with release_fatal I(6) [of a] show ?thesis by (simp add: kl_section_defs split: if_splits)
  next
    case clean
    have "pc_ok (locks (Clean (kl s))) (fresh (kl s)) (pcs s p)" for p
      using I(2) [of p] I(5) at_pos(1) [OF inv, of _ p]
      by (cases "pcs s p") (fastforce simp: kl_section_defs)+
    then show ?thesis unfolding clean
      by (intro kl_invI) (use I in \<open>auto simp: kl_section_defs split: option.splits if_splits\<close>)
  qed
qed

interpretation kl: invariant_system kl_init kl_step kl_inv
  by unfold_locales (auto intro: kl_init_inv kl_step_inv)

subsection \<open>Properties\<close>

text \<open>C1: mutual exclusion. However many clients lock and unlock however many keys, and however
  often \<open>Clean\<close> runs between their steps, two clients are never both inside the critical section
  of one key; no mutex is ever unlocked while unlocked (the fatal error), and \<open>Unlock\<close> always finds
  the mutex its \<open>Lock\<close> took although it looks it up by key again.\<close>

theorem keylock_mutual_exclusion:
  assumes "reach kl_init kl_step s" "pcs s p = Inside k a" "pcs s q = Inside k b"
  shows "p = q \<and> a = b \<and> locks (kl s) k = Some a \<and> pcs s r \<noteq> Fatal"
proof -
  note inv = kl.reach_inv [OF assms(1)]
  note I = kl_inv_parts [OF inv]
  have l: "locks (kl s) k = Some a" "locks (kl s) k = Some b"
    using I(2) [of p] I(2) [of q] assms(2,3) by simp_all
  have "card {x. holding_at a (pcs s x)} \<le> 1"
    using I(6) [of a] by (cases "locked (heap (kl s) a)") (simp_all add: holders_def)
  then have "p = q"
    by (rule card_one_eq) (use assms l finite_at(2) [OF I(1)] in simp_all)
  moreover have "pcs s r \<noteq> Fatal" using I(2) [of r] by auto
  ultimately show ?thesis using l by simp
qed

definition sample_kl :: kl_sys where
  "sample_kl = \<lparr>kl = \<lparr>locks = [''k'' \<mapsto> 0], heap = (\<lambda>a. newInnerLock)(0 := \<lparr>count = 1, locked = True\<rparr>),
     fresh = 1\<rparr>, pcs = (\<lambda>p. Idle)(5 := Inside ''k'' 0)\<rparr>"

lemma sample_kl_reach: "reach kl_init kl_step sample_kl"
proof -
  let ?s0 = "\<lparr>kl = NewKeyLock, pcs = (\<lambda>p. Idle)\<rparr>"
  let ?s1 = "\<lparr>kl = NewKeyLock, pcs = (\<lambda>p. Idle)(5 := Missed ''k'')\<rparr>"
  let ?s2 = "\<lparr>kl = snd (Lock_write ''k'' NewKeyLock), pcs = (\<lambda>p. Idle)(5 := Waiting ''k'' 0)\<rparr>"
  have "reach kl_init kl_step ?s0" by (rule reach_init) (simp add: kl_init_def)
  moreover have "kl_step ?s0 (LockCall 5 ''k'') ?s1"
    using lock_miss [of ?s0 5 "''k''"] by (simp add: Lock_read_def NewKeyLock_def)
  moreover have "kl_step ?s1 (LockWrite 5) ?s2"
    using lock_write [of ?s1 5 "''k''" 0] by (simp add: kl_section_defs NewKeyLock_def Let_def)
  moreover have "kl_step ?s2 (Acquire 5) sample_kl"
    using acquire [of ?s2 5 "''k''" 0] by (simp add: kl_section_defs NewKeyLock_def Let_def sample_kl_def)
  ultimately show ?thesis by (meson reach_step)
qed

lemma keylock_mutual_exclusion_witness:
  "(5 :: nat) = 5 \<and> (0 :: nat) = 0 \<and> locks (kl sample_kl) ''k'' = Some 0 \<and> pcs sample_kl 7 \<noteq> Fatal"
  by (rule keylock_mutual_exclusion [OF sample_kl_reach]) (simp_all add: sample_kl_def)

lemma holder_steps:
  assumes "holding_at a (pcs s p)"
  shows "\<exists>l t. l \<in> {UnlockCall p, Release p} \<and> kl_step s l t"
proof (cases "pcs s p")
  case (Inside k b)
  show ?thesis
  proof (cases "fst (Unlock_read k (kl s))")
    case None
    then show ?thesis using kl_step.unlock_miss [OF Inside] by (metis insertI1 prod.collapse)
  next
    case (Some c)
    then show ?thesis using kl_step.unlock_hit [OF Inside] by (metis insertI1 prod.collapse)
  qed
next
  case (Leaving k b)
  then show ?thesis
    using kl_step.release [OF Leaving] kl_step.release_fatal [OF Leaving]
    by (cases "mutex_unlock b (kl s)") blast+
qed (use assms in simp_all)

text \<open>C2: \<open>Clean\<close> removes only locks that nobody waits for or holds, and keeps the objects of all
  the others; a client that waits for a mutex can take it at once unless another client holds that
  very mutex or is releasing it, so no client is blocked by an idle lock.\<close>

theorem keylock_clean_and_progress:
  assumes "reach kl_init kl_step s"
  shows "(locks (Clean (kl s)) k =
      (if \<exists>p a. pcs s p = Waiting k a \<or> pcs s p = Inside k a then locks (kl s) k else None))
    \<and> (pcs s q = Waiting k a \<longrightarrow>
        (\<exists>t. kl_step s (Acquire q) t)
        \<or> (\<exists>p. p \<noteq> q \<and> holding_at a (pcs s p) \<and> (\<exists>l t. l \<in> {UnlockCall p, Release p} \<and> kl_step s l t)))"
proof -
  note inv = kl.reach_inv [OF assms]
  note I = kl_inv_parts [OF inv]
  have use: "0 < users (pcs s) a \<longleftrightarrow> (\<exists>p. using_at a (pcs s p))" for a
    using finite_at(1) [OF I(1)] by (auto simp: users_def card_gt_0_iff)
  have at: "(\<exists>p. using_at a (pcs s p)) \<longleftrightarrow> (\<exists>p a. pcs s p = Waiting k a \<or> pcs s p = Inside k a)"
    if "locks (kl s) k = Some a" for a
  proof -
    have "using_at a (pcs s p) \<longleftrightarrow> (\<exists>a. pcs s p = Waiting k a \<or> pcs s p = Inside k a)" for p
    proof (cases "pcs s p")
      case (Waiting k' b)
      then show ?thesis using I(2) [of p] I(4) [OF that, of k'] that by auto
    next
      case (Inside k' b)
      then show ?thesis using I(2) [of p] I(4) [OF that, of k'] that by auto
    qed simp_all
    then show ?thesis by auto
  qed
  have 1: "locks (Clean (kl s)) k =
      (if \<exists>p a. pcs s p = Waiting k a \<or> pcs s p = Inside k a then locks (kl s) k else None)"
  proof (cases "locks (kl s) k")
    case (Some a)
    have "count (heap (kl s) a) = users (pcs s) a" "0 \<le> users (pcs s) a"
      using I(5) [OF Some] by (simp_all add: users_def)
    then show ?thesis using use [of a] at [OF Some] Some by (auto simp: Clean_def)
  qed (simp add: Clean_def)
  have 2: "(\<exists>t. kl_step s (Acquire q) t)
      \<or> (\<exists>p. p \<noteq> q \<and> holding_at a (pcs s p) \<and> (\<exists>l t. l \<in> {UnlockCall p, Release p} \<and> kl_step s l t))"
    if w: "pcs s q = Waiting k a"
  proof (cases "locked (heap (kl s) a)")
    case False
    then show ?thesis using kl_step.acquire [OF w] by (auto simp: mutex_lock_def)
  next
    case True
    then have "holders (pcs s) a = 1" using I(6) [of a] by simp
    then obtain p where p: "holding_at a (pcs s p)"
      by (auto simp: holders_def card_1_singleton_iff)
    have "\<exists>l t. l \<in> {UnlockCall p, Release p} \<and> kl_step s l t"
      using p by (rule holder_steps)
    moreover have "p \<noteq> q" using p w by auto
    ultimately show ?thesis using p by blast
  qed
  show ?thesis using 1 2 by blast
qed

lemma keylock_clean_and_progress_witness:
  "locks (Clean (kl sample_kl)) ''k'' = Some 0"
  using keylock_clean_and_progress [OF sample_kl_reach, of "''k''" 0 0]
  by (auto simp: sample_kl_def)

end
