(* ===== verification/Wait.thy ===== *)
theory Wait
  imports Systems
begin

text \<open>
  Model of \<^verbatim>\<open>pkg/wait/wait.go\<close>: a table of channels by request id, spread over 64
  locked shards. A shard's critical section is one step; \<open>Trigger\<close> sends and closes outside the
  lock, so these are steps of their own. Channels have a buffer of one. The lemmas show that the
  shards implement one flat table, that a send never blocks and never hits a closed channel, and
  that each registered channel delivers exactly one value.
\<close>

record 'x chan =
  buf :: "'x list"
  closed :: bool

record 'x wait =
  elems :: "(uint64 \<rightharpoonup> nat) list"
  chans :: "nat \<Rightarrow> 'x chan"
  nchan :: nat

definition defaultListElementLength :: nat where "defaultListElementLength = 64"

definition New_wait :: "'x wait" where
  "New_wait = \<lparr>elems = replicate defaultListElementLength Map.empty,
     chans = (\<lambda>c. \<lparr>buf = [], closed = False\<rparr>), nchan = 0\<rparr>"

definition idx :: "uint64 \<Rightarrow> nat" where
  "idx rid = unat rid mod defaultListElementLength"

definition Register :: "uint64 \<Rightarrow> 'x wait \<Rightarrow> (unit, nat \<times> 'x wait) res" where
  "Register rid w =
     (let newCh = nchan w;
          w = w\<lparr>nchan := newCh + 1, chans := (chans w)(newCh := \<lparr>buf = [], closed = False\<rparr>)\<rparr>
      in case (elems w ! idx rid) rid of
           None \<Rightarrow> Ok (newCh, w\<lparr>elems := (elems w)[idx rid := (elems w ! idx rid)(rid \<mapsto> newCh)]\<rparr>)
         | Some c \<Rightarrow> Panic ''dup id'')"

text \<open>The section of \<open>Trigger\<close> under the lock: the channel (nil when there is none) is taken out.\<close>

definition Trigger_take :: "uint64 \<Rightarrow> 'x wait \<Rightarrow> nat option \<times> 'x wait" where
  "Trigger_take rid w =
     ((elems w ! idx rid) rid, w\<lparr>elems := (elems w)[idx rid := (elems w ! idx rid)(rid := None)]\<rparr>)"

text \<open>\<open>ch <- x\<close> blocks (None) while the buffer is full and panics on a closed channel; closing a
  closed channel panics; receiving blocks while the buffer is empty and the channel is open, and
  gives nil (None) once it is closed and empty.\<close>

definition chan_send :: "nat \<Rightarrow> 'x \<Rightarrow> 'x wait \<Rightarrow> (unit, 'x wait) res option" where
  "chan_send c x w =
     (if closed (chans w c) then Some (Panic ''send on closed channel'')
      else if length (buf (chans w c)) \<ge> 1 then None
      else Some (Ok (w\<lparr>chans := (chans w)(c := (chans w c)\<lparr>buf := buf (chans w c) @ [x]\<rparr>)\<rparr>)))"

definition chan_close :: "nat \<Rightarrow> 'x wait \<Rightarrow> (unit, 'x wait) res" where
  "chan_close c w =
     (if closed (chans w c) then Panic ''close of closed channel''
      else Ok (w\<lparr>chans := (chans w)(c := (chans w c)\<lparr>closed := True\<rparr>)\<rparr>))"

definition chan_recv :: "nat \<Rightarrow> 'x wait \<Rightarrow> ('x option \<times> 'x wait) option" where
  "chan_recv c w =
     (case buf (chans w c) of
        x # xs \<Rightarrow> Some (Some x, w\<lparr>chans := (chans w)(c := (chans w c)\<lparr>buf := xs\<rparr>)\<rparr>)
      | [] \<Rightarrow> if closed (chans w c) then Some (None, w) else None)"

definition IsRegistered :: "uint64 \<Rightarrow> 'x wait \<Rightarrow> bool" where
  "IsRegistered rid w \<longleftrightarrow> (elems w ! idx rid) rid \<noteq> None"

subsection \<open>The shards implement a flat table\<close>

definition flat :: "'x wait \<Rightarrow> uint64 \<rightharpoonup> nat" where
  "flat w rid = (elems w ! idx rid) rid"

lemma idx_less: "idx rid < 64"
  by (simp add: idx_def defaultListElementLength_def)

lemma flat_update:
  "length (elems w) = 64 \<Longrightarrow>
   flat (w\<lparr>elems := (elems w)[idx rid := (elems w ! idx rid)(rid := c)]\<rparr>) = (flat w)(rid := c)"
  by (rule ext) (auto simp: flat_def idx_less nth_list_update)

lemma flat_chans [simp]: "flat (w\<lparr>chans := c\<rparr>) = flat w" "flat (w\<lparr>nchan := n\<rparr>) = flat w"
  "flat (w\<lparr>nchan := n, chans := c\<rparr>) = flat w"
  by (simp_all add: flat_def fun_eq_iff)

lemma Register_flat:
  "length (elems w) = 64 \<Longrightarrow> Register rid w =
     (if flat w rid = None
      then Ok (nchan w, w\<lparr>nchan := nchan w + 1,
             chans := (chans w)(nchan w := \<lparr>buf = [], closed = False\<rparr>),
             elems := (elems w)[idx rid := (elems w ! idx rid)(rid \<mapsto> nchan w)]\<rparr>)
      else Panic ''dup id'')"
  by (simp add: Register_def Let_def flat_def split: option.split)

text \<open>C9: the 64 shards behave as one table from ids to channels: \<open>Register\<close> adds a fresh channel for
  an id that is not there and panics for one that is, \<open>Trigger\<close> takes out the channel of its id and
  of no other, \<open>IsRegistered\<close> tells which ids are there; the new table has none.\<close>

theorem wait_shards_flat:
  fixes w :: "'x wait"
  assumes "length (elems w) = 64"
  shows "(case Register rid w of
      Ok (c, w') \<Rightarrow> flat w rid = None \<and> c = nchan w \<and> flat w' = (flat w)(rid \<mapsto> c)
    | Err e \<Rightarrow> False
    | Panic m \<Rightarrow> flat w rid \<noteq> None)
   \<and> fst (Trigger_take rid w) = flat w rid \<and> flat (snd (Trigger_take rid w)) = (flat w)(rid := None)
   \<and> IsRegistered rid' w = (rid' \<in> dom (flat w))
   \<and> flat (New_wait :: 'x wait) = Map.empty"
proof -
  have "flat (w\<lparr>nchan := n, chans := c, elems := (elems w)[idx rid := (elems w ! idx rid)(rid := x)]\<rparr>)
      = (flat w)(rid := x)" for n c x
    using flat_update [of "w\<lparr>nchan := n, chans := c\<rparr>"] assms by simp
  moreover have "flat (New_wait :: 'x wait) = Map.empty"
    using idx_less by (simp add: flat_def New_wait_def defaultListElementLength_def fun_eq_iff)
  ultimately show ?thesis
    using flat_update [OF assms] by (auto simp: Register_flat [OF assms] Trigger_take_def
        IsRegistered_def flat_def)
qed

lemma length_New_wait [simp]: "length (elems New_wait) = 64"
  by (simp add: New_wait_def defaultListElementLength_def)

lemma wait_shards_flat_witness: "\<not> IsRegistered 65 (New_wait :: nat wait)"
  using wait_shards_flat [where w = "New_wait :: nat wait" and rid = 1 and rid' = 65, OF length_New_wait]
  by (simp add: dom_def)

subsection \<open>Triggers and receivers\<close>

text \<open>Where a call of \<open>Trigger\<close> is. The values ever sent on a channel are kept as a ghost.\<close>

datatype 'x trig_pc = TIdle | TSend nat 'x | TClose nat 'x | TPanic

record 'x wait_sys =
  table :: "'x wait"
  tpc :: "nat \<Rightarrow> 'x trig_pc"
  sent :: "nat \<Rightarrow> 'x list"

datatype 'x wait_label =
    WRegister uint64 | WTake nat uint64 'x | WSend nat | WClose nat | WRecv nat "'x option"

inductive wait_step :: "'x wait_sys \<Rightarrow> 'x wait_label \<Rightarrow> 'x wait_sys \<Rightarrow> bool" where
  w_register: "Register rid (table s) = Ok (c, w) \<Longrightarrow>
    wait_step s (WRegister rid) (s\<lparr>table := w\<rparr>)"
| w_take: "tpc s p = TIdle \<Longrightarrow> Trigger_take rid (table s) = (Some c, w) \<Longrightarrow>
    wait_step s (WTake p rid x) (s\<lparr>table := w, tpc := (tpc s)(p := TSend c x)\<rparr>)"
| w_take_none: "tpc s p = TIdle \<Longrightarrow> Trigger_take rid (table s) = (None, w) \<Longrightarrow>
    wait_step s (WTake p rid x) (s\<lparr>table := w\<rparr>)"
| w_send: "tpc s p = TSend c x \<Longrightarrow> chan_send c x (table s) = Some (Ok w) \<Longrightarrow>
    wait_step s (WSend p)
      (s\<lparr>table := w, tpc := (tpc s)(p := TClose c x), sent := (sent s)(c := sent s c @ [x])\<rparr>)"
| w_send_panic: "tpc s p = TSend c x \<Longrightarrow> chan_send c x (table s) = Some (Panic m) \<Longrightarrow>
    wait_step s (WSend p) (s\<lparr>tpc := (tpc s)(p := TPanic)\<rparr>)"
| w_close: "tpc s p = TClose c x \<Longrightarrow> chan_close c (table s) = Ok w \<Longrightarrow>
    wait_step s (WClose p) (s\<lparr>table := w, tpc := (tpc s)(p := TIdle)\<rparr>)"
| w_close_panic: "tpc s p = TClose c x \<Longrightarrow> chan_close c (table s) = Panic m \<Longrightarrow>
    wait_step s (WClose p) (s\<lparr>tpc := (tpc s)(p := TPanic)\<rparr>)"
| w_recv: "chan_recv c (table s) = Some (v, w) \<Longrightarrow> wait_step s (WRecv c v) (s\<lparr>table := w\<rparr>)"

definition wait_init :: "'x wait_sys \<Rightarrow> bool" where
  "wait_init s \<longleftrightarrow> s = \<lparr>table = New_wait, tpc = (\<lambda>p. TIdle), sent = (\<lambda>c. [])\<rparr>"

text \<open>
  The life of a channel: allocated and registered, then owned by one call of \<open>Trigger\<close> which sends
  and closes, then finished.
\<close>

definition owns :: "'x trig_pc \<Rightarrow> nat \<Rightarrow> bool" where
  "owns pc c \<longleftrightarrow> (case pc of TSend d x \<Rightarrow> c = d | TClose d x \<Rightarrow> c = d | _ \<Rightarrow> False)"

definition untouched :: "'x wait_sys \<Rightarrow> nat \<Rightarrow> bool" where
  "untouched s c \<longleftrightarrow> chans (table s) c = \<lparr>buf = [], closed = False\<rparr> \<and> sent s c = []"

definition trig_ok :: "'x wait_sys \<Rightarrow> 'x trig_pc \<Rightarrow> bool" where
  "trig_ok s pc \<longleftrightarrow>
     (case pc of TSend c x \<Rightarrow> c < nchan (table s) \<and> untouched s c
      | TClose c x \<Rightarrow> c < nchan (table s) \<and> \<not> closed (chans (table s) c) \<and> sent s c = [x]
          \<and> buf (chans (table s) c) \<in> {[], [x]}
      | TPanic \<Rightarrow> False | TIdle \<Rightarrow> True)"

definition chan_ok :: "'x wait_sys \<Rightarrow> nat \<Rightarrow> bool" where
  "chan_ok s c \<longleftrightarrow> length (sent s c) \<le> 1 \<and> buf (chans (table s) c) \<in> {[], sent s c}
     \<and> (closed (chans (table s) c) \<longrightarrow> length (sent s c) = 1)
     \<and> (nchan (table s) \<le> c \<longrightarrow> sent s c = [])"

definition wait_inv :: "'x wait_sys \<Rightarrow> bool" where
  "wait_inv s \<longleftrightarrow>
     length (elems (table s)) = 64
     \<and> (\<forall>p. trig_ok s (tpc s p))
     \<and> (\<forall>p q c. owns (tpc s p) c \<longrightarrow> owns (tpc s q) c \<longrightarrow> p = q)
     \<and> (\<forall>rid c. flat (table s) rid = Some c \<longrightarrow>
          c < nchan (table s) \<and> untouched s c \<and> (\<forall>p. \<not> owns (tpc s p) c))
     \<and> (\<forall>i j c. flat (table s) i = Some c \<longrightarrow> flat (table s) j = Some c \<longrightarrow> i = j)
     \<and> (\<forall>c. chan_ok s c)"

lemma wait_init_inv: "wait_init s \<Longrightarrow> wait_inv s"
  using idx_less
  by (simp add: wait_init_def wait_inv_def New_wait_def defaultListElementLength_def trig_ok_def
      owns_def flat_def chan_ok_def)

lemma owns_simps [simp]:
  "\<not> owns TIdle c" "\<not> owns TPanic c" "owns (TSend d x) c \<longleftrightarrow> c = d" "owns (TClose d x) c \<longleftrightarrow> c = d"
  by (auto simp: owns_def)

lemma wait_inv_parts:
  assumes "wait_inv s"
  shows "length (elems (table s)) = 64" "trig_ok s (tpc s p)"
    "owns (tpc s p) c \<Longrightarrow> owns (tpc s q) c \<Longrightarrow> p = q"
    "flat (table s) i = Some c \<Longrightarrow> c < nchan (table s)"
    "flat (table s) i = Some c \<Longrightarrow> untouched s c" "flat (table s) i = Some c \<Longrightarrow> \<not> owns (tpc s p) c"
    "flat (table s) i = Some c \<Longrightarrow> flat (table s) j = Some c \<Longrightarrow> i = j" "chan_ok s c"
  using assms by (auto simp: wait_inv_def)

text \<open>A state is the same for a channel and for a call of \<open>Trigger\<close> on it when it agrees on it.\<close>

lemma untouched_cong:
  "chans (table t) c = chans (table s) c \<Longrightarrow> sent t c = sent s c \<Longrightarrow> untouched t c = untouched s c"
  by (simp add: untouched_def)

lemma trig_ok_cong:
  assumes "trig_ok s pc" "nchan (table s) \<le> nchan (table t)"
    "\<And>c. owns pc c \<Longrightarrow> c < nchan (table s) \<Longrightarrow> chans (table t) c = chans (table s) c \<and> sent t c = sent s c"
  shows "trig_ok t pc"
  using assms by (cases pc) (auto simp: trig_ok_def untouched_def)

lemma wait_step_inv: "wait_inv s \<Longrightarrow> wait_step s l t \<Longrightarrow> wait_inv t"
proof -
  assume inv: "wait_inv s" and st: "wait_step s l t"
  note I = wait_inv_parts [OF inv]
  from st show ?thesis
  proof (cases rule: wait_step.cases)
    case (w_register rid c w)
    let ?n = "nchan (table s)"
    have w: "w = (table s)\<lparr>nchan := ?n + 1, chans := (chans (table s))(?n := \<lparr>buf = [], closed = False\<rparr>),
        elems := (elems (table s))[idx rid := (elems (table s) ! idx rid)(rid \<mapsto> ?n)]\<rparr>"
      and fr: "flat (table s) rid = None"
      using w_register by (auto simp: Register_flat [OF I(1)] split: if_splits)
    have fl: "flat w = (flat (table s))(rid \<mapsto> ?n)"
      using flat_update [of "(table s)\<lparr>nchan := ?n + 1, chans := (chans (table s))(?n := \<lparr>buf = [], closed = False\<rparr>)\<rparr>" rid "Some ?n"] I(1)
      by (simp add: w)
    have new: "sent s ?n = []" using I(8) [of ?n] by (simp add: chan_ok_def)
    have un: "untouched t c \<longleftrightarrow> c = ?n \<or> untouched s c" for c
      using new by (auto simp: w_register(2) untouched_def w)
    have own: "\<not> owns (tpc s p) ?n" for p
      using I(2) [of p] by (cases "tpc s p") (auto simp: trig_ok_def)
    have tr: "trig_ok t (tpc s p)" for p
      by (rule trig_ok_cong [OF I(2)]) (auto simp: w_register(2) w)
    have ch: "chan_ok t c" for c
      using I(8) [of c] new by (auto simp: w_register(2) w chan_ok_def)
    have ne: "flat (table s) i \<noteq> Some ?n" for i using I(4) by blast
    show ?thesis
      unfolding wait_inv_def
      using I(1,3,7) tr ch un own fl fr ne less_SucI [OF I(4)] I(5,6)
      by (auto simp: w_register(2) w [symmetric]) (simp_all add: w)
  next
    case (w_take p rid c w x)
    have fl: "flat w = (flat (table s))(rid := None)" and c: "flat (table s) rid = Some c"
      and w: "chans w = chans (table s)" "nchan w = nchan (table s)" "length (elems w) = 64"
      using w_take(4) flat_update [OF I(1), of rid None] I(1)
      by (auto simp: Trigger_take_def flat_def)
    have un: "untouched t d = untouched s d" for d
      by (rule untouched_cong) (simp_all add: w_take(2) w)
    have tr: "trig_ok t (tpc t q)" for q
      using trig_ok_cong [OF I(2) [of q], of t] I(4,5) [OF c] un [of c]
      by (auto simp: w_take(2) w trig_ok_def [of _ "TSend c x"])
    have ch: "chan_ok t d" for d using I(8) [of d] by (simp add: w_take(2) w chan_ok_def)
    have own: "owns (tpc t q) d \<longleftrightarrow> (if q = p then d = c else owns (tpc s q) d)" for q d
      by (simp add: w_take(2))
    show ?thesis
      unfolding wait_inv_def own un
      using tr ch w I(3,4,5,6,7) I(6) [OF c] I(7) [OF c]
      by (auto simp: w_take(2) fl split: if_splits)
  next
    case (w_take_none p rid w x)
    have fl: "flat w = flat (table s)"
      and w: "chans w = chans (table s)" "nchan w = nchan (table s)" "length (elems w) = 64"
      using w_take_none(4) flat_update [OF I(1), of rid None] I(1)
      by (auto simp: Trigger_take_def flat_def)
    have un: "untouched t d = untouched s d" for d
      by (rule untouched_cong) (simp_all add: w_take_none(2) w)
    have tr: "trig_ok t (tpc t q)" for q
      using trig_ok_cong [OF I(2) [of q], of t] by (simp add: w_take_none(2) w)
    have ch: "chan_ok t d" for d using I(8) [of d] by (simp add: w_take_none(2) w chan_ok_def)
    show ?thesis
      unfolding wait_inv_def un
      using tr ch w I(3,4,5,6,7) by (auto simp: w_take_none(2) fl)
  next
    case (w_send p c x w)
    have c: "c < nchan (table s)" "untouched s c" using I(2) [of p] w_send(3) by (simp_all add: trig_ok_def)
    have w: "w = (table s)\<lparr>chans := (chans (table s))(c := \<lparr>buf = [x], closed = False\<rparr>)\<rparr>"
      using w_send(4) c(2) by (simp add: chan_send_def untouched_def)
    have un: "d \<noteq> c \<Longrightarrow> untouched t d = untouched s d" for d
      by (rule untouched_cong) (simp_all add: w_send(2) w)
    have only: "owns (tpc s q) c \<Longrightarrow> q = p" for q using I(3) [of p c q] w_send(3) by simp
    have tr: "trig_ok t (tpc t q)" for q
    proof (cases "q = p")
      case True
      then show ?thesis using c by (simp add: w_send(2) w trig_ok_def untouched_def)
    next
      case False
      then have "trig_ok t (tpc s q)"
        using only by (intro trig_ok_cong [OF I(2)]) (auto simp: w_send(2) w)
      with False show ?thesis by (simp add: w_send(2))
    qed
    have ch: "chan_ok t d" for d
      using I(8) [of d] c by (auto simp: w_send(2) w chan_ok_def untouched_def)
    have own: "owns (tpc t q) d = owns (tpc s q) d" for q d
      using w_send(3) by (simp add: w_send(2))
    have ne: "flat (table s) i \<noteq> Some c" for i using I(6) [of i c p] w_send(3) by auto
    have un': "untouched t d" if "flat (table s) i = Some d" for i d
      using un [of d] I(5) [OF that] ne [of i] that by auto
    show ?thesis
      unfolding wait_inv_def own
      using tr ch w I(1,3,4,6,7) un' by (auto simp: w_send(2))
  next
    case (w_send_panic p c x m)
    then show ?thesis using I(2) [of p] by (simp add: trig_ok_def untouched_def chan_send_def)
  next
    case (w_close p c x w)
    have c: "c < nchan (table s)" "sent s c = [x]" "buf (chans (table s) c) \<in> {[], [x]}"
      using I(2) [of p] w_close(3) by (simp_all add: trig_ok_def)
    have w: "w = (table s)\<lparr>chans := (chans (table s))(c := (chans (table s) c)\<lparr>closed := True\<rparr>)\<rparr>"
      using w_close(4) by (simp add: chan_close_def split: if_splits)
    have un: "d \<noteq> c \<Longrightarrow> untouched t d = untouched s d" for d
      by (rule untouched_cong) (simp_all add: w_close(2) w)
    have only: "owns (tpc s q) c \<Longrightarrow> q = p" for q using I(3) [of p c q] w_close(3) by simp
    have tr: "trig_ok t (tpc t q)" for q
    proof (cases "q = p")
      case True
      then show ?thesis by (simp add: w_close(2) trig_ok_def)
    next
      case False
      then have "trig_ok t (tpc s q)"
        using only by (intro trig_ok_cong [OF I(2)]) (auto simp: w_close(2) w)
      with False show ?thesis by (simp add: w_close(2))
    qed
    have ch: "chan_ok t d" for d
      using I(8) [of d] c by (auto simp: w_close(2) w chan_ok_def)
    have own: "owns (tpc t q) d \<Longrightarrow> owns (tpc s q) d" for q d
      by (simp add: w_close(2) split: if_splits)
    have ne: "flat (table s) i \<noteq> Some c" for i using I(6) [of i c p] w_close(3) by auto
    have un': "untouched t d" if "flat (table s) i = Some d" for i d
      using un [of d] I(5) [OF that] ne [of i] that by auto
    have fl: "flat (table t) = flat (table s)" "nchan (table t) = nchan (table s)"
      "length (elems (table t)) = 64" using I(1) by (simp_all add: w_close(2) w)
    show ?thesis
      unfolding wait_inv_def fl
      using tr ch I(3) [OF own own] I(4,7) un' I(6) own by blast
  next
    case (w_close_panic p c x m)
    then show ?thesis using I(2) [of p] by (simp add: trig_ok_def chan_close_def split: if_splits)
  next
    case (w_recv c v w)
    show ?thesis
    proof (cases "buf (chans (table s) c)")
      case Nil
      then have "t = s" using w_recv by (auto simp: chan_recv_def split: if_splits)
      with inv show ?thesis by simp
    next
      case (Cons y ys)
      then have b: "buf (chans (table s) c) = [y]" "sent s c = [y]" "ys = []"
        using I(8) [of c] by (auto simp: chan_ok_def le_Suc_eq length_Suc_conv)
      have w: "w = (table s)\<lparr>chans := (chans (table s))(c := (chans (table s) c)\<lparr>buf := []\<rparr>)\<rparr>"
        using w_recv(3) b by (simp add: chan_recv_def)
      have un: "untouched s d \<Longrightarrow> untouched t d" for d
        using b by (auto simp: w_recv(2) w untouched_def)
      have tr: "trig_ok t (tpc s q)" for q
        using I(2) [of q] b un by (cases "tpc s q") (auto simp: w_recv(2) w trig_ok_def)
      have ch: "chan_ok t d" for d
        using I(8) [of d] by (auto simp: w_recv(2) w chan_ok_def)
      show ?thesis
        unfolding wait_inv_def
        using tr ch w I(1,3,4,5,6,7) un by (auto simp: w_recv(2))
    qed
  qed
qed

interpretation wt: invariant_system wait_init wait_step wait_inv
  by unfold_locales (auto intro: wait_init_inv wait_step_inv)

text \<open>C8: in every reachable state of any number of concurrent \<open>Register\<close>, \<open>Trigger\<close> and receive
  operations, at most one value was ever sent on a channel and exactly one before it was closed; a
  channel still registered is empty, open and untouched; the send of a \<open>Trigger\<close> never blocks and
  never meets a closed channel, its close never meets a closed one, and no call has panicked.\<close>

theorem wait_delivers_once:
  assumes "reach wait_init wait_step s"
  shows "length (sent s c) \<le> 1 \<and> (closed (chans (table s) c) \<longrightarrow> length (sent s c) = 1)
    \<and> (flat (table s) rid = Some c \<longrightarrow> sent s c = [] \<and> \<not> closed (chans (table s) c))
    \<and> (case tpc s p of
         TSend c x \<Rightarrow> \<exists>w. chan_send c x (table s) = Some (Ok w)
       | TClose c x \<Rightarrow> sent s c = [x] \<and> (\<exists>w. chan_close c (table s) = Ok w)
       | TPanic \<Rightarrow> False
       | TIdle \<Rightarrow> True)"
proof -
  note I = wait_inv_parts [OF wt.reach_inv [OF assms]]
  show ?thesis
    using I(2) [of p] I(5) [of rid c] I(8) [of c]
    by (auto simp: trig_ok_def chan_ok_def untouched_def chan_send_def chan_close_def
        split: trig_pc.splits)
qed

text \<open>A whole \<open>Trigger\<close> on a registered id hands its value over: from any reachable state, its
  three steps can be taken one after the other, and then the channel that \<open>Register\<close> returned
  holds exactly that value, is closed, and the id is free again.\<close>

theorem wait_trigger_completes:
  assumes "reach wait_init wait_step s" "flat (table s) rid = Some c" "tpc s p = TIdle"
  shows "\<exists>t. run wait_step s [WTake p rid x, WSend p, WClose p] t
    \<and> chans (table t) c = \<lparr>buf = [x], closed = True\<rparr> \<and> sent t c = [x] \<and> \<not> IsRegistered rid (table t)
    \<and> (\<exists>u. run wait_step t [WRecv c (Some x), WRecv c None] u)"
proof -
  note I = wait_inv_parts [OF wt.reach_inv [OF assms(1)]]
  have c: "chans (table s) c = \<lparr>buf = [], closed = False\<rparr>" "sent s c = []"
    using I(5) [OF assms(2)] by (simp_all add: untouched_def)
  let ?w = "snd (Trigger_take rid (table s))"
  let ?s1 = "s\<lparr>table := ?w, tpc := (tpc s)(p := TSend c x)\<rparr>"
  have ch: "chans ?w = chans (table s)" by (simp add: Trigger_take_def)
  have 1: "wait_step s (WTake p rid x) ?s1"
    by (rule w_take [OF assms(3)]) (use assms(2) in \<open>simp add: Trigger_take_def flat_def\<close>)
  let ?w2 = "?w\<lparr>chans := (chans ?w)(c := \<lparr>buf = [x], closed = False\<rparr>)\<rparr>"
  let ?s2 = "?s1\<lparr>table := ?w2, tpc := (tpc ?s1)(p := TClose c x), sent := (sent ?s1)(c := sent ?s1 c @ [x])\<rparr>"
  have 2: "wait_step ?s1 (WSend p) ?s2"
    by (rule w_send [of _ _ c]) (use c ch in \<open>simp_all add: chan_send_def\<close>)
  let ?w3 = "?w2\<lparr>chans := (chans ?w2)(c := \<lparr>buf = [x], closed = True\<rparr>)\<rparr>"
  let ?s3 = "?s2\<lparr>table := ?w3, tpc := (tpc ?s2)(p := TIdle)\<rparr>"
  have 3: "wait_step ?s2 (WClose p) ?s3"
    by (rule w_close [of _ _ c]) (simp_all add: chan_close_def)
  let ?w4 = "?w3\<lparr>chans := (chans ?w3)(c := \<lparr>buf = [], closed = True\<rparr>)\<rparr>"
  have 4: "wait_step ?s3 (WRecv c (Some x)) (?s3\<lparr>table := ?w4\<rparr>)"
    by (rule w_recv) (simp add: chan_recv_def)
  have 5: "wait_step (?s3\<lparr>table := ?w4\<rparr>) (WRecv c None) (?s3\<lparr>table := ?w4\<rparr>\<lparr>table := ?w4\<rparr>)"
    by (rule w_recv) (simp add: chan_recv_def)
  have f: "flat ?w3 = (flat (table s))(rid := None)"
    using flat_update [OF I(1), of rid None] by (simp add: Trigger_take_def)
  then have "\<not> IsRegistered rid ?w3" by (metis IsRegistered_def flat_def fun_upd_same)
  moreover have "run wait_step s [WTake p rid x, WSend p, WClose p] ?s3"
    by (rule run_Cons, rule 1, rule run_Cons, rule 2, rule run_Cons, rule 3, rule run_Nil)
  moreover have "run wait_step ?s3 [WRecv c (Some x), WRecv c None] (?s3\<lparr>table := ?w4\<rparr>\<lparr>table := ?w4\<rparr>)"
    by (rule run_Cons, rule 4, rule run_Cons, rule 5, rule run_Nil)
  ultimately show ?thesis
    using c by (intro exI [of _ ?s3] conjI exI) (simp_all only:, simp_all)
qed

text \<open>A run that registers an id, as the witness of both.\<close>

definition sample_wait :: "nat wait_sys" where
  "sample_wait = \<lparr>table = (case Register 3 New_wait of Ok (c, w) \<Rightarrow> w | _ \<Rightarrow> New_wait),
     tpc = (\<lambda>p. TIdle), sent = (\<lambda>c. [])\<rparr>"

lemma Register_New: "Register 3 New_wait = Ok (0, table sample_wait)"
  by (simp add: sample_wait_def Register_def Let_def New_wait_def defaultListElementLength_def
      idx_def)

lemma sample_wait_reach: "reach wait_init wait_step sample_wait"
proof -
  let ?s = "\<lparr>table = New_wait :: nat wait, tpc = (\<lambda>p. TIdle), sent = (\<lambda>c. [])\<rparr>"
  have "reach wait_init wait_step ?s" by (rule reach_init) (simp add: wait_init_def)
  moreover have "wait_step ?s (WRegister 3) (?s\<lparr>table := table sample_wait\<rparr>)"
    using Register_New by (intro w_register) simp
  moreover have "?s\<lparr>table := table sample_wait\<rparr> = sample_wait" by (simp add: sample_wait_def)
  ultimately show ?thesis using reach_step by fastforce
qed

lemma sample_wait_flat: "flat (table sample_wait) 3 = Some 0"
  by (simp add: sample_wait_def flat_def Register_def Let_def New_wait_def
      defaultListElementLength_def idx_def)

lemma wait_delivers_once_witness: "\<not> closed (chans (table sample_wait) 0)"
  using wait_delivers_once [OF sample_wait_reach, of 0 3] sample_wait_flat by simp

lemma wait_trigger_completes_witness:
  "\<exists>t. run wait_step sample_wait [WTake 0 3 7, WSend 0, WClose 0] t
    \<and> chans (table t) 0 = \<lparr>buf = [7], closed = True\<rparr> \<and> sent t 0 = [7] \<and> \<not> IsRegistered 3 (table t)
    \<and> (\<exists>u. run wait_step t [WRecv 0 (Some 7), WRecv 0 None] u)"
  by (rule wait_trigger_completes [OF sample_wait_reach sample_wait_flat])
    (simp add: sample_wait_def)

end
