(* ===== verification/Pool.thy ===== *)
theory Pool
  imports Systems
begin

text \<open>
  Model of \<^verbatim>\<open>pkg/pool\<close>: the blocking queue (\<^verbatim>\<open>queue.go\<close>), with its mutex, its condition
  variable and any number of producers and consumers, the worker loop (\<^verbatim>\<open>worker.go\<close>) and
  the dispatcher (\<^verbatim>\<open>dispatcher.go\<close>), whose goroutine pool is a parameter. Everything between
  \<open>Lock\<close> and \<open>Unlock\<close> (or \<open>Wait\<close>, which releases the mutex) is one step.
\<close>

record 'v queue =
  buffer :: "'v list"
  qclosed :: bool

definition NewQueue :: "'v queue" where
  "NewQueue = \<lparr>buffer = [], qclosed = False\<rparr>"

definition Push :: "'v \<Rightarrow> 'v queue \<Rightarrow> 'v queue" where
  "Push v e = (if \<not> qclosed e then e\<lparr>buffer := buffer e @ [v]\<rparr> else e)"

definition Close :: "'v queue \<Rightarrow> 'v queue" where
  "Close e = (if \<not> qclosed e then e\<lparr>qclosed := True\<rparr> else e)"

text \<open>\<open>Pop\<close> waits while the queue is empty and open; then nil (None) if it is closed, else the head.\<close>

definition Pop_waits :: "'v queue \<Rightarrow> bool" where
  "Pop_waits e \<longleftrightarrow> buffer e = [] \<and> \<not> qclosed e"

definition Pop_take :: "'v queue \<Rightarrow> 'v option \<times> 'v queue" where
  "Pop_take e =
     (if qclosed e then (None, e)
      else case buffer e of [] \<Rightarrow> (None, e) | v # vs \<Rightarrow> (Some v, e\<lparr>buffer := vs\<rparr>))"

definition TryPop :: "'v queue \<Rightarrow> 'v option \<times> bool \<times> 'v queue" where
  "TryPop e =
     (case buffer e of
        v # vs \<Rightarrow> (Some v, True, e\<lparr>buffer := vs\<rparr>)
      | [] \<Rightarrow> (None, qclosed e, e))"

definition Len :: "'v queue \<Rightarrow> nat" where
  "Len e = length (buffer e)"

text \<open>The condition on which the loop of \<open>Wait\<close> breaks.\<close>

definition Wait_breaks :: "'v queue \<Rightarrow> bool" where
  "Wait_breaks e \<longleftrightarrow> qclosed e \<or> Len e = 0"

subsection \<open>Workers and the dispatcher\<close>

text \<open>
  What a worker's \<open>select\<close> receives: a job (nil when its channel gives one) or the end signal; and
  what the worker does: it offers its channel, runs a job's function and reports it finished.
\<close>

datatype 'j worker_event = JobEvent "'j option" | EndEvent

datatype 'j worker_act = Offer | RunJob 'j | JobFinished

fun worker_loop :: "'j worker_event list \<Rightarrow> 'j worker_act list" where
  "worker_loop [] = [Offer]"
| "worker_loop (JobEvent (Some j) # es) = Offer # RunJob j # JobFinished # worker_loop es"
| "worker_loop (JobEvent None # es) = Offer # worker_loop es"
| "worker_loop (EndEvent # es) = [Offer]"

text \<open>
  The dispatcher's loop over the jobs it receives: \<open>submit\<close> is the goroutine pool's, from its state
  to an error and its new state; an error is printed and the loop goes on.
\<close>

fun loopPop :: "('j \<Rightarrow> 'p \<Rightarrow> string option \<times> 'p) \<Rightarrow> 'j list \<Rightarrow> 'p \<Rightarrow> string list \<times> 'p" where
  "loopPop submit [] p = ([], p)"
| "loopPop submit (job # jobs) p =
     (let (err, p) = submit job p; (printed, p) = loopPop submit jobs p
      in (case err of None \<Rightarrow> printed | Some e \<Rightarrow> (''job submit error: '' @ e) # printed, p))"

subsection \<open>Producers and consumers\<close>

text \<open>
  A consumer is outside, asleep in \<open>c.Wait()\<close>, or woken but not yet back under the mutex. The values
  accepted by \<open>Push\<close> and the values handed out are kept as ghosts. \<open>Signal\<close> wakes one sleeper if
  there is one, \<open>Broadcast\<close> all; there are no other wake-ups.
\<close>

datatype q_pc = QIdle | QSleep | QWoken

record 'v queue_sys =
  q :: "'v queue"
  qpc :: "nat \<Rightarrow> q_pc"
  accepted :: "'v list"
  taken :: "'v list"

datatype 'v q_label = LPush 'v | LClose | LPop nat "'v option" | LSleep nat | LTryPop "'v option" bool

definition opt_list :: "'a option \<Rightarrow> 'a list" where
  "opt_list v = (case v of None \<Rightarrow> [] | Some x \<Rightarrow> [x])"

inductive q_step :: "'v queue_sys \<Rightarrow> 'v q_label \<Rightarrow> 'v queue_sys \<Rightarrow> bool" where
  push_wake: "\<not> qclosed (q s) \<Longrightarrow> qpc s p = QSleep \<Longrightarrow>
    q_step s (LPush v) (s\<lparr>q := Push v (q s), qpc := (qpc s)(p := QWoken), accepted := accepted s @ [v]\<rparr>)"
| push_none: "\<not> qclosed (q s) \<Longrightarrow> \<forall>p. qpc s p \<noteq> QSleep \<Longrightarrow>
    q_step s (LPush v) (s\<lparr>q := Push v (q s), accepted := accepted s @ [v]\<rparr>)"
| push_closed: "qclosed (q s) \<Longrightarrow> q_step s (LPush v) (s\<lparr>q := Push v (q s)\<rparr>)"
| close: "q_step s LClose (s\<lparr>q := Close (q s),
    qpc := (if qclosed (q s) then qpc s else (\<lambda>p. if qpc s p = QSleep then QWoken else qpc s p))\<rparr>)"
| pop_sleep: "qpc s p \<in> {QIdle, QWoken} \<Longrightarrow> Pop_waits (q s) \<Longrightarrow>
    q_step s (LSleep p) (s\<lparr>qpc := (qpc s)(p := QSleep)\<rparr>)"
| pop_take: "qpc s p \<in> {QIdle, QWoken} \<Longrightarrow> \<not> Pop_waits (q s) \<Longrightarrow> Pop_take (q s) = (v, e) \<Longrightarrow>
    q_step s (LPop p v) (s\<lparr>q := e, qpc := (qpc s)(p := QIdle), taken := taken s @ opt_list v\<rparr>)"
| try_pop: "TryPop (q s) = (v, ok, e) \<Longrightarrow>
    q_step s (LTryPop v ok) (s\<lparr>q := e, taken := taken s @ opt_list v\<rparr>)"

definition q_init :: "'v queue_sys \<Rightarrow> bool" where
  "q_init s \<longleftrightarrow> s = \<lparr>q = NewQueue, qpc = (\<lambda>p. QIdle), accepted = [], taken = []\<rparr>"

definition woken :: "(nat \<Rightarrow> q_pc) \<Rightarrow> nat" where
  "woken f = card {p. f p = QWoken}"

definition active_finite :: "(nat \<Rightarrow> q_pc) \<Rightarrow> bool" where
  "active_finite f \<longleftrightarrow> finite {p. f p \<noteq> QIdle}"

definition q_inv :: "'v queue_sys \<Rightarrow> bool" where
  "q_inv s \<longleftrightarrow>
     active_finite (qpc s)
     \<and> accepted s = taken s @ buffer (q s)
     \<and> (\<forall>p. qpc s p = QSleep \<longrightarrow> \<not> qclosed (q s) \<and> Len (q s) \<le> woken (qpc s))"

lemma woken_upd:
  assumes "active_finite f"
  shows "int (woken (f(p := y))) = int (woken f) + of_bool (y = QWoken) - of_bool (f p = QWoken)"
proof -
  have "{p. f p = QWoken} \<subseteq> {p. f p \<noteq> QIdle}" by auto
  then have "finite {p. f p = QWoken}"
    using assms finite_subset unfolding active_finite_def by blast
  then show ?thesis
    unfolding woken_def by (rule card_fun_upd [where P = "\<lambda>x. x = QWoken"])
qed

lemma active_upd: "active_finite f \<Longrightarrow> active_finite (f(p := y))"
  unfolding active_finite_def by (rule finite_fun_upd)

lemma q_init_inv: "q_init s \<Longrightarrow> q_inv s"
  by (simp add: q_init_def q_inv_def NewQueue_def active_finite_def)

lemmas queue_defs = Push_def Close_def Pop_waits_def Pop_take_def TryPop_def Len_def opt_list_def

lemma q_step_inv: "q_inv s \<Longrightarrow> q_step s l t \<Longrightarrow> q_inv t"
proof -
  assume inv: "q_inv s" and st: "q_step s l t"
  note I = inv [unfolded q_inv_def]
  have fin: "active_finite (qpc s)" using I by simp
  note W = woken_upd [OF fin]
  from st show ?thesis
  proof (cases rule: q_step.cases)
    case (push_wake p v)
    have "int (woken ((qpc s)(p := QWoken))) = int (woken (qpc s)) + 1"
      using W [of p QWoken] push_wake(4) by simp
    then show ?thesis
      using I push_wake active_upd [OF fin, of p QWoken]
      by (auto simp: q_inv_def queue_defs)
  next
    case (push_none v)
    then show ?thesis using I by (auto simp: q_inv_def queue_defs)
  next
    case (push_closed v)
    then show ?thesis using I by (auto simp: q_inv_def queue_defs)
  next
    case close
    have "{p. (if qpc s p = QSleep then QWoken else qpc s p) \<noteq> QIdle} = {p. qpc s p \<noteq> QIdle}"
      by auto
    then show ?thesis
      using I unfolding close(2) by (auto simp: q_inv_def Close_def active_finite_def)
  next
    case (pop_sleep p)
    then show ?thesis
      using I active_upd [OF fin, of p QSleep] by (auto simp: q_inv_def queue_defs)
  next
    case (pop_take p v e)
    have "int (woken (qpc s)) \<le> int (woken ((qpc s)(p := QIdle))) + 1"
      using W [of p QIdle] by (simp add: of_bool_def)
    then show ?thesis
      using I pop_take active_upd [OF fin, of p QIdle]
      by (auto simp: q_inv_def queue_defs split: list.splits if_splits)
  next
    case (try_pop v ok e)
    then show ?thesis using I by (auto simp: q_inv_def queue_defs split: list.splits)
  qed
qed

text \<open>
  What the queue promises its users: a first-in first-out list with a switch, on which every
  operation is one indivisible step (\<open>Pop\<close> never hands out anything once the switch is off, \<open>TryPop\<close>
  does).
\<close>

fun fifo_step :: "'v list \<times> bool \<Rightarrow> 'v q_label \<Rightarrow> 'v list \<times> bool \<Rightarrow> bool" where
  "fifo_step (xs, off) (LPush v) t = (t = (if off then xs else xs @ [v], off))"
| "fifo_step (xs, off) LClose t = (t = (xs, True))"
| "fifo_step (xs, off) (LSleep p) t = (xs = [] \<and> \<not> off \<and> t = (xs, off))"
| "fifo_step (xs, off) (LPop p None) t = (off \<and> t = (xs, off))"
| "fifo_step (xs, off) (LPop p (Some v)) t = (\<not> off \<and> xs = v # fst t \<and> snd t = off)"
| "fifo_step (xs, off) (LTryPop None ok) t = (xs = [] \<and> ok = off \<and> t = (xs, off))"
| "fifo_step (xs, off) (LTryPop (Some v) ok) t = (ok \<and> xs = v # fst t \<and> snd t = off)"

definition fifo_of :: "'v queue_sys \<Rightarrow> 'v list \<times> bool" where
  "fifo_of s = (buffer (q s), qclosed (q s))"

lemma q_step_fifo: "q_step s l t \<Longrightarrow> fifo_step (fifo_of s) l (fifo_of t)"
  by (cases rule: q_step.cases) (auto simp: fifo_of_def queue_defs split: list.splits if_splits)

interpretation qs: refinement_system q_init q_step q_inv fifo_of "\<lambda>a. a = ([], False)" fifo_step
proof unfold_locales
  show "fifo_of s = ([], False)" if "q_init s" for s :: "'v queue_sys"
    using that by (simp add: q_init_def fifo_of_def NewQueue_def)
qed (auto intro: q_init_inv q_step_inv q_step_fifo)

subsection \<open>Properties\<close>

text \<open>C7: the queue is first-in first-out and loses nothing: in every reachable state of any number
  of producers and consumers, blocking and not, the values accepted by \<open>Push\<close> are the values handed
  out, in that order, followed by the values still in the buffer; and every run from there is a run of
  the sequential queue, with the same results of every \<open>Push\<close>, \<open>Pop\<close>, \<open>TryPop\<close> and \<open>Close\<close>.\<close>

theorem queue_fifo:
  assumes "reach q_init q_step s" "run q_step s ls t"
  shows "accepted s = taken s @ buffer (q s)
    \<and> run fifo_step (buffer (q s), qclosed (q s)) ls (buffer (q t), qclosed (q t))"
  using qs.reach_inv [OF assms(1)] qs.abs_run [OF assms(2)] by (simp add: q_inv_def fifo_of_def)

text \<open>No wake-up is lost: a consumer asleep in \<open>Pop\<close> sleeps on an open queue, and whenever a
  value is in the buffer some other consumer has been woken and its next step takes the head of the
  buffer; after \<open>Close\<close> nobody sleeps and every \<open>Pop\<close> returns nil at once, leaving what is in the
  buffer there (\<open>TryPop\<close> still hands it out).\<close>

theorem queue_no_lost_wakeup:
  assumes "reach q_init q_step s"
  shows "(qpc s p = QSleep \<longrightarrow> \<not> qclosed (q s) \<and>
      (buffer (q s) \<noteq> [] \<longrightarrow> (\<exists>r t. r \<noteq> p \<and> qpc s r = QWoken
         \<and> q_step s (LPop r (Some (hd (buffer (q s))))) t)))
    \<and> (qclosed (q s) \<longrightarrow> qpc s p \<noteq> QSleep \<and> \<not> Pop_waits (q s) \<and> Pop_take (q s) = (None, q s)
         \<and> TryPop (q s) = (case buffer (q s) of [] \<Rightarrow> (None, True, q s)
             | v # vs \<Rightarrow> (Some v, True, (q s)\<lparr>buffer := vs\<rparr>)))"
proof -
  note I = qs.reach_inv [OF assms, unfolded q_inv_def]
  have "\<exists>r t. r \<noteq> p \<and> qpc s r = QWoken \<and> q_step s (LPop r (Some (hd (buffer (q s))))) t"
    if p: "qpc s p = QSleep" and b: "buffer (q s) \<noteq> []"
  proof -
    have o: "\<not> qclosed (q s)" and "Len (q s) \<le> woken (qpc s)" using I p by auto
    then have "woken (qpc s) \<noteq> 0" using b by (cases "buffer (q s)") (simp_all add: Len_def)
    then obtain r where r: "qpc s r = QWoken" by (auto simp: woken_def card_eq_0_iff)
    have "Pop_take (q s) = (Some (hd (buffer (q s))), (q s)\<lparr>buffer := tl (buffer (q s))\<rparr>)"
      using o b by (cases "buffer (q s)") (simp_all add: Pop_take_def)
    then have "\<exists>t. q_step s (LPop r (Some (hd (buffer (q s))))) t"
      using r b by (intro exI) (rule pop_take, simp_all add: Pop_waits_def)
    moreover have "r \<noteq> p" using r p by auto
    ultimately show ?thesis using r by blast
  qed
  with I show ?thesis by (auto simp: queue_defs split: list.splits)
qed

lemma sample_queue_reach:
  "reach q_init q_step \<lparr>q = Push (7 :: nat) NewQueue, qpc = (\<lambda>p. QIdle), accepted = [7], taken = []\<rparr>"
proof -
  let ?s = "\<lparr>q = NewQueue, qpc = (\<lambda>p. QIdle), accepted = [], taken = []\<rparr> :: nat queue_sys"
  have "reach q_init q_step ?s" by (rule reach_init) (simp add: q_init_def)
  moreover have "q_step ?s (LPush 7) (?s\<lparr>q := Push 7 (q ?s), accepted := accepted ?s @ [7]\<rparr>)"
    by (rule push_none) (simp_all add: NewQueue_def)
  ultimately show ?thesis using reach_step by fastforce
qed

lemma queue_fifo_witness: "[7 :: nat] = [] @ buffer (Push 7 NewQueue)"
  using queue_fifo [OF sample_queue_reach run_Nil] by simp

lemma sample_closed_reach:
  "reach q_init q_step \<lparr>q = Close (Push (7 :: nat) NewQueue), qpc = (\<lambda>p. QIdle), accepted = [7], taken = []\<rparr>"
  using reach_step [OF sample_queue_reach close] by (simp add: Push_def NewQueue_def)

lemma queue_no_lost_wakeup_witness:
  "\<not> Pop_waits (Close (Push (7 :: nat) NewQueue)) \<and>
   Pop_take (Close (Push (7 :: nat) NewQueue)) = (None, Close (Push 7 NewQueue))"
  using queue_no_lost_wakeup [OF sample_closed_reach, of 0] by (simp add: Close_def Push_def NewQueue_def)

end
