(* ===== verification/Zdb.thy ===== *)
theory Zdb
  imports Prelude "HOL-Library.Multiset"
begin

text \<open>
  Model of the transaction manager of \<^verbatim>\<open>pkg/zdb\<close> (\<^verbatim>\<open>tx_manager.go\<close>, \<^verbatim>\<open>zdb.go\<close>,
  \<^verbatim>\<open>context.go\<close>, \<^verbatim>\<open>DB.Begin\<close>, \<^verbatim>\<open>Commit\<close>, \<^verbatim>\<open>Rollback\<close> of \<^verbatim>\<open>db.go\<close>). The database
  driver is a parameter: \<open>fails log ev\<close> is the error of the call \<open>ev\<close> after the calls \<open>log\<close>. The
  order in which Go iterates over a map is the parameter \<open>iter\<close>, any rearrangement. A callback is
  a function from its context and the state to its outcome and the new state.
\<close>

datatype db_event = BeginEv string nat | CommitEv nat | RollbackEv nat

type_synonym driver = "db_event list \<Rightarrow> db_event \<Rightarrow> string option"

type_synonym iter = "(string \<times> nat) list \<Rightarrow> (string \<times> nat) list"

text \<open>
  \<open>txm\<close> is \<open>txManager.m\<close>: the open databases of each transaction id, by name, a DB being a handle;
  \<open>engines\<close> the databases \<open>dbManager\<close> has connected; \<open>calls\<close> the calls made to the driver so far.
\<close>

record zdb =
  txm :: "int \<rightharpoonup> (string \<times> nat) list"
  engines :: "string list"
  handles :: nat
  calls :: "db_event list"

datatype ctx = PlainCtx | TxCtx int

definition issue :: "driver \<Rightarrow> db_event \<Rightarrow> zdb \<Rightarrow> string option \<times> zdb" where
  "issue fails ev s = (fails (calls s) ev, s\<lparr>calls := calls s @ [ev]\<rparr>)"

definition getDB_tx :: "string \<Rightarrow> int \<Rightarrow> zdb \<Rightarrow> nat option" where
  "getDB_tx name txId s =
     (case txm s txId of None \<Rightarrow> None | Some dbs \<Rightarrow> map_of dbs name)"

definition addDB :: "string \<Rightarrow> int \<Rightarrow> nat \<Rightarrow> zdb \<Rightarrow> zdb" where
  "addDB name txId db s =
     (let dbs = (case txm s txId of None \<Rightarrow> [] | Some dbs \<Rightarrow> dbs)
      in s\<lparr>txm := (txm s)(txId \<mapsto> (name, db) # filter (\<lambda>x. fst x \<noteq> name) dbs)\<rparr>)"

text \<open>\<open>dbManager.getDB\<close>: a new handle on the connected database.\<close>

definition getDB_dm :: "string \<Rightarrow> zdb \<Rightarrow> nat option \<times> zdb" where
  "getDB_dm name s =
     (if name \<in> set (engines s) then (Some (handles s), s\<lparr>handles := handles s + 1\<rparr>) else (None, s))"

text \<open>The loops of \<open>Commit\<close> and \<open>Rollback\<close> stop at the first error.\<close>

fun each_db :: "driver \<Rightarrow> (nat \<Rightarrow> db_event) \<Rightarrow> (string \<times> nat) list \<Rightarrow> zdb \<Rightarrow> string option \<times> zdb" where
  "each_db fails ev [] s = (None, s)"
| "each_db fails ev ((name, db) # dbs) s =
     (case issue fails (ev db) s of
        (Some err, s) \<Rightarrow> (Some err, s)
      | (None, s) \<Rightarrow> each_db fails ev dbs s)"

definition finish_tx ::
  "driver \<Rightarrow> iter \<Rightarrow> (nat \<Rightarrow> db_event) \<Rightarrow> int \<Rightarrow> zdb \<Rightarrow> string option \<times> zdb" where
  "finish_tx fails iter ev txId s =
     (let (err, s) = (case txm s txId of
            Some dbs \<Rightarrow> each_db fails ev (iter dbs) s | None \<Rightarrow> (None, s))
      in (err, s\<lparr>txm := (txm s)(txId := None)\<rparr>))"

definition Commit :: "driver \<Rightarrow> iter \<Rightarrow> int \<Rightarrow> zdb \<Rightarrow> string option \<times> zdb" where
  "Commit fails iter txId s = finish_tx fails iter CommitEv txId s"

definition Rollback :: "driver \<Rightarrow> iter \<Rightarrow> int \<Rightarrow> zdb \<Rightarrow> string option \<times> zdb" where
  "Rollback fails iter txId s = finish_tx fails iter RollbackEv txId s"

definition NewOrm :: "driver \<Rightarrow> ctx \<Rightarrow> string \<Rightarrow> zdb \<Rightarrow> nat outcome \<times> zdb" where
  "NewOrm fails c name s =
     (case c of
        PlainCtx \<Rightarrow>
          (case getDB_dm name s of
             (None, s) \<Rightarrow> (Panicked name, s) | (Some db, s) \<Rightarrow> (Returned db, s))
      | TxCtx txId \<Rightarrow>
          (case getDB_tx name txId s of
             Some db \<Rightarrow> (Returned db, s)
           | None \<Rightarrow>
               (case getDB_dm name s of
                  (None, s) \<Rightarrow> (Panicked name, s)
                | (Some db, s) \<Rightarrow>
                    (case issue fails (BeginEv name db) s of
                       (Some err, s) \<Rightarrow> (Panicked err, s)
                     | (None, s) \<Rightarrow> (Returned db, addDB name txId db s)))))"

text \<open>
  \<open>Transaction\<close>: with a plain context a new transaction id, with a transaction's context that one
  (nesting). The deferred rollback runs when the callback panicked or an error is returned, the
  error of the commit included; its own error is dropped.
\<close>

definition Transaction ::
  "driver \<Rightarrow> iter \<Rightarrow> (zdb \<Rightarrow> int) \<Rightarrow> ctx
    \<Rightarrow> (ctx \<Rightarrow> zdb \<Rightarrow> ('r \<times> string option) outcome \<times> zdb)
    \<Rightarrow> zdb \<Rightarrow> ('r \<times> string option) outcome \<times> zdb" where
  "Transaction fails iter newid c fn s =
     (let txId = (case c of TxCtx i \<Rightarrow> i | PlainCtx \<Rightarrow> newid s)
      in case fn (TxCtx txId) s of
           (Panicked m, s) \<Rightarrow> (Panicked m, snd (Rollback fails iter txId s))
         | (Returned (resp, Some err), s) \<Rightarrow>
             (Returned (resp, Some err), snd (Rollback fails iter txId s))
         | (Returned (resp, None), s) \<Rightarrow>
             (case Commit fails iter txId s of
                (None, s) \<Rightarrow> (Returned (resp, None), s)
              | (Some err, s) \<Rightarrow> (Returned (resp, Some err), snd (Rollback fails iter txId s))))"

subsection \<open>What a transaction does to its databases\<close>

text \<open>A callback that opens the named databases with its context and then ends with \<open>out\<close>.\<close>

fun open_all :: "driver \<Rightarrow> string list \<Rightarrow> 'a outcome \<Rightarrow> ctx \<Rightarrow> zdb \<Rightarrow> 'a outcome \<times> zdb" where
  "open_all fails [] out c s = (out, s)"
| "open_all fails (n # ns) out c s =
     (case NewOrm fails c n s of
        (Panicked m, s) \<Rightarrow> (Panicked m, s)
      | (Returned db, s) \<Rightarrow> open_all fails ns out c s)"

definition opened :: "int \<Rightarrow> zdb \<Rightarrow> (string \<times> nat) list" where
  "opened txId s = (case txm s txId of None \<Rightarrow> [] | Some dbs \<Rightarrow> dbs)"

text \<open>The handles begun in a stretch of calls.\<close>

fun begun :: "db_event list \<Rightarrow> nat list" where
  "begun [] = []"
| "begun (BeginEv n h # es) = h # begun es"
| "begun (e # es) = begun es"

lemma begun_append [simp]: "begun (xs @ ys) = begun xs @ begun ys"
  by (induction xs rule: begun.induct) auto

text \<open>
  While the callback runs, what the manager holds for the transaction is what it has begun and the
  driver accepted, each handle once.
\<close>

definition fails_begin :: "driver \<Rightarrow> bool" where
  "fails_begin fails \<longleftrightarrow> (\<exists>l n h. fails l (BeginEv n h) \<noteq> None)"

lemma filter_not_mem: "map_of dbs n = None \<Longrightarrow> filter (\<lambda>x. fst x \<noteq> n) dbs = dbs"
  by (induction dbs) (auto split: if_splits)

lemma open_all_spec:
  assumes "\<not> fails_begin fails" "open_all fails ns out (TxCtx i) s = (r, s')"
    "\<forall>h \<in> snd ` set (opened i s). h < handles s"
  shows "\<exists>new. calls s' = calls s @ new \<and> mset (map snd (opened i s')) = mset (map snd (opened i s)) + mset (begun new)
    \<and> (\<forall>e \<in> set new. \<exists>n h. e = BeginEv n h \<and> handles s \<le> h) \<and> distinct (begun new)
    \<and> (\<forall>h \<in> set (begun new). h < handles s') \<and> handles s \<le> handles s'
    \<and> (\<forall>j. j \<noteq> i \<longrightarrow> txm s' j = txm s j) \<and> (r = out \<or> (\<exists>n \<in> set ns. r = Panicked n \<and> n \<notin> set (engines s)))
    \<and> engines s' = engines s"
  using assms(2,3)
proof (induction ns arbitrary: s)
  case Nil
  then show ?case by auto
next
  case (Cons n ns)
  consider (found) db where "getDB_tx n i s = Some db"
    | (missing) "getDB_tx n i s = None" "n \<notin> set (engines s)"
    | (start) "getDB_tx n i s = None" "n \<in> set (engines s)" by (cases "getDB_tx n i s") auto
  then show ?case
  proof cases
    case found
    then have "open_all fails ns out (TxCtx i) s = (r, s')"
      using Cons.prems(1) by (simp add: NewOrm_def)
    from Cons.IH [OF this Cons.prems(2)] show ?thesis
      unfolding list.set(2) bex_simps(5) by blast
  next
    case missing
    then have "r = Panicked n" "s' = s"
      using Cons.prems(1) by (auto simp: NewOrm_def getDB_dm_def)
    then show ?thesis using missing by (intro exI [of _ "[]"]) auto
  next
    case start
    let ?h = "handles s"
    define s1 where "s1 = addDB n i ?h (s\<lparr>handles := ?h + 1, calls := calls s @ [BeginEv n ?h]\<rparr>)"
    have "fails (calls s) (BeginEv n ?h) = None" using assms(1) by (simp add: fails_begin_def)
    then have "open_all fails ns out (TxCtx i) s1 = (r, s')"
      using Cons.prems(1) start by (simp add: NewOrm_def getDB_dm_def issue_def s1_def)
    moreover have "map_of (opened i s) n = None"
      using start(1) by (simp add: getDB_tx_def opened_def split: option.splits)
    then have op: "opened i s1 = (n, ?h) # opened i s"
      by (auto simp: s1_def addDB_def opened_def Let_def filter_not_mem split: option.splits)
    have simps: "handles s1 = ?h + 1" "calls s1 = calls s @ [BeginEv n ?h]" "engines s1 = engines s"
      "\<And>j. j \<noteq> i \<Longrightarrow> txm s1 j = txm s j" by (simp_all add: s1_def addDB_def Let_def)
    have "\<forall>h \<in> snd ` set (opened i s1). h < handles s1"
      using Cons.prems(2) by (auto simp: op simps)
    ultimately obtain new where new: "calls s' = calls s1 @ new"
      "mset (map snd (opened i s')) = mset (map snd (opened i s1)) + mset (begun new)"
      "\<forall>e \<in> set new. \<exists>n h. e = BeginEv n h \<and> handles s1 \<le> h" "distinct (begun new)"
      "\<forall>h \<in> set (begun new). h < handles s'" "handles s1 \<le> handles s'"
      "\<forall>j. j \<noteq> i \<longrightarrow> txm s' j = txm s1 j" "r = out \<or> (\<exists>n \<in> set ns. r = Panicked n \<and> n \<notin> set (engines s1))"
      "engines s' = engines s1"
      using Cons.IH [of s1] by (metis (no_types))
    have "h \<in> set (begun new) \<Longrightarrow> ?h < h" for h
      using new(3) simps(1) by (induction new rule: begun.induct) auto
    then show ?thesis
      using new by (intro exI [of _ "BeginEv n ?h # new"]) (auto simp: op simps)
  qed
qed

lemma each_db_ok:
  "\<forall>l h. fails l (ev h) = None \<Longrightarrow>
   each_db fails ev dbs s = (None, s\<lparr>calls := calls s @ map (\<lambda>x. ev (snd x)) dbs\<rparr>)"
  by (induction dbs arbitrary: s) (auto simp: issue_def)

lemma finish_tx_ok:
  "\<forall>l h. fails l (ev h) = None \<Longrightarrow> finish_tx fails iter ev i s
     = (None, s\<lparr>calls := calls s @ map (\<lambda>x. ev (snd x)) (case txm s i of None \<Rightarrow> [] | Some dbs \<Rightarrow> iter dbs),
                txm := (txm s)(i := None)\<rparr>)"
  by (simp add: finish_tx_def each_db_ok split: option.split)

lemma finish_mset:
  assumes "\<forall>xs. mset (iter xs) = mset xs"
  shows "mset (map (\<lambda>x. ev (snd x)) (case txm s i of None \<Rightarrow> [] | Some dbs \<Rightarrow> iter dbs))
    = image_mset ev (mset (map snd (opened i s)))"
  using assms by (simp add: opened_def image_mset.compositionality comp_def split: option.split)

definition succeeded :: "('r \<times> string option) outcome \<Rightarrow> bool" where
  "succeeded r \<longleftrightarrow> (case r of Returned (x, None) \<Rightarrow> True | _ \<Rightarrow> False)"


text \<open>The driver that never fails, as a witness.\<close>

definition good_driver :: driver where "good_driver = (\<lambda>l e. None)"

definition sample_zdb :: zdb where
  "sample_zdb = \<lparr>txm = Map.empty, engines = [''default''], handles = 0, calls = []\<rparr>"


text \<open>When a commit fails, the databases that come after it in the map's order are neither
  committed nor rolled back: \<open>Commit\<close> forgets the transaction on every path, so the rollback that
  \<open>Transaction\<close> runs for the error finds nothing and issues no call.\<close>

theorem transaction_commit_error:
  assumes "txm s i = Some dbs" "iter dbs = xs @ (n, h) # ys"
    and "\<forall>l. \<forall>h' \<in> snd ` set xs. fails l (CommitEv h') = None" "\<forall>l. fails l (CommitEv h) = Some e"
  shows "Transaction fails iter newid (TxCtx i) (\<lambda>c s. (Returned (resp, None), s)) s
    = (Returned (resp, Some e),
       s\<lparr>calls := calls s @ map (\<lambda>x. CommitEv (snd x)) xs @ [CommitEv h], txm := (txm s)(i := None)\<rparr>)"
proof -
  have e: "each_db fails CommitEv (xs @ (n, h) # ys) s
      = (Some e, s\<lparr>calls := calls s @ map (\<lambda>x. CommitEv (snd x)) xs @ [CommitEv h]\<rparr>)" for s
    using assms(3,4) by (induction xs arbitrary: s) (auto simp: issue_def)
  show ?thesis
    using assms(1,2) e
    by (simp add: Transaction_def Commit_def Rollback_def finish_tx_def)
qed

lemma transaction_commit_error_witness:
  "Transaction (\<lambda>l e. if e = CommitEv 1 then Some ''lost'' else None) (\<lambda>xs. xs) (\<lambda>s. 1) (TxCtx 5)
      (\<lambda>c s. (Returned ((), None), s))
      (sample_zdb\<lparr>txm := [5 \<mapsto> [(''a'', 0), (''b'', 1), (''c'', 2)]]\<rparr>)
    = (Returned ((), Some ''lost''), (sample_zdb\<lparr>txm := [5 \<mapsto> [(''a'', 0), (''b'', 1), (''c'', 2)]]\<rparr>)
        \<lparr>calls := [CommitEv 0, CommitEv 1], txm := Map.empty\<rparr>)"
  using transaction_commit_error [of "sample_zdb\<lparr>txm := [5 \<mapsto> [(''a'', 0), (''b'', 1), (''c'', 2)]]\<rparr>" 5
      "[(''a'', 0), (''b'', 1), (''c'', 2)]" "\<lambda>xs. xs" "[(''a'', 0)]" "''b''" 1 "[(''c'', 2)]"
      "\<lambda>l e. if e = CommitEv 1 then Some ''lost'' else None" "''lost''" "\<lambda>s. 1" "()"]
  by (simp add: sample_zdb_def)

text \<open>A nested \<open>Transaction\<close> commits for its outer one: if the inner call succeeds, the outer
  transaction's databases are committed there and then, and an error the outer callback returns
  afterwards rolls nothing back.\<close>

theorem nested_transaction_commits_outer:
  assumes "\<forall>l e. fails l e = None" "txm s (newid s) = None" "n \<in> set (engines s)" "iter [(n, handles s)] = [(n, handles s)]"
  shows "Transaction fails iter newid PlainCtx
      (\<lambda>c s. case NewOrm fails c n s of
          (Panicked m, s) \<Rightarrow> (Panicked m, s)
        | (Returned db, s) \<Rightarrow>
            (case Transaction fails iter newid c (\<lambda>c s. (Returned ((), None), s)) s of
               (r, s) \<Rightarrow> (Returned ((), Some e), s))) s
    = (Returned ((), Some e), s\<lparr>handles := handles s + 1,
         calls := calls s @ [BeginEv n (handles s), CommitEv (handles s)]\<rparr>)"
proof -
  have t: "(txm s)(newid s := None) = txm s" using assms(2) by auto
  show ?thesis
    using assms t
    by (simp add: Transaction_def NewOrm_def getDB_tx_def getDB_dm_def issue_def addDB_def
        Commit_def Rollback_def finish_tx_def Let_def)
qed

lemma nested_transaction_commits_outer_witness:
  "fst (Transaction good_driver rev (\<lambda>s. 1) PlainCtx
      (\<lambda>c s. case NewOrm good_driver c ''default'' s of
          (Panicked m, s) \<Rightarrow> (Panicked m, s)
        | (Returned db, s) \<Rightarrow>
            (case Transaction good_driver rev (\<lambda>s. 1) c (\<lambda>c s. (Returned ((), None), s)) s of
               (r, s) \<Rightarrow> (Returned ((), Some ''e''), s))) sample_zdb) = Returned ((), Some ''e'')"
  by (subst nested_transaction_commits_outer) (simp_all add: good_driver_def sample_zdb_def)

end
