(* ===== verification/Seq.thy ===== *)
theory Seq
  imports Systems
begin

text \<open>
  Model of \<^verbatim>\<open>config/seq.go\<close>: sequence numbers handed out from blocks reserved in a
  database row. The \<open>*Seq\<close> objects are in a heap, \<open>rows\<close> is the \<open>seq\<close> table. The outcome of each
  database call is an argument, and a failed write may or may not have taken effect. The sections of
  \<open>GenSeq\<close> between two accesses to shared state are functions of their own: \<open>GenSeq\<close> composes them
  for one caller, and a step relation interleaves them for several. Numbers are integers, as \<open>2^63\<close>
  calls would be needed to overflow an int64.
\<close>

record Seq =
  CurSeq :: int
  MaxSeq :: int

record seq_state =
  seqMap :: "string \<rightharpoonup> nat"
  objs :: "nat \<Rightarrow> Seq"
  nobj :: nat
  rows :: "string \<rightharpoonup> int"

datatype db_write = WriteOk | WriteFailed bool

definition seqStep :: int where "seqStep = 1000"

definition seq_key :: "string \<Rightarrow> string" where "seq_key flag = ''seq:'' @ flag"

definition addOrUpdateSeq :: "db_write \<Rightarrow> string \<Rightarrow> int \<Rightarrow> seq_state \<Rightarrow> bool \<times> seq_state" where
  "addOrUpdateSeq w key minSeq st =
     (case w of
        WriteOk \<Rightarrow> (True, st\<lparr>rows := (rows st)(key \<mapsto> minSeq)\<rparr>)
      | WriteFailed effect \<Rightarrow>
          (False, if effect then st\<lparr>rows := (rows st)(key \<mapsto> minSeq)\<rparr> else st))"

text \<open>\<open>querySeqWithKey\<close>: None is an error, else the row's \<open>min_seq\<close> if there is a row.\<close>

definition querySeqWithKey :: "bool \<Rightarrow> string \<Rightarrow> seq_state \<Rightarrow> int option option" where
  "querySeqWithKey failed key st = (if failed then None else Some (rows st key))"

definition new_seq :: "Seq \<Rightarrow> seq_state \<Rightarrow> nat \<times> seq_state" where
  "new_seq x st = (nobj st, st\<lparr>objs := (objs st)(nobj st := x), nobj := nobj st + 1\<rparr>)"

text \<open>A flag that is not loaded yet: read its row, or reserve the first block.\<close>

definition first_block :: "db_write \<Rightarrow> string \<Rightarrow> seq_state \<Rightarrow> nat outcome \<times> seq_state" where
  "first_block w flag st =
     (let currSeq = 1000000 in
      case addOrUpdateSeq w (seq_key flag) (currSeq + seqStep) st of
        (False, st) \<Rightarrow> (Panicked ''insert'', st)
      | (True, st) \<Rightarrow>
          (let (a, st) = new_seq \<lparr>CurSeq = currSeq, MaxSeq = currSeq + seqStep\<rparr> st
           in (Returned a, st)))"

definition load_seq :: "bool \<Rightarrow> db_write \<Rightarrow> string \<Rightarrow> seq_state \<Rightarrow> nat outcome \<times> seq_state" where
  "load_seq qfailed w flag st =
     (case querySeqWithKey qfailed (seq_key flag) st of
        None \<Rightarrow> (Panicked ''select'', st)
      | Some None \<Rightarrow> first_block w flag st
      | Some (Some m) \<Rightarrow>
          (let (a, st) = new_seq \<lparr>CurSeq = m, MaxSeq = m\<rparr> st in (Returned a, st)))"

definition set_seq :: "string \<Rightarrow> nat \<Rightarrow> seq_state \<Rightarrow> seq_state" where
  "set_seq flag a st = st\<lparr>seqMap := (seqMap st)(flag \<mapsto> a)\<rparr>"

definition needs_block :: "nat \<Rightarrow> seq_state \<Rightarrow> bool" where
  "needs_block a st \<longleftrightarrow> MaxSeq (objs st a) \<le> CurSeq (objs st a)"

definition reserve_block :: "db_write \<Rightarrow> string \<Rightarrow> nat \<Rightarrow> seq_state \<Rightarrow> unit outcome \<times> seq_state" where
  "reserve_block w flag a st =
     (case addOrUpdateSeq w (seq_key flag) (CurSeq (objs st a) + seqStep) st of
        (False, st) \<Rightarrow> (Panicked ''update'', st)
      | (True, st) \<Rightarrow>
          (Returned (), st\<lparr>objs := (objs st)(a := (objs st a)\<lparr>MaxSeq := MaxSeq (objs st a) + seqStep\<rparr>)\<rparr>))"

definition next_seq :: "nat \<Rightarrow> seq_state \<Rightarrow> int \<times> seq_state" where
  "next_seq a st =
     (CurSeq (objs st a) + 1,
      st\<lparr>objs := (objs st)(a := (objs st a)\<lparr>CurSeq := CurSeq (objs st a) + 1\<rparr>)\<rparr>)"

text \<open>\<open>now\<close> is the clock, \<open>qfailed\<close>, \<open>ins\<close> and \<open>upd\<close> how the three database calls go.\<close>

definition GenSeq ::
  "string \<Rightarrow> int \<Rightarrow> bool \<Rightarrow> db_write \<Rightarrow> db_write \<Rightarrow> seq_state \<Rightarrow> int outcome \<times> seq_state" where
  "GenSeq flag now qfailed ins upd st =
     (if flag \<noteq> ''groupMember'' then (Returned now, st)
      else
        case (case seqMap st flag of
                Some a \<Rightarrow> (Returned a, st)
              | None \<Rightarrow>
                  (case load_seq qfailed ins flag st of
                     (Panicked m, st) \<Rightarrow> (Panicked m, st)
                   | (Returned a, st) \<Rightarrow> (Returned a, set_seq flag a st))) of
          (Panicked m, st) \<Rightarrow> (Panicked m, st)
        | (Returned a, st) \<Rightarrow>
            (case (if needs_block a st then reserve_block upd flag a st else (Returned (), st)) of
               (Panicked m, st) \<Rightarrow> (Panicked m, st)
             | (Returned u, st) \<Rightarrow> (let (n, st) = next_seq a st in (Returned n, st))))"

subsection \<open>One caller at a time\<close>

text \<open>Calls for the flag that uses the table, and restarts of the process, which lose its memory.\<close>

datatype seq_op = Call bool db_write db_write | Restart

fun run_seq :: "seq_op list \<Rightarrow> seq_state \<Rightarrow> int list" where
  "run_seq [] st = []"
| "run_seq (Restart # ops) st = run_seq ops (st\<lparr>seqMap := Map.empty\<rparr>)"
| "run_seq (Call q i u # ops) st =
     (case GenSeq ''groupMember'' 0 q i u st of
        (Returned n, st) \<Rightarrow> n # run_seq ops st
      | (Panicked m, st) \<Rightarrow> run_seq ops st)"

text \<open>
  All numbers handed out are at most \<open>b\<close>: the loaded counter has passed \<open>b\<close> and stays within the
  block the row has reserved, and the row, if there is one, has reserved up to \<open>b\<close>.
\<close>

definition seq_inv :: "int \<Rightarrow> seq_state \<Rightarrow> bool" where
  "seq_inv b st \<longleftrightarrow>
     (case rows st (seq_key ''groupMember'') of
        None \<Rightarrow> seqMap st ''groupMember'' = None \<and> b \<le> 1000000
      | Some m \<Rightarrow> b \<le> m \<and>
          (case seqMap st ''groupMember'' of None \<Rightarrow> True
           | Some a \<Rightarrow> b \<le> CurSeq (objs st a) \<and> CurSeq (objs st a) \<le> MaxSeq (objs st a)
               \<and> MaxSeq (objs st a) \<le> m))"

lemmas seq_defs = GenSeq_def load_seq_def first_block_def querySeqWithKey_def addOrUpdateSeq_def
  new_seq_def set_seq_def needs_block_def reserve_block_def next_seq_def seqStep_def Let_def

lemma GenSeq_inv:
  assumes "seq_inv b st" "GenSeq ''groupMember'' now q i u st = (r, st')"
  shows "case r of Returned n \<Rightarrow> b < n \<and> seq_inv n st' | Panicked m \<Rightarrow> seq_inv b st'"
proof (cases "seqMap st ''groupMember''")
  case None
  show ?thesis
  proof (cases "rows st (seq_key ''groupMember'')")
    case rows: None
    then show ?thesis
      using assms None
      by (auto simp: seq_inv_def seq_defs split: if_splits db_write.splits prod.splits)
  next
    case (Some m)
    then show ?thesis
      using assms None
      by (auto simp: seq_inv_def seq_defs split: if_splits db_write.splits prod.splits)
  qed
next
  case (Some a)
  then obtain m where "rows st (seq_key ''groupMember'') = Some m"
    using assms(1) by (auto simp: seq_inv_def split: option.splits)
  then show ?thesis
    using assms Some
    by (auto simp: seq_inv_def seq_defs split: if_splits db_write.splits prod.splits)
qed

lemma run_seq_above: "seq_inv b st \<Longrightarrow> sorted_wrt (<) (b # run_seq ops st)"
proof (induction ops st arbitrary: b rule: run_seq.induct)
  case (2 ops st)
  have "seq_inv b (st\<lparr>seqMap := Map.empty\<rparr>)"
    using "2.prems" by (auto simp: seq_inv_def split: option.splits)
  then show ?case using "2.IH" by simp
next
  case (3 q i u ops st)
  obtain r st' where g: "GenSeq ''groupMember'' 0 q i u st = (r, st')"
    by (cases "GenSeq ''groupMember'' 0 q i u st")
  note inv = GenSeq_inv [OF "3.prems" g]
  show ?case
  proof (cases r)
    case (Returned n)
    then have "sorted_wrt (<) (n # run_seq ops st')" "b < n"
      using inv "3.IH"(1) [OF g [symmetric] Returned, of n] by simp_all
    then show ?thesis using g Returned by auto
  next
    case (Panicked m)
    then show ?thesis using inv "3.IH"(2) [OF g [symmetric]] g by simp
  qed
qed simp


definition empty_seq :: seq_state where
  "empty_seq = \<lparr>seqMap = Map.empty, objs = (\<lambda>a. \<lparr>CurSeq = 0, MaxSeq = 0\<rparr>), nobj = 0, rows = Map.empty\<rparr>"


subsection \<open>Concurrent callers\<close>

text \<open>Where a concurrent call is, between two accesses to the map, the table or an object.\<close>

datatype seq_pc =
    SIdle | SLoad | SInsert | SPublish nat | SCheck nat | SReserve nat | SAdd nat | SDone int

inductive seq_step :: "seq_state \<times> (nat \<Rightarrow> seq_pc) \<Rightarrow> nat \<Rightarrow> seq_state \<times> (nat \<Rightarrow> seq_pc) \<Rightarrow> bool" where
  s_hit: "f p = SIdle \<Longrightarrow> seqMap st ''groupMember'' = Some a \<Longrightarrow> seq_step (st, f) p (st, f(p := SCheck a))"
| s_miss: "f p = SIdle \<Longrightarrow> seqMap st ''groupMember'' = None \<Longrightarrow> seq_step (st, f) p (st, f(p := SLoad))"
| s_norow: "f p = SLoad \<Longrightarrow> querySeqWithKey False (seq_key ''groupMember'') st = Some None \<Longrightarrow>
    seq_step (st, f) p (st, f(p := SInsert))"
| s_row: "f p = SLoad \<Longrightarrow> querySeqWithKey False (seq_key ''groupMember'') st = Some (Some m) \<Longrightarrow>
    new_seq \<lparr>CurSeq = m, MaxSeq = m\<rparr> st = (a, st') \<Longrightarrow> seq_step (st, f) p (st', f(p := SPublish a))"
| s_insert: "f p = SInsert \<Longrightarrow> first_block WriteOk ''groupMember'' st = (Returned a, st') \<Longrightarrow>
    seq_step (st, f) p (st', f(p := SPublish a))"
| s_publish: "f p = SPublish a \<Longrightarrow> seq_step (st, f) p (set_seq ''groupMember'' a st, f(p := SCheck a))"
| s_check: "f p = SCheck a \<Longrightarrow> seq_step (st, f) p (st, f(p := (if needs_block a st then SReserve a else SAdd a)))"
| s_reserve: "f p = SReserve a \<Longrightarrow> reserve_block WriteOk ''groupMember'' a st = (Returned u, st') \<Longrightarrow>
    seq_step (st, f) p (st', f(p := SAdd a))"
| s_add: "f p = SAdd a \<Longrightarrow> next_seq a st = (n, st') \<Longrightarrow> seq_step (st, f) p (st', f(p := SDone n))"

text \<open>Concurrent callers are not safe. When two calls find the flag not loaded at the same time,
  each builds its own counter from the same block, and both return the same number: the check of the
  map, the insert and the assignment are not one section.\<close>

theorem GenSeq_race_duplicates:
  "\<exists>st f. run seq_step (empty_seq, \<lambda>p. SIdle) [0, 1, 0, 1, 0, 1, 0, 1, 0, 1, 0, 1] (st, f)
    \<and> f 0 = SDone 1000001 \<and> f 1 = SDone 1000001"
proof -
  let ?k = "seq_key ''groupMember''" and ?o = "\<lparr>CurSeq = 1000000, MaxSeq = 1001000\<rparr>"
  let ?e = "\<lambda>k. \<lparr>seqMap = Map.empty, objs = (objs empty_seq)(0 := ?o), nobj = k, rows = [?k \<mapsto> 1001000]\<rparr>"
  define s1 where "s1 = ?e 1"
  define s2 where "s2 = (?e 2)\<lparr>objs := (objs empty_seq)(0 := ?o, 1 := ?o)\<rparr>"
  let ?s3 = "set_seq ''groupMember'' 0 s2"
  let ?s4 = "set_seq ''groupMember'' 1 ?s3"
  let ?s5 = "snd (next_seq 0 ?s4)"
  let ?s6 = "snd (next_seq 1 ?s5)"
  have steps: "first_block WriteOk ''groupMember'' empty_seq = (Returned 0, s1)"
    "first_block WriteOk ''groupMember'' s1 = (Returned 1, s2)"
    "\<not> needs_block 0 ?s4" "\<not> needs_block 1 ?s4" "next_seq 0 ?s4 = (1000001, ?s5)"
    "next_seq 1 ?s5 = (1000001, ?s6)" "seqMap empty_seq ''groupMember'' = None"
    "querySeqWithKey False ?k empty_seq = Some None"
    by (simp_all add: s1_def s2_def seq_defs empty_seq_def fun_eq_iff)
  define I where "I = (\<lambda>p :: nat. SIdle)"
  have "run seq_step (empty_seq, I) [0, 1, 0, 1, 0, 1, 0, 1, 0, 1, 0, 1]
      (?s6, (((((((((((I(0 := SLoad))(1 := SLoad))(0 := SInsert))(1 := SInsert))(0 := SPublish 0))
        (1 := SPublish 1))(0 := SCheck 0))(1 := SCheck 1))(0 := (if needs_block 0 ?s4 then SReserve 0 else SAdd 0)))
        (1 := (if needs_block 1 ?s4 then SReserve 1 else SAdd 1)))(0 := SDone 1000001))(1 := SDone 1000001))"
    by (rule run_Cons, rule s_miss, simp add: I_def, rule steps,
        rule run_Cons, rule s_miss, simp add: I_def, rule steps,
        rule run_Cons, rule s_norow, simp, rule steps,
        rule run_Cons, rule s_norow, simp, rule steps,
        rule run_Cons, rule s_insert, simp, rule steps,
        rule run_Cons, rule s_insert, simp, rule steps,
        rule run_Cons, rule s_publish [where a = 0], simp,
        rule run_Cons, rule s_publish [where a = 1], simp,
        rule run_Cons, rule s_check [where a = 0], simp,
        rule run_Cons, rule s_check [where a = 1], simp,
        rule run_Cons, rule s_add [where a = 0], simp add: steps del: One_nat_def, rule steps,
        rule run_Cons, rule s_add [where a = 1], simp add: steps del: One_nat_def, rule steps,
        rule run_Nil)
  then show ?thesis unfolding I_def by (intro exI conjI) (assumption, simp_all)
qed

end
