(* ===== verification/Redis.thy ===== *)
theory Redis
  imports Prelude
begin

text \<open>
  Model of \<^verbatim>\<open>pkg/redis/redis.go\<close>, the wrapper of the go-redis client. The client is the
  parameter \<open>rd\<close>: from a command and the server's state to the reply and the new state. A reply is a
  value of the command's type or an error, of which \<open>RdNil\<close> stands for a missing key
  (\<open>redis.Nil\<close>). A wrapper returns its value beside the error, as the code does. Numbers sent
  as float64 are their bits, durations are nanoseconds.
\<close>

datatype redis_err = RdNil | RdErr string | RdOdd

datatype redis_val =
    VUnit | VStr string | VInt int64 | VBool bool | VStrs "string list" | VOpts "string option list"
  | VMap "(string \<times> string) list"

text \<open>A value of any type passed to \<open>ZAdd\<close>; its float64 scores are told from the rest.\<close>

datatype zarg = ZFloat uint64 | ZOther string

datatype redis_cmd =
    CPing | CSet string string int | CGet string | CDel string | CLLen string
  | CLRange string int64 int64 | CLPop string | CSMembers string | CLRem string int64 string
  | CLTrim string int64 int64 | CHGet string string | CHMGet string "string list"
  | CHMSet string "(string \<times> string) list" | CHGetAll string | CExpire string int
  | CHSet string string string | CHDel string string | CHIncrBy string string int64
  | CSIsMember string string | CSAdd string "string list" | CSRem string string
  | CZAdd string "(uint64 \<times> zarg) list" | CZRem string "string list"
  | CZRemRangeByScore string string string | CZRangeByScore string string string
  | CIncr string | CDecr string | CGeoAdd string uint64 uint64 string
  | CGeoRadius string uint64 uint64 uint64 string | CMSet "string list" | CBLPop int string
  | CBRPopLPush string string int | CLPush string "string list" | CKeys string
  | CSetNX string string int | CPublish string string | CEval string "string list" "string list"

type_synonym reply = "(redis_err, redis_val) res"

type_synonym 's redis = "redis_cmd \<Rightarrow> 's \<Rightarrow> reply \<times> 's"

text \<open>The typed results of go-redis: the zero value of the type beside an error.\<close>

definition err_of :: "reply \<Rightarrow> redis_err option" where
  "err_of r = (case r of Err e \<Rightarrow> Some e | _ \<Rightarrow> None)"

definition str_of :: "reply \<Rightarrow> string" where
  "str_of r = (case r of Ok (VStr s) \<Rightarrow> s | _ \<Rightarrow> [])"

definition int_of :: "reply \<Rightarrow> int64" where
  "int_of r = (case r of Ok (VInt i) \<Rightarrow> i | _ \<Rightarrow> 0)"

definition bool_of :: "reply \<Rightarrow> bool" where
  "bool_of r = (case r of Ok (VBool b) \<Rightarrow> b | _ \<Rightarrow> False)"

definition strs_of :: "reply \<Rightarrow> string list" where
  "strs_of r = (case r of Ok (VStrs s) \<Rightarrow> s | _ \<Rightarrow> [])"

definition map_of_reply :: "reply \<Rightarrow> (string \<times> string) list" where
  "map_of_reply r = (case r of Ok (VMap m) \<Rightarrow> m | _ \<Rightarrow> [])"

text \<open>The two shapes the wrappers share: the reply as it is, and with a missing key read as zero.\<close>

definition run_err :: "'s redis \<Rightarrow> redis_cmd \<Rightarrow> 's \<Rightarrow> redis_err option \<times> 's" where
  "run_err rd c s = (let (r, s) = rd c s in (err_of r, s))"

definition run_val :: "'s redis \<Rightarrow> (reply \<Rightarrow> 'a) \<Rightarrow> redis_cmd \<Rightarrow> 's \<Rightarrow> ('a \<times> redis_err option) \<times> 's" where
  "run_val rd get c s = (let (r, s) = rd c s in ((get r, err_of r), s))"

definition run_or_zero ::
  "'s redis \<Rightarrow> (reply \<Rightarrow> 'a) \<Rightarrow> 'a \<Rightarrow> redis_cmd \<Rightarrow> 's \<Rightarrow> ('a \<times> redis_err option) \<times> 's" where
  "run_or_zero rd get z c s =
     (let (r, s) = rd c s in (if r = Err RdNil then (z, None) else (get r, err_of r), s))"

subsection \<open>Keys\<close>

definition Ping :: "'s redis \<Rightarrow> 's \<Rightarrow> (string \<times> redis_err option) \<times> 's" where
  "Ping rd = run_val rd str_of CPing"

definition Set :: "'s redis \<Rightarrow> string \<Rightarrow> string \<Rightarrow> 's \<Rightarrow> redis_err option \<times> 's" where
  "Set rd key value = run_err rd (CSet key value 0)"

definition SetAndExpire :: "'s redis \<Rightarrow> string \<Rightarrow> string \<Rightarrow> int \<Rightarrow> 's \<Rightarrow> redis_err option \<times> 's" where
  "SetAndExpire rd key value expire = run_err rd (CSet key value expire)"

definition GetString :: "'s redis \<Rightarrow> string \<Rightarrow> 's \<Rightarrow> (string \<times> redis_err option) \<times> 's" where
  "GetString rd key s =
     (let (r, s) = rd (CGet key) s
      in (if r = Err RdNil then ([], None)
          else if err_of r \<noteq> None then ([], err_of r) else (str_of r, None), s))"

definition Del :: "'s redis \<Rightarrow> string \<Rightarrow> 's \<Rightarrow> redis_err option \<times> 's" where
  "Del rd key = run_err rd (CDel key)"

definition Expire :: "'s redis \<Rightarrow> string \<Rightarrow> int \<Rightarrow> 's \<Rightarrow> redis_err option \<times> 's" where
  "Expire rd key expiration = run_err rd (CExpire key expiration)"

definition SetExpire :: "'s redis \<Rightarrow> string \<Rightarrow> int \<Rightarrow> 's \<Rightarrow> redis_err option \<times> 's" where
  "SetExpire rd key expire = run_err rd (CExpire key expire)"

definition Incr :: "'s redis \<Rightarrow> string \<Rightarrow> 's \<Rightarrow> (int64 \<times> redis_err option) \<times> 's" where
  "Incr rd key = run_val rd int_of (CIncr key)"

definition Decr :: "'s redis \<Rightarrow> string \<Rightarrow> 's \<Rightarrow> (int64 \<times> redis_err option) \<times> 's" where
  "Decr rd key = run_val rd int_of (CDecr key)"

definition MSet :: "'s redis \<Rightarrow> string list \<Rightarrow> 's \<Rightarrow> redis_err option \<times> 's" where
  "MSet rd keyValues = run_err rd (CMSet keyValues)"

definition GetKeys :: "'s redis \<Rightarrow> string \<Rightarrow> 's \<Rightarrow> (string list \<times> redis_err option) \<times> 's" where
  "GetKeys rd key = run_val rd strs_of (CKeys key)"

definition Publish :: "'s redis \<Rightarrow> string \<Rightarrow> string \<Rightarrow> 's \<Rightarrow> redis_err option \<times> 's" where
  "Publish rd channel message = run_err rd (CPublish channel message)"

subsection \<open>Lists\<close>

definition Llen :: "'s redis \<Rightarrow> string \<Rightarrow> 's \<Rightarrow> (int64 \<times> redis_err option) \<times> 's" where
  "Llen rd key = run_or_zero rd int_of 0 (CLLen key)"

definition Lrange :: "'s redis \<Rightarrow> string \<Rightarrow> int64 \<Rightarrow> int64 \<Rightarrow> 's \<Rightarrow> (string list \<times> redis_err option) \<times> 's" where
  "Lrange rd key start stop = run_or_zero rd strs_of [] (CLRange key start stop)"

definition Lpop :: "'s redis \<Rightarrow> string \<Rightarrow> 's \<Rightarrow> (string \<times> redis_err option) \<times> 's" where
  "Lpop rd key = run_or_zero rd str_of [] (CLPop key)"

definition Lrem :: "'s redis \<Rightarrow> string \<Rightarrow> int64 \<Rightarrow> string \<Rightarrow> 's \<Rightarrow> (int64 \<times> redis_err option) \<times> 's" where
  "Lrem rd key cnt value = run_val rd int_of (CLRem key cnt value)"

definition Ltrim :: "'s redis \<Rightarrow> string \<Rightarrow> int64 \<Rightarrow> int64 \<Rightarrow> 's \<Rightarrow> (string \<times> redis_err option) \<times> 's" where
  "Ltrim rd key start stop = run_val rd str_of (CLTrim key start stop)"

definition LPUSH :: "'s redis \<Rightarrow> string \<Rightarrow> string list \<Rightarrow> 's \<Rightarrow> (int64 \<times> redis_err option) \<times> 's" where
  "LPUSH rd key vals = run_val rd int_of (CLPush key vals)"

text \<open>\<open>BLPOP\<close> answers the key and the value; its timeout is an error here, a missing key too.\<close>

definition BLPop :: "'s redis \<Rightarrow> string \<Rightarrow> int \<Rightarrow> 's \<Rightarrow> (string \<times> redis_err option) \<times> 's" where
  "BLPop rd key timeout s =
     (let (r, s) = rd (CBLPop timeout key) s
      in (if err_of r \<noteq> None then ([], err_of r)
          else if 1 < length (strs_of r) then (strs_of r ! 1, None) else ([], None), s))"

definition BRPoplpush :: "'s redis \<Rightarrow> string \<Rightarrow> string \<Rightarrow> int \<Rightarrow> 's \<Rightarrow> (string \<times> redis_err option) \<times> 's" where
  "BRPoplpush rd source destination timeout = run_val rd str_of (CBRPopLPush source destination timeout)"

subsection \<open>Hashes\<close>

definition Hget :: "'s redis \<Rightarrow> string \<Rightarrow> string \<Rightarrow> 's \<Rightarrow> (string \<times> redis_err option) \<times> 's" where
  "Hget rd key field = run_or_zero rd str_of [] (CHGet key field)"

text \<open>A missing field comes back as nil, and the type assertion \<open>result.(string)\<close> then panics.\<close>

definition Hmget ::
  "'s redis \<Rightarrow> string \<Rightarrow> string list \<Rightarrow> 's \<Rightarrow> (redis_err, string list) res \<times> 's" where
  "Hmget rd key field s =
     (let (r, s) = rd (CHMGet key field) s
      in (case r of
            Err RdNil \<Rightarrow> Ok []
          | Err e \<Rightarrow> Err e
          | Ok (VOpts results) \<Rightarrow>
              if None \<in> set results then Panic ''interface conversion: interface {} is nil, not string''
              else Ok (map the results)
          | _ \<Rightarrow> Ok [], s))"

fun pairs_to_map :: "string list \<Rightarrow> (string \<times> string) list" where
  "pairs_to_map (f # v # xs) = (f, v) # pairs_to_map xs"
| "pairs_to_map xs = []"

text \<open>The Go map built from the pairs: the last value of a repeated field stays.\<close>

definition go_map :: "(string \<times> string) list \<Rightarrow> (string \<times> string) list" where
  "go_map ps = foldr (\<lambda>p m. if fst p \<in> fst ` set m then m else p # m) ps []"

definition Hmset :: "'s redis \<Rightarrow> string \<Rightarrow> string list \<Rightarrow> 's \<Rightarrow> redis_err option \<times> 's" where
  "Hmset rd key fieldValues s =
     (if length fieldValues mod 2 \<noteq> 0 then (Some RdOdd, s)
      else run_err rd (CHMSet key (go_map (pairs_to_map fieldValues))) s)"

definition Hgetall :: "'s redis \<Rightarrow> string \<Rightarrow> 's \<Rightarrow> ((string \<times> string) list \<times> redis_err option) \<times> 's" where
  "Hgetall rd key = run_or_zero rd map_of_reply [] (CHGetAll key)"

definition Hset :: "'s redis \<Rightarrow> string \<Rightarrow> string \<Rightarrow> string \<Rightarrow> 's \<Rightarrow> redis_err option \<times> 's" where
  "Hset rd key field value = run_err rd (CHSet key field value)"

definition Hdel :: "'s redis \<Rightarrow> string \<Rightarrow> string \<Rightarrow> 's \<Rightarrow> redis_err option \<times> 's" where
  "Hdel rd key field = run_err rd (CHDel key field)"

definition Hincrby :: "'s redis \<Rightarrow> string \<Rightarrow> string \<Rightarrow> int64 \<Rightarrow> 's \<Rightarrow> (int64 \<times> redis_err option) \<times> 's" where
  "Hincrby rd key field increment = run_val rd int_of (CHIncrBy key field increment)"

subsection \<open>Sets, sorted sets and positions\<close>

definition SMembers :: "'s redis \<Rightarrow> string \<Rightarrow> 's \<Rightarrow> (string list \<times> redis_err option) \<times> 's" where
  "SMembers rd key = run_or_zero rd strs_of [] (CSMembers key)"

definition Sismember :: "'s redis \<Rightarrow> string \<Rightarrow> string \<Rightarrow> 's \<Rightarrow> (int64 \<times> redis_err option) \<times> 's" where
  "Sismember rd key mem s =
     (let (r, s) = rd (CSIsMember key mem) s
      in (if err_of r \<noteq> None then (0, err_of r) else (if bool_of r then 1 else 0, None), s))"

definition SAdd :: "'s redis \<Rightarrow> string \<Rightarrow> string list \<Rightarrow> 's \<Rightarrow> redis_err option \<times> 's" where
  "SAdd rd key members = run_err rd (CSAdd key members)"

definition SRem :: "'s redis \<Rightarrow> string \<Rightarrow> string \<Rightarrow> 's \<Rightarrow> redis_err option \<times> 's" where
  "SRem rd key mem = run_err rd (CSRem key mem)"

text \<open>The loop reads \<open>scoremember[0]\<close> and \<open>scoremember[1]\<close> in every round.\<close>

fun zadd_members :: "zarg list \<Rightarrow> nat \<Rightarrow> (redis_err, (uint64 \<times> zarg) list) res" where
  "zadd_members sm 0 = Ok []"
| "zadd_members sm (Suc n) =
     (case sm of
        ZFloat score # mem # _ \<Rightarrow> map_ok (\<lambda>ms. (score, mem) # ms) (zadd_members sm n)
      | ZOther s # _ \<Rightarrow> Panic ''interface conversion''
      | _ \<Rightarrow> Panic ''index out of range'')"

definition ZAdd :: "'s redis \<Rightarrow> string \<Rightarrow> zarg list \<Rightarrow> 's \<Rightarrow> (redis_err, unit) res \<times> 's" where
  "ZAdd rd key scoremember s =
     (case zadd_members scoremember ((length scoremember + 1) div 2) of
        Panic m \<Rightarrow> (Panic m, s)
      | Err e \<Rightarrow> (Err e, s)
      | Ok members \<Rightarrow>
          (let (e, s) = run_err rd (CZAdd key members) s
           in (case e of None \<Rightarrow> Ok () | Some e \<Rightarrow> Err e, s)))"

definition ZRem :: "'s redis \<Rightarrow> string \<Rightarrow> string list \<Rightarrow> 's \<Rightarrow> redis_err option \<times> 's" where
  "ZRem rd key members = run_err rd (CZRem key members)"

definition ZRemRangeByScore :: "'s redis \<Rightarrow> string \<Rightarrow> string \<Rightarrow> string \<Rightarrow> 's \<Rightarrow> redis_err option \<times> 's" where
  "ZRemRangeByScore rd key mn mx = run_err rd (CZRemRangeByScore key mn mx)"

definition ZRangeByScore ::
  "'s redis \<Rightarrow> string \<Rightarrow> string \<Rightarrow> string \<Rightarrow> 's \<Rightarrow> (string list \<times> redis_err option) \<times> 's" where
  "ZRangeByScore rd key mn mx = run_or_zero rd strs_of [] (CZRangeByScore key mn mx)"

definition GeoAdd :: "'s redis \<Rightarrow> string \<Rightarrow> uint64 \<Rightarrow> uint64 \<Rightarrow> string \<Rightarrow> 's \<Rightarrow> redis_err option \<times> 's" where
  "GeoAdd rd key longitude latitude mem = run_err rd (CGeoAdd key longitude latitude mem)"

definition GeoRadius ::
  "'s redis \<Rightarrow> string \<Rightarrow> uint64 \<Rightarrow> uint64 \<Rightarrow> uint64 \<Rightarrow> string \<Rightarrow> 's \<Rightarrow> (string list \<times> redis_err option) \<times> 's" where
  "GeoRadius rd key longitude latitude radius unt =
     run_val rd strs_of (CGeoRadius key longitude latitude radius unt)"

subsection \<open>Locks\<close>

definition SetNX :: "'s redis \<Rightarrow> string \<Rightarrow> string \<Rightarrow> int \<Rightarrow> 's \<Rightarrow> (bool \<times> redis_err option) \<times> 's" where
  "SetNX rd key value expiration = run_val rd bool_of (CSetNX key value expiration)"

definition Lock :: "'s redis \<Rightarrow> string \<Rightarrow> string \<Rightarrow> int \<Rightarrow> 's \<Rightarrow> redis_err option \<times> 's" where
  "Lock rd key value duration = run_err rd (CSetNX key value duration)"

definition UnLock :: "'s redis \<Rightarrow> string \<Rightarrow> 's \<Rightarrow> redis_err option \<times> 's" where
  "UnLock rd key s =
     (let (r, s) = rd (CGet key) s
      in if err_of r \<noteq> None then (err_of r, s)
         else if str_of r = [] then (None, s)
         else run_err rd (CDel key) s)"

definition cad_script :: string where
  "cad_script = ''if redis.call(\"get\", KEYS[1]) == ARGV[1] then return redis.call(\"del\", KEYS[1]) else return 0 end''"

definition CompareAndDelete :: "'s redis \<Rightarrow> string \<Rightarrow> string \<Rightarrow> 's \<Rightarrow> (bool \<times> redis_err option) \<times> 's" where
  "CompareAndDelete rd key expectedValue s =
     (let (r, s) = rd (CEval cad_script [key] [expectedValue]) s
      in (if err_of r \<noteq> None then (False, err_of r) else (int_of r = 1, None), s))"

subsection \<open>Properties\<close>

text \<open>
  What the two lock protocols rely on: the server keeps a value per key (\<open>val\<close>), \<open>SET NX\<close> stores
  and answers true only for an absent key, and the script deletes and answers 1 only for the value
  it was given.
\<close>

definition setnx_law :: "'s redis \<Rightarrow> ('s \<Rightarrow> string \<rightharpoonup> string) \<Rightarrow> bool" where
  "setnx_law rd val \<longleftrightarrow> (\<forall>k v d s. fst (rd (CSetNX k v d) s) = Ok (VBool (val s k = None))
     \<and> val (snd (rd (CSetNX k v d) s)) = (if val s k = None then (val s)(k \<mapsto> v) else val s))"

definition eval_law :: "'s redis \<Rightarrow> ('s \<Rightarrow> string \<rightharpoonup> string) \<Rightarrow> bool" where
  "eval_law rd val \<longleftrightarrow> (\<forall>k v s.
     fst (rd (CEval cad_script [k] [v]) s) = Ok (VInt (if val s k = Some v then 1 else 0))
     \<and> val (snd (rd (CEval cad_script [k] [v]) s))
         = (if val s k = Some v then (val s)(k := None) else val s))"

text \<open>A small server for the witnesses.\<close>

definition kv_server :: "(string \<rightharpoonup> string) redis" where
  "kv_server c m =
     (case c of
        CSetNX k v d \<Rightarrow> (Ok (VBool (m k = None)), if m k = None then m(k \<mapsto> v) else m)
      | CEval scr ks vs \<Rightarrow>
          (if m (hd ks) = Some (hd vs) then (Ok (VInt 1), m(hd ks := None)) else (Ok (VInt 0), m))
      | CGet k \<Rightarrow> (case m k of None \<Rightarrow> Err RdNil | Some v \<Rightarrow> Ok (VStr v), m)
      | CSet k v d \<Rightarrow> (Ok VUnit, m(k \<mapsto> v))
      | CDel k \<Rightarrow> (Ok (VInt 1), m(k := None))
      | _ \<Rightarrow> (Err (RdErr ''unsupported''), m))"

lemma kv_server_laws: "setnx_law kv_server (\<lambda>m. m)" "eval_law kv_server (\<lambda>m. m)"
  by (simp_all add: setnx_law_def eval_law_def kv_server_def)



text \<open>\<open>Lock\<close> does not exclude: it drops the answer of \<open>SET NX\<close>, so two clients that lock one key
  one after the other are both told that they hold it, although the key keeps the first value.\<close>

theorem redis_Lock_not_exclusive:
  assumes "setnx_law rd val" "val s key = None"
  shows "case Lock rd key a d s of (e1, s1) \<Rightarrow> case Lock rd key b d s1 of (e2, s2) \<Rightarrow>
    e1 = None \<and> e2 = None \<and> val s2 key = Some a"
proof -
  define s1 where "s1 = snd (rd (CSetNX key a d) s)"
  define s2 where "s2 = snd (rd (CSetNX key b d) s1)"
  have 1: "fst (rd (CSetNX key v d) t) = Ok (VBool (val t key = None))"
    "val (snd (rd (CSetNX key v d) t)) = (if val t key = None then (val t)(key \<mapsto> v) else val t)" for v t
    using assms(1) by (simp_all add: setnx_law_def)
  have "val s1 key = Some a" using 1(2) [of a s] assms(2) by (simp add: s1_def)
  then have "val s2 key = Some a" using 1(2) [of b s1] by (simp add: s2_def)
  moreover have "Lock rd key v d t = (None, snd (rd (CSetNX key v d) t))" for v t
    using 1(1) [of v t] by (auto simp: Lock_def run_err_def err_of_def split: prod.split)
  ultimately show ?thesis by (simp add: s1_def s2_def)
qed

lemma redis_Lock_not_exclusive_witness:
  "case Lock kv_server ''k'' ''a'' 5 Map.empty of (e1, s1) \<Rightarrow> case Lock kv_server ''k'' ''b'' 5 s1 of
    (e2, s2) \<Rightarrow> e1 = None \<and> e2 = None \<and> s2 ''k'' = Some ''a''"
  by (rule redis_Lock_not_exclusive [OF kv_server_laws(1)]) simp

end
