(* ===== verification/Cache.thy ===== *)
theory Cache
  imports Redis
begin

text \<open>
  The cache interface (\<^verbatim>\<open>pkg/cache/cache.go\<close>) as a locale, with what its clients rely on, and
  its two implementations in \<^verbatim>\<open>common/cache.go\<close>: the memory cache, which interprets the locale,
  and the Redis cache over the wrapper of \<open>Redis\<close>.
\<close>

subsection \<open>The interface\<close>

text \<open>A write returns an error and the new state, a read the value and an error.\<close>

locale cache =
  fixes cset :: "string \<Rightarrow> string \<Rightarrow> 's \<Rightarrow> 'e option \<times> 's"
    and cset_expire :: "string \<Rightarrow> string \<Rightarrow> int \<Rightarrow> 's \<Rightarrow> 'e option \<times> 's"
    and cdelete :: "string \<Rightarrow> 's \<Rightarrow> 'e option \<times> 's"
    and cget :: "string \<Rightarrow> 's \<Rightarrow> string \<times> 'e option"
  assumes get_set: "cget k' (snd (cset k v s)) = (if k' = k then (v, None) else cget k' s)"
    and get_set_expire: "cget k' (snd (cset_expire k v d s)) = (if k' = k then (v, None) else cget k' s)"
    and get_delete: "cget k' (snd (cdelete k s)) = (if k' = k then ([], None) else cget k' s)"
    and writes_succeed: "fst (cset k v s) = None" "fst (cset_expire k v d s) = None"
      "fst (cdelete k s) = None"
begin

text \<open>A sequence of writes: the last one to a key decides what it reads.\<close>

fun write_all :: "(string \<times> string option) list \<Rightarrow> 's \<Rightarrow> 's" where
  "write_all [] s = s"
| "write_all ((k, Some v) # ws) s = write_all ws (snd (cset k v s))"
| "write_all ((k, None) # ws) s = write_all ws (snd (cdelete k s))"

lemma get_write_all:
  "cget k (write_all ws s) =
     (case map_of (rev ws) k of
        None \<Rightarrow> cget k s | Some None \<Rightarrow> ([], None) | Some (Some v) \<Rightarrow> (v, None))"
proof (induction ws s rule: write_all.induct)
  case (2 k' v ws s)
  then show ?case by (auto simp: get_set map_add_def split: option.splits)
next
  case (3 k' ws s)
  then show ?case by (auto simp: get_delete map_add_def split: option.splits)
qed simp

end

subsection \<open>The memory cache\<close>

type_synonym memory_cache = "string \<rightharpoonup> string"

definition NewMemoryCache :: memory_cache where "NewMemoryCache = Map.empty"

definition Set_mem :: "string \<Rightarrow> string \<Rightarrow> memory_cache \<Rightarrow> redis_err option \<times> memory_cache" where
  "Set_mem key value m = (None, m(key \<mapsto> value))"

text \<open>The expiry time is not used.\<close>

definition SetAndExpire_mem :: "string \<Rightarrow> string \<Rightarrow> int \<Rightarrow> memory_cache \<Rightarrow> redis_err option \<times> memory_cache" where
  "SetAndExpire_mem key value expire m = (None, m(key \<mapsto> value))"

definition Get_mem :: "string \<Rightarrow> memory_cache \<Rightarrow> string \<times> redis_err option" where
  "Get_mem key m = (case m key of None \<Rightarrow> [] | Some v \<Rightarrow> v, None)"

definition Delete_mem :: "string \<Rightarrow> memory_cache \<Rightarrow> redis_err option \<times> memory_cache" where
  "Delete_mem key m = (None, m(key := None))"

lemmas memory_cache_defs = Set_mem_def SetAndExpire_mem_def Get_mem_def Delete_mem_def

interpretation mem: cache Set_mem SetAndExpire_mem Delete_mem Get_mem
  by unfold_locales (auto simp: memory_cache_defs)

subsection \<open>The Redis cache\<close>

definition Set_redis :: "'s redis \<Rightarrow> string \<Rightarrow> string \<Rightarrow> 's \<Rightarrow> redis_err option \<times> 's" where
  "Set_redis rd key value = Redis.Set rd key value"

definition Delete_redis :: "'s redis \<Rightarrow> string \<Rightarrow> 's \<Rightarrow> redis_err option \<times> 's" where
  "Delete_redis rd key = Del rd key"

definition SetAndExpire_redis :: "'s redis \<Rightarrow> string \<Rightarrow> string \<Rightarrow> int \<Rightarrow> 's \<Rightarrow> redis_err option \<times> 's" where
  "SetAndExpire_redis rd key value expire = SetAndExpire rd key value expire"

definition Get_redis :: "'s redis \<Rightarrow> string \<Rightarrow> 's \<Rightarrow> (string \<times> redis_err option) \<times> 's" where
  "Get_redis rd key = GetString rd key"

text \<open>A missing key is not an error of the Redis cache; every other error is passed on.\<close>

lemma Get_redis_result:
  "fst (Get_redis rd key s) =
     (case fst (rd (CGet key) s) of
        Ok v \<Rightarrow> (str_of (Ok v), None)
      | Err e \<Rightarrow> ([], if e = RdNil then None else Some e)
      | Panic m \<Rightarrow> ([], None))"
  by (auto simp: Get_redis_def GetString_def err_of_def str_of_def split: prod.splits res.splits
      redis_val.splits)

end
