(* ===== verification/WkHttp.thy ===== *)
theory WkHttp
  imports Cache
begin

text \<open>
  Model of \<^verbatim>\<open>pkg/wkhttp/http.go\<close>: the request context, its responses, paging and role
  checks, and the authentication and CORS middlewares. A context records what the code calls on
  gin's: the keys set, the headers and responses written, and whether the request was aborted. What
  \<open>c.Next()\<close> runs is the parameter \<open>nxt\<close>, the cache is its \<open>Get\<close> at the current state. Routing is
  gin's and not modelled.
\<close>

record http_ctx =
  req_method :: string
  req_headers :: "string \<Rightarrow> string"
  req_query :: "string \<Rightarrow> string"
  ctx_keys :: "string \<rightharpoonup> string"
  out_headers :: "(string \<times> string) list"
  written :: "(int \<times> json option) list"
  aborted :: bool

definition write_json :: "int \<Rightarrow> json \<Rightarrow> http_ctx \<Rightarrow> http_ctx" where
  "write_json status body c = c\<lparr>written := written c @ [(status, Some body)]\<rparr>"

definition abort_json :: "int \<Rightarrow> json \<Rightarrow> http_ctx \<Rightarrow> http_ctx" where
  "abort_json status body c = (write_json status body c)\<lparr>aborted := True\<rparr>"

definition abort_status :: "int \<Rightarrow> http_ctx \<Rightarrow> http_ctx" where
  "abort_status status c = c\<lparr>written := written c @ [(status, None)], aborted := True\<rparr>"

definition set_key :: "string \<Rightarrow> string \<Rightarrow> http_ctx \<Rightarrow> http_ctx" where
  "set_key k v c = c\<lparr>ctx_keys := (ctx_keys c)(k \<mapsto> v)\<rparr>"

subsection \<open>Responses\<close>

definition ResponseError :: "string \<Rightarrow> http_ctx \<Rightarrow> http_ctx" where
  "ResponseError err = write_json 400 (JObj [(''msg'', JStr err), (''status'', JInt 400)])"

text \<open>The error is only logged.\<close>

definition ResponseErrorf :: "string \<Rightarrow> string option \<Rightarrow> http_ctx \<Rightarrow> http_ctx" where
  "ResponseErrorf msg err = write_json 400 (JObj [(''msg'', JStr msg), (''status'', JInt 400)])"

definition ResponseErrorWithStatus :: "string \<Rightarrow> int \<Rightarrow> http_ctx \<Rightarrow> http_ctx" where
  "ResponseErrorWithStatus err status =
     write_json 400 (JObj [(''msg'', JStr err), (''status'', JInt status)])"

definition ResponseOK :: "http_ctx \<Rightarrow> http_ctx" where
  "ResponseOK = write_json 200 (JObj [(''status'', JInt 200)])"

definition Response :: "json \<Rightarrow> http_ctx \<Rightarrow> http_ctx" where
  "Response data = write_json 200 data"

definition ResponseWithStatus :: "int \<Rightarrow> json \<Rightarrow> http_ctx \<Rightarrow> http_ctx" where
  "ResponseWithStatus status data = write_json status data"

subsection \<open>Request values\<close>

definition GetPage :: "http_ctx \<Rightarrow> int \<times> int" where
  "GetPage c =
     (let pageIndex = fst (parse_int 64 (req_query c ''page_index''));
          pageSize = fst (parse_int 64 (req_query c ''page_size''))
      in (if pageIndex \<le> 0 then 1 else pageIndex, if pageSize \<le> 0 then 15 else pageSize))"

text \<open>\<open>MustGet\<close> panics for a key that is not set.\<close>

definition must_get :: "string \<Rightarrow> http_ctx \<Rightarrow> (unit, string) res" where
  "must_get k c = (case ctx_keys c k of
     Some v \<Rightarrow> Ok v | None \<Rightarrow> Panic (''Key '' @ k @ '' does not exist''))"

definition GetLoginUID_ctx :: "http_ctx \<Rightarrow> (unit, string) res" where
  "GetLoginUID_ctx = must_get ''uid''"

definition GetCompanyCode :: "http_ctx \<Rightarrow> (unit, string) res" where
  "GetCompanyCode = must_get ''companyCode''"

definition GetAppID :: "http_ctx \<Rightarrow> string" where
  "GetAppID c = req_headers c ''appid''"

definition GetLoginName :: "http_ctx \<Rightarrow> (unit, string) res" where
  "GetLoginName = must_get ''name''"

definition GetLoginRole :: "http_ctx \<Rightarrow> string" where
  "GetLoginRole c = (case ctx_keys c ''role'' of Some r \<Rightarrow> r | None \<Rightarrow> [])"

definition RoleSuperAdmin :: string where "RoleSuperAdmin = ''super_admin''"

definition validRoles :: "string list" where
  "validRoles = [RoleSuperAdmin, ''ga_admin'', ''game_admin'', ''company_admin'', ''normal_admin'',
     ''readonly_admin'']"

definition msg_role :: string where
  "msg_role = utf8 [0x767B, 0x5F55, 0x7528, 0x6237, 0x89D2, 0x8272, 0x9519, 0x8BEF]"

definition msg_denied :: string where
  "msg_denied = utf8 [0x8BE5, 0x7528, 0x6237, 0x65E0, 0x6743, 0x6267, 0x884C, 0x6B64, 0x64CD, 0x4F5C]"

definition CheckLoginRole :: "http_ctx \<Rightarrow> string option" where
  "CheckLoginRole c =
     (let role = GetLoginRole c
      in if role = [] then Some msg_role else if role \<notin> set validRoles then Some msg_denied else None)"

definition CheckLoginRoleIsSuperAdmin :: "http_ctx \<Rightarrow> string option" where
  "CheckLoginRoleIsSuperAdmin c =
     (let role = GetLoginRole c
      in if role = [] then Some msg_role else if role \<noteq> RoleSuperAdmin then Some msg_denied else None)"

subsection \<open>Middlewares\<close>

definition UidCompanyCode :: "string \<Rightarrow> string" where
  "UidCompanyCode uid =
     (let parts = split_str uid ''code'' in if 0 < length parts then parts ! 0 else [])"

definition GetLoginUIDWithErr ::
  "string \<Rightarrow> string \<Rightarrow> (string \<Rightarrow> string \<times> 'e option) \<Rightarrow> string \<times> 'e option" where
  "GetLoginUIDWithErr token tokenPrefix get =
     (case get (tokenPrefix @ token) of (u, Some err) \<Rightarrow> ([], Some err) | (u, None) \<Rightarrow> (u, None))"

definition GetLoginUID :: "string \<Rightarrow> string \<Rightarrow> (string \<Rightarrow> string \<times> 'e option) \<Rightarrow> string" where
  "GetLoginUID token tokenPrefix get = fst (GetLoginUIDWithErr token tokenPrefix get)"

definition msg_obj :: "string \<Rightarrow> json" where "msg_obj m = JObj [(''msg'', JStr m)]"

definition msg_no_token :: string where
  "msg_no_token = ''token'' @ utf8 [0x4E0D, 0x80FD, 0x4E3A, 0x7A7A, 0xFF0C, 0x8BF7, 0x5148, 0x767B, 0x5F55, 0xFF01]"

definition msg_busy :: string where
  "msg_busy = utf8 [0x670D, 0x52A1, 0x7E41, 0x5FD9, 0xFF0C, 0x8BF7, 0x7A0D, 0x540E, 0x91CD, 0x8BD5]"

definition msg_login :: string where "msg_login = utf8 [0x8BF7, 0x5148, 0x767B, 0x5F55, 0xFF01]"

definition msg_bad_token :: string where "msg_bad_token = ''token'' @ utf8 [0x6709, 0x8BEF, 0xFF01]"

definition msg_bad_code :: string where
  "msg_bad_code = utf8 [0x4F01, 0x4E1A] @ ''code'' @ utf8 [0x6709, 0x8BEF, 0xFF01]"

definition session_sep :: string where "session_sep = ''-|@Sass''"

definition AuthMiddleware ::
  "(string \<Rightarrow> string \<times> 'e option) \<Rightarrow> string \<Rightarrow> (http_ctx \<Rightarrow> http_ctx) \<Rightarrow> http_ctx \<Rightarrow> http_ctx" where
  "AuthMiddleware get tokenPrefix nxt c =
     (let token = req_headers c ''token''
      in if token = [] then abort_json 401 (msg_obj msg_no_token) c
      else case GetLoginUIDWithErr token tokenPrefix get of
        (u, Some err) \<Rightarrow> abort_json 503 (msg_obj msg_busy) c
      | (uidAndName, None) \<Rightarrow>
          if trim_space uidAndName = [] then abort_json 401 (msg_obj msg_login) c
          else
            let uidAndNames = split_str uidAndName session_sep
            in if length uidAndNames < 4 then abort_json 401 (msg_obj msg_bad_token) c
            else
              let companyCode = req_headers c ''companyCode'';
                  companyCode = (if companyCode = [] then UidCompanyCode (uidAndNames ! 0) else companyCode)
              in if companyCode = [] then abort_json 401 (msg_obj msg_bad_code) c
              else nxt (set_key ''companyCode'' companyCode (set_key ''role'' (uidAndNames ! 2)
                     (set_key ''name'' (uidAndNames ! 1) (set_key ''uid'' (uidAndNames ! 0) c)))))"

definition set_header :: "string \<Rightarrow> string \<Rightarrow> http_ctx \<Rightarrow> http_ctx" where
  "set_header k v c = c\<lparr>out_headers := filter (\<lambda>h. fst h \<noteq> k) (out_headers c) @ [(k, v)]\<rparr>"

definition CORSMiddleware :: "(http_ctx \<Rightarrow> http_ctx) \<Rightarrow> http_ctx \<Rightarrow> http_ctx" where
  "CORSMiddleware nxt c =
     (let c = set_header ''Access-Control-Allow-Origin'' ''*'' c;
          c = set_header ''Access-Control-Allow-Credentials'' ''true'' c;
          c = set_header ''Access-Control-Allow-Headers'' ''Content-Type, Content-Length, Accept-Encoding, X-CSRF-Token, token,companyCode, accept, origin, Cache-Control, X-Requested-With, appid, noncestr, sign, timestamp'' c;
          c = set_header ''Access-Control-Allow-Methods'' ''POST, OPTIONS, GET, PUT,DELETE,PATCH'' c
      in if req_method c = ''OPTIONS'' then abort_status 204 c else nxt c)"

subsection \<open>Properties\<close>


definition sample_ctx :: http_ctx where
  "sample_ctx = \<lparr>req_method = ''GET'', req_headers = (\<lambda>h. if h = ''token'' then ''t1'' else []),
     req_query = (\<lambda>h. []), ctx_keys = Map.empty, out_headers = [], written = [], aborted = False\<rparr>"


text \<open>A session written to the memory cache logs in: after \<open>SetAndExpire\<close> of uid, name, role and a
  fourth part (none with a dash, the uid starting with a company code) under the prefixed token, and
  any further writes to other keys, the middleware lets a request with that token through with
  exactly these keys; after \<open>Delete\<close> of the token the same request gets a 401.\<close>

theorem auth_session_roundtrip:
  assumes "req_headers c ''token'' = token" "token \<noteq> []" "req_headers c ''companyCode'' = code" "code \<noteq> []"
    and "\<forall>x \<in> {uid, name, role, extra}. CHR ''-'' \<notin> set x"
    and "\<forall>w \<in> set ws. fst w \<noteq> tokenPrefix @ token"
  shows "AuthMiddleware (\<lambda>k. Get_mem k (mem.write_all ws (snd (SetAndExpire_mem (tokenPrefix @ token)
          (join_str session_sep [uid, name, role, extra]) d m)))) tokenPrefix nxt c
      = nxt (c\<lparr>ctx_keys := (ctx_keys c)
          (''uid'' \<mapsto> uid, ''name'' \<mapsto> name, ''role'' \<mapsto> role, ''companyCode'' \<mapsto> code)\<rparr>)
    \<and> AuthMiddleware (\<lambda>k. Get_mem k (snd (Delete_mem (tokenPrefix @ token) m))) tokenPrefix nxt c
      = abort_json 401 (msg_obj msg_login) c"
proof -
  let ?u = "join_str session_sep [uid, name, role, extra]"
  have "map_of (rev ws) (tokenPrefix @ token) = None"
    using assms(6) by (force simp: map_of_eq_None_iff)
  then have g: "Get_mem (tokenPrefix @ token) (mem.write_all ws (snd (SetAndExpire_mem (tokenPrefix @ token) ?u d m)))
      = (?u, None)"
    by (simp add: mem.get_write_all mem.get_set_expire)
  have sp: "split_str ?u session_sep = [uid, name, role, extra]"
    unfolding session_sep_def using assms(5) by (intro split_join) auto
  have dash: "CHR ''-'' \<in> set ?u" by (simp add: session_sep_def)
  have "list_all (\<lambda>r. CHR ''-'' \<notin> set r) space_runes" by code_simp
  then have "CHR ''-'' \<notin> \<Union> (set ` set space_runes)" by (auto simp: list_all_iff)
  then have "trim_space ?u \<noteq> []" using trim_space_keeps [OF _ dash] by auto
  then show ?thesis
    using assms(1-4) g sp mem.get_delete [of "tokenPrefix @ token" "tokenPrefix @ token" m]
    by (simp add: AuthMiddleware_def GetLoginUIDWithErr_def Let_def set_key_def)
qed

lemma auth_session_roundtrip_witness:
  "AuthMiddleware (\<lambda>k. Get_mem k (mem.write_all [(''x'', None)] (snd (SetAndExpire_mem ''token:t1''
      (join_str session_sep [''u'', ''n'', ''super_admin'', ''z'']) 60 NewMemoryCache)))) ''token:'' (\<lambda>c. c)
      (sample_ctx\<lparr>req_headers := (\<lambda>h. if h = ''token'' then ''t1'' else if h = ''companyCode'' then ''9'' else [])\<rparr>)
    = (sample_ctx\<lparr>req_headers := (\<lambda>h. if h = ''token'' then ''t1'' else if h = ''companyCode'' then ''9'' else [])\<rparr>)
        \<lparr>ctx_keys := Map.empty(''uid'' \<mapsto> ''u'', ''name'' \<mapsto> ''n'', ''role'' \<mapsto> ''super_admin'', ''companyCode'' \<mapsto> ''9'')\<rparr>"
  using auth_session_roundtrip [of "sample_ctx\<lparr>req_headers := (\<lambda>h. if h = ''token'' then ''t1''
      else if h = ''companyCode'' then ''9'' else [])\<rparr>" "''t1''" "''9''" "''u''" "''n''" "''super_admin''" "''z''"
      "[(''x'', None)]" "''token:''" 60 NewMemoryCache "\<lambda>c. c"]
  by (simp add: sample_ctx_def)

text \<open>With the Redis cache, a token Redis does not know is answered 401 and a Redis fault 503:
  \<open>redis.Nil\<close> becomes an empty session before the middleware sees it, every other error stays one.\<close>

theorem auth_with_redis:
  assumes "req_headers c ''token'' \<noteq> []"
  shows "case fst (rd (CGet (tokenPrefix @ req_headers c ''token'')) s) of
      Err e \<Rightarrow> AuthMiddleware (\<lambda>k. fst (Get_redis rd k s)) tokenPrefix nxt c
        = (if e = RdNil then abort_json 401 (msg_obj msg_login) c else abort_json 503 (msg_obj msg_busy) c)
    | Ok v \<Rightarrow> AuthMiddleware (\<lambda>k. fst (Get_redis rd k s)) tokenPrefix nxt c
        = AuthMiddleware (\<lambda>k. (str_of (Ok v), None :: redis_err option)) tokenPrefix nxt c
    | Panic m \<Rightarrow> True"
  using assms by (auto simp: AuthMiddleware_def GetLoginUIDWithErr_def Let_def Get_redis_result
      split: res.split)

lemma auth_with_redis_witness:
  "AuthMiddleware (\<lambda>k. fst (Get_redis kv_server k Map.empty)) ''token:'' (\<lambda>c. c) sample_ctx
    = abort_json 401 (msg_obj msg_login) sample_ctx"
  using auth_with_redis [where c = sample_ctx and rd = kv_server and tokenPrefix = "''token:''"
      and s = Map.empty and nxt = "\<lambda>c. c"]
  by (simp add: sample_ctx_def kv_server_def)

lemma parse_int_range: "0 < bits \<Longrightarrow> - (2 ^ (bits - 1)) \<le> fst (parse_int bits s) \<and> fst (parse_int bits s) < 2 ^ (bits - 1)"
proof -
  define K :: nat where "K = 2 ^ (bits - 1)"
  have K: "0 < K" by (simp add: K_def)
  have "- int K \<le> fst (parse_int bits s) \<and> fst (parse_int bits s) < int K"
    unfolding parse_int_def K_def [symmetric] Let_def using K by (auto split: prod.split)
  then show ?thesis by (simp add: K_def)
qed

text \<open>C14: paging and role checks: whatever the query says (missing, not a number, negative or out of
  range) the page index and size are positive int64 values, 1 and 15 when they do not parse;
  \<open>CheckLoginRole\<close> passes exactly the six roles, \<open>CheckLoginRoleIsSuperAdmin\<close> only the first of them,
  so it never passes where the other fails.\<close>

theorem request_checks:
  "0 < fst (GetPage c) \<and> fst (GetPage c) < 2 ^ 63 \<and> 0 < snd (GetPage c) \<and> snd (GetPage c) < 2 ^ 63
   \<and> (req_query c = (\<lambda>q. []) \<longrightarrow> GetPage c = (1, 15))
   \<and> (CheckLoginRole c = None) = (GetLoginRole c \<in> set validRoles)
   \<and> (CheckLoginRoleIsSuperAdmin c = None) = (GetLoginRole c = ''super_admin'')
   \<and> (CheckLoginRoleIsSuperAdmin c = None \<longrightarrow> CheckLoginRole c = None)"
proof -
  have "fst (parse_int 64 s) < 2 ^ 63" for s using parse_int_range [of 64 s] by simp
  then have "0 < fst (GetPage c) \<and> fst (GetPage c) < 2 ^ 63 \<and> 0 < snd (GetPage c) \<and> snd (GetPage c) < 2 ^ 63"
    by (simp add: GetPage_def Let_def)
  moreover have "[] \<notin> set validRoles" "''super_admin'' \<in> set validRoles"
    by (simp_all add: validRoles_def RoleSuperAdmin_def)
  ultimately show ?thesis
    by (auto simp: CheckLoginRole_def CheckLoginRoleIsSuperAdmin_def Let_def RoleSuperAdmin_def
        GetPage_def parse_int_def)
qed

lemma request_checks_witness: "GetPage sample_ctx = (1, 15)"
  using request_checks [of sample_ctx] by (simp add: sample_ctx_def)

end
