(* ===== verification/Json.thy ===== *)
theory Json
  imports Prelude "HOL-Library.List_Lexorder" "HOL-Library.Char_ord"
begin

text \<open>
  The parts of Go's \<^verbatim>\<open>encoding/json\<close> and \<^verbatim>\<open>encoding/base64\<close> that \<^verbatim>\<open>pkg/util/json.go\<close>
  and the IM client use: the text of a value (maps with sorted keys), base64, the decoder
  (\<open>json_parse\<close>: the first value of a text, what follows it ignored, as \<open>Decoder.Decode\<close> does) and
  the rules by which a value is stored in a field of a struct. Bytes above 127 are kept as they
  are: the replacement of invalid UTF-8 and the escapes of U+2028 and U+2029 are left out.
\<close>

subsection \<open>Text\<close>

definition json_escape :: "char \<Rightarrow> string" where
  "json_escape c =
     (if c = CHR 0x22 \<or> c = CHR 0x5C then [CHR 0x5C, c]
      else if c = CHR 0x08 then [CHR 0x5C, CHR ''b'']
      else if c = CHR 0x0C then [CHR 0x5C, CHR ''f'']
      else if c = CHR 0x0A then [CHR 0x5C, CHR ''n'']
      else if c = CHR 0x0D then [CHR 0x5C, CHR ''r'']
      else if c = CHR 0x09 then [CHR 0x5C, CHR ''t'']
      else if (of_char c :: nat) < 32 \<or> c \<in> set ''<>&'' then
        CHR 0x5C # ''u00'' @ [hex_char (of_char c div 16), hex_char (of_char c mod 16)]
      else [c])"

definition json_quote :: "string \<Rightarrow> string" where
  "json_quote s = CHR 0x22 # concat (map json_escape s) @ [CHR 0x22]"

fun json_text :: "json \<Rightarrow> string" where
  "json_text JNull = ''null''"
| "json_text (JBool b) = (if b then ''true'' else ''false'')"
| "json_text (JInt i) = show_int i"
| "json_text (JNum l) = l"
| "json_text (JStr s) = json_quote s"
| "json_text (JArr vs) = ''['' @ join_str '','' (map json_text vs) @ '']''"
| "json_text (JObj ms) =
     ''{'' @ join_str '','' (map (\<lambda>(k, v). json_quote k @ '':'' @ json_text v) ms) @ ''}''"

text \<open>A map is written with its keys sorted.\<close>

definition jmap :: "(string \<times> json) list \<Rightarrow> json" where
  "jmap ms = JObj (sort_key fst ms)"

text \<open>A nil slice is null.\<close>

definition jslice :: "('a \<Rightarrow> json) \<Rightarrow> 'a list option \<Rightarrow> json" where
  "jslice f xs = (case xs of None \<Rightarrow> JNull | Some xs \<Rightarrow> JArr (map f xs))"

subsection \<open>Base64\<close>

text \<open>The alphabet A-Z, a-z, 0-9, + and /.\<close>

definition b64_char :: "nat \<Rightarrow> char" where
  "b64_char n = char_of (if n < 26 then n + 65 else if n < 52 then n + 71
                         else if n < 62 then n - 4 else if n = 62 then 43 else 47)"

fun base64 :: "string \<Rightarrow> string" where
  "base64 (a # b # c # s) =
     (let a = of_char a :: nat; b = of_char b; c = of_char c
      in [b64_char (a div 4), b64_char (a mod 4 * 16 + b div 16), b64_char (b mod 16 * 4 + c div 64),
          b64_char (c mod 64)]) @ base64 s"
| "base64 [a, b] =
     (let a = of_char a :: nat; b = of_char b
      in [b64_char (a div 4), b64_char (a mod 4 * 16 + b div 16), b64_char (b mod 16 * 4), CHR ''=''])"
| "base64 [a] =
     (let a = of_char a :: nat in [b64_char (a div 4), b64_char (a mod 4 * 16), CHR ''='', CHR ''=''])"
| "base64 [] = []"

definition b64_val :: "char \<Rightarrow> nat option" where
  "b64_val c =
     (let n = of_char c :: nat
      in if 65 \<le> n \<and> n \<le> 90 then Some (n - 65)
         else if 97 \<le> n \<and> n \<le> 122 then Some (n - 71)
         else if 48 \<le> n \<and> n \<le> 57 then Some (n + 4)
         else if n = 43 then Some 62 else if n = 47 then Some 63 else None)"

text \<open>The decoder skips line breaks; padding ends the text.\<close>

fun unbase64_loop :: "string \<Rightarrow> string option" where
  "unbase64_loop [] = Some []"
| "unbase64_loop (p # q # r # t # s) =
     (case (b64_val p, b64_val q) of
        (Some p, Some q) \<Rightarrow>
          (if r = CHR ''='' then
             (if t = CHR ''='' \<and> s = [] then Some [char_of (p * 4 + q div 16)] else None)
           else case b64_val r of
             None \<Rightarrow> None
           | Some r \<Rightarrow>
               (if t = CHR ''='' then
                  (if s = [] then Some [char_of (p * 4 + q div 16), char_of (q mod 16 * 16 + r div 4)]
                   else None)
                else case (b64_val t, unbase64_loop s) of
                  (Some t, Some u) \<Rightarrow>
                    Some (char_of (p * 4 + q div 16) # char_of (q mod 16 * 16 + r div 4)
                            # char_of (r mod 4 * 64 + t) # u)
                | _ \<Rightarrow> None))
      | _ \<Rightarrow> None)"
| "unbase64_loop s = None"

definition unbase64 :: "string \<Rightarrow> string option" where
  "unbase64 s = unbase64_loop (filter (\<lambda>c. c \<noteq> CHR 0x0A \<and> c \<noteq> CHR 0x0D) s)"

lemma of_char_char_of [simp]: "n < 256 \<Longrightarrow> (of_char (char_of n :: char) :: nat) = n"
  by simp

lemma b64_val_char [simp]: "n < 64 \<Longrightarrow> b64_val (b64_char n) = Some n"
  by (auto simp: b64_val_def b64_char_def Let_def)

lemma b64_char_plain:
  assumes "n < 64"
  shows "b64_char n \<noteq> CHR ''=''" "b64_char n \<noteq> CHR 0x0A" "b64_char n \<noteq> CHR 0x0D"
proof -
  have "b64_val (CHR ''='') = None" "b64_val (CHR 0x0A) = None" "b64_val (CHR 0x0D) = None"
    by (simp_all add: b64_val_def)
  then show "b64_char n \<noteq> CHR ''=''" "b64_char n \<noteq> CHR 0x0A" "b64_char n \<noteq> CHR 0x0D"
    using b64_val_char [OF assms] by auto
qed

lemma of_char_less [simp]: "(of_char c :: nat) < 256"
proof -
  have "(of_char c mod 256 :: nat) < 256" by simp
  then show ?thesis by (simp only: of_char_mod_256)
qed

lemma div_256:
  fixes b :: nat
  assumes "b < 256"
  shows "b div 4 < 64" "b div 16 < 16" "b div 64 < 4"
  using assms by (simp_all add: less_mult_imp_div_less)

lemma b64_digits:
  fixes a b c :: nat
  assumes "a < 256" "b < 256" "c < 256"
  shows "a div 4 < 64" "a mod 4 * 16 + b div 16 < 64" "b mod 16 * 4 + c div 64 < 64" "c mod 64 < 64"
    "a mod 4 * 16 < 64" "b mod 16 * 4 < 64"
proof -
  have "a mod 4 < 4" "b mod 16 < 16" by simp_all
  then show "a div 4 < 64" "a mod 4 * 16 + b div 16 < 64" "b mod 16 * 4 + c div 64 < 64" "c mod 64 < 64"
    "a mod 4 * 16 < 64" "b mod 16 * 4 < 64"
    using div_256 [OF assms(1)] div_256 [OF assms(2)] div_256 [OF assms(3)] by linarith+
qed

lemma b64_join:
  fixes a b c :: nat
  assumes "a < 256" "b < 256" "c < 256"
  shows "a div 4 * 4 + (a mod 4 * 16 + b div 16) div 16 = a"
    "(a mod 4 * 16 + b div 16) mod 16 * 16 + (b mod 16 * 4 + c div 64) div 4 = b"
    "(b mod 16 * 4 + c div 64) mod 4 * 64 + c mod 64 = c"
    "a div 4 * 4 + (a mod 4 * 16) div 16 = a"
    "(a mod 4 * 16 + b div 16) mod 16 * 16 + (b mod 16 * 4) div 4 = b"
proof -
  have q: "(x * 16 + y) div 16 = x" "(x * 16 + y) mod 16 = y" if "y < 16" for x y :: nat using that by simp_all
  have r: "(x * 4 + y) div 4 = x" "(x * 4 + y) mod 4 = y" if "y < 4" for x y :: nat using that by simp_all
  note B = div_256(2) [OF assms(2)] and C = div_256(3) [OF assms(3)]
  show "a div 4 * 4 + (a mod 4 * 16 + b div 16) div 16 = a"
    "(a mod 4 * 16 + b div 16) mod 16 * 16 + (b mod 16 * 4 + c div 64) div 4 = b"
    "(b mod 16 * 4 + c div 64) mod 4 * 64 + c mod 64 = c"
    "a div 4 * 4 + (a mod 4 * 16) div 16 = a"
    "(a mod 4 * 16 + b div 16) mod 16 * 16 + (b mod 16 * 4) div 4 = b"
    by (simp_all only: q(1) [OF B] q(2) [OF B] r(1) [OF C] r(2) [OF C] div_mult_mod_eq
        nonzero_mult_div_cancel_right zero_neq_numeral [symmetric] not_False_eq_True div_mult_mod_eq)
qed

lemma unbase64_loop_chars:
  "p < 64 \<Longrightarrow> q < 64 \<Longrightarrow> r < 64 \<Longrightarrow> t < 64 \<Longrightarrow>
   unbase64_loop (b64_char p # b64_char q # b64_char r # b64_char t # s) =
     map_option (\<lambda>u. char_of (p * 4 + q div 16) # char_of (q mod 16 * 16 + r div 4)
       # char_of (r mod 4 * 64 + t) # u) (unbase64_loop s)"
  "p < 64 \<Longrightarrow> q < 64 \<Longrightarrow> r < 64 \<Longrightarrow>
   unbase64_loop [b64_char p, b64_char q, b64_char r, CHR ''=''] =
     Some [char_of (p * 4 + q div 16), char_of (q mod 16 * 16 + r div 4)]"
  "p < 64 \<Longrightarrow> q < 64 \<Longrightarrow>
   unbase64_loop [b64_char p, b64_char q, CHR ''='', CHR ''=''] = Some [char_of (p * 4 + q div 16)]"
  using b64_char_plain by (simp_all split: option.split)

declare unbase64_loop.simps(2) [simp del]

lemma unbase64_loop_base64: "unbase64_loop (base64 s) = Some s"
proof (induction s rule: base64.induct)
  case (1 a b c s)
  note d = b64_digits [of "of_char a" "of_char b" "of_char c"]
    and j = b64_join [of "of_char a" "of_char b" "of_char c"]
  show ?case
    by (simp only: base64.simps Let_def append.simps unbase64_loop_chars(1) d of_char_less 1 option.map j char_of_char)
next
  case (2 a b)
  note d = b64_digits [of "of_char a" "of_char b" 0] and j = b64_join [of "of_char a" "of_char b" 0]
  show ?case
    by (simp only: base64.simps Let_def unbase64_loop_chars(2) d of_char_less j char_of_char)
next
  case (3 a)
  note d = b64_digits [of "of_char a" 0 0] and j = b64_join [of "of_char a" 0 0]
  show ?case
    by (simp only: base64.simps Let_def unbase64_loop_chars(3) d of_char_less j char_of_char)
qed simp

lemma base64_plain: "x \<in> set (base64 s) \<Longrightarrow> x \<noteq> CHR 0x0A \<and> x \<noteq> CHR 0x0D"
proof (induction s rule: base64.induct)
  case (1 a b c s)
  note d = b64_digits [of "of_char a" "of_char b" "of_char c", THEN b64_char_plain(2)]
    b64_digits [of "of_char a" "of_char b" "of_char c", THEN b64_char_plain(3)]
  show ?case using 1 d by (auto simp: Let_def)
next
  case (2 a b)
  note d = b64_digits [of "of_char a" "of_char b" 0, THEN b64_char_plain(2)]
    b64_digits [of "of_char a" "of_char b" 0, THEN b64_char_plain(3)]
  show ?case using 2 d by (auto simp: Let_def)
next
  case (3 a)
  note d = b64_digits [of "of_char a" 0 0, THEN b64_char_plain(2)] b64_digits [of "of_char a" 0 0, THEN b64_char_plain(3)]
  show ?case using 3 d by (auto simp: Let_def)
qed simp

lemma unbase64_base64 [simp]: "unbase64 (base64 s) = Some s"
proof -
  have "filter (\<lambda>c. c \<noteq> CHR 0x0A \<and> c \<noteq> CHR 0x0D) (base64 s) = base64 s"
    using base64_plain by (auto simp: filter_id_conv)
  then show ?thesis by (simp add: unbase64_def unbase64_loop_base64)
qed

subsection \<open>Reading\<close>

text \<open>
  The tokens of a text, read as far as they are well-formed: \<open>TBad\<close> ends them at the first character
  that cannot be read.
\<close>

datatype token =
    TOpenArr | TCloseArr | TOpenObj | TCloseObj | TComma | TColon | TVal json | TBad

definition hex4 :: "string \<Rightarrow> nat option" where
  "hex4 s =
     (case map hex_val (take 4 s) of
        [Some a, Some b, Some c, Some d] \<Rightarrow> Some (((a * 16 + b) * 16 + c) * 16 + d)
      | _ \<Rightarrow> None)"

definition unescape :: "char \<Rightarrow> char option" where
  "unescape c =
     (if c \<in> {CHR 0x22, CHR ''/'', CHR 0x5C} then Some c
      else map_of [(CHR ''b'', CHR 0x08), (CHR ''f'', CHR 0x0C), (CHR ''n'', CHR 0x0A),
                   (CHR ''r'', CHR 0x0D), (CHR ''t'', CHR 0x09)] c)"

text \<open>The code point of the surrogate pair \<open>n\<close> and the escape that follows, if it is one.\<close>

definition low_surrogate :: "nat \<Rightarrow> string \<Rightarrow> nat option" where
  "low_surrogate n s =
     (if 0xD800 \<le> n \<and> n < 0xDC00 \<and> take 2 s = [CHR 0x5C, CHR ''u''] then
        (case hex4 (drop 2 s) of
           Some m \<Rightarrow> if 0xDC00 \<le> m \<and> m < 0xE000
             then Some (0x10000 + (n - 0xD800) * 0x400 + (m - 0xDC00)) else None
         | None \<Rightarrow> None)
      else None)"

text \<open>The rest of a string literal after its opening quote, and what follows it.\<close>

function lex_string :: "string \<Rightarrow> (string \<times> string) option" where
  "lex_string [] = None"
| "lex_string (c # s) =
     (if c = CHR 0x22 then Some ([], s)
      else if c = CHR 0x5C then
           (case s of
              [] \<Rightarrow> None
            | e # s1 \<Rightarrow>
                if e = CHR ''u'' then
                  (case hex4 s1 of
                     None \<Rightarrow> None
                   | Some n \<Rightarrow>
                       (case low_surrogate n (drop 4 s1) of
                          Some u \<Rightarrow> map_option (apfst (\<lambda>t. utf8_char u @ t)) (lex_string (drop 10 s1))
                        | None \<Rightarrow>
                            map_option (apfst (\<lambda>t. utf8_char (if 0xD800 \<le> n \<and> n < 0xE000 then 0xFFFD else n) @ t))
                              (lex_string (drop 4 s1))))
                else (case unescape e of
                        None \<Rightarrow> None
                      | Some d \<Rightarrow> map_option (apfst (\<lambda>t. d # t)) (lex_string s1)))
      else if (of_char c :: nat) < 32 then None
      else map_option (apfst (\<lambda>t. c # t)) (lex_string s))"
  by pat_completeness auto
termination by (relation "measure length") auto

lemma lex_string_shorter: "lex_string s = Some (t, r) \<Longrightarrow> length r < length s"
proof (induction s arbitrary: t rule: measure_induct_rule [where f = length])
  case (less s)
  have IH: "length r < n" if "lex_string u = Some (t', r)" "length u < length s" "length u \<le> n" for u t' n
    using less.IH [OF that(2,1)] that(3) by simp
  from less.prems show ?case
    by (cases s) (auto split: if_splits list.splits option.splits intro: IH)
qed

text \<open>Number literals, by the grammar of JSON.\<close>

definition skip_fraction :: "string \<Rightarrow> string option" where
  "skip_fraction s =
     (if s \<noteq> [] \<and> hd s = CHR ''.'' then
        (if takeWhile is_digit (tl s) = [] then None else Some (dropWhile is_digit (tl s)))
      else Some s)"

definition skip_exponent :: "string \<Rightarrow> string option" where
  "skip_exponent s =
     (if s \<noteq> [] \<and> hd s \<in> set ''eE'' then
        (let s = tl s; s = (if s \<noteq> [] \<and> hd s \<in> set ''+-'' then tl s else s)
         in if takeWhile is_digit s = [] then None else Some (dropWhile is_digit s))
      else Some s)"

definition json_number :: "string \<Rightarrow> json option" where
  "json_number l =
     (let neg = (l \<noteq> [] \<and> hd l = CHR ''-'');
          s = (if neg then tl l else l);
          ds = takeWhile is_digit s;
          r = dropWhile is_digit s
      in if ds = [] \<or> hd ds = CHR ''0'' \<and> 1 < length ds then None
         else if r = [] then
           Some (if neg \<and> ds = ''0'' then JNum l
                 else JInt (if neg then - int (digits_val ds) else int (digits_val ds)))
         else case skip_fraction r of
                None \<Rightarrow> None
              | Some r1 \<Rightarrow> (case skip_exponent r1 of
                    Some [] \<Rightarrow> Some (JNum l)
                  | _ \<Rightarrow> None))"

definition number_char :: "char \<Rightarrow> bool" where
  "number_char c \<longleftrightarrow> is_digit c \<or> c \<in> set ''+-.eE''"

definition json_space :: "char \<Rightarrow> bool" where
  "json_space c \<longleftrightarrow> c \<in> {CHR 0x20, CHR 0x09, CHR 0x0A, CHR 0x0D}"

function lex_json :: "string \<Rightarrow> token list" where
  "lex_json [] = []"
| "lex_json (c # s) =
     (if json_space c then lex_json s
      else if c = CHR ''['' then TOpenArr # lex_json s
      else if c = CHR '']'' then TCloseArr # lex_json s
      else if c = CHR ''{'' then TOpenObj # lex_json s
      else if c = CHR ''}'' then TCloseObj # lex_json s
      else if c = CHR '','' then TComma # lex_json s
      else if c = CHR '':'' then TColon # lex_json s
      else if c = CHR 0x22 then
        (case lex_string s of None \<Rightarrow> [TBad] | Some (t, r) \<Rightarrow> TVal (JStr t) # lex_json r)
      else if number_char c \<and> c \<noteq> CHR ''e'' then
        (case json_number (takeWhile number_char (c # s)) of
           None \<Rightarrow> [TBad]
         | Some v \<Rightarrow> TVal v # lex_json (dropWhile number_char s))
      else if has_prefix (c # s) ''null'' then TVal JNull # lex_json (drop 3 s)
      else if has_prefix (c # s) ''true'' then TVal (JBool True) # lex_json (drop 3 s)
      else if has_prefix (c # s) ''false'' then TVal (JBool False) # lex_json (drop 4 s)
      else [TBad])"
  by pat_completeness auto
termination
  by (relation "measure length") (auto dest: lex_string_shorter simp: length_dropWhile_le less_Suc_eq_le)

text \<open>
  The parser is a machine over the tokens: a stack of open arrays and objects (with the key whose value
  is awaited), and what may come next. A value is given to the innermost open one (\<open>Inl\<close>: the new
  stack), or is the result (\<open>Inr\<close>).
\<close>

datatype frame = FArr "json list" | FObj "(string \<times> json) list" string

datatype expect = EValue | EValueOrClose | EKeyOrClose | EKey | EColon | EAfter

definition json_max_depth :: nat where "json_max_depth = 10000"

fun feed :: "json \<Rightarrow> frame list \<Rightarrow> frame list + json" where
  "feed v [] = Inr v"
| "feed v (FArr vs # st) = Inl (FArr (vs @ [v]) # st)"
| "feed v (FObj ms k # st) = Inl (FObj (ms @ [(k, v)]) [] # st)"

fun json_machine :: "expect \<Rightarrow> frame list \<Rightarrow> token list \<Rightarrow> json option" where
  "json_machine e st [] = None"
| "json_machine e st (t # ts) =
     (let give = (\<lambda>v st. case feed v st of Inr v \<Rightarrow> Some v | Inl st \<Rightarrow> json_machine EAfter st ts);
          deep = json_max_depth \<le> length st
      in case t of
           TVal v \<Rightarrow>
             (if e = EValue \<or> e = EValueOrClose then give v st
              else case (v, st) of
                (JStr k, FObj ms k' # st) \<Rightarrow>
                  if e = EKey \<or> e = EKeyOrClose then json_machine EColon (FObj ms k # st) ts else None
              | _ \<Rightarrow> None)
         | TOpenArr \<Rightarrow>
             (if (e = EValue \<or> e = EValueOrClose) \<and> \<not> deep then json_machine EValueOrClose (FArr [] # st) ts
              else None)
         | TOpenObj \<Rightarrow>
             (if (e = EValue \<or> e = EValueOrClose) \<and> \<not> deep then json_machine EKeyOrClose (FObj [] [] # st) ts
              else None)
         | TCloseArr \<Rightarrow>
             (case st of
                FArr vs # st \<Rightarrow> if e = EValueOrClose \<or> e = EAfter then give (JArr vs) st else None
              | _ \<Rightarrow> None)
         | TCloseObj \<Rightarrow>
             (case st of
                FObj ms k # st \<Rightarrow> if e = EKeyOrClose \<or> e = EAfter then give (JObj ms) st else None
              | _ \<Rightarrow> None)
         | TComma \<Rightarrow>
             (case st of
                FArr vs # st' \<Rightarrow> if e = EAfter then json_machine EValue st ts else None
              | FObj ms k # st' \<Rightarrow> if e = EAfter then json_machine EKey st ts else None
              | [] \<Rightarrow> None)
         | TColon \<Rightarrow> (if e = EColon then json_machine EValue st ts else None)
         | TBad \<Rightarrow> None)"

definition json_parse :: "string \<Rightarrow> json option" where
  "json_parse s = json_machine EValue [] (lex_json s)"


subsection \<open>Reading back what was written\<close>

text \<open>Values the encoder can write: a non-integer number is a number literal of the grammar.\<close>

fun json_wf :: "json \<Rightarrow> bool" where
  "json_wf (JNum l) = (list_all number_char l \<and> json_number l = Some (JNum l))"
| "json_wf (JArr vs) = list_all json_wf vs"
| "json_wf (JObj ms) = list_all (\<lambda>(k, v). json_wf v) ms"
| "json_wf v = True"

fun json_depth :: "json \<Rightarrow> nat" where
  "json_depth (JArr vs) = Suc (foldr max (map json_depth vs) 0)"
| "json_depth (JObj ms) = Suc (foldr max (map (\<lambda>(k, v). json_depth v) ms) 0)"
| "json_depth v = 0"

lemma json_depth_le: "v \<in> set vs \<Longrightarrow> json_depth v \<le> foldr max (map json_depth vs) 0"
  by (induction vs) auto

lemma json_depth_le_obj: "(k, v) \<in> set ms \<Longrightarrow> json_depth v \<le> foldr max (map (\<lambda>(k, v). json_depth v) ms) 0"
  by (induction ms) auto

fun json_tokens :: "json \<Rightarrow> token list" where
  "json_tokens (JArr []) = [TOpenArr, TCloseArr]"
| "json_tokens (JArr (v # vs)) =
     TOpenArr # json_tokens v @ concat (map (\<lambda>v. TComma # json_tokens v) vs) @ [TCloseArr]"
| "json_tokens (JObj []) = [TOpenObj, TCloseObj]"
| "json_tokens (JObj (m # ms)) =
     TOpenObj # (case m of (k, v) \<Rightarrow> TVal (JStr k) # TColon # json_tokens v)
       @ concat (map (\<lambda>(k, v). TComma # TVal (JStr k) # TColon # json_tokens v) ms) @ [TCloseObj]"
| "json_tokens v = [TVal v]"

lemma join_str_Cons: "join_str sep (x # xs) = x @ concat (map (\<lambda>y. sep @ y) xs)"
  by (induction xs arbitrary: x) auto

text \<open>What may follow a value: nothing, or a character no number goes on with.\<close>

definition ends_value :: "string \<Rightarrow> bool" where
  "ends_value r \<longleftrightarrow> r = [] \<or> \<not> number_char (hd r)"

lemma hex_val_hex_char: "n < 16 \<Longrightarrow> hex_val (hex_char n) = Some n"
  by (auto simp: hex_val_def hex_char_def Let_def)

lemma lex_string_escape:
  "lex_string (json_escape c @ s) = map_option (apfst (\<lambda>t. c # t)) (lex_string s)"
proof (cases "(of_char c :: nat) < 32 \<and> c \<notin> {CHR 0x08, CHR 0x0C, CHR 0x0A, CHR 0x0D, CHR 0x09} \<or> c \<in> set ''<>&''")
  case True
  let ?n = "of_char c :: nat"
  have o: "(of_char (CHR 0x22) :: nat) = 34" "(of_char (CHR 0x5C) :: nat) = 92" by simp_all
  consider "?n < 32" | "c = CHR ''<''" | "c = CHR ''>''" | "c = CHR ''&''"
    using True by (simp only: list.set insert_iff empty_iff) blast
  then have n: "?n < 128 \<and> c \<noteq> CHR 0x22 \<and> c \<noteq> CHR 0x5C"
    by cases (use o in force, simp_all)
  have "?n div 16 < 16" "?n mod 16 < 16" using n by (simp_all add: less_mult_imp_div_less)
  then have "hex4 (''00'' @ hex_char (?n div 16) # hex_char (?n mod 16) # s) = Some ?n"
    by (simp add: hex4_def hex_val_hex_char) (simp add: hex_val_def)
  moreover have "low_surrogate ?n s = None" "utf8_char ?n = [c]"
    using n by (simp_all add: low_surrogate_def utf8_char_def bytes_def)
  moreover have "json_escape c = CHR 0x5C # ''u00'' @ [hex_char (?n div 16), hex_char (?n mod 16)]"
    using True n by (auto simp: json_escape_def)
  moreover have "(@) [c] = (#) c" by (rule ext) simp
  ultimately show ?thesis using n by (simp del: set_simps)
next
  case False
  show ?thesis
  proof (cases "c \<in> {CHR 0x22, CHR 0x5C, CHR 0x08, CHR 0x0C, CHR 0x0A, CHR 0x0D, CHR 0x09}")
    case True
    then consider "c = CHR 0x22" | "c = CHR 0x5C" | "c = CHR 0x08" | "c = CHR 0x0C" | "c = CHR 0x0A"
      | "c = CHR 0x0D" | "c = CHR 0x09" by auto
    then show ?thesis by cases (simp_all add: json_escape_def unescape_def)
  next
    case no: False
    then have "json_escape c = [c]" "\<not> (of_char c :: nat) < 32" using False by (auto simp: json_escape_def)
    with no show ?thesis by simp
  qed
qed

lemma lex_string_quote: "lex_string (concat (map json_escape s) @ CHR 0x22 # r) = Some (s, r)"
  by (induction s) (simp_all add: lex_string_escape)


lemma hd_show_nat: "0 < n \<Longrightarrow> hd (show_nat n) \<noteq> CHR ''0''"
proof (induction n rule: show_nat.induct)
  case (1 n)
  show ?case
  proof (cases "n < 10")
    case True
    then show ?thesis using 1 by (subst show_nat.simps) (simp add: digit_char_eq_zero)
  next
    case False
    then have "hd (show_nat (n div 10)) \<noteq> CHR ''0''" using 1 by simp
    then show ?thesis using False by (subst show_nat.simps) simp
  qed
qed

lemma show_nat_zero [simp]: "show_nat 0 = ''0''"
  by (subst show_nat.simps) (simp add: digit_char_eq_zero)

lemma digits_all: "list_all is_digit s \<Longrightarrow> takeWhile is_digit s = s \<and> dropWhile is_digit s = []"
  by (induction s) auto

lemma show_nat_number:
  "json_number (show_nat n) = Some (JInt (int n))"
  "0 < n \<Longrightarrow> json_number (CHR ''-'' # show_nat n) = Some (JInt (- int n))"
proof -
  have d: "takeWhile is_digit (show_nat n) = show_nat n" "dropWhile is_digit (show_nat n) = []"
    using digits_all [OF show_nat_digits] by auto
  have m: "hd (show_nat n) \<noteq> CHR ''-''"
  proof -
    have "is_digit (hd (show_nat n))"
      using show_nat_digits [of n] by (cases "show_nat n") auto
    then show ?thesis by (auto simp: is_digit_def)
  qed
  show "json_number (show_nat n) = Some (JInt (int n))"
  proof (cases "n = 0")
    case True
    then show ?thesis by (simp add: json_number_def is_digit_def digits_val_def)
  next
    case False
    then show ?thesis using m hd_show_nat [of n] by (simp add: json_number_def Let_def d)
  qed
  assume n: "0 < n"
  have "show_nat n \<noteq> ''0''" using hd_show_nat [OF n] by auto
  then show "json_number (CHR ''-'' # show_nat n) = Some (JInt (- int n))"
    using hd_show_nat [OF n] by (simp add: json_number_def Let_def d)
qed

lemma digits_number_char: "list_all is_digit s \<Longrightarrow> list_all number_char s"
  by (induction s) (auto simp: number_char_def)

lemma show_int_number:
  "list_all number_char (show_int i)" "json_number (show_int i) = Some (JInt i)"
  using show_nat_number(1) [of "nat i"] show_nat_number(2) [of "nat (- i)"]
    digits_number_char [OF show_nat_digits]
  by (auto simp: show_int_def number_char_def)

lemma json_number_head:
  assumes "json_number l = Some v"
  shows "l \<noteq> [] \<and> (is_digit (hd l) \<or> hd l = CHR ''-'')"
  using assms by (cases l) (auto simp: json_number_def Let_def split: if_splits)

lemma ends_value_take: "list_all number_char l \<Longrightarrow> ends_value r \<Longrightarrow>
    takeWhile number_char (l @ r) = l \<and> dropWhile number_char (l @ r) = r"
  by (induction l) (cases r, auto simp: ends_value_def)

text \<open>The characters that start a number start nothing else.\<close>

lemma number_start:
  assumes "is_digit c \<or> c = CHR ''-''"
  shows "number_char c" "c \<noteq> CHR ''e''" "\<not> json_space c" "c \<notin> set ''[]{},:''" "c \<noteq> CHR 0x22"
proof -
  have o: "(of_char (CHR ''e'') :: nat) = 101" by simp
  show "number_char c" using assms by (auto simp: number_char_def)
  show "c \<noteq> CHR ''e''" "\<not> json_space c" "c \<notin> set ''[]{},:''" "c \<noteq> CHR 0x22"
    using assms by (auto simp: is_digit_def json_space_def)
qed

lemma lex_json_number:
  assumes "list_all number_char l" "json_number l = Some v" "ends_value r"
  shows "lex_json (l @ r) = TVal v # lex_json r"
proof -
  obtain c l' where l: "l = c # l'" using json_number_head [OF assms(2)] by (cases l) auto
  have c: "is_digit c \<or> c = CHR ''-''" using json_number_head [OF assms(2)] l by simp
  note t = ends_value_take [OF assms(1,3)]
  have "dropWhile number_char (l' @ r) = r"
    using t number_start(1) [OF c] by (simp add: l)
  then show ?thesis
    using t number_start [OF c] assms(2) by (simp add: l)
qed

lemma lex_json_quote: "lex_json (json_quote s @ r) = TVal (JStr s) # lex_json r"
  by (simp add: json_quote_def json_space_def lex_string_quote)

lemma lex_json_punct:
  "lex_json (CHR ''['' # s) = TOpenArr # lex_json s" "lex_json (CHR '']'' # s) = TCloseArr # lex_json s"
  "lex_json (CHR ''{'' # s) = TOpenObj # lex_json s" "lex_json (CHR ''}'' # s) = TCloseObj # lex_json s"
  "lex_json (CHR '','' # s) = TComma # lex_json s" "lex_json (CHR '':'' # s) = TColon # lex_json s"
  by (simp_all add: json_space_def)

lemma ends_value_punct [simp]: "ends_value (CHR '','' # s)" "ends_value (CHR '']'' # s)" "ends_value (CHR ''}'' # s)"
  by (simp_all add: ends_value_def number_char_def is_digit_def)

lemma lex_json_words:
  "lex_json (''null'' @ r) = TVal JNull # lex_json r"
  "lex_json (''true'' @ r) = TVal (JBool True) # lex_json r"
  "lex_json (''false'' @ r) = TVal (JBool False) # lex_json r"
  by (simp_all add: json_space_def number_char_def is_digit_def)

declare lex_json.simps(2) [simp del]

lemma lex_json_concat:
  assumes "\<And>x r. x \<in> set xs \<Longrightarrow> ends_value r \<Longrightarrow> lex_json (f x @ r) = g x @ lex_json r"
    and "ends_value r"
  shows "lex_json (concat (map (\<lambda>x. CHR '','' # f x) xs) @ r) =
    concat (map (\<lambda>x. TComma # g x) xs) @ lex_json r"
  using assms(1)
proof (induction xs)
  case (Cons x xs)
  have "ends_value (concat (map (\<lambda>x. CHR '','' # f x) xs) @ r)"
    using assms(2) by (cases xs) auto
  then show ?case using Cons by (simp add: lex_json_punct)
qed simp

lemma lex_json_text: "json_wf v \<Longrightarrow> ends_value r \<Longrightarrow> lex_json (json_text v @ r) = json_tokens v @ lex_json r"
proof (induction v arbitrary: r)
  case (JArr vs)
  show ?case
  proof (cases vs)
    case (Cons v vs')
    have "lex_json (concat (map (\<lambda>v. CHR '','' # json_text v) vs') @ CHR '']'' # r) =
        concat (map (\<lambda>v. TComma # json_tokens v) vs') @ lex_json (CHR '']'' # r)"
      by (rule lex_json_concat) (use JArr Cons in \<open>auto simp: list_all_iff\<close>)
    moreover have "ends_value (concat (map (\<lambda>v. CHR '','' # json_text v) vs') @ CHR '']'' # r)"
      by (cases vs') auto
    ultimately show ?thesis
      using JArr Cons by (simp add: join_str_Cons lex_json_punct comp_def)
  qed (simp add: lex_json_punct)
next
  case (JObj ms)
  have m: "lex_json (json_quote k @ CHR '':'' # json_text v @ s) = TVal (JStr k) # TColon # json_tokens v @ lex_json s"
    if "(k, v) \<in> set ms" "ends_value s" for k v s
    using JObj that by (auto simp: lex_json_quote lex_json_punct list_all_iff)
  show ?case
  proof (cases ms)
    case (Cons m ms')
    obtain k v where kv: "m = (k, v)" by (cases m)
    have "lex_json (concat (map (\<lambda>x. CHR '','' # (case x of (k, v) \<Rightarrow> json_quote k @ CHR '':'' # json_text v)) ms')
        @ CHR ''}'' # r) =
        concat (map (\<lambda>x. TComma # (case x of (k, v) \<Rightarrow> TVal (JStr k) # TColon # json_tokens v)) ms')
          @ lex_json (CHR ''}'' # r)"
      by (rule lex_json_concat) (use m Cons in \<open>auto split: prod.splits\<close>)
    moreover have "ends_value (concat (map (\<lambda>x. CHR '','' # (case x of (k, v) \<Rightarrow> json_quote k @ CHR '':'' # json_text v)) ms')
        @ CHR ''}'' # r)"
      by (cases ms') auto
    ultimately show ?thesis
      using m [of k v] Cons kv by (simp add: join_str_Cons lex_json_punct comp_def split_def)
  qed (simp add: lex_json_punct)
qed (simp_all add: lex_json_number show_int_number lex_json_quote lex_json_words [simplified])


text \<open>A value's tokens give it to the innermost open array or object.\<close>

abbreviation give_value :: "json \<Rightarrow> frame list \<Rightarrow> token list \<Rightarrow> json option" where
  "give_value v st ts \<equiv> (case feed v st of Inr v \<Rightarrow> Some v | Inl st \<Rightarrow> json_machine EAfter st ts)"

definition machine_reads :: "json \<Rightarrow> frame list \<Rightarrow> bool" where
  "machine_reads v st \<longleftrightarrow> (\<forall>e ts. e = EValue \<or> e = EValueOrClose \<longrightarrow>
     json_machine e st (json_tokens v @ ts) = give_value v st ts)"

lemma machine_readsD:
  "machine_reads v st \<Longrightarrow> json_machine EValue st (json_tokens v @ ts) = give_value v st ts"
  "machine_reads v st \<Longrightarrow> json_machine EValueOrClose st (json_tokens v @ ts) = give_value v st ts"
  by (simp_all add: machine_reads_def)

lemma machine_items:
  assumes "\<And>v us. v \<in> set vs \<Longrightarrow> machine_reads v (FArr us # st)"
  shows "json_machine EAfter (FArr us # st) (concat (map (\<lambda>v. TComma # json_tokens v) vs) @ TCloseArr # ts)
    = give_value (JArr (us @ vs)) st ts"
  using assms by (induction vs arbitrary: us) (simp_all add: Let_def machine_readsD)

lemma machine_members:
  assumes "\<And>k v us k'. (k, v) \<in> set ms \<Longrightarrow> machine_reads v (FObj us k' # st)"
  shows "json_machine EAfter (FObj us [] # st)
      (concat (map (\<lambda>(k, v). TComma # TVal (JStr k) # TColon # json_tokens v) ms) @ TCloseObj # ts)
    = give_value (JObj (us @ ms)) st ts"
  using assms
proof (induction ms arbitrary: us)
  case (Cons m ms)
  obtain k v where m: "m = (k, v)" by (cases m)
  have "machine_reads v (FObj us k # st)" using Cons.prems m by auto
  moreover have "machine_reads v' (FObj us' k' # st)" if "(k'', v') \<in> set ms" for k'' v' us' k'
    using Cons.prems that by auto
  ultimately show ?case using Cons.IH m by (simp add: Let_def machine_readsD)
qed (simp add: Let_def)

lemma machine_value: "length st + json_depth v \<le> json_max_depth \<Longrightarrow> machine_reads v st"
proof (induction v arbitrary: st)
  case (JArr vs)
  have deep: "\<not> json_max_depth \<le> length st" using JArr.prems by simp
  have item: "machine_reads v (FArr us # st)" if "v \<in> set vs" for v us
    using JArr that json_depth_le [OF that] by simp
  show ?case
  proof (cases vs)
    case (Cons v vs')
    have "machine_reads v (FArr [] # st)" using item Cons by simp
    moreover have "json_machine EAfter (FArr [v] # st)
        (concat (map (\<lambda>v. TComma # json_tokens v) vs') @ TCloseArr # ts) = give_value (JArr vs) st ts" for ts
      using machine_items [of vs' st "[v]" ts] item Cons by simp
    ultimately show ?thesis using deep Cons by (simp add: Let_def machine_readsD machine_reads_def [of "JArr (v # vs')"])
  qed (use deep in \<open>simp add: Let_def machine_reads_def\<close>)
next
  case (JObj ms)
  have deep: "\<not> json_max_depth \<le> length st" using JObj.prems by simp
  have item: "machine_reads v (FObj us k' # st)" if "(k, v) \<in> set ms" for k v us k'
    using JObj.IH [OF that, of v "FObj us k' # st"] JObj.prems json_depth_le_obj [OF that] by simp
  show ?case
  proof (cases ms)
    case (Cons m ms')
    obtain k v where kv: "m = (k, v)" by (cases m)
    have rest: "machine_reads v (FObj us k' # st)" if "(k'', v) \<in> set ms'" for k'' v us k'
      using item [of k'' v] that Cons by auto
    have "machine_reads v (FObj [] k # st)" using item [of k v] Cons kv by auto
    moreover have "json_machine EAfter (FObj [(k, v)] [] # st)
        (concat (map (\<lambda>(k, v). TComma # TVal (JStr k) # TColon # json_tokens v) ms') @ TCloseObj # ts)
      = give_value (JObj ms) st ts" for ts
      using machine_members [of ms' st "[(k, v)]" ts, OF rest] Cons kv by simp
    ultimately show ?thesis using deep Cons kv by (simp add: Let_def machine_readsD machine_reads_def [of "JObj ((k, v) # ms')"])
  qed (use deep in \<open>simp add: Let_def machine_reads_def\<close>)
qed (simp_all add: Let_def machine_reads_def)

lemma json_parse_text:
  assumes "json_wf v" "json_depth v \<le> json_max_depth"
  shows "json_parse (json_text v) = Some v"
proof -
  have "lex_json (json_text v) = json_tokens v"
    using lex_json_text [OF assms(1), of "[]"] by (simp add: ends_value_def)
  moreover have "machine_reads v []" using machine_value [of "[]" v] assms(2) by simp
  ultimately show ?thesis using machine_readsD(1) [of v "[]" "[]"] by (simp add: json_parse_def)
qed


subsection \<open>\<^verbatim>\<open>pkg/util/json.go\<close>\<close>

datatype json_error = NotJson | WrongType

definition ToJson :: "json \<Rightarrow> string" where
  "ToJson v = json_text v"

text \<open>Decoding into a map: null leaves it nil (\<open>None\<close>), the last of equal keys wins.\<close>

definition as_map :: "json \<Rightarrow> (json_error, (string \<rightharpoonup> json) option) res" where
  "as_map v =
     (case v of JNull \<Rightarrow> Ok None | JObj ms \<Rightarrow> Ok (Some (map_of (rev ms))) | _ \<Rightarrow> Err WrongType)"

definition ReadJsonByByte :: "string \<Rightarrow> (json \<Rightarrow> (json_error, 'a) res) \<Rightarrow> (json_error, 'a) res" where
  "ReadJsonByByte body decode =
     (case json_parse body of None \<Rightarrow> Err NotJson | Some v \<Rightarrow> decode v)"

definition JsonToMap :: "string \<Rightarrow> (json_error, (string \<rightharpoonup> json) option) res" where
  "JsonToMap s = ReadJsonByByte s as_map"

text \<open>The value of a key of a map, nil when it is missing or null.\<close>

definition map_get :: "(string \<rightharpoonup> json) \<Rightarrow> string \<Rightarrow> json" where
  "map_get m k = (case m k of None \<Rightarrow> JNull | Some v \<Rightarrow> v)"

subsection \<open>Storing values in struct fields\<close>

definition lower :: "string \<Rightarrow> string" where
  "lower s = map to_lower s"

text \<open>
  A field of a struct takes the last member whose name is its own, letter case aside; null leaves the
  zero value. A value of another type, or a number out of range, is an error.
\<close>

fun field :: "(json \<Rightarrow> (json_error, 'a) res) \<Rightarrow> 'a \<Rightarrow> string \<Rightarrow> (string \<times> json) list \<Rightarrow> (json_error, 'a) res" where
  "field d z k [] = Ok z"
| "field d z k ((k', v) # ms) =
     (if lower k' = k \<and> v \<noteq> JNull then bind_res (d v) (\<lambda>x. field d x k ms) else field d z k ms)"

definition d_int :: "int \<Rightarrow> int \<Rightarrow> json \<Rightarrow> (json_error, int) res" where
  "d_int lo hi v =
     (case v of
        JNull \<Rightarrow> Ok 0
      | JInt i \<Rightarrow> if lo \<le> i \<and> i \<le> hi then Ok i else Err WrongType
      | JNum l \<Rightarrow> if l = ''-0'' \<and> lo < 0 then Ok 0 else Err WrongType
      | _ \<Rightarrow> Err WrongType)"

definition d_str :: "json \<Rightarrow> (json_error, string) res" where
  "d_str v = (case v of JNull \<Rightarrow> Ok [] | JStr s \<Rightarrow> Ok s | _ \<Rightarrow> Err WrongType)"

text \<open>A byte slice is base64 text.\<close>

definition d_bytes :: "json \<Rightarrow> (json_error, string option) res" where
  "d_bytes v =
     (case v of
        JNull \<Rightarrow> Ok None
      | JStr s \<Rightarrow> (case unbase64 s of Some b \<Rightarrow> Ok (Some b) | None \<Rightarrow> Err WrongType)
      | _ \<Rightarrow> Err WrongType)"

fun sequence_res :: "('e, 'a) res list \<Rightarrow> ('e, 'a list) res" where
  "sequence_res [] = Ok []"
| "sequence_res (r # rs) = bind_res r (\<lambda>x. map_ok (\<lambda>xs. x # xs) (sequence_res rs))"

text \<open>A nil slice stays nil.\<close>

definition d_slice :: "(json \<Rightarrow> (json_error, 'a) res) \<Rightarrow> json \<Rightarrow> (json_error, 'a list option) res" where
  "d_slice d v =
     (case v of
        JNull \<Rightarrow> Ok None
      | JArr vs \<Rightarrow> map_ok Some (sequence_res (map d vs))
      | _ \<Rightarrow> Err WrongType)"

text \<open>A pointer is nil for null.\<close>

definition d_ptr :: "(json \<Rightarrow> (json_error, 'a) res) \<Rightarrow> json \<Rightarrow> (json_error, 'a option) res" where
  "d_ptr d v = (if v = JNull then Ok None else map_ok Some (d v))"

definition d_struct :: "'a \<Rightarrow> ((string \<times> json) list \<Rightarrow> (json_error, 'a) res) \<Rightarrow> json \<Rightarrow> (json_error, 'a) res" where
  "d_struct z d v = (case v of JNull \<Rightarrow> Ok z | JObj ms \<Rightarrow> d ms | _ \<Rightarrow> Err WrongType)"

named_theorems json_field "decoding the fields of an encoded struct"

lemma field_simps [json_field]:
  "field d z k [] = Ok z"
  "lower k' = k \<Longrightarrow> v \<noteq> JNull \<Longrightarrow> field d z k ((k', v) # ms) = bind_res (d v) (\<lambda>x. field d x k ms)"
  "lower k' \<noteq> k \<Longrightarrow> field d z k ((k', v) # ms) = field d z k ms"
  "field d z k ((k', JNull) # ms) = field d z k ms"
  by auto

declare field.simps(2) [simp del]

lemma d_int_JInt [json_field]: "lo \<le> i \<Longrightarrow> i \<le> hi \<Longrightarrow> d_int lo hi (JInt i) = Ok i"
  by (simp add: d_int_def)

lemma d_str_JStr [json_field]: "d_str (JStr s) = Ok s"
  by (simp add: d_str_def)

lemma sequence_res_Ok: "(\<And>x. x \<in> set xs \<Longrightarrow> d (e x) = Ok x) \<Longrightarrow> sequence_res (map d (map e xs)) = Ok xs"
  by (induction xs) auto

lemma d_slice_jslice [json_field]:
  "(\<And>x. x \<in> set (case xs of None \<Rightarrow> [] | Some xs \<Rightarrow> xs) \<Longrightarrow> d (e x) = Ok x) \<Longrightarrow> d_slice d (jslice e xs) = Ok xs"
  using sequence_res_Ok [of "case xs of None \<Rightarrow> [] | Some xs \<Rightarrow> xs" d e]
  by (auto simp: d_slice_def jslice_def split: option.split)



end
