(* ===== verification/ImTypes.thy ===== *)
theory ImTypes
  imports Json
begin

text \<open>
  The data of the IM client: \<^verbatim>\<open>common/msg.go\<close> (content types, fake channel ids), the
  constants of \<^verbatim>\<open>common/constant.go\<close> it uses, \<^verbatim>\<open>pkg/util/hash.go\<close>, and the request and
  response structs of \<^verbatim>\<open>config/msg.go\<close> and \<^verbatim>\<open>config/stream.go\<close> with the JSON they stand
  for. A Go \<open>int\<close> is an \<open>int\<close>, a nil slice or pointer is \<open>None\<close>.
\<close>

subsection \<open>Channel types, commands, content types\<close>

datatype ChannelType =
    ChannelTypeNone | ChannelTypePerson | ChannelTypeGroup | ChannelTypeCustomerService
  | ChannelTypeCommunity | ChannelTypeCommunityTopic | ChannelTypeInfo

definition Uint8 :: "ChannelType \<Rightarrow> byte" where
  "Uint8 c =
     (case c of ChannelTypeNone \<Rightarrow> 0 | ChannelTypePerson \<Rightarrow> 1 | ChannelTypeGroup \<Rightarrow> 2
      | ChannelTypeCustomerService \<Rightarrow> 3 | ChannelTypeCommunity \<Rightarrow> 4 | ChannelTypeCommunityTopic \<Rightarrow> 5
      | ChannelTypeInfo \<Rightarrow> 6)"

definition CMDChannelUpdate :: string where "CMDChannelUpdate = ''channelUpdate''"
definition CMDGroupMemberUpdate :: string where "CMDGroupMemberUpdate = ''memberUpdate''"
definition CMDFriendDeleted :: string where "CMDFriendDeleted = ''friendDeleted''"
definition CMDTyping :: string where "CMDTyping = ''typing''"

definition GroupAttrKeyName :: string where "GroupAttrKeyName = ''name''"
definition GroupAttrKeyNotice :: string where "GroupAttrKeyNotice = ''notice''"
definition GroupAttrKeyForbidden :: string where "GroupAttrKeyForbidden = ''forbidden''"
definition GroupAttrKeyInvite :: string where "GroupAttrKeyInvite = ''invite''"
definition GroupAttrKeyStatus :: string where "GroupAttrKeyStatus = ''status''"

definition RTCResultTypeCancel :: int where "RTCResultTypeCancel = 0"
definition RTCResultTypeHangup :: int where "RTCResultTypeHangup = 1"
definition RTCResultTypeMissed :: int where "RTCResultTypeMissed = 2"
definition RTCResultTypeRefuse :: int where "RTCResultTypeRefuse = 3"

text \<open>The content types, as the integers they are.\<close>

definition Text :: int where "Text = 1"
definition Image :: int where "Image = 2"
definition GIF :: int where "GIF = 3"
definition Voice :: int where "Voice = 4"
definition Video :: int where "Video = 5"
definition Location :: int where "Location = 6"
definition Card :: int where "Card = 7"
definition File :: int where "File = 8"
definition MultipleForward :: int where "MultipleForward = 11"
definition VectorSticker :: int where "VectorSticker = 12"
definition EmojiSticker :: int where "EmojiSticker = 13"
definition RichText :: int where "RichText = 14"
definition CMD :: int where "CMD = 99"
definition Tip :: int where "Tip = 2000"
definition FriendApply :: int where "FriendApply = 1000"
definition GroupCreate :: int where "GroupCreate = 1001"
definition GroupMemberAdd :: int where "GroupMemberAdd = 1002"
definition GroupMemberRemove :: int where "GroupMemberRemove = 1003"
definition FriendSure :: int where "FriendSure = 1004"
definition GroupUpdate :: int where "GroupUpdate = 1005"
definition RevokeMessage :: int where "RevokeMessage = 1006"
definition GroupMemberScanJoin :: int where "GroupMemberScanJoin = 1007"
definition GroupTransferGrouper :: int where "GroupTransferGrouper = 1008"
definition GroupMemberInvite :: int where "GroupMemberInvite = 1009"
definition GroupMemberBeRemove :: int where "GroupMemberBeRemove = 1020"
definition GroupMemberQuit :: int where "GroupMemberQuit = 1021"
definition GroupUpgrade :: int where "GroupUpgrade = 1022"
definition VideoCallResult :: int where "VideoCallResult = 9989"

definition GetDisplayText :: "int \<Rightarrow> string" where
  "GetDisplayText contentType =
     (if contentType = Text then (utf8 [0x6587, 0x672C, 0x6D88, 0x606F])
      else if contentType = Image then (utf8 [0x56FE, 0x7247, 0x6D88, 0x606F])
      else if contentType = GIF then ''GIF''
      else if contentType = Voice then (utf8 [0x8BED, 0x97F3])
      else if contentType = Video then (utf8 [0x89C6, 0x9891])
      else if contentType = Location then (utf8 [0x4F4D, 0x7F6E])
      else if contentType = Card then (utf8 [0x540D, 0x7247])
      else if contentType = File then (utf8 [0x6587, 0x4EF6])
      else if contentType = MultipleForward then (utf8 [0x5408, 0x5E76, 0x8F6C, 0x53D1, 0x6D88, 0x606F])
      else if contentType = VectorSticker then (utf8 [0x8D34, 0x7EB8])
      else if contentType = EmojiSticker then ''emoji''
      else if contentType = RichText then (utf8 [0x5BCC, 0x6587, 0x672C, 0x6D88, 0x606F])
      else (utf8 [0x672A, 0x77E5, 0x6D88, 0x606F, 0x7C7B, 0x578B]))"

definition String_content :: "int \<Rightarrow> string" where
  "String_content c =
     (if c = Text then ''Text''
      else if c = Image then ''Image''
      else if c = GIF then ''GIF''
      else if c = Voice then ''Voice''
      else if c = CMD then ''CMD''
      else if c = FriendApply then ''FriendApply''
      else if c = GroupCreate then ''GroupCreate''
      else if c = GroupMemberAdd then ''GroupMemberAdd''
      else if c = GroupMemberRemove then ''GroupMemberRemove''
      else if c = FriendSure then ''FriendSure''
      else if c = GroupUpdate then ''GroupUpdate''
      else if c = RevokeMessage then ''RevokeMessage''
      else show_int c)"

subsection \<open>Fake channel ids\<close>

text \<open>The IEEE CRC-32 of the bytes of a string, bit by bit.\<close>

unbundle bit_operations_syntax

fun crc_bits :: "nat \<Rightarrow> uint32 \<Rightarrow> uint32" where
  "crc_bits 0 c = c"
| "crc_bits (Suc n) c =
     crc_bits n (if bit c 0 then drop_bit 1 c XOR 0xEDB88320 else drop_bit 1 c)"

definition crc_byte :: "uint32 \<Rightarrow> char \<Rightarrow> uint32" where
  "crc_byte c b = crc_bits 8 (c XOR of_nat (of_char b))"

definition HashCrc32 :: "string \<Rightarrow> uint32" where
  "HashCrc32 s = NOT (foldl crc_byte 0xFFFFFFFF s)"

lemma HashCrc32_check: "HashCrc32 ''123456789'' = 0xCBF43926"
  by code_simp

text \<open>A warning is logged when the hashes are equal.\<close>

definition GetFakeChannelIDWith :: "string \<Rightarrow> string \<Rightarrow> string" where
  "GetFakeChannelIDWith fromUID toUID =
     (if HashCrc32 fromUID > HashCrc32 toUID then fromUID @ ''@'' @ toUID else toUID @ ''@'' @ fromUID)"

definition IsFakeChannel :: "string \<Rightarrow> bool" where
  "IsFakeChannel channelID = str_contains channelID ''@''"

definition GetToChannelIDWithFakeChannelID :: "string \<Rightarrow> string \<Rightarrow> string" where
  "GetToChannelIDWithFakeChannelID fakeChannelID uid =
     (let channelIDs = split_str fakeChannelID ''@''
      in if length channelIDs = 2 then
           (if channelIDs ! 0 = uid then channelIDs ! 1 else channelIDs ! 0)
         else fakeChannelID)"

text \<open>the channel of a conversation of two users does not depend on who asks, exactly when their
  hashes differ or they are the same user; each of the two finds the other in it, and it is
  recognised as a fake channel. (For user ids without the separator.)\<close>

theorem fake_channel_symmetric:
  assumes "CHR ''@'' \<notin> set a" "CHR ''@'' \<notin> set b"
  shows "(GetFakeChannelIDWith a b = GetFakeChannelIDWith b a) = (HashCrc32 a \<noteq> HashCrc32 b \<or> a = b)
    \<and> GetToChannelIDWithFakeChannelID (GetFakeChannelIDWith a b) a = b
    \<and> GetToChannelIDWithFakeChannelID (GetFakeChannelIDWith a b) b = a
    \<and> IsFakeChannel (GetFakeChannelIDWith a b)"
proof -
  have sp: "split_str (x @ CHR ''@'' # y) ''@'' = [x, y]" if "CHR ''@'' \<notin> set x" "CHR ''@'' \<notin> set y" for x y
    using split_str_single [OF that(1)] split_str_no_sep [OF that(2)] by simp
  have "(a @ CHR ''@'' # b = b @ CHR ''@'' # a) = (a = b)"
    using sp [OF assms] sp [OF assms(2,1)] by (metis list.inject)
  then have "(GetFakeChannelIDWith a b = GetFakeChannelIDWith b a) = (HashCrc32 a \<noteq> HashCrc32 b \<or> a = b)"
    by (auto simp: GetFakeChannelIDWith_def)
  moreover have "IsFakeChannel (x @ CHR ''@'' # y)" for x y
    unfolding IsFakeChannel_def str_contains_iff by (intro exI [of _ x] exI [of _ y]) simp
  ultimately show ?thesis
    using sp [OF assms] sp [OF assms(2,1)]
    by (auto simp: GetFakeChannelIDWith_def GetToChannelIDWithFakeChannelID_def Let_def)
qed

lemma fake_channel_symmetric_witness:
  "GetToChannelIDWithFakeChannelID (GetFakeChannelIDWith ''u1'' ''u2'') ''u1'' = ''u2''"
  using fake_channel_symmetric [of "''u1''" "''u2''"] by simp

subsection \<open>Message settings\<close>

record Setting =
  Receipt :: bool
  NoUpdateConversation :: bool
  Signal :: bool

definition encodeBool :: "bool \<Rightarrow> int" where
  "encodeBool b = (if b then 1 else 0)"

definition ToUint8 :: "Setting \<Rightarrow> byte" where
  "ToUint8 s = word_of_int (push_bit 7 (encodeBool (Receipt s)) OR push_bit 6 (encodeBool (NoUpdateConversation s))
     OR push_bit 5 (encodeBool (Signal s)))"

definition SettingFromUint8 :: "byte \<Rightarrow> Setting" where
  "SettingFromUint8 v =
     \<lparr>Receipt = drop_bit 7 v AND 1 > 0, NoUpdateConversation = drop_bit 6 v AND 1 > 0,
      Signal = drop_bit 5 v AND 1 > 0\<rparr>"

lemma setting_roundtrip: "SettingFromUint8 (ToUint8 s) = s"
  by (cases s) (auto simp: ToUint8_def SettingFromUint8_def encodeBool_def)

end
