(* ===== verification/ImStructs.thy ===== *)
theory ImStructs
  imports ImTypes
begin

text \<open>
  The request and response structs of the IM client (\<^verbatim>\<open>config/msg.go\<close>,
  \<^verbatim>\<open>config/msg_rtc.go\<close>, \<^verbatim>\<open>config/stream.go\<close>), each with the JSON it is written as, by the
  tags of its fields; for the responses also how the decoder reads them, with the law that it reads
  back what was written. A Go \<open>int\<close> has 64 bits; a nil slice or pointer is \<open>None\<close>; an embedded struct
  is a record extension.
\<close>

subsection \<open>Field types\<close>

definition j_byte :: "byte \<Rightarrow> json" where "j_byte x = JInt (uint x)"
definition j_uint32 :: "uint32 \<Rightarrow> json" where "j_uint32 x = JInt (uint x)"
definition j_uint64 :: "uint64 \<Rightarrow> json" where "j_uint64 x = JInt (uint x)"
definition j_int32 :: "int32 \<Rightarrow> json" where "j_int32 x = JInt (sint x)"
definition j_int64 :: "int64 \<Rightarrow> json" where "j_int64 x = JInt (sint x)"

definition j_bytes :: "string option \<Rightarrow> json" where
  "j_bytes b = (case b of None \<Rightarrow> JNull | Some b \<Rightarrow> JStr (base64 b))"

definition j_ptr :: "('a \<Rightarrow> json) \<Rightarrow> 'a option \<Rightarrow> json" where
  "j_ptr f p = (case p of None \<Rightarrow> JNull | Some x \<Rightarrow> f x)"

definition j_strmap :: "(string \<times> string) list option \<Rightarrow> json" where
  "j_strmap m = (case m of None \<Rightarrow> JNull | Some m \<Rightarrow> jmap (map (apsnd JStr) m))"

definition d_byte :: "json \<Rightarrow> (json_error, byte) res" where
  "d_byte v = map_ok word_of_int (d_int 0 (2 ^ 8 - 1) v)"

definition d_uint32 :: "json \<Rightarrow> (json_error, uint32) res" where
  "d_uint32 v = map_ok word_of_int (d_int 0 (2 ^ 32 - 1) v)"

definition d_int32 :: "json \<Rightarrow> (json_error, int32) res" where
  "d_int32 v = map_ok word_of_int (d_int (- (2 ^ 31)) (2 ^ 31 - 1) v)"

definition d_int64 :: "json \<Rightarrow> (json_error, int64) res" where
  "d_int64 v = map_ok word_of_int (d_int (- (2 ^ 63)) (2 ^ 63 - 1) v)"

lemma d_words [json_field]:
  "d_byte (j_byte x) = Ok x" "d_uint32 (j_uint32 y) = Ok y" "d_int32 (j_int32 z) = Ok z" "d_int64 (j_int64 w) = Ok w"
  using unsigned_less [of x, where 'a = int] unsigned_less [of y, where 'a = int]
    sint_lt [of z] sint_ge [of z] sint_lt [of w] sint_ge [of w]
  by (simp_all add: d_byte_def j_byte_def d_uint32_def j_uint32_def d_int32_def j_int32_def
      d_int64_def j_int64_def json_field)

lemma j_words_not_null [json_field]:
  "j_byte x \<noteq> JNull" "j_uint32 y \<noteq> JNull" "j_int32 z \<noteq> JNull" "j_int64 w \<noteq> JNull"
  by (simp_all add: j_byte_def j_uint32_def j_int32_def j_int64_def)

lemma j_bytes_null: "(j_bytes b = JNull) = (b = None)"
  by (cases b) (simp_all add: j_bytes_def)

lemma jslice_null: "(jslice f xs = JNull) = (xs = None)"
  by (cases xs) (simp_all add: jslice_def)

text \<open>A field whose writing is null stays at its zero value, which is what was written.\<close>

lemma field_bytes [json_field]:
  "lower k' = k \<Longrightarrow> field d_bytes None k ((k', j_bytes b) # ms) = field d_bytes b k ms"
  by (cases b) (simp_all add: j_bytes_def d_bytes_def json_field)

lemma field_slice [json_field]:
  "lower k' = k \<Longrightarrow> d_slice d (jslice f xs) = Ok xs \<Longrightarrow>
   field (d_slice d) None k ((k', jslice f xs) # ms) = field (d_slice d) xs k ms"
  by (cases xs) (simp_all add: jslice_def json_field)

lemma field_ptr [json_field]:
  "lower k' = k \<Longrightarrow> d_ptr d (j_ptr f p) = Ok p \<Longrightarrow> field (d_ptr d) None k ((k', j_ptr f p) # ms) = field (d_ptr d) p k ms"
  by (cases "j_ptr f p = JNull") (auto simp: d_ptr_def json_field)

text \<open>The names of the fields are written in lower case.\<close>

lemma json_keys:
  "lower ''blob'' = ''blob''"
  "lower ''channel_id'' = ''channel_id''"
  "lower ''channel_type'' = ''channel_type''"
  "lower ''client_msg_no'' = ''client_msg_no''"
  "lower ''device_flag'' = ''device_flag''"
  "lower ''end_message_seq'' = ''end_message_seq''"
  "lower ''expire'' = ''expire''"
  "lower ''from_uid'' = ''from_uid''"
  "lower ''header'' = ''header''"
  "lower ''is_deleted'' = ''is_deleted''"
  "lower ''last_client_msg_no'' = ''last_client_msg_no''"
  "lower ''last_message'' = ''last_message''"
  "lower ''last_msg_seq'' = ''last_msg_seq''"
  "lower ''last_offline'' = ''last_offline''"
  "lower ''limit'' = ''limit''"
  "lower ''message_id'' = ''message_id''"
  "lower ''message_idstr'' = ''message_idstr''"
  "lower ''message_seq'' = ''message_seq''"
  "lower ''messages'' = ''messages''"
  "lower ''no_persist'' = ''no_persist''"
  "lower ''offset_msg_seq'' = ''offset_msg_seq''"
  "lower ''online'' = ''online''"
  "lower ''page'' = ''page''"
  "lower ''payload'' = ''payload''"
  "lower ''pull_mode'' = ''pull_mode''"
  "lower ''recents'' = ''recents''"
  "lower ''red_dot'' = ''red_dot''"
  "lower ''setting'' = ''setting''"
  "lower ''start_message_seq'' = ''start_message_seq''"
  "lower ''status'' = ''status''"
  "lower ''stream_no'' = ''stream_no''"
  "lower ''stream_seq'' = ''stream_seq''"
  "lower ''streams'' = ''streams''"
  "lower ''sync_once'' = ''sync_once''"
  "lower ''timestamp'' = ''timestamp''"
  "lower ''to_uid'' = ''to_uid''"
  "lower ''total'' = ''total''"
  "lower ''uid'' = ''uid''"
  "lower ''unread'' = ''unread''"
  "lower ''version'' = ''version''"
  "lower ''voice_status'' = ''voice_status''"
  by (simp_all add: lower_def to_lower_def)


subsection \<open>Requests\<close>

record MsgHeader =
  mh_NoPersist :: int64
  mh_RedDot :: int64
  mh_SyncOnce :: int64

definition json_of_MsgHeader :: "MsgHeader \<Rightarrow> json" where
  "json_of_MsgHeader r =
     JObj ([(''no_persist'', j_int64 (mh_NoPersist r)),
      (''red_dot'', j_int64 (mh_RedDot r)),
      (''sync_once'', j_int64 (mh_SyncOnce r))])"

definition zero_MsgHeader :: MsgHeader where
  "zero_MsgHeader = \<lparr>mh_NoPersist = 0, mh_RedDot = 0, mh_SyncOnce = 0\<rparr>"

definition dec_MsgHeader :: "json \<Rightarrow> (json_error, MsgHeader) res" where
  "dec_MsgHeader = d_struct zero_MsgHeader (\<lambda>ms.
     bind_res (field d_int64 0 ''no_persist'' ms) (\<lambda>v_NoPersist.
     bind_res (field d_int64 0 ''red_dot'' ms) (\<lambda>v_RedDot.
     bind_res (field d_int64 0 ''sync_once'' ms) (\<lambda>v_SyncOnce.
     Ok \<lparr>mh_NoPersist = v_NoPersist,
       mh_RedDot = v_RedDot,
       mh_SyncOnce = v_SyncOnce\<rparr>))))"

lemma dec_MsgHeader [json_field]: "dec_MsgHeader (json_of_MsgHeader r) = Ok r"
  by (simp add: dec_MsgHeader_def json_of_MsgHeader_def d_struct_def json_field json_keys )

lemma json_of_MsgHeader_not_null [json_field]: "json_of_MsgHeader r \<noteq> JNull"
  by (simp add: json_of_MsgHeader_def)

record UserBaseVo =
  ub_UID :: string
  ub_Name :: string

definition json_of_UserBaseVo :: "UserBaseVo \<Rightarrow> json" where
  "json_of_UserBaseVo r =
     JObj ([(''uid'', JStr (ub_UID r)),
      (''name'', JStr (ub_Name r))])"

record Channel =
  ch_ChannelID :: string
  ch_ChannelType :: byte

definition json_of_Channel :: "Channel \<Rightarrow> json" where
  "json_of_Channel r =
     JObj ([(''channel_id'', JStr (ch_ChannelID r)),
      (''channel_type'', j_byte (ch_ChannelType r))])"

record UpdateIMTokenReq =
  tk_UID :: string
  tk_Token :: string
  tk_DeviceFlag :: byte
  tk_DeviceLevel :: byte

record MsgSendReq =
  ms_Header :: MsgHeader
  ms_Setting :: byte
  ms_FromUID :: string
  ms_ChannelID :: string
  ms_ChannelType :: byte
  ms_StreamNo :: string
  ms_Subscribers :: "string list option"
  ms_Payload :: "string option"

definition json_of_MsgSendReq :: "MsgSendReq \<Rightarrow> json" where
  "json_of_MsgSendReq r =
     JObj ([(''header'', json_of_MsgHeader (ms_Header r)),
      (''setting'', j_byte (ms_Setting r)),
      (''from_uid'', JStr (ms_FromUID r)),
      (''channel_id'', JStr (ms_ChannelID r)),
      (''channel_type'', j_byte (ms_ChannelType r)),
      (''stream_no'', JStr (ms_StreamNo r)),
      (''subscribers'', (jslice JStr) (ms_Subscribers r)),
      (''payload'', j_bytes (ms_Payload r))])"

record MsgSendResp =
  sr_MessageID :: int64
  sr_ClientMsgNo :: string
  sr_MessageSeq :: uint32

record MsgSendBatch =
  mb_Header :: MsgHeader
  mb_FromUID :: string
  mb_Subscribers :: "string list option"
  mb_Payload :: "string option"

definition json_of_MsgSendBatch :: "MsgSendBatch \<Rightarrow> json" where
  "json_of_MsgSendBatch r =
     JObj ([(''header'', json_of_MsgHeader (mb_Header r)),
      (''from_uid'', JStr (mb_FromUID r)),
      (''subscribers'', (jslice JStr) (mb_Subscribers r)),
      (''payload'', j_bytes (mb_Payload r))])"

record MsgFriendApplyReq =
  fa_ApplyUID :: string
  fa_ApplyName :: string
  fa_ToUID :: string
  fa_Remark :: string
  fa_Token :: string

record MsgFriendSureReq =
  fs_ToUID :: string
  fs_FromUID :: string
  fs_FromName :: string

record MsgFriendDeleteReq =
  fd_FromUID :: string
  fd_ToUID :: string

record ChannelReq =
  cr_ChannelID :: string
  cr_ChannelType :: byte

definition members_of_ChannelReq :: "'a ChannelReq_scheme \<Rightarrow> (string \<times> json) list" where
  "members_of_ChannelReq r = [(''channel_id'', JStr (cr_ChannelID r)),
      (''channel_type'', j_byte (cr_ChannelType r))]"

record ChannelBlacklistReq = ChannelReq + 
  bl_UIDs :: "string list option"

definition json_of_ChannelBlacklistReq :: "ChannelBlacklistReq \<Rightarrow> json" where
  "json_of_ChannelBlacklistReq r =
     JObj (members_of_ChannelReq r
      @ [(''uids'', (jslice JStr) (bl_UIDs r))])"

record ChannelWhitelistReq = ChannelReq + 
  wl_UIDs :: "string list option"

definition json_of_ChannelWhitelistReq :: "ChannelWhitelistReq \<Rightarrow> json" where
  "json_of_ChannelWhitelistReq r =
     JObj (members_of_ChannelReq r
      @ [(''uids'', (jslice JStr) (wl_UIDs r))])"

record ChannelInfoCreateReq =
  ci_ChannelID :: string
  ci_ChannelType :: byte
  ci_Ban :: int64
  ci_Large :: int64

definition json_of_ChannelInfoCreateReq :: "ChannelInfoCreateReq \<Rightarrow> json" where
  "json_of_ChannelInfoCreateReq r =
     JObj ([(''channel_id'', JStr (ci_ChannelID r)),
      (''channel_type'', j_byte (ci_ChannelType r)),
      (''ban'', j_int64 (ci_Ban r)),
      (''large'', j_int64 (ci_Large r))])"

record ChannelCreateReq =
  cc_ChannelID :: string
  cc_ChannelType :: byte
  cc_Ban :: int64
  cc_Large :: int64
  cc_Subscribers :: "string list option"

definition json_of_ChannelCreateReq :: "ChannelCreateReq \<Rightarrow> json" where
  "json_of_ChannelCreateReq r =
     JObj ([(''channel_id'', JStr (cc_ChannelID r)),
      (''channel_type'', j_byte (cc_ChannelType r)),
      (''ban'', j_int64 (cc_Ban r)),
      (''large'', j_int64 (cc_Large r)),
      (''subscribers'', (jslice JStr) (cc_Subscribers r))])"

record SubscriberAddReq =
  sa_ChannelID :: string
  sa_ChannelType :: byte
  sa_Reset :: int64
  sa_Subscribers :: "string list option"

definition json_of_SubscriberAddReq :: "SubscriberAddReq \<Rightarrow> json" where
  "json_of_SubscriberAddReq r =
     JObj ([(''channel_id'', JStr (sa_ChannelID r)),
      (''channel_type'', j_byte (sa_ChannelType r)),
      (''reset'', j_int64 (sa_Reset r)),
      (''subscribers'', (jslice JStr) (sa_Subscribers r))])"

record SubscriberRemoveReq =
  sb_ChannelID :: string
  sb_ChannelType :: byte
  sb_Subscribers :: "string list option"

definition json_of_SubscriberRemoveReq :: "SubscriberRemoveReq \<Rightarrow> json" where
  "json_of_SubscriberRemoveReq r =
     JObj ([(''channel_id'', JStr (sb_ChannelID r)),
      (''channel_type'', j_byte (sb_ChannelType r)),
      (''subscribers'', (jslice JStr) (sb_Subscribers r))])"

record ClearConversationUnreadReq =
  cu_UID :: string
  cu_ChannelID :: string
  cu_ChannelType :: byte
  cu_Unread :: int64
  cu_MessageSeq :: uint32

definition json_of_ClearConversationUnreadReq :: "ClearConversationUnreadReq \<Rightarrow> json" where
  "json_of_ClearConversationUnreadReq r =
     JObj ([(''uid'', JStr (cu_UID r)),
      (''channel_id'', JStr (cu_ChannelID r)),
      (''channel_type'', j_byte (cu_ChannelType r)),
      (''unread'', j_int64 (cu_Unread r)),
      (''message_seq'', j_uint32 (cu_MessageSeq r))])"

record DeleteConversationReq =
  dc_UID :: string
  dc_ChannelID :: string
  dc_ChannelType :: byte

definition json_of_DeleteConversationReq :: "DeleteConversationReq \<Rightarrow> json" where
  "json_of_DeleteConversationReq r =
     JObj ([(''uid'', JStr (dc_UID r)),
      (''channel_id'', JStr (dc_ChannelID r)),
      (''channel_type'', j_byte (dc_ChannelType r))])"

record SyncChannelMessageReq =
  sc_LoginUID :: string
  sc_DeviceUUID :: string
  sc_ChannelID :: string
  sc_ChannelType :: byte
  sc_StartMessageSeq :: uint32
  sc_EndMessageSeq :: uint32
  sc_Limit :: int64
  sc_PullMode :: int64

definition json_of_SyncChannelMessageReq :: "SyncChannelMessageReq \<Rightarrow> json" where
  "json_of_SyncChannelMessageReq r =
     JObj ([(''login_uid'', JStr (sc_LoginUID r)),
      (''device_uuid'', JStr (sc_DeviceUUID r)),
      (''channel_id'', JStr (sc_ChannelID r)),
      (''channel_type'', j_byte (sc_ChannelType r)),
      (''start_message_seq'', j_uint32 (sc_StartMessageSeq r)),
      (''end_message_seq'', j_uint32 (sc_EndMessageSeq r)),
      (''limit'', j_int64 (sc_Limit r)),
      (''pull_mode'', j_int64 (sc_PullMode r))])"

record MsgSyncReq =
  sy_UID :: string
  sy_MessageSeq :: uint32
  sy_Limit :: int64

definition json_of_MsgSyncReq :: "MsgSyncReq \<Rightarrow> json" where
  "json_of_MsgSyncReq r =
     JObj ([(''uid'', JStr (sy_UID r)),
      (''message_seq'', j_uint32 (sy_MessageSeq r)),
      (''limit'', j_int64 (sy_Limit r))])"

record SyncackReq =
  sk_UID :: string
  sk_LastMessageSeq :: uint32

definition json_of_SyncackReq :: "SyncackReq \<Rightarrow> json" where
  "json_of_SyncackReq r =
     JObj ([(''uid'', JStr (sk_UID r)),
      (''last_message_seq'', j_uint32 (sk_LastMessageSeq r))])"

record MessageRevokeReq =
  rv_ChannelID :: string
  rv_ChannelType :: byte
  rv_MessageIDs :: "uint64 list option"

definition json_of_MessageRevokeReq :: "MessageRevokeReq \<Rightarrow> json" where
  "json_of_MessageRevokeReq r =
     JObj ([(''channel_id'', JStr (rv_ChannelID r)),
      (''channel_type'', j_byte (rv_ChannelType r)),
      (''message_ids'', (jslice j_uint64) (rv_MessageIDs r))])"

record ChannelDeleteReq =
  cd_ChannelID :: string
  cd_ChannelType :: byte

definition json_of_ChannelDeleteReq :: "ChannelDeleteReq \<Rightarrow> json" where
  "json_of_ChannelDeleteReq r =
     JObj ([(''channel_id'', JStr (cd_ChannelID r)),
      (''channel_type'', j_byte (cd_ChannelType r))])"

record SearchUserMessageReq =
  su_UID :: string
  su_Payload :: json
  su_PayloadTypes :: "int64 list option"
  su_FromUID :: string
  su_ChannelID :: string
  su_ChannelType :: byte
  su_Topic :: string
  su_Limit :: int64
  su_Page :: int64
  su_StartTime :: int64
  su_EndTime :: int64
  su_Highlights :: "string list option"

definition json_of_SearchUserMessageReq :: "SearchUserMessageReq \<Rightarrow> json" where
  "json_of_SearchUserMessageReq r =
     JObj ([(''uid'', JStr (su_UID r)),
      (''payload'', su_Payload r),
      (''payload_types'', (jslice j_int64) (su_PayloadTypes r)),
      (''from_uid'', JStr (su_FromUID r)),
      (''channel_id'', JStr (su_ChannelID r)),
      (''channel_type'', j_byte (su_ChannelType r)),
      (''topic'', JStr (su_Topic r)),
      (''limit'', j_int64 (su_Limit r)),
      (''page'', j_int64 (su_Page r)),
      (''start_time'', j_int64 (su_StartTime r)),
      (''end_time'', j_int64 (su_EndTime r)),
      (''highlights'', (jslice JStr) (su_Highlights r))])"

record MsgSearchReq =
  mq_LoginUID :: string
  mq_ChannelID :: string
  mq_ChannelType :: byte
  mq_MessageSeqs :: "uint32 list option"
  mq_MessageIds :: "int64 list option"
  mq_ClientMsgNos :: "string list option"

definition json_of_MsgSearchReq :: "MsgSearchReq \<Rightarrow> json" where
  "json_of_MsgSearchReq r =
     JObj ([(''login_uid'', JStr (mq_LoginUID r)),
      (''channel_id'', JStr (mq_ChannelID r)),
      (''channel_type'', j_byte (mq_ChannelType r)),
      (''message_seqs'', (jslice j_uint32) (mq_MessageSeqs r)),
      (''message_ids'', (jslice j_int64) (mq_MessageIds r)),
      (''client_msg_nos'', (jslice JStr) (mq_ClientMsgNos r))])"

record MsgRevokeReq =
  mr_FromUID :: string
  mr_Operator :: string
  mr_OperatorName :: string
  mr_ChannelID :: string
  mr_ChannelType :: byte
  mr_MessageID :: int64

record MsgCMDReq =
  cm_NoPersist :: bool
  cm_FromUID :: string
  cm_ChannelID :: string
  cm_ChannelType :: byte
  cm_Subscribers :: "string list option"
  cm_CMD :: string
  cm_Param :: json

record MessageStreamStartReq =
  st_Header :: MsgHeader
  st_ClientMsgNo :: string
  st_FromUID :: string
  st_ChannelID :: string
  st_ChannelType :: byte
  st_Payload :: "string option"

definition json_of_MessageStreamStartReq :: "MessageStreamStartReq \<Rightarrow> json" where
  "json_of_MessageStreamStartReq r =
     JObj ([(''header'', json_of_MsgHeader (st_Header r)),
      (''client_msg_no'', JStr (st_ClientMsgNo r)),
      (''from_uid'', JStr (st_FromUID r)),
      (''channel_id'', JStr (st_ChannelID r)),
      (''channel_type'', j_byte (st_ChannelType r)),
      (''payload'', j_bytes (st_Payload r))])"

record MessageStreamEndReq =
  se_StreamNo :: string
  se_ChannelID :: string
  se_ChannelType :: byte

definition json_of_MessageStreamEndReq :: "MessageStreamEndReq \<Rightarrow> json" where
  "json_of_MessageStreamEndReq r =
     JObj ([(''stream_no'', JStr (se_StreamNo r)),
      (''channel_id'', JStr (se_ChannelID r)),
      (''channel_type'', j_byte (se_ChannelType r))])"

record P2pRtcMessageReq =
  rt_FromUID :: string
  rt_ToUID :: string
  rt_CallType :: int64
  rt_ResultType :: int64
  rt_Second :: int64

subsection \<open>Responses\<close>

record UpdateIMTokenResp =
  tr_Status :: int64

definition json_of_UpdateIMTokenResp :: "UpdateIMTokenResp \<Rightarrow> json" where
  "json_of_UpdateIMTokenResp r =
     JObj ([(''status'', j_int64 (tr_Status r))])"

definition dec_UpdateIMTokenResp :: "json \<Rightarrow> (json_error, UpdateIMTokenResp) res" where
  "dec_UpdateIMTokenResp = d_struct \<lparr>tr_Status = 0\<rparr> (\<lambda>ms.
     bind_res (field d_int64 0 ''status'' ms) (\<lambda>v_Status.
     Ok \<lparr>tr_Status = v_Status\<rparr>))"

lemma dec_UpdateIMTokenResp [json_field]: "dec_UpdateIMTokenResp (json_of_UpdateIMTokenResp r) = Ok r"
  by (simp add: dec_UpdateIMTokenResp_def json_of_UpdateIMTokenResp_def d_struct_def json_field json_keys )

record StreamItemResp =
  si_StreamSeq :: uint32
  si_ClientMsgNo :: string
  si_Blob :: "string option"

definition json_of_StreamItemResp :: "StreamItemResp \<Rightarrow> json" where
  "json_of_StreamItemResp r =
     JObj ([(''stream_seq'', j_uint32 (si_StreamSeq r)),
      (''client_msg_no'', JStr (si_ClientMsgNo r)),
      (''blob'', j_bytes (si_Blob r))])"

definition dec_StreamItemResp :: "json \<Rightarrow> (json_error, StreamItemResp) res" where
  "dec_StreamItemResp = d_struct \<lparr>si_StreamSeq = 0, si_ClientMsgNo = [], si_Blob = None\<rparr> (\<lambda>ms.
     bind_res (field d_uint32 0 ''stream_seq'' ms) (\<lambda>v_StreamSeq.
     bind_res (field d_str [] ''client_msg_no'' ms) (\<lambda>v_ClientMsgNo.
     bind_res (field d_bytes None ''blob'' ms) (\<lambda>v_Blob.
     Ok \<lparr>si_StreamSeq = v_StreamSeq,
       si_ClientMsgNo = v_ClientMsgNo,
       si_Blob = v_Blob\<rparr>))))"

lemma dec_StreamItemResp [json_field]: "dec_StreamItemResp (json_of_StreamItemResp r) = Ok r"
  by (simp add: dec_StreamItemResp_def json_of_StreamItemResp_def d_struct_def json_field json_keys )

lemma dec_streams [json_field]:
  "d_slice (d_ptr dec_StreamItemResp) (jslice (j_ptr json_of_StreamItemResp) xs) = Ok xs"
proof (rule d_slice_jslice)
  show "d_ptr dec_StreamItemResp (j_ptr json_of_StreamItemResp x) = Ok x" for x
    by (cases x) (simp_all add: d_ptr_def j_ptr_def dec_StreamItemResp, simp add: json_of_StreamItemResp_def)
qed

record MessageResp =
  me_Header :: MsgHeader
  me_Setting :: byte
  me_MessageIDStr :: string
  me_MessageID :: int64
  me_MessageSeq :: uint32
  me_ClientMsgNo :: string
  me_Expire :: uint32
  me_FromUID :: string
  me_ToUID :: string
  me_ChannelID :: string
  me_ChannelType :: byte
  me_Timestamp :: int32
  me_Payload :: "string option"
  me_StreamNo :: string
  me_Streams :: "StreamItemResp option list option"
  me_IsDeleted :: int64
  me_VoiceStatus :: int64

definition json_of_MessageResp :: "MessageResp \<Rightarrow> json" where
  "json_of_MessageResp r =
     JObj ([(''header'', json_of_MsgHeader (me_Header r)),
      (''setting'', j_byte (me_Setting r)),
      (''message_idstr'', JStr (me_MessageIDStr r)),
      (''message_id'', j_int64 (me_MessageID r)),
      (''message_seq'', j_uint32 (me_MessageSeq r)),
      (''client_msg_no'', JStr (me_ClientMsgNo r)),
      (''expire'', j_uint32 (me_Expire r)),
      (''from_uid'', JStr (me_FromUID r)),
      (''to_uid'', JStr (me_ToUID r)),
      (''channel_id'', JStr (me_ChannelID r)),
      (''channel_type'', j_byte (me_ChannelType r)),
      (''timestamp'', j_int32 (me_Timestamp r)),
      (''payload'', j_bytes (me_Payload r))]
      @ (if me_StreamNo r = [] then [] else [(''stream_no'', JStr (me_StreamNo r))])
      @ (if me_Streams r = None \<or> me_Streams r = Some [] then [] else [(''streams'', (jslice (j_ptr json_of_StreamItemResp)) (me_Streams r))])
      @ [(''is_deleted'', j_int64 (me_IsDeleted r)),
      (''voice_status'', j_int64 (me_VoiceStatus r))])"

definition dec_MessageResp :: "json \<Rightarrow> (json_error, MessageResp) res" where
  "dec_MessageResp = d_struct \<lparr>me_Header = zero_MsgHeader, me_Setting = 0, me_MessageIDStr = [], me_MessageID = 0, me_MessageSeq = 0, me_ClientMsgNo = [], me_Expire = 0, me_FromUID = [], me_ToUID = [], me_ChannelID = [], me_ChannelType = 0, me_Timestamp = 0, me_Payload = None, me_StreamNo = [], me_Streams = None, me_IsDeleted = 0, me_VoiceStatus = 0\<rparr> (\<lambda>ms.
     bind_res (field dec_MsgHeader zero_MsgHeader ''header'' ms) (\<lambda>v_Header.
     bind_res (field d_byte 0 ''setting'' ms) (\<lambda>v_Setting.
     bind_res (field d_str [] ''message_idstr'' ms) (\<lambda>v_MessageIDStr.
     bind_res (field d_int64 0 ''message_id'' ms) (\<lambda>v_MessageID.
     bind_res (field d_uint32 0 ''message_seq'' ms) (\<lambda>v_MessageSeq.
     bind_res (field d_str [] ''client_msg_no'' ms) (\<lambda>v_ClientMsgNo.
     bind_res (field d_uint32 0 ''expire'' ms) (\<lambda>v_Expire.
     bind_res (field d_str [] ''from_uid'' ms) (\<lambda>v_FromUID.
     bind_res (field d_str [] ''to_uid'' ms) (\<lambda>v_ToUID.
     bind_res (field d_str [] ''channel_id'' ms) (\<lambda>v_ChannelID.
     bind_res (field d_byte 0 ''channel_type'' ms) (\<lambda>v_ChannelType.
     bind_res (field d_int32 0 ''timestamp'' ms) (\<lambda>v_Timestamp.
     bind_res (field d_bytes None ''payload'' ms) (\<lambda>v_Payload.
     bind_res (field d_str [] ''stream_no'' ms) (\<lambda>v_StreamNo.
     bind_res (field (d_slice (d_ptr dec_StreamItemResp)) None ''streams'' ms) (\<lambda>v_Streams.
     bind_res (field d_int64 0 ''is_deleted'' ms) (\<lambda>v_IsDeleted.
     bind_res (field d_int64 0 ''voice_status'' ms) (\<lambda>v_VoiceStatus.
     Ok \<lparr>me_Header = v_Header,
       me_Setting = v_Setting,
       me_MessageIDStr = v_MessageIDStr,
       me_MessageID = v_MessageID,
       me_MessageSeq = v_MessageSeq,
       me_ClientMsgNo = v_ClientMsgNo,
       me_Expire = v_Expire,
       me_FromUID = v_FromUID,
       me_ToUID = v_ToUID,
       me_ChannelID = v_ChannelID,
       me_ChannelType = v_ChannelType,
       me_Timestamp = v_Timestamp,
       me_Payload = v_Payload,
       me_StreamNo = v_StreamNo,
       me_Streams = v_Streams,
       me_IsDeleted = v_IsDeleted,
       me_VoiceStatus = v_VoiceStatus\<rparr>))))))))))))))))))"

lemma dec_MessageResp [json_field]: "me_Streams r \<noteq> Some [] \<Longrightarrow> dec_MessageResp (json_of_MessageResp r) = Ok r"
  by (simp add: dec_MessageResp_def json_of_MessageResp_def d_struct_def json_field json_keys )

text \<open>An empty, not nil list of streams is left out when written and comes back nil.\<close>

definition plain_messages :: "MessageResp option list option \<Rightarrow> bool" where
  "plain_messages ms \<longleftrightarrow>
     list_all (\<lambda>m. case m of None \<Rightarrow> True | Some m \<Rightarrow> me_Streams m \<noteq> Some []) (case ms of None \<Rightarrow> [] | Some ms \<Rightarrow> ms)"

lemma json_of_MessageResp_not_null: "json_of_MessageResp r \<noteq> JNull"
  by (simp add: json_of_MessageResp_def)

lemma dec_ptr_message:
  "plain_messages (Some [m]) \<Longrightarrow> d_ptr dec_MessageResp (j_ptr json_of_MessageResp m) = Ok m"
  by (cases m) (simp_all add: plain_messages_def d_ptr_def j_ptr_def dec_MessageResp json_of_MessageResp_not_null)

lemma dec_messages [json_field]:
  "plain_messages ms \<Longrightarrow>
   d_slice (d_ptr dec_MessageResp) (jslice (j_ptr json_of_MessageResp) ms) = Ok ms"
  by (rule d_slice_jslice) (auto simp: plain_messages_def list_all_iff intro!: dec_ptr_message)

record ChannelMaxSeqResp =
  cx_MessageSeq :: uint32

definition json_of_ChannelMaxSeqResp :: "ChannelMaxSeqResp \<Rightarrow> json" where
  "json_of_ChannelMaxSeqResp r =
     JObj ([(''message_seq'', j_uint32 (cx_MessageSeq r))])"

definition dec_ChannelMaxSeqResp :: "json \<Rightarrow> (json_error, ChannelMaxSeqResp) res" where
  "dec_ChannelMaxSeqResp = d_struct \<lparr>cx_MessageSeq = 0\<rparr> (\<lambda>ms.
     bind_res (field d_uint32 0 ''message_seq'' ms) (\<lambda>v_MessageSeq.
     Ok \<lparr>cx_MessageSeq = v_MessageSeq\<rparr>))"

lemma dec_ChannelMaxSeqResp [json_field]: "dec_ChannelMaxSeqResp (json_of_ChannelMaxSeqResp r) = Ok r"
  by (simp add: dec_ChannelMaxSeqResp_def json_of_ChannelMaxSeqResp_def d_struct_def json_field json_keys )

record SyncChannelMessageResp =
  sm_StartMessageSeq :: uint32
  sm_EndMessageSeq :: uint32
  sm_PullMode :: int64
  sm_Messages :: "MessageResp option list option"

definition json_of_SyncChannelMessageResp :: "SyncChannelMessageResp \<Rightarrow> json" where
  "json_of_SyncChannelMessageResp r =
     JObj ([(''start_message_seq'', j_uint32 (sm_StartMessageSeq r)),
      (''end_message_seq'', j_uint32 (sm_EndMessageSeq r)),
      (''pull_mode'', j_int64 (sm_PullMode r)),
      (''messages'', (jslice (j_ptr json_of_MessageResp)) (sm_Messages r))])"

definition dec_SyncChannelMessageResp :: "json \<Rightarrow> (json_error, SyncChannelMessageResp) res" where
  "dec_SyncChannelMessageResp = d_struct \<lparr>sm_StartMessageSeq = 0, sm_EndMessageSeq = 0, sm_PullMode = 0, sm_Messages = None\<rparr> (\<lambda>ms.
     bind_res (field d_uint32 0 ''start_message_seq'' ms) (\<lambda>v_StartMessageSeq.
     bind_res (field d_uint32 0 ''end_message_seq'' ms) (\<lambda>v_EndMessageSeq.
     bind_res (field d_int64 0 ''pull_mode'' ms) (\<lambda>v_PullMode.
     bind_res (field (d_slice (d_ptr dec_MessageResp)) None ''messages'' ms) (\<lambda>v_Messages.
     Ok \<lparr>sm_StartMessageSeq = v_StartMessageSeq,
       sm_EndMessageSeq = v_EndMessageSeq,
       sm_PullMode = v_PullMode,
       sm_Messages = v_Messages\<rparr>)))))"

lemma dec_SyncChannelMessageResp [json_field]: "plain_messages (sm_Messages r) \<Longrightarrow> dec_SyncChannelMessageResp (json_of_SyncChannelMessageResp r) = Ok r"
  by (simp add: dec_SyncChannelMessageResp_def json_of_SyncChannelMessageResp_def d_struct_def json_field json_keys )

record OnlinestatusResp =
  on_UID :: string
  on_DeviceFlag :: byte
  on_LastOffline :: int64
  on_Online :: int64

definition json_of_OnlinestatusResp :: "OnlinestatusResp \<Rightarrow> json" where
  "json_of_OnlinestatusResp r =
     JObj ([(''uid'', JStr (on_UID r)),
      (''device_flag'', j_byte (on_DeviceFlag r)),
      (''last_offline'', j_int64 (on_LastOffline r)),
      (''online'', j_int64 (on_Online r))])"

definition dec_OnlinestatusResp :: "json \<Rightarrow> (json_error, OnlinestatusResp) res" where
  "dec_OnlinestatusResp = d_struct \<lparr>on_UID = [], on_DeviceFlag = 0, on_LastOffline = 0, on_Online = 0\<rparr> (\<lambda>ms.
     bind_res (field d_str [] ''uid'' ms) (\<lambda>v_UID.
     bind_res (field d_byte 0 ''device_flag'' ms) (\<lambda>v_DeviceFlag.
     bind_res (field d_int64 0 ''last_offline'' ms) (\<lambda>v_LastOffline.
     bind_res (field d_int64 0 ''online'' ms) (\<lambda>v_Online.
     Ok \<lparr>on_UID = v_UID,
       on_DeviceFlag = v_DeviceFlag,
       on_LastOffline = v_LastOffline,
       on_Online = v_Online\<rparr>)))))"

lemma dec_OnlinestatusResp [json_field]: "dec_OnlinestatusResp (json_of_OnlinestatusResp r) = Ok r"
  by (simp add: dec_OnlinestatusResp_def json_of_OnlinestatusResp_def d_struct_def json_field json_keys )

record ConversationResp =
  cv_ChannelID :: string
  cv_ChannelType :: byte
  cv_Unread :: int64
  cv_Timestamp :: int64
  cv_LastMessage :: "MessageResp option"

definition json_of_ConversationResp :: "ConversationResp \<Rightarrow> json" where
  "json_of_ConversationResp r =
     JObj ([(''channel_id'', JStr (cv_ChannelID r)),
      (''channel_type'', j_byte (cv_ChannelType r)),
      (''unread'', j_int64 (cv_Unread r)),
      (''timestamp'', j_int64 (cv_Timestamp r)),
      (''last_message'', (j_ptr json_of_MessageResp) (cv_LastMessage r))])"

definition dec_ConversationResp :: "json \<Rightarrow> (json_error, ConversationResp) res" where
  "dec_ConversationResp = d_struct \<lparr>cv_ChannelID = [], cv_ChannelType = 0, cv_Unread = 0, cv_Timestamp = 0, cv_LastMessage = None\<rparr> (\<lambda>ms.
     bind_res (field d_str [] ''channel_id'' ms) (\<lambda>v_ChannelID.
     bind_res (field d_byte 0 ''channel_type'' ms) (\<lambda>v_ChannelType.
     bind_res (field d_int64 0 ''unread'' ms) (\<lambda>v_Unread.
     bind_res (field d_int64 0 ''timestamp'' ms) (\<lambda>v_Timestamp.
     bind_res (field (d_ptr dec_MessageResp) None ''last_message'' ms) (\<lambda>v_LastMessage.
     Ok \<lparr>cv_ChannelID = v_ChannelID,
       cv_ChannelType = v_ChannelType,
       cv_Unread = v_Unread,
       cv_Timestamp = v_Timestamp,
       cv_LastMessage = v_LastMessage\<rparr>))))))"

lemma dec_ConversationResp [json_field]: "plain_messages (Some [cv_LastMessage r]) \<Longrightarrow> dec_ConversationResp (json_of_ConversationResp r) = Ok r"
  by (simp add: dec_ConversationResp_def json_of_ConversationResp_def d_struct_def json_field json_keys dec_ptr_message)

record SyncUserConversationResp =
  uc_ChannelID :: string
  uc_ChannelType :: byte
  uc_Unread :: int64
  uc_Timestamp :: int64
  uc_LastMsgSeq :: int64
  uc_LastClientMsgNo :: string
  uc_OffsetMsgSeq :: int64
  uc_Version :: int64
  uc_Recents :: "MessageResp option list option"

definition json_of_SyncUserConversationResp :: "SyncUserConversationResp \<Rightarrow> json" where
  "json_of_SyncUserConversationResp r =
     JObj ([(''channel_id'', JStr (uc_ChannelID r)),
      (''channel_type'', j_byte (uc_ChannelType r)),
      (''unread'', j_int64 (uc_Unread r)),
      (''timestamp'', j_int64 (uc_Timestamp r)),
      (''last_msg_seq'', j_int64 (uc_LastMsgSeq r)),
      (''last_client_msg_no'', JStr (uc_LastClientMsgNo r)),
      (''offset_msg_seq'', j_int64 (uc_OffsetMsgSeq r)),
      (''version'', j_int64 (uc_Version r)),
      (''recents'', (jslice (j_ptr json_of_MessageResp)) (uc_Recents r))])"

definition dec_SyncUserConversationResp :: "json \<Rightarrow> (json_error, SyncUserConversationResp) res" where
  "dec_SyncUserConversationResp = d_struct \<lparr>uc_ChannelID = [], uc_ChannelType = 0, uc_Unread = 0, uc_Timestamp = 0, uc_LastMsgSeq = 0, uc_LastClientMsgNo = [], uc_OffsetMsgSeq = 0, uc_Version = 0, uc_Recents = None\<rparr> (\<lambda>ms.
     bind_res (field d_str [] ''channel_id'' ms) (\<lambda>v_ChannelID.
     bind_res (field d_byte 0 ''channel_type'' ms) (\<lambda>v_ChannelType.
     bind_res (field d_int64 0 ''unread'' ms) (\<lambda>v_Unread.
     bind_res (field d_int64 0 ''timestamp'' ms) (\<lambda>v_Timestamp.
     bind_res (field d_int64 0 ''last_msg_seq'' ms) (\<lambda>v_LastMsgSeq.
     bind_res (field d_str [] ''last_client_msg_no'' ms) (\<lambda>v_LastClientMsgNo.
     bind_res (field d_int64 0 ''offset_msg_seq'' ms) (\<lambda>v_OffsetMsgSeq.
     bind_res (field d_int64 0 ''version'' ms) (\<lambda>v_Version.
     bind_res (field (d_slice (d_ptr dec_MessageResp)) None ''recents'' ms) (\<lambda>v_Recents.
     Ok \<lparr>uc_ChannelID = v_ChannelID,
       uc_ChannelType = v_ChannelType,
       uc_Unread = v_Unread,
       uc_Timestamp = v_Timestamp,
       uc_LastMsgSeq = v_LastMsgSeq,
       uc_LastClientMsgNo = v_LastClientMsgNo,
       uc_OffsetMsgSeq = v_OffsetMsgSeq,
       uc_Version = v_Version,
       uc_Recents = v_Recents\<rparr>))))))))))"

lemma dec_SyncUserConversationResp [json_field]: "plain_messages (uc_Recents r) \<Longrightarrow> dec_SyncUserConversationResp (json_of_SyncUserConversationResp r) = Ok r"
  by (simp add: dec_SyncUserConversationResp_def json_of_SyncUserConversationResp_def d_struct_def json_field json_keys )

record SearchUserMessageResp =
  sp_Total :: int64
  sp_Limit :: int64
  sp_Page :: int64
  sp_Messages :: "MessageResp option list option"

definition json_of_SearchUserMessageResp :: "SearchUserMessageResp \<Rightarrow> json" where
  "json_of_SearchUserMessageResp r =
     JObj ([(''total'', j_int64 (sp_Total r)),
      (''limit'', j_int64 (sp_Limit r)),
      (''page'', j_int64 (sp_Page r)),
      (''messages'', (jslice (j_ptr json_of_MessageResp)) (sp_Messages r))])"

definition dec_SearchUserMessageResp :: "json \<Rightarrow> (json_error, SearchUserMessageResp) res" where
  "dec_SearchUserMessageResp = d_struct \<lparr>sp_Total = 0, sp_Limit = 0, sp_Page = 0, sp_Messages = None\<rparr> (\<lambda>ms.
     bind_res (field d_int64 0 ''total'' ms) (\<lambda>v_Total.
     bind_res (field d_int64 0 ''limit'' ms) (\<lambda>v_Limit.
     bind_res (field d_int64 0 ''page'' ms) (\<lambda>v_Page.
     bind_res (field (d_slice (d_ptr dec_MessageResp)) None ''messages'' ms) (\<lambda>v_Messages.
     Ok \<lparr>sp_Total = v_Total,
       sp_Limit = v_Limit,
       sp_Page = v_Page,
       sp_Messages = v_Messages\<rparr>)))))"

lemma dec_SearchUserMessageResp [json_field]: "plain_messages (sp_Messages r) \<Longrightarrow> dec_SearchUserMessageResp (json_of_SearchUserMessageResp r) = Ok r"
  by (simp add: dec_SearchUserMessageResp_def json_of_SearchUserMessageResp_def d_struct_def json_field json_keys )

end
