(* ===== verification/ImMsg.thy ===== *)
theory ImMsg
  imports ImStructs
begin

text \<open>
  The IM client of \<^verbatim>\<open>config/msg.go\<close>, \<^verbatim>\<open>config/msg_channel.go\<close>,
  \<^verbatim>\<open>config/msg_rtc.go\<close> and \<^verbatim>\<open>config/stream.go\<close>: every operation that talks to the IM
  server. The server, with its state, is a parameter: \<open>net\<close> answers a request with a transport error
  or with a status and a body. What \<^verbatim>\<open>gjson\<close> reads at a path of a body is a parameter too.
\<close>

datatype http_req = HPost string string | HGet string "(string \<times> string) list"

datatype http_reply = NetErr string | Reply int string

text \<open>The part of the configuration context the client uses.\<close>

record 's im =
  APIURL :: string
  Test :: bool
  GroupUpgradeWhenMemberCount :: int64
  net :: "http_req \<Rightarrow> 's \<Rightarrow> http_reply \<times> 's"
  gjson_int :: "string \<Rightarrow> string list \<Rightarrow> int64"
  gjson_str :: "string \<Rightarrow> string list \<Rightarrow> string"

text \<open>
  \<open>IMFailed op msg\<close> and \<open>IMStatus op status\<close> are the two error texts of the client, with the name of
  the operation when the text has one.
\<close>

datatype im_error =
    Transport string
  | BadJson json_error
  | IMFailed string json
  | IMStatus string int
  | NilResult
  | EmptyUID
  | ZeroMessageSeq

type_synonym ('s, 'a) im_op = "'s \<Rightarrow> (im_error, 'a) res \<times> 's"

definition reply_error :: "string \<Rightarrow> int \<Rightarrow> string \<Rightarrow> im_error option" where
  "reply_error op status body =
     (if status \<noteq> 200 then
        (if status = 400 then
           (case JsonToMap body of
              Ok (Some m) \<Rightarrow>
                Some (if map_get m ''msg'' \<noteq> JNull then IMFailed op (map_get m ''msg'') else IMStatus op status)
            | Ok None \<Rightarrow> Some (IMStatus op status)
            | Err e \<Rightarrow> Some (BadJson e)
            | Panic m \<Rightarrow> None)
         else Some (IMStatus op status))
      else None)"

definition handlerIMError :: "int \<Rightarrow> string \<Rightarrow> im_error option" where
  "handlerIMError = reply_error []"

text \<open>The error when only the status is looked at.\<close>

definition status_error :: "string \<Rightarrow> int \<Rightarrow> string \<Rightarrow> im_error option" where
  "status_error op status body = (if status \<noteq> 200 then Some (IMStatus op status) else None)"

text \<open>A request whose reply is checked by \<open>check\<close> and, if it passes, read by \<open>read\<close>.\<close>

definition call ::
  "'s im \<Rightarrow> http_req \<Rightarrow> (int \<Rightarrow> string \<Rightarrow> im_error option) \<Rightarrow> (string \<Rightarrow> (im_error, 'a) res) \<Rightarrow> ('s, 'a) im_op"
where
  "call c req check read s =
     (case net c req s of
        (NetErr e, s) \<Rightarrow> (Err (Transport e), s)
      | (Reply status body, s) \<Rightarrow>
          (case check status body of Some e \<Rightarrow> (Err e, s) | None \<Rightarrow> (read body, s)))"

definition json_error :: "(json_error, 'a) res \<Rightarrow> (im_error, 'a) res" where
  "json_error r = (case r of Ok x \<Rightarrow> Ok x | Err e \<Rightarrow> Err (BadJson e) | Panic m \<Rightarrow> Panic m)"

definition post :: "'s im \<Rightarrow> string \<Rightarrow> json \<Rightarrow> ('s, unit) im_op" where
  "post c path body = call c (HPost (APIURL c @ path) (ToJson body)) handlerIMError (\<lambda>b. Ok ())"

definition post_read :: "'s im \<Rightarrow> string \<Rightarrow> json \<Rightarrow> (json \<Rightarrow> (json_error, 'a) res) \<Rightarrow> ('s, 'a) im_op" where
  "post_read c path body d =
     call c (HPost (APIURL c @ path) (ToJson body)) handlerIMError (\<lambda>b. json_error (ReadJsonByByte b d))"

definition get_read ::
  "'s im \<Rightarrow> string \<Rightarrow> (string \<times> string) list \<Rightarrow> (json \<Rightarrow> (json_error, 'a) res) \<Rightarrow> ('s, 'a) im_op" where
  "get_read c path params d =
     call c (HGet (APIURL c @ path) params) handlerIMError (\<lambda>b. json_error (ReadJsonByByte b d))"

text \<open>The payload of a message: the bytes of the JSON text of a map.\<close>

definition payload_of :: "(string \<times> json) list \<Rightarrow> string option" where
  "payload_of ms = Some (ToJson (jmap ms))"

subsection \<open>Users and devices\<close>

definition UpdateIMToken :: "'s im \<Rightarrow> UpdateIMTokenReq \<Rightarrow> ('s, UpdateIMTokenResp option) im_op" where
  "UpdateIMToken c req = post_read c ''/user/token'' (jmap
     [(''uid'', JStr (tk_UID req)), (''token'', JStr (tk_Token req)),
      (''device_level'', j_byte (tk_DeviceLevel req)), (''device_flag'', j_byte (tk_DeviceFlag req))])
     (d_ptr dec_UpdateIMTokenResp)"

definition QuitUserDevice :: "'s im \<Rightarrow> string \<Rightarrow> int64 \<Rightarrow> ('s, unit) im_op" where
  "QuitUserDevice c uid deviceFlag =
     call c (HPost (APIURL c @ ''/user/device_quit'') (ToJson (jmap
         [(''uid'', JStr uid), (''device_flag'', j_int64 deviceFlag)])))
       (status_error []) (\<lambda>b. Ok ())"

definition IMAddSystemUids :: "'s im \<Rightarrow> string list option \<Rightarrow> ('s, unit) im_op" where
  "IMAddSystemUids c uids = post c ''/user/systemuids_add'' (jmap [(''uids'', jslice JStr uids)])"

definition IMRemoveSystemUids :: "'s im \<Rightarrow> string list option \<Rightarrow> ('s, unit) im_op" where
  "IMRemoveSystemUids c uids = post c ''/user/systemuids_remove'' (jmap [(''uids'', jslice JStr uids)])"

definition IMSOnlineStatus ::
  "'s im \<Rightarrow> string list option \<Rightarrow> ('s, OnlinestatusResp option list option) im_op" where
  "IMSOnlineStatus c uids s =
     (if Test c then (Ok None, s)
      else post_read c ''/user/onlinestatus'' (jslice JStr uids) (d_slice (d_ptr dec_OnlinestatusResp)) s)"

subsection \<open>Sending messages\<close>

definition SendMessageBatch :: "'s im \<Rightarrow> MsgSendBatch \<Rightarrow> ('s, unit) im_op" where
  "SendMessageBatch c req =
     call c (HPost (APIURL c @ ''/message/sendbatch'') (ToJson (json_of_MsgSendBatch req)))
       (reply_error ''SendMessageBatch'') (\<lambda>b. Ok ())"

definition SendMessageWithResult :: "'s im \<Rightarrow> MsgSendReq \<Rightarrow> ('s, MsgSendResp) im_op" where
  "SendMessageWithResult c req =
     call c (HPost (APIURL c @ ''/message/send'') (ToJson (json_of_MsgSendReq req)))
       (reply_error ''SendMessage'')
       (\<lambda>b. let messageID = gjson_int c b [''data'', ''message_id''];
                messageSeq = gjson_int c b [''data'', ''message_seq''];
                clientMsgNo = gjson_str c b [''data'', ''client_msg_no'']
            in Ok \<lparr>sr_MessageID = messageID, sr_ClientMsgNo = clientMsgNo, sr_MessageSeq = ucast messageSeq\<rparr>)"

definition SendMessage :: "'s im \<Rightarrow> MsgSendReq \<Rightarrow> ('s, unit) im_op" where
  "SendMessage c req s = (case SendMessageWithResult c req s of (r, s) \<Rightarrow> (map_ok (\<lambda>x. ()) r, s))"

definition SendFriendApply :: "'s im \<Rightarrow> MsgFriendApplyReq \<Rightarrow> ('s, unit) im_op" where
  "SendFriendApply c req = SendMessage c
     \<lparr>ms_Header = \<lparr>mh_NoPersist = 0, mh_RedDot = 0, mh_SyncOnce = 1\<rparr>, ms_Setting = 0, ms_FromUID = [],
      ms_ChannelID = fa_ToUID req, ms_ChannelType = Uint8 ChannelTypePerson, ms_StreamNo = [], ms_Subscribers = None,
      ms_Payload = payload_of
        [(''apply_uid'', JStr (fa_ApplyUID req)), (''apply_name'', JStr (fa_ApplyName req)),
         (''to_uid'', JStr (fa_ToUID req)), (''remark'', JStr (fa_Remark req)),
         (''token'', JStr (fa_Token req)), (''type'', JInt FriendApply)]\<rparr>"

definition SendFriendSure :: "'s im \<Rightarrow> MsgFriendSureReq \<Rightarrow> ('s, unit) im_op" where
  "SendFriendSure c req = SendMessage c
     \<lparr>ms_Header = \<lparr>mh_NoPersist = 0, mh_RedDot = 0, mh_SyncOnce = 1\<rparr>, ms_Setting = 0, ms_FromUID = [],
      ms_ChannelID = fs_ToUID req, ms_ChannelType = Uint8 ChannelTypePerson, ms_StreamNo = [], ms_Subscribers = None,
      ms_Payload = payload_of
        [(''sure_uid'', JStr (fs_FromUID req)), (''sure_name'', JStr (fs_FromName req)),
         (''to_uid'', JStr (fs_ToUID req)), (''content'', JStr (utf8 [0x4F60, 0x4EEC, 0x5DF2, 0x7ECF, 0x662F, 0x597D, 0x53CB, 0x4E86, 0xFF0C, 0x53EF, 0x4EE5, 0x6109, 0x5FEB, 0x7684, 0x804A, 0x5929, 0x4E86, 0xFF01])),
         (''type'', JInt FriendSure)]\<rparr>"

text \<open>Commands: never stored, whatever the request says, and only synced once.\<close>

definition SendCMD :: "'s im \<Rightarrow> MsgCMDReq \<Rightarrow> ('s, unit) im_op" where
  "SendCMD c req =
     (let contentMap = [(''cmd'', JStr (cm_CMD req)), (''type'', JInt CMD)]
            @ (if cm_Param req \<noteq> JNull then [(''param'', cm_Param req)] else []);
          noPersist = 1;
          setting = \<lparr>Receipt = False, NoUpdateConversation = True, Signal = False\<rparr>
      in SendMessage c
        \<lparr>ms_Header = \<lparr>mh_NoPersist = noPersist, mh_RedDot = 0, mh_SyncOnce = 1\<rparr>, ms_Setting = ToUint8 setting,
         ms_FromUID = cm_FromUID req, ms_ChannelID = cm_ChannelID req, ms_ChannelType = cm_ChannelType req,
         ms_StreamNo = [], ms_Subscribers = cm_Subscribers req, ms_Payload = payload_of contentMap\<rparr>)"

definition SendFriendDelete :: "'s im \<Rightarrow> MsgFriendDeleteReq \<Rightarrow> ('s, unit) im_op" where
  "SendFriendDelete c req = SendCMD c
     \<lparr>cm_NoPersist = False, cm_FromUID = [], cm_ChannelID = fd_FromUID req,
      cm_ChannelType = Uint8 ChannelTypePerson, cm_Subscribers = None, cm_CMD = CMDFriendDeleted,
      cm_Param = jmap [(''uid'', JStr (fd_ToUID req))]\<rparr>"

definition SendRevoke :: "'s im \<Rightarrow> MsgRevokeReq \<Rightarrow> ('s, unit) im_op" where
  "SendRevoke c req = SendCMD c
     \<lparr>cm_NoPersist = False, cm_FromUID = mr_FromUID req, cm_ChannelID = mr_ChannelID req,
      cm_ChannelType = mr_ChannelType req, cm_Subscribers = None, cm_CMD = ''messageRevoke'',
      cm_Param = jmap [(''message_id'', JStr (show_int (sint (mr_MessageID req))))]\<rparr>"

definition SendTyping :: "'s im \<Rightarrow> string \<Rightarrow> byte \<Rightarrow> string \<Rightarrow> ('s, unit) im_op" where
  "SendTyping c channelID channelType fromUID = SendCMD c
     \<lparr>cm_NoPersist = True, cm_FromUID = [], cm_ChannelID = channelID, cm_ChannelType = channelType,
      cm_Subscribers = None, cm_CMD = CMDTyping,
      cm_Param = jmap [(''from_uid'', JStr fromUID), (''channel_id'', JStr channelID),
        (''channel_type'', j_byte channelType)]\<rparr>"

definition SendChannelUpdateWithFromUID :: "'s im \<Rightarrow> ChannelReq \<Rightarrow> ChannelReq \<Rightarrow> string \<Rightarrow> ('s, unit) im_op" where
  "SendChannelUpdateWithFromUID c channel updateChannel fromUID = SendCMD c
     \<lparr>cm_NoPersist = False, cm_FromUID = fromUID, cm_ChannelID = cr_ChannelID channel,
      cm_ChannelType = cr_ChannelType channel, cm_Subscribers = None, cm_CMD = CMDChannelUpdate,
      cm_Param = jmap [(''channel_id'', JStr (cr_ChannelID updateChannel)),
        (''channel_type'', j_byte (cr_ChannelType updateChannel))]\<rparr>"

definition SendChannelUpdate :: "'s im \<Rightarrow> ChannelReq \<Rightarrow> ChannelReq \<Rightarrow> ('s, unit) im_op" where
  "SendChannelUpdate c channel updateChannel = SendChannelUpdateWithFromUID c channel updateChannel []"

definition SendChannelUpdateToGroup :: "'s im \<Rightarrow> string \<Rightarrow> ('s, unit) im_op" where
  "SendChannelUpdateToGroup c groupNo =
     (let channelReq = \<lparr>cr_ChannelID = groupNo, cr_ChannelType = Uint8 ChannelTypeGroup\<rparr>
      in SendChannelUpdateWithFromUID c channelReq channelReq [])"

definition SendChannelUpdateToUser :: "'s im \<Rightarrow> string \<Rightarrow> ChannelReq \<Rightarrow> ('s, unit) im_op" where
  "SendChannelUpdateToUser c uid channel = SendChannelUpdateWithFromUID c
     \<lparr>cr_ChannelID = uid, cr_ChannelType = Uint8 ChannelTypePerson\<rparr> channel []"

definition formatSecond :: "int64 \<Rightarrow> string" where
  "formatSecond t =
     (let second = rem (sint t) 60;
          min = quo (sint t) 60;
          secondStr = (if second < 10 then ''0'' @ show_int second else show_int second);
          minStr = (if min < 10 then ''0'' @ show_int min else show_int min)
      in minStr @ '':'' @ secondStr)"

definition SendRTCCallResult :: "'s im \<Rightarrow> P2pRtcMessageReq \<Rightarrow> ('s, unit) im_op" where
  "SendRTCCallResult c req =
     (let resultType = sint (rt_ResultType req);
          content =
            (if resultType = RTCResultTypeCancel then (utf8 [0x901A, 0x8BDD, 0x53D6, 0x6D88])
             else if resultType = RTCResultTypeMissed then (utf8 [0x672A, 0x63A5, 0x542C])
             else if resultType = RTCResultTypeRefuse then (utf8 [0x901A, 0x8BDD, 0x62D2, 0x7EDD])
             else if resultType = RTCResultTypeHangup then (utf8 [0x901A, 0x8BDD, 0x65F6, 0x957F, 0xFF1A]) @ formatSecond (rt_Second req)
             else [])
      in SendMessage c
        \<lparr>ms_Header = \<lparr>mh_NoPersist = 0, mh_RedDot = 1, mh_SyncOnce = 0\<rparr>, ms_Setting = 0,
         ms_FromUID = rt_FromUID req, ms_ChannelID = rt_ToUID req, ms_ChannelType = Uint8 ChannelTypePerson,
         ms_StreamNo = [], ms_Subscribers = None,
         ms_Payload = payload_of
           [(''type'', JInt VideoCallResult), (''content'', JStr content), (''second'', j_int64 (rt_Second req)),
            (''call_type'', j_int64 (rt_CallType req)), (''result_type'', j_int64 (rt_ResultType req))]\<rparr>)"

subsection \<open>Channels\<close>

definition IMCreateOrUpdateChannelInfo :: "'s im \<Rightarrow> ChannelInfoCreateReq \<Rightarrow> ('s, unit) im_op" where
  "IMCreateOrUpdateChannelInfo c req = post c ''/channel/info'' (json_of_ChannelInfoCreateReq req)"

definition IMCreateOrUpdateChannel :: "'s im \<Rightarrow> ChannelCreateReq \<Rightarrow> ('s, unit) im_op" where
  "IMCreateOrUpdateChannel c req = post c ''/channel'' (json_of_ChannelCreateReq req)"

definition IMBlacklistAdd :: "'s im \<Rightarrow> ChannelBlacklistReq \<Rightarrow> ('s, unit) im_op" where
  "IMBlacklistAdd c req = post c ''/channel/blacklist_add'' (json_of_ChannelBlacklistReq req)"

definition IMBlacklistSet :: "'s im \<Rightarrow> ChannelBlacklistReq \<Rightarrow> ('s, unit) im_op" where
  "IMBlacklistSet c req = post c ''/channel/blacklist_set'' (json_of_ChannelBlacklistReq req)"

definition IMBlacklistRemove :: "'s im \<Rightarrow> ChannelBlacklistReq \<Rightarrow> ('s, unit) im_op" where
  "IMBlacklistRemove c req = post c ''/channel/blacklist_remove'' (json_of_ChannelBlacklistReq req)"

definition IMWhitelistAdd :: "'s im \<Rightarrow> ChannelWhitelistReq \<Rightarrow> ('s, unit) im_op" where
  "IMWhitelistAdd c req = post c ''/channel/whitelist_add'' (json_of_ChannelWhitelistReq req)"

definition IMWhitelistSet :: "'s im \<Rightarrow> ChannelWhitelistReq \<Rightarrow> ('s, unit) im_op" where
  "IMWhitelistSet c req = post c ''/channel/whitelist_set'' (json_of_ChannelWhitelistReq req)"

definition IMWhitelistRemove :: "'s im \<Rightarrow> ChannelWhitelistReq \<Rightarrow> ('s, unit) im_op" where
  "IMWhitelistRemove c req = post c ''/channel/whitelist_remove'' (json_of_ChannelWhitelistReq req)"

definition IMAddSubscriber :: "'s im \<Rightarrow> SubscriberAddReq \<Rightarrow> ('s, unit) im_op" where
  "IMAddSubscriber c req =
     call c (HPost (APIURL c @ ''/channel/subscriber_add'') (ToJson (json_of_SubscriberAddReq req)))
       (status_error ''IMAddSubscriber'') (\<lambda>b. Ok ())"

definition IMRemoveSubscriber :: "'s im \<Rightarrow> SubscriberRemoveReq \<Rightarrow> ('s, unit) im_op" where
  "IMRemoveSubscriber c req = post c ''/channel/subscriber_remove'' (json_of_SubscriberRemoveReq req)"

definition IMDelChannel :: "'s im \<Rightarrow> ChannelDeleteReq \<Rightarrow> ('s, unit) im_op" where
  "IMDelChannel c req = post c ''/channel/delete'' (json_of_ChannelDeleteReq req)"

definition IMGetChannelMaxSeq :: "'s im \<Rightarrow> string \<Rightarrow> byte \<Rightarrow> ('s, ChannelMaxSeqResp option) im_op" where
  "IMGetChannelMaxSeq c channelID channelType = get_read c ''/channel/max_message_seq''
     [(''channel_id'', channelID), (''channel_type'', show_int (uint channelType))] (d_ptr dec_ChannelMaxSeqResp)"

subsection \<open>Conversations\<close>

definition IMGetConversations :: "'s im \<Rightarrow> string \<Rightarrow> ('s, ConversationResp option list option) im_op" where
  "IMGetConversations c uid =
     get_read c ''/conversations'' [(''uid'', uid)] (d_slice (d_ptr dec_ConversationResp))"

text \<open>The transport error of these two operations is dropped.\<close>

definition drop_transport :: "('s, unit) im_op \<Rightarrow> ('s, unit) im_op" where
  "drop_transport f s = (case f s of (Err (Transport e), s) \<Rightarrow> (Ok (), s) | r \<Rightarrow> r)"

definition IMClearConversationUnread :: "'s im \<Rightarrow> ClearConversationUnreadReq \<Rightarrow> ('s, unit) im_op" where
  "IMClearConversationUnread c req =
     drop_transport (post c ''/conversations/setUnread'' (json_of_ClearConversationUnreadReq req))"

definition IMDeleteConversation :: "'s im \<Rightarrow> DeleteConversationReq \<Rightarrow> ('s, unit) im_op" where
  "IMDeleteConversation c req =
     drop_transport (post c ''/conversations/delete'' (json_of_DeleteConversationReq req))"

definition IMSyncUserConversation ::
  "'s im \<Rightarrow> string \<Rightarrow> int64 \<Rightarrow> int64 \<Rightarrow> string \<Rightarrow> Channel option list option
    \<Rightarrow> ('s, SyncUserConversationResp option list option) im_op" where
  "IMSyncUserConversation c uid version msgCount lastMsgSeqs larges = post_read c ''/conversation/sync'' (jmap
     [(''uid'', JStr uid), (''version'', j_int64 version), (''last_msg_seqs'', JStr lastMsgSeqs),
      (''msg_count'', j_int64 msgCount), (''larges'', jslice (j_ptr json_of_Channel) larges)])
     (d_slice (d_ptr dec_SyncUserConversationResp))"

subsection \<open>Stored messages\<close>

definition IMGetWithChannelAndSeqs ::
  "'s im \<Rightarrow> string \<Rightarrow> byte \<Rightarrow> string \<Rightarrow> uint32 list option \<Rightarrow> ('s, SyncChannelMessageResp option) im_op" where
  "IMGetWithChannelAndSeqs c channelID channelType loginUID seqs = post_read c ''/messages'' (jmap
     [(''channel_id'', JStr channelID), (''channel_type'', j_byte channelType),
      (''message_seqs'', jslice j_uint32 seqs), (''login_uid'', JStr loginUID)])
     (d_ptr dec_SyncChannelMessageResp)"

definition IMSyncChannelMessage :: "'s im \<Rightarrow> SyncChannelMessageReq \<Rightarrow> ('s, SyncChannelMessageResp option) im_op" where
  "IMSyncChannelMessage c req =
     post_read c ''/channel/messagesync'' (json_of_SyncChannelMessageReq req) (d_ptr dec_SyncChannelMessageResp)"

definition IMSyncMessage :: "'s im \<Rightarrow> MsgSyncReq \<Rightarrow> ('s, MessageResp option list option) im_op" where
  "IMSyncMessage c req = post_read c ''/message/sync'' (json_of_MsgSyncReq req) (d_slice (d_ptr dec_MessageResp))"

definition IMSyncMessageAck :: "'s im \<Rightarrow> SyncackReq \<Rightarrow> ('s, unit) im_op" where
  "IMSyncMessageAck c req = post c ''/message/syncack'' (json_of_SyncackReq req)"

definition IMRevokeMessage :: "'s im \<Rightarrow> MessageRevokeReq \<Rightarrow> ('s, unit) im_op" where
  "IMRevokeMessage c req = post c ''/message/revoke'' (json_of_MessageRevokeReq req)"

definition IMSearchUserMessages :: "'s im \<Rightarrow> SearchUserMessageReq \<Rightarrow> ('s, SearchUserMessageResp option) im_op" where
  "IMSearchUserMessages c req = post_read c ''/plugins/wk.plugin.search/usersearch''
     (json_of_SearchUserMessageReq req) (d_ptr dec_SearchUserMessageResp)"

definition IMSearchMessages :: "'s im \<Rightarrow> MsgSearchReq \<Rightarrow> ('s, SyncChannelMessageResp option) im_op" where
  "IMSearchMessages c req = post_read c ''/messages'' (json_of_MsgSearchReq req) (d_ptr dec_SyncChannelMessageResp)"

definition Check_syncack :: "SyncackReq \<Rightarrow> im_error option" where
  "Check_syncack s =
     (if trim_space (sk_UID s) = [] then Some EmptyUID
      else if sk_LastMessageSeq s = 0 then Some ZeroMessageSeq else None)"

subsection \<open>Message streams\<close>

definition IMStreamStart :: "'s im \<Rightarrow> MessageStreamStartReq \<Rightarrow> ('s, string) im_op" where
  "IMStreamStart c req =
     call c (HPost (APIURL c @ ''/streammessage/start'') (ToJson (json_of_MessageStreamStartReq req)))
       handlerIMError
       (\<lambda>b. case ReadJsonByByte b as_map of
           Err e \<Rightarrow> Err (BadJson e)
         | Panic m \<Rightarrow> Panic m
         | Ok None \<Rightarrow> Err NilResult
         | Ok (Some m) \<Rightarrow>
             (case map_get m ''stream_no'' of JStr n \<Rightarrow> Ok n | _ \<Rightarrow> Panic ''interface conversion''))"

definition IMStreamEnd :: "'s im \<Rightarrow> MessageStreamEndReq \<Rightarrow> ('s, unit) im_op" where
  "IMStreamEnd c req = post c ''/streammessage/end'' (json_of_MessageStreamEndReq req)"

subsection \<open>The payload of a received message\<close>

text \<open>The message and its cached payload map; a map that was read is kept.\<close>

definition GetPayloadMap ::
  "MessageResp \<Rightarrow> (string \<rightharpoonup> json) option
    \<Rightarrow> (json_error, (string \<rightharpoonup> json) option) res \<times> (string \<rightharpoonup> json) option" where
  "GetPayloadMap m payloadMap =
     (case payloadMap of
        Some p \<Rightarrow> (Ok (Some p), payloadMap)
      | None \<Rightarrow>
          (case ReadJsonByByte (case me_Payload m of None \<Rightarrow> [] | Some b \<Rightarrow> b) as_map of
             Ok p \<Rightarrow> (Ok p, p)
           | Err e \<Rightarrow> (Err e, None)
           | Panic msg \<Rightarrow> (Panic msg, None)))"

definition GetContentType :: "MessageResp \<Rightarrow> (string \<rightharpoonup> json) option \<Rightarrow> (unit, int) res \<times> (string \<rightharpoonup> json) option" where
  "GetContentType m payloadMap =
     (case GetPayloadMap m payloadMap of
        (Err e, p) \<Rightarrow> (Ok 0, p)
      | (Panic msg, p) \<Rightarrow> (Panic msg, p)
      | (Ok payloadMap, p) \<Rightarrow>
          (case map_get (case payloadMap of None \<Rightarrow> Map.empty | Some m \<Rightarrow> m) ''type'' of
             JInt i \<Rightarrow> (Ok (fst (parse_int 64 (show_int i))), p)
           | JNum l \<Rightarrow> (Ok (fst (parse_int 64 l)), p)
           | _ \<Rightarrow> (Panic ''interface conversion'', p)))"

subsection \<open>What the operations promise\<close>

lemmas im_defs = call_def post_def post_read_def get_read_def drop_transport_def json_error_def
  SendMessage_def SendMessageWithResult_def SendCMD_def Let_def


definition sample_im :: "(http_req \<Rightarrow> unit \<Rightarrow> http_reply \<times> unit) \<Rightarrow> unit im" where
  "sample_im f = \<lparr>APIURL = ''http://im'', Test = False, GroupUpgradeWhenMemberCount = 1000, net = f,
     gjson_int = (\<lambda>b p. 0), gjson_str = (\<lambda>b p. [])\<rparr>"


text \<open>A server that answers every request with the JSON text of a value.\<close>

definition serve :: "'s im \<Rightarrow> json \<Rightarrow> 's im" where
  "serve c v = c\<lparr>net := (\<lambda>r s. (Reply 200 (ToJson v), s)), Test := False\<rparr>"

lemma json_depth_slice:
  "(\<And>x. json_depth (f x) \<le> k) \<Longrightarrow> json_depth (jslice f xs) \<le> Suc k"
proof -
  assume a: "\<And>x. json_depth (f x) \<le> k"
  have "foldr max (map (json_depth \<circ> f) ys) 0 \<le> k" for ys using a by (induction ys) auto
  then show ?thesis by (auto simp: jslice_def split: option.split)
qed

lemma json_wf_slice: "(\<And>x. json_wf (f x)) \<Longrightarrow> json_wf (jslice f xs)"
  by (auto simp: jslice_def list_all_iff split: option.split)

lemma json_depth_ptr: "(\<And>x. json_depth (f x) \<le> k) \<Longrightarrow> json_depth (j_ptr f p) \<le> k"
  by (simp add: j_ptr_def split: option.split)

lemma json_wf_ptr: "(\<And>x. json_wf (f x)) \<Longrightarrow> json_wf (j_ptr f p)"
  by (simp add: j_ptr_def split: option.split)

lemmas j_scalar_defs = j_byte_def j_uint32_def j_int32_def j_int64_def j_bytes_def

lemma scalar_ok [simp]:
  "json_wf (j_byte a)" "json_wf (j_uint32 b)" "json_wf (j_int32 d)" "json_wf (j_int64 i)" "json_wf (j_bytes y)"
  "json_depth (j_byte a) = 0" "json_depth (j_uint32 b) = 0" "json_depth (j_int32 d) = 0" "json_depth (j_int64 i) = 0"
  "json_depth (j_bytes y) = 0"
  by (simp_all add: j_scalar_defs split: option.split)

lemma message_depth: "json_wf (json_of_MessageResp m) \<and> json_depth (json_of_MessageResp m) \<le> 3"
proof -
  have i: "json_wf (j_ptr json_of_StreamItemResp x)" "json_depth (j_ptr json_of_StreamItemResp x) \<le> 1" for x
    by (cases x; simp add: j_ptr_def json_of_StreamItemResp_def)+
  have "json_wf (jslice (j_ptr json_of_StreamItemResp) (me_Streams m))"
    by (rule json_wf_slice) (rule i)
  moreover have "json_depth (jslice (j_ptr json_of_StreamItemResp) (me_Streams m)) \<le> Suc 1"
    by (rule json_depth_slice) (rule i)
  ultimately show ?thesis by (simp add: json_of_MessageResp_def json_of_MsgHeader_def)
qed

lemma messages_depth:
  "json_wf (jslice (j_ptr json_of_MessageResp) ms)" "json_depth (jslice (j_ptr json_of_MessageResp) ms) \<le> Suc 3"
  by (rule json_wf_slice, rule json_wf_ptr, simp add: message_depth,
      rule json_depth_slice, rule json_depth_ptr, simp add: message_depth)


lemma serve_reads:
  assumes "json_wf v" "json_depth v \<le> json_max_depth"
  shows "post_read (serve c v) path body d s = (json_error (d v), s)"
    "get_read (serve c v) path params d s = (json_error (d v), s)"
  using json_parse_text [OF assms]
  by (simp_all add: post_read_def get_read_def call_def serve_def handlerIMError_def reply_error_def
      ReadJsonByByte_def ToJson_def)

lemma pointers_read:
  assumes "\<And>x. Some x \<in> set (case xs of None \<Rightarrow> [] | Some xs \<Rightarrow> xs) \<Longrightarrow> d (e x) = Ok x" "\<And>x. e x \<noteq> JNull"
  shows "d_slice (d_ptr d) (jslice (j_ptr e) xs) = Ok xs"
proof (rule d_slice_jslice)
  fix x assume x: "x \<in> set (case xs of None \<Rightarrow> [] | Some xs \<Rightarrow> xs)"
  show "d_ptr d (j_ptr e x) = Ok x"
  proof (cases x)
    case (Some y)
    then show ?thesis using assms(1) [of y] assms(2) [of y] x by (simp add: d_ptr_def j_ptr_def)
  qed (simp add: d_ptr_def j_ptr_def)
qed

lemma pointers_ok:
  assumes "\<And>x. json_wf (e x) \<and> json_depth (e x) \<le> k" "Suc k \<le> json_max_depth"
  shows "json_wf (jslice (j_ptr e) xs)" "json_depth (jslice (j_ptr e) xs) \<le> json_max_depth"
proof -
  show "json_wf (jslice (j_ptr e) xs)" by (rule json_wf_slice, rule json_wf_ptr) (simp add: assms)
  have "json_depth (jslice (j_ptr e) xs) \<le> Suc k" by (rule json_depth_slice, rule json_depth_ptr) (simp add: assms)
  then show "json_depth (jslice (j_ptr e) xs) \<le> json_max_depth" using assms(2) by simp
qed

lemma response_depth:
  "json_wf (json_of_SyncChannelMessageResp sm) \<and> json_depth (json_of_SyncChannelMessageResp sm) \<le> 5"
  "json_wf (json_of_SearchUserMessageResp sp) \<and> json_depth (json_of_SearchUserMessageResp sp) \<le> 5"
  "json_wf (json_of_SyncUserConversationResp uc) \<and> json_depth (json_of_SyncUserConversationResp uc) \<le> 5"
  "json_wf (json_of_ConversationResp cv) \<and> json_depth (json_of_ConversationResp cv) \<le> 5"
  "json_wf (json_of_OnlinestatusResp on) \<and> json_depth (json_of_OnlinestatusResp on) \<le> 5"
  "json_wf (json_of_UpdateIMTokenResp tr) \<and> json_depth (json_of_UpdateIMTokenResp tr) \<le> 5"
  "json_wf (json_of_ChannelMaxSeqResp cx) \<and> json_depth (json_of_ChannelMaxSeqResp cx) \<le> 5"
proof -
  note m = messages_depth [of "sm_Messages sm"] messages_depth [of "sp_Messages sp"] messages_depth [of "uc_Recents uc"]
  have l: "json_wf (j_ptr json_of_MessageResp x)" "json_depth (j_ptr json_of_MessageResp x) \<le> 3" for x
    by (rule json_wf_ptr, simp add: message_depth, rule json_depth_ptr, simp add: message_depth)
  show "json_wf (json_of_SyncChannelMessageResp sm) \<and> json_depth (json_of_SyncChannelMessageResp sm) \<le> 5"
    "json_wf (json_of_SearchUserMessageResp sp) \<and> json_depth (json_of_SearchUserMessageResp sp) \<le> 5"
    "json_wf (json_of_SyncUserConversationResp uc) \<and> json_depth (json_of_SyncUserConversationResp uc) \<le> 5"
    "json_wf (json_of_ConversationResp cv) \<and> json_depth (json_of_ConversationResp cv) \<le> 5"
    "json_wf (json_of_OnlinestatusResp on) \<and> json_depth (json_of_OnlinestatusResp on) \<le> 5"
    "json_wf (json_of_UpdateIMTokenResp tr) \<and> json_depth (json_of_UpdateIMTokenResp tr) \<le> 5"
    "json_wf (json_of_ChannelMaxSeqResp cx) \<and> json_depth (json_of_ChannelMaxSeqResp cx) \<le> 5"
    using m l [of "cv_LastMessage cv"]
    by (simp_all add: json_of_SyncChannelMessageResp_def json_of_SearchUserMessageResp_def
        json_of_SyncUserConversationResp_def json_of_ConversationResp_def json_of_OnlinestatusResp_def
        json_of_UpdateIMTokenResp_def json_of_ChannelMaxSeqResp_def)
qed

lemma response_not_null:
  "json_of_SyncChannelMessageResp sm \<noteq> JNull" "json_of_SearchUserMessageResp sp \<noteq> JNull"
  "json_of_SyncUserConversationResp uc \<noteq> JNull" "json_of_ConversationResp cv \<noteq> JNull"
  "json_of_OnlinestatusResp on \<noteq> JNull" "json_of_UpdateIMTokenResp tr \<noteq> JNull" "json_of_ChannelMaxSeqResp cx \<noteq> JNull"
  by (simp_all add: json_of_SyncChannelMessageResp_def json_of_SearchUserMessageResp_def
      json_of_SyncUserConversationResp_def json_of_ConversationResp_def json_of_OnlinestatusResp_def
      json_of_UpdateIMTokenResp_def json_of_ChannelMaxSeqResp_def)

text \<open>C28: what the server stores is what the operations return: when it answers with the JSON text of a
  value of the response type (any strings, any payload bytes, any integers in range, nil slices and
  nil pointers included), every operation that reads a reply returns that value and no error.
  (An empty, not nil list of streams would come back nil: the encoder leaves it out.)\<close>

theorem im_replies_decoded:
  assumes "plain_messages (sm_Messages sm)" "plain_messages (sp_Messages sp)" "plain_messages msgs"
    and "\<And>x. Some x \<in> set (case ucs of None \<Rightarrow> [] | Some xs \<Rightarrow> xs) \<Longrightarrow> plain_messages (uc_Recents x)"
    and "\<And>x. Some x \<in> set (case cvs of None \<Rightarrow> [] | Some xs \<Rightarrow> xs) \<Longrightarrow> plain_messages (Some [cv_LastMessage x])"
  shows "IMSyncChannelMessage (serve c (json_of_SyncChannelMessageResp sm)) sc s = (Ok (Some sm), s)
    \<and> IMSearchMessages (serve c (json_of_SyncChannelMessageResp sm)) mq s = (Ok (Some sm), s)
    \<and> IMGetWithChannelAndSeqs (serve c (json_of_SyncChannelMessageResp sm)) u ct u' seqs s = (Ok (Some sm), s)
    \<and> IMSearchUserMessages (serve c (json_of_SearchUserMessageResp sp)) su s = (Ok (Some sp), s)
    \<and> IMSyncMessage (serve c (jslice (j_ptr json_of_MessageResp) msgs)) sy s = (Ok msgs, s)
    \<and> IMSyncUserConversation (serve c (jslice (j_ptr json_of_SyncUserConversationResp) ucs)) u v n l larges s = (Ok ucs, s)
    \<and> IMGetConversations (serve c (jslice (j_ptr json_of_ConversationResp) cvs)) u s = (Ok cvs, s)
    \<and> IMSOnlineStatus (serve c (jslice (j_ptr json_of_OnlinestatusResp) ons)) us s = (Ok ons, s)
    \<and> UpdateIMToken (serve c (json_of_UpdateIMTokenResp tr)) tk s = (Ok (Some tr), s)
    \<and> IMGetChannelMaxSeq (serve c (json_of_ChannelMaxSeqResp cx)) u ct s = (Ok (Some cx), s)"
proof -
  have big: "k \<le> 5 \<Longrightarrow> k \<le> json_max_depth" "Suc 5 \<le> json_max_depth" "Suc 3 \<le> json_max_depth" for k :: nat
    by (simp_all add: json_max_depth_def)
  note ok = response_depth [THEN conjunct1] response_depth [THEN conjunct2, THEN big(1)]
    pointers_ok [OF message_depth big(3)] pointers_ok [OF response_depth(3) big(2)]
    pointers_ok [OF response_depth(4) big(2)] pointers_ok [OF response_depth(5) big(2)]
  have ptr: "d_ptr d v = map_ok Some (d v)" if "v \<noteq> JNull" for d :: "json \<Rightarrow> (json_error, 'x) res" and v
    using that by (simp add: d_ptr_def)
  have lists: "d_slice (d_ptr dec_SyncUserConversationResp) (jslice (j_ptr json_of_SyncUserConversationResp) ucs) = Ok ucs"
    "d_slice (d_ptr dec_ConversationResp) (jslice (j_ptr json_of_ConversationResp) cvs) = Ok cvs"
    "d_slice (d_ptr dec_OnlinestatusResp) (jslice (j_ptr json_of_OnlinestatusResp) ons) = Ok ons"
    by (rule pointers_read; simp add: assms dec_SyncUserConversationResp dec_ConversationResp dec_OnlinestatusResp
        response_not_null)+
  show ?thesis
    unfolding IMSyncChannelMessage_def IMSearchMessages_def IMGetWithChannelAndSeqs_def IMSearchUserMessages_def
      IMSyncMessage_def IMSyncUserConversation_def IMGetConversations_def UpdateIMToken_def IMGetChannelMaxSeq_def
      IMSOnlineStatus_def
    using assms(1-3)
    by (simp add: serve_reads ok ptr response_not_null lists json_error_def dec_messages
        dec_SyncChannelMessageResp dec_SearchUserMessageResp dec_UpdateIMTokenResp dec_ChannelMaxSeqResp)
      (simp add: serve_def)
qed


lemma im_replies_decoded_witness:
  "IMSyncMessage (serve (sample_im (\<lambda>r s. (NetErr [], s))) (jslice (j_ptr json_of_MessageResp) (Some [None])))
     \<lparr>sy_UID = ''u'', sy_MessageSeq = 0, sy_Limit = 5\<rparr> () = (Ok (Some [None]), ())"
  using im_replies_decoded [where sm = "\<lparr>sm_StartMessageSeq = 1, sm_EndMessageSeq = 2, sm_PullMode = 0, sm_Messages = None\<rparr>"
      and sp = "\<lparr>sp_Total = 0, sp_Limit = 0, sp_Page = 0, sp_Messages = None\<rparr>" and msgs = "Some [None]"
      and ucs = None and cvs = None and c = "sample_im (\<lambda>r s. (NetErr [], s))"
      and sy = "\<lparr>sy_UID = ''u'', sy_MessageSeq = 0, sy_Limit = 5\<rparr>" and s = "()"]
  by (simp add: plain_messages_def)

text \<open>Reading the payload of a message back.\<close>

lemma depth_less_iff: "foldr max (map f xs) 0 < (k :: nat) \<longleftrightarrow> 0 < k \<and> (\<forall>x \<in> set xs. f x < k)"
  by (induction xs) auto

lemma payload_reads:
  assumes "distinct (map fst ms)" "list_all (\<lambda>(k, v). json_wf v \<and> json_depth v < json_max_depth) ms"
  shows "JsonToMap (case payload_of ms of None \<Rightarrow> [] | Some p \<Rightarrow> p) = Ok (Some (map_of ms))"
proof -
  have s: "set (sort_key fst ms) = set ms" by simp
  have "json_wf (jmap ms)" "json_depth (jmap ms) \<le> json_max_depth"
    using assms(2) by (auto simp: jmap_def list_all_iff depth_less_iff Suc_le_eq json_max_depth_def split: prod.splits simp del: foldr_map)
  then have "json_parse (ToJson (jmap ms)) = Some (jmap ms)"
    unfolding ToJson_def by (rule json_parse_text)
  moreover have "map_of (rev (sort_key fst ms)) = map_of ms"
    using assms(1) by (intro map_of_inject_set [THEN iffD2]) (auto simp: rev_map [symmetric] distinct_map inj_on_def)
  ultimately show ?thesis
    by (simp add: payload_of_def JsonToMap_def ReadJsonByByte_def as_map_def jmap_def)
qed

text \<open>C30: a command is always sent as one: not stored (the request's \<open>NoPersist\<close> is ignored), without a
  red dot, synced once, under the setting that leaves the conversation as it is, to the channel and
  the subscribers of the request; and its payload reads back as the command, the content type 99 and
  the parameters, if there are any.\<close>

theorem cmd_on_the_wire:
  assumes "json_wf (cm_Param req)" "json_depth (cm_Param req) < json_max_depth"
  shows "\<exists>m. SendCMD c req = SendMessage c m \<and> SendCMD c (req\<lparr>cm_NoPersist := b\<rparr>) = SendMessage c m
    \<and> ms_Header m = \<lparr>mh_NoPersist = 1, mh_RedDot = 0, mh_SyncOnce = 1\<rparr>
    \<and> SettingFromUint8 (ms_Setting m) = \<lparr>Receipt = False, NoUpdateConversation = True, Signal = False\<rparr>
    \<and> ms_FromUID m = cm_FromUID req \<and> ms_ChannelID m = cm_ChannelID req \<and> ms_ChannelType m = cm_ChannelType req
    \<and> ms_Subscribers m = cm_Subscribers req
    \<and> JsonToMap (case ms_Payload m of None \<Rightarrow> [] | Some p \<Rightarrow> p) =
        Ok (Some ((if cm_Param req = JNull then Map.empty else [''param'' \<mapsto> cm_Param req])
          (''type'' \<mapsto> JInt 99, ''cmd'' \<mapsto> JStr (cm_CMD req))))"
proof -
  define ms where "ms = [(''cmd'', JStr (cm_CMD req)), (''type'', JInt CMD)]
    @ (if cm_Param req \<noteq> JNull then [(''param'', cm_Param req)] else [])"
  define m where "m = \<lparr>ms_Header = \<lparr>mh_NoPersist = 1, mh_RedDot = 0, mh_SyncOnce = 1\<rparr>,
    ms_Setting = ToUint8 \<lparr>Receipt = False, NoUpdateConversation = True, Signal = False\<rparr>,
    ms_FromUID = cm_FromUID req, ms_ChannelID = cm_ChannelID req, ms_ChannelType = cm_ChannelType req,
    ms_StreamNo = [], ms_Subscribers = cm_Subscribers req, ms_Payload = payload_of ms\<rparr>"
  have "JsonToMap (case payload_of ms of None \<Rightarrow> [] | Some p \<Rightarrow> p) = Ok (Some (map_of ms))"
    by (rule payload_reads) (use assms in \<open>auto simp: ms_def json_max_depth_def\<close>)
  moreover have "map_of ms = (if cm_Param req = JNull then Map.empty else [''param'' \<mapsto> cm_Param req])
      (''type'' \<mapsto> JInt 99, ''cmd'' \<mapsto> JStr (cm_CMD req))"
    by (simp add: ms_def CMD_def)
  moreover have "SendCMD c req = SendMessage c m" "SendCMD c (req\<lparr>cm_NoPersist := b\<rparr>) = SendMessage c m"
    by (simp_all add: SendCMD_def Let_def m_def ms_def)
  ultimately show ?thesis by (intro exI [of _ m]) (simp add: m_def setting_roundtrip)
qed

definition sample_cmd :: MsgCMDReq where
  "sample_cmd = \<lparr>cm_NoPersist = False, cm_FromUID = [], cm_ChannelID = ''g'', cm_ChannelType = 2,
     cm_Subscribers = None, cm_CMD = ''typing'', cm_Param = JNull\<rparr>"

lemma cmd_on_the_wire_witness:
  "\<exists>m. SendCMD (sample_im (\<lambda>r s. (NetErr [], s))) sample_cmd = SendMessage (sample_im (\<lambda>r s. (NetErr [], s))) m
    \<and> ms_Header m = \<lparr>mh_NoPersist = 1, mh_RedDot = 0, mh_SyncOnce = 1\<rparr>
    \<and> JsonToMap (case ms_Payload m of None \<Rightarrow> [] | Some p \<Rightarrow> p) =
        Ok (Some [''type'' \<mapsto> JInt 99, ''cmd'' \<mapsto> JStr ''typing''])"
  using cmd_on_the_wire [of sample_cmd "sample_im (\<lambda>r s. (NetErr [], s))" True]
  by (auto simp: sample_cmd_def json_max_depth_def)

text \<open>
  The content type of a message the client itself built is the one it wrote; a payload that is JSON
  but has no numeric type (null included) panics.
\<close>

lemma GetContentType_payload:
  assumes "distinct (map fst ms)" "list_all (\<lambda>(k, v). json_wf v \<and> json_depth v < json_max_depth) ms"
    and "me_Payload m = payload_of ms"
  shows "fst (GetContentType m None) =
    (case map_of ms ''type'' of
       Some (JInt i) \<Rightarrow> Ok (fst (parse_int 64 (show_int i)))
     | Some (JNum l) \<Rightarrow> Ok (fst (parse_int 64 l))
     | _ \<Rightarrow> Panic ''interface conversion'')"
proof -
  obtain p where p: "payload_of ms = Some p" by (simp add: payload_of_def)
  then have "ReadJsonByByte p as_map = Ok (Some (map_of ms))"
    using payload_reads [OF assms(1,2)] by (simp add: JsonToMap_def)
  then show ?thesis
    using assms(3) p by (auto simp: GetContentType_def GetPayloadMap_def map_get_def split: option.splits json.splits)
qed

lemma GetContentType_null: "fst (GetContentType (m\<lparr>me_Payload := Some ''null''\<rparr>) None) = Panic ''interface conversion''"
  by (simp add: GetContentType_def GetPayloadMap_def ReadJsonByByte_def json_parse_def json_max_depth_def as_map_def
      lex_json.simps(2) json_space_def number_char_def is_digit_def map_get_def)

end
