(* ===== verification/ImGroup.thy ===== *)
theory ImGroup
  imports ImMsg
begin

text \<open>
  The group notices of \<^verbatim>\<open>config/msg_group.go\<close>: each sends one message to the group, whose
  content names users by placeholders {0}, {1}, ... into the list \<open>extra\<close> that goes with it.
\<close>

subsection \<open>Requests\<close>

record MsgGroupCreateReq =
  gc_Creator :: string
  gc_CreatorName :: string
  gc_GroupNo :: string
  gc_Version :: int64
  gc_Members :: "UserBaseVo option list option"

record MsgGroupMemberAddReq =
  ga_Operator :: string
  ga_OperatorName :: string
  ga_GroupNo :: string
  ga_Members :: "UserBaseVo option list option"

record MsgGroupMemberInviteReq =
  gi_GroupNo :: string
  gi_InviteNo :: string
  gi_Inviter :: string
  gi_InviterName :: string
  gi_Num :: int64
  gi_Subscribers :: "string list option"

record MsgGroupTransferGrouper =
  gt_GroupNo :: string
  gt_OldGrouper :: string
  gt_OldGrouperName :: string
  gt_NewGrouper :: string
  gt_NewGrouperName :: string

record MsgGroupMemberRemoveReq =
  gr_Operator :: string
  gr_OperatorName :: string
  gr_GroupNo :: string
  gr_Members :: "UserBaseVo option list option"

record MsgGroupUpdateReq =
  gu_GroupNo :: string
  gu_Operator :: string
  gu_OperatorName :: string
  gu_Attr :: string
  gu_Data :: "(string \<times> string) list option"

record MsgGroupMemberScanJoin =
  gs_GroupNo :: string
  gs_Generator :: string
  gs_GeneratorName :: string
  gs_Scaner :: string
  gs_ScanerName :: string

subsection \<open>Operations\<close>

text \<open>The message every notice is: stored, with a red dot, to the group.\<close>

definition group_message :: "string \<Rightarrow> (string \<times> json) list \<Rightarrow> MsgSendReq" where
  "group_message groupNo payload =
     \<lparr>ms_Header = \<lparr>mh_NoPersist = 0, mh_RedDot = 1, mh_SyncOnce = 0\<rparr>, ms_Setting = 0, ms_FromUID = [],
      ms_ChannelID = groupNo, ms_ChannelType = Uint8 ChannelTypeGroup, ms_StreamNo = [], ms_Subscribers = None,
      ms_Payload = payload_of payload\<rparr>"

definition placeholder :: "nat \<Rightarrow> string" where
  "placeholder i = ''{'' @ show_nat i @ ''}''"

definition nil_deref :: string where "nil_deref = ''nil pointer dereference''"

text \<open>The loop over the members of a new group, without its creator: the members kept and their
  placeholders from \<open>i\<close> on. A nil member panics.\<close>

fun other_members ::
  "string \<Rightarrow> UserBaseVo option list \<Rightarrow> nat \<Rightarrow> (im_error, UserBaseVo list \<times> string list) res" where
  "other_members creator [] i = Ok ([], [])"
| "other_members creator (None # ms) i = Panic nil_deref"
| "other_members creator (Some m # ms) i =
     (if ub_UID m = creator then other_members creator ms i
      else map_ok (\<lambda>(new, params). (m # new, placeholder i # params)) (other_members creator ms (i + 1)))"

text \<open>A nil slice of members is replaced by an empty one.\<close>

definition member_list :: "UserBaseVo option list option \<Rightarrow> UserBaseVo option list" where
  "member_list ms = (case ms of None \<Rightarrow> [] | Some ms \<Rightarrow> ms)"

definition indices :: "'a list \<Rightarrow> string list" where
  "indices xs = map placeholder [0..<length xs]"

definition user :: "string \<Rightarrow> string \<Rightarrow> json" where
  "user uid name = json_of_UserBaseVo \<lparr>ub_UID = uid, ub_Name = name\<rparr>"

definition SendGroupCreate :: "'s im \<Rightarrow> MsgGroupCreateReq \<Rightarrow> ('s, unit) im_op" where
  "SendGroupCreate c req s =
     (case other_members (gc_Creator req) (member_list (gc_Members req)) 0 of
        Ok (newMembers, params) \<Rightarrow>
          SendMessage c (group_message (gc_GroupNo req)
            [(''creator'', JStr (gc_Creator req)), (''creator_name'', JStr (gc_CreatorName req)),
             (''content'', JStr (gc_CreatorName req @ (utf8 [0x9080, 0x8BF7]) @ join_str '','' params @ (utf8 [0x52A0, 0x5165, 0x7FA4, 0x804A]))),
             (''version'', j_int64 (gc_Version req)), (''extra'', JArr (map json_of_UserBaseVo newMembers)),
             (''type'', JInt GroupCreate)]) s
      | Err e \<Rightarrow> (Err e, s)
      | Panic m \<Rightarrow> (Panic m, s))"

definition SendUnableAddDestoryAccountInGroup :: "'s im \<Rightarrow> MsgGroupCreateReq \<Rightarrow> ('s, unit) im_op" where
  "SendUnableAddDestoryAccountInGroup c req s =
     (case other_members (gc_Creator req) (member_list (gc_Members req)) 0 of
        Ok (newMembers, params) \<Rightarrow>
          SendMessage c (group_message (gc_GroupNo req)
            [(''content'', JStr ((utf8 [0x7528, 0x6237]) @ join_str '','' params @ (utf8 [0x5DF2, 0x6CE8, 0x9500, 0xFF0C, 0x65E0, 0x6CD5, 0x6DFB, 0x52A0, 0x5230, 0x7FA4, 0x804A]))),
             (''extra'', JArr (map json_of_UserBaseVo newMembers)), (''type'', JInt Tip)]) s
      | Err e \<Rightarrow> (Err e, s)
      | Panic m \<Rightarrow> (Panic m, s))"

text \<open>The value of a key of a map of strings; a missing key gives the empty string.\<close>

definition data_get :: "(string \<times> string) list option \<Rightarrow> string \<Rightarrow> string" where
  "data_get m k = (case m of None \<Rightarrow> [] | Some m \<Rightarrow> (case map_of m k of None \<Rightarrow> [] | Some v \<Rightarrow> v))"

definition update_text :: "string \<Rightarrow> (string \<times> string) list option \<Rightarrow> string" where
  "update_text attr m =
     (if attr = GroupAttrKeyName then
        (utf8 [0x4FEE, 0x6539, 0x7FA4, 0x540D, 0x4E3A]) @ [CHR 0x22] @ data_get m GroupAttrKeyName @ [CHR 0x22]
      else if attr = GroupAttrKeyNotice then
        (let notice = data_get m GroupAttrKeyNotice
         in if notice = [] then (utf8 [0x6E05, 0x7A7A, 0x4E86, 0x7FA4, 0x516C, 0x544A]) else (utf8 [0x4FEE, 0x6539, 0x7FA4, 0x516C, 0x544A, 0x4E3A]) @ [CHR 0x22] @ notice @ [CHR 0x22])
      else if attr = GroupAttrKeyForbidden then
        (if data_get m GroupAttrKeyForbidden = ''1'' then (utf8 [0x5F00, 0x542F, 0x4E86, 0x7FA4, 0x7981, 0x8A00]) else (utf8 [0x5173, 0x95ED, 0x4E86, 0x7FA4, 0x7981, 0x8A00]))
      else if attr = GroupAttrKeyInvite then
        (if data_get m GroupAttrKeyInvite = ''1''
         then (utf8 [0x5DF2, 0x542F, 0x7528, 0x201C, 0x7FA4, 0x804A, 0x9080, 0x8BF7, 0x786E, 0x8BA4, 0x201D, 0xFF0C, 0x7FA4, 0x6210, 0x5458, 0x9700, 0x7FA4, 0x4E3B, 0x6216, 0x7BA1, 0x7406, 0x5458, 0x786E, 0x8BA4, 0x624D, 0x80FD, 0x9080, 0x8BF7, 0x670B, 0x53CB, 0x8FDB, 0x7FA4, 0x3002]) else (utf8 [0x5DF2, 0x6062, 0x590D, 0x9ED8, 0x8BA4, 0x8FDB, 0x7FA4, 0x65B9, 0x5F0F, 0x3002]))
      else if attr = GroupAttrKeyStatus then
        (if data_get m GroupAttrKeyStatus = ''1'' then (utf8 [0x89E3, 0x7981, 0x4E86, 0x8BE5, 0x7FA4]) else (utf8 [0x5C01, 0x7981, 0x4E86, 0x8BE5, 0x7FA4]))
      else [])"

definition SendGroupUpdate :: "'s im \<Rightarrow> MsgGroupUpdateReq \<Rightarrow> ('s, unit) im_op" where
  "SendGroupUpdate c req = SendMessage c (group_message (gu_GroupNo req)
     [(''content'', JStr (''{0}'' @ update_text (gu_Attr req) (gu_Data req))),
      (''extra'', JArr [user (gu_Operator req) (gu_OperatorName req)]), (''data'', j_strmap (gu_Data req)),
      (''type'', JInt GroupUpdate)])"

definition SendGroupMemberAdd :: "'s im \<Rightarrow> MsgGroupMemberAddReq \<Rightarrow> ('s, unit) im_op" where
  "SendGroupMemberAdd c req =
     (let members = member_list (ga_Members req); params = indices members
      in SendMessage c (group_message (ga_GroupNo req)
        [(''from_uid'', JStr (ga_Operator req)), (''from_name'', JStr (ga_OperatorName req)),
         (''content'', JStr (ga_OperatorName req @ (utf8 [0x9080, 0x8BF7]) @ join_str '','' params @ (utf8 [0x52A0, 0x5165, 0x7FA4, 0x804A]))),
         (''extra'', JArr (map (j_ptr json_of_UserBaseVo) members)), (''type'', JInt GroupMemberAdd)]))"

definition SendGroupUpgrade :: "'s im \<Rightarrow> string \<Rightarrow> ('s, unit) im_op" where
  "SendGroupUpgrade c groupNo = SendMessage c (group_message groupNo
     [(''content'', JStr ((utf8 [0x7FA4, 0x6210, 0x5458, 0x8D85, 0x8FC7]) @ show_int (sint (GroupUpgradeWhenMemberCount c)) @ (utf8 [0xFF0C, 0x5C06, 0x81EA, 0x52A8, 0x5347, 0x7EA7, 0x4E3A, 0x8D85, 0x7EA7, 0x7FA4]))),
      (''type'', JInt GroupUpgrade)])"

text \<open>The notice to the members who were removed goes to them only; without members nothing is sent.\<close>

fun member_uids :: "UserBaseVo option list \<Rightarrow> (im_error, string list) res" where
  "member_uids [] = Ok []"
| "member_uids (None # ms) = Panic nil_deref"
| "member_uids (Some m # ms) = map_ok (\<lambda>us. ub_UID m # us) (member_uids ms)"

definition SendGroupMemberBeRemove :: "'s im \<Rightarrow> MsgGroupMemberRemoveReq \<Rightarrow> ('s, unit) im_op" where
  "SendGroupMemberBeRemove c req s =
     (if length (member_list (gr_Members req)) \<le> 0 then (Ok (), s)
      else case member_uids (member_list (gr_Members req)) of
        Ok subscribers \<Rightarrow>
          (let setting = \<lparr>Receipt = False, NoUpdateConversation = True, Signal = False\<rparr>
           in SendMessage c ((group_message (gr_GroupNo req)
             [(''content'', JStr (utf8 [0x4F60, 0x88AB] @ ''{0}'' @ utf8 [0x79FB, 0x9664, 0x7FA4, 0x804A])), (''visibles'', JArr (map JStr subscribers)),
              (''extra'', JArr [user (gr_Operator req) (gr_OperatorName req)]),
              (''type'', JInt GroupMemberBeRemove)])
             \<lparr>ms_Setting := ToUint8 setting, ms_Subscribers := Some subscribers\<rparr>) s)
      | Err e \<Rightarrow> (Err e, s)
      | Panic m \<Rightarrow> (Panic m, s))"

definition SendGroupMemberRemove :: "'s im \<Rightarrow> MsgGroupMemberRemoveReq \<Rightarrow> ('s, unit) im_op" where
  "SendGroupMemberRemove c req =
     (let members = member_list (gr_Members req); params = indices members
      in SendMessage c (group_message (gr_GroupNo req)
        [(''content'', JStr (gr_OperatorName req @ (utf8 [0x5C06]) @ join_str '','' params @ (utf8 [0x79FB, 0x9664, 0x7FA4, 0x804A]))),
         (''extra'', JArr (map (j_ptr json_of_UserBaseVo) members)), (''type'', JInt GroupMemberRemove)]))"

definition SendGroupMemberScanJoin :: "'s im \<Rightarrow> MsgGroupMemberScanJoin \<Rightarrow> ('s, unit) im_op" where
  "SendGroupMemberScanJoin c req = SendMessage c (group_message (gs_GroupNo req)
     [(''content'', JStr (utf8 [0x201C] @ ''{0}'' @ utf8 [0x201D, 0x901A, 0x8FC7, 0x201C] @ ''{1}'' @ utf8 [0x201D, 0x7684, 0x4E8C, 0x7EF4, 0x7801, 0x52A0, 0x5165, 0x7FA4, 0x804A])),
      (''extra'', JArr [user (gs_Scaner req) (gs_ScanerName req), user (gs_Generator req) (gs_GeneratorName req)]),
      (''type'', JInt GroupMemberScanJoin)])"

definition SendGroupTransferGrouper :: "'s im \<Rightarrow> MsgGroupTransferGrouper \<Rightarrow> ('s, unit) im_op" where
  "SendGroupTransferGrouper c req = SendMessage c (group_message (gt_GroupNo req)
     [(''content'', JStr (utf8 [0x201C] @ ''{0}'' @ utf8 [0x201D, 0x5DF2, 0x6210, 0x4E3A, 0x65B0, 0x7FA4, 0x4E3B])), (''extra'', JArr [user (gt_NewGrouper req) (gt_NewGrouperName req)]),
      (''type'', JInt GroupTransferGrouper)])"

definition SendGroupMemberInviteReq :: "'s im \<Rightarrow> MsgGroupMemberInviteReq \<Rightarrow> ('s, unit) im_op" where
  "SendGroupMemberInviteReq c req = SendMessage c (group_message (gi_GroupNo req)
     [(''content'', JStr ((utf8 [0x201C] @ ''{0}'' @ utf8 [0x201C, 0x60F3, 0x9080, 0x8BF7]) @ show_int (sint (gi_Num req)) @ (utf8 [0x4F4D, 0x670B, 0x53CB, 0x52A0, 0x5165, 0x7FA4, 0x804A]))),
      (''extra'', JArr [user (gi_Inviter req) (gi_InviterName req)]), (''invite_no'', JStr (gi_InviteNo req)),
      (''type'', JInt GroupMemberInvite), (''visibles'', jslice JStr (gi_Subscribers req))])"

definition SendGroupExit :: "'s im \<Rightarrow> string \<Rightarrow> string \<Rightarrow> string \<Rightarrow> string list option \<Rightarrow> ('s, unit) im_op" where
  "SendGroupExit c groupNo uid name visibleUids = SendMessage c (group_message groupNo
     [(''content'', JStr (utf8 [0x201C] @ ''{0}'' @ utf8 [0x201C, 0x9000, 0x51FA, 0x7FA4, 0x804A])), (''type'', JInt GroupMemberQuit),
      (''extra'', JArr [user uid name]), (''visibles'', jslice JStr visibleUids)])"

definition SendGroupMemberUpdate :: "'s im \<Rightarrow> string \<Rightarrow> ('s, unit) im_op" where
  "SendGroupMemberUpdate c groupNo = SendCMD c
     \<lparr>cm_NoPersist = False, cm_FromUID = [], cm_ChannelID = groupNo, cm_ChannelType = Uint8 ChannelTypeGroup,
      cm_Subscribers = None, cm_CMD = CMDGroupMemberUpdate,
      cm_Param = jmap [(''group_no'', JStr groupNo)]\<rparr>"


subsection \<open>What the reader of a notice sees\<close>

text \<open>The client shows a content by putting the name of the i-th user of \<open>extra\<close> for {i}.\<close>

function render :: "string list \<Rightarrow> string \<Rightarrow> string" where
  "render names [] = []"
| "render names (c # s) =
     (let ds = takeWhile is_digit s; r = dropWhile is_digit s
      in if c = CHR ''{'' \<and> ds \<noteq> [] \<and> r \<noteq> [] \<and> hd r = CHR ''}'' \<and> digits_val ds < length names
         then names ! digits_val ds @ render names (tl r)
         else c # render names s)"
  by pat_completeness auto
termination
proof (relation "measure (length \<circ> snd)", goal_cases)
  case (2 names c s ds r)
  have "length (tl (dropWhile is_digit s)) \<le> length s"
    by (metis length_dropWhile_le length_tl diff_le_self order_trans)
  then show ?case using 2 by simp
qed auto

declare render.simps(2) [simp del]

lemma render_text: "CHR ''{'' \<notin> set a \<Longrightarrow> render names (a @ s) = a @ render names s"
  by (induction a) (auto simp: render.simps(2) Let_def)

lemma render_plain: "CHR ''{'' \<notin> set a \<Longrightarrow> render names a = a"
  using render_text [of a names "[]"] by simp

lemma render_placeholder:
  assumes "i < length names"
  shows "render names (placeholder i @ s) = names ! i @ render names s"
proof -
  have b: "\<not> is_digit (CHR ''}'')" by (simp add: is_digit_def)
  have d: "list_all is_digit (show_nat i)" by (rule show_nat_digits)
  have "takeWhile is_digit (show_nat i @ CHR ''}'' # s) = show_nat i"
    "dropWhile is_digit (show_nat i @ CHR ''}'' # s) = CHR ''}'' # s"
    using d b by (simp_all add: list_all_iff)
  then show ?thesis using assms by (simp add: placeholder_def render.simps(2) Let_def)
qed

lemma render_list:
  assumes "\<forall>i \<in> set is. i < length names" "CHR ''{'' \<notin> set t"
  shows "render names (join_str '','' (map placeholder is) @ t) = join_str '','' (map (\<lambda>i. names ! i) is) @ t"
proof -
  have *: "render names (concat (map (\<lambda>y. '','' @ y) (map placeholder is)) @ t) =
      concat (map (\<lambda>y. '','' @ y) (map (\<lambda>i. names ! i) is)) @ t" if "\<forall>i \<in> set is. i < length names" for "is"
    using that
  proof (induction "is")
    case (Cons i "is")
    then show ?case using render_text [of "'',''"] by (simp add: render_placeholder)
  qed (simp add: render_plain assms)
  show ?thesis
  proof (cases "is")
    case (Cons j js)
    then show ?thesis using * [of js] assms by (simp add: join_str_Cons render_placeholder)
  qed (simp add: render_plain assms)
qed

lemma render_all:
  "CHR ''{'' \<notin> set t \<Longrightarrow> render names (join_str '','' (map placeholder [0..<length names]) @ t) = join_str '','' names @ t"
  using render_list [of "[0..<length names]" names t] by (simp add: map_nth)

lemma bytes_no_brace: "list_all (\<lambda>n. 0x80 \<le> n \<and> n < 256) ns \<Longrightarrow> CHR ''{'' \<notin> set (bytes ns)"
proof -
  have "(of_char (CHR ''{'') :: nat) = 123" by simp
  then have "CHR ''{'' \<noteq> char_of n" if "0x80 \<le> n" "n < 256" for n :: nat
    using of_char_char_of [OF that(2)] that(1) by force
  then show "list_all (\<lambda>n. 0x80 \<le> n \<and> n < 256) ns \<Longrightarrow> CHR ''{'' \<notin> set (bytes ns)"
    by (auto simp: bytes_def list_all_iff)
qed

lemma utf8_no_brace: "list_all (\<lambda>n. 0x800 \<le> n \<and> n < 0x10000) ns \<Longrightarrow> CHR ''{'' \<notin> set (utf8 ns)"
proof -
  assume *: "list_all (\<lambda>n. 0x800 \<le> n \<and> n < 0x10000) ns"
  have "CHR ''{'' \<notin> set (utf8_char n)" if n: "0x800 \<le> n" "n < 0x10000" for n
  proof -
    have "n div 4096 < 16" using n by (simp add: less_mult_imp_div_less)
    moreover have "n div 64 mod 64 < 128" "n mod 64 < 128"
      using mod_less_divisor [of 64 "n div 64"] mod_less_divisor [of 64 n] by linarith+
    ultimately have "list_all (\<lambda>n. 0x80 \<le> n \<and> n < 256)
        [0xE0 + n div 4096, 0x80 + n div 64 mod 64, 0x80 + n mod 64]" by simp
    from bytes_no_brace [OF this] n show ?thesis by (simp add: utf8_char_def)
  qed
  with * show ?thesis by (auto simp: utf8_def list_all_iff)
qed

lemma other_members_spec:
  "other_members u (map Some ms) i =
    Ok (filter (\<lambda>m. ub_UID m \<noteq> u) ms, map placeholder [i..<i + length (filter (\<lambda>m. ub_UID m \<noteq> u) ms)])"
  by (induction ms arbitrary: i) (auto simp: upt_conv_Cons simp del: upt_Suc)

text \<open>
  An operation that sends the group a notice: its payload, read back, has a content that shows as
  \<open>text\<close> and the users the content refers to.
\<close>

definition notice :: "('s, unit) im_op \<Rightarrow> 's im \<Rightarrow> string \<Rightarrow> UserBaseVo list \<Rightarrow> string \<Rightarrow> bool" where
  "notice f c groupNo users text \<longleftrightarrow>
     (\<exists>p m content. f = SendMessage c (group_message groupNo p)
        \<and> JsonToMap (case payload_of p of None \<Rightarrow> [] | Some b \<Rightarrow> b) = Ok (Some m)
        \<and> m ''content'' = Some (JStr content) \<and> m ''extra'' = Some (JArr (map json_of_UserBaseVo users))
        \<and> render (map ub_Name users) content = text)"

text \<open>The values in a payload: within the decoder's depth.\<close>

definition payload_value :: "json \<Rightarrow> bool" where
  "payload_value v \<longleftrightarrow> json_wf v \<and> json_depth v < json_max_depth"

lemma noticeI:
  assumes "f = SendMessage c (group_message groupNo p)" "distinct (map fst p)"
    "\<forall>x \<in> set p. payload_value (snd x)"
    "map_of p ''content'' = Some (JStr content)" "map_of p ''extra'' = Some (JArr (map json_of_UserBaseVo users))"
    "render (map ub_Name users) content = text"
  shows "notice f c groupNo users text"
proof -
  have "list_all (\<lambda>(k, v). json_wf v \<and> json_depth v < json_max_depth) p"
    using assms(3) by (auto simp: list_all_iff payload_value_def)
  from payload_reads [OF assms(2) this] show ?thesis unfolding notice_def using assms by blast
qed

lemma payload_values [simp]:
  "payload_value (JStr x)" "payload_value (JInt i)" "payload_value (j_int64 w)"
  "payload_value (jslice JStr xs)" "payload_value (j_strmap m)" "payload_value (JArr (map json_of_UserBaseVo us))"
proof -
  show "payload_value (JStr x)" "payload_value (JInt i)" "payload_value (j_int64 w)"
    by (simp_all add: payload_value_def json_max_depth_def)
  have "json_wf (jslice JStr xs)" "json_depth (jslice JStr xs) \<le> Suc 0"
    by (rule json_wf_slice, simp, rule json_depth_slice, simp)
  then show "payload_value (jslice JStr xs)" by (simp add: payload_value_def json_max_depth_def)
  have "foldr max (map (\<lambda>(k, v). json_depth v) ys) 0 = 0" if "\<forall>y \<in> set ys. \<exists>v. snd y = JStr v" for ys :: "(string \<times> json) list"
    using that by (induction ys) auto
  from this [of "sort_key fst (map (apsnd JStr) (the m))"] show "payload_value (j_strmap m)"
    by (auto simp: payload_value_def j_strmap_def jmap_def list_all_iff json_max_depth_def simp del: foldr_map
        split: option.splits)
  have "list_all json_wf (map json_of_UserBaseVo us) \<and> foldr max (map json_depth (map json_of_UserBaseVo us)) 0 \<le> 1"
    by (induction us) (auto simp: json_of_UserBaseVo_def)
  then show "payload_value (JArr (map json_of_UserBaseVo us))"
    by (simp add: payload_value_def json_max_depth_def del: foldr_map)
qed

lemmas payload_users [simp] = payload_values(6) [of "[u]", simplified] payload_values(6) [of "[u, u']", simplified] for u u'

lemma ptr_Some [simp]: "map (j_ptr json_of_UserBaseVo \<circ> Some) us = map json_of_UserBaseVo us"
  by (simp add: j_ptr_def)

lemmas utf8_texts [simp] = utf8_no_brace

lemma notice_names:
  assumes "f = SendMessage c (group_message groupNo p)" "distinct (map fst p)"
    "\<forall>x \<in> set p. payload_value (snd x)"
    "map_of p ''content'' = Some (JStr (a @ join_str '','' (map placeholder [0..<length users]) @ b))"
    "map_of p ''extra'' = Some (JArr (map json_of_UserBaseVo users))" "CHR ''{'' \<notin> set a" "CHR ''{'' \<notin> set b"
  shows "notice f c groupNo users (a @ join_str '','' (map ub_Name users) @ b)"
  using assms(1-5)
  by (rule noticeI) (use assms(6,7) render_all [of b "map ub_Name users"] in \<open>simp add: render_text\<close>)

lemma create_notice:
  assumes "gc_Members r = Some (map Some ms)" "CHR ''{'' \<notin> set (gc_CreatorName r)"
  shows "notice (SendGroupCreate c r) c (gc_GroupNo r) (filter (\<lambda>m. ub_UID m \<noteq> gc_Creator r) ms)
    (gc_CreatorName r @ (utf8 [0x9080, 0x8BF7]) @ join_str '','' (map ub_Name (filter (\<lambda>m. ub_UID m \<noteq> gc_Creator r) ms)) @ (utf8 [0x52A0, 0x5165, 0x7FA4, 0x804A]))"
proof -
  let ?M = "filter (\<lambda>m. ub_UID m \<noteq> gc_Creator r) ms"
  let ?p = "[(''creator'', JStr (gc_Creator r)), (''creator_name'', JStr (gc_CreatorName r)),
     (''content'', JStr (gc_CreatorName r @ (utf8 [0x9080, 0x8BF7]) @ join_str '','' (map placeholder [0..<length ?M]) @ (utf8 [0x52A0, 0x5165, 0x7FA4, 0x804A]))),
     (''version'', j_int64 (gc_Version r)), (''extra'', JArr (map json_of_UserBaseVo ?M)), (''type'', JInt GroupCreate)]"
  have "SendGroupCreate c r = SendMessage c (group_message (gc_GroupNo r) ?p)"
    by (rule ext) (simp add: SendGroupCreate_def member_list_def other_members_spec assms)
  from notice_names [OF this, where a = "gc_CreatorName r @ (utf8 [0x9080, 0x8BF7])" and b = "(utf8 [0x52A0, 0x5165, 0x7FA4, 0x804A])" and users = ?M]
  show ?thesis using assms by simp
qed

lemma add_notice:
  assumes "ga_Members r = Some (map Some ms)" "CHR ''{'' \<notin> set (ga_OperatorName r)"
  shows "notice (SendGroupMemberAdd c r) c (ga_GroupNo r) ms
    (ga_OperatorName r @ (utf8 [0x9080, 0x8BF7]) @ join_str '','' (map ub_Name ms) @ (utf8 [0x52A0, 0x5165, 0x7FA4, 0x804A]))"
proof -
  let ?p = "[(''from_uid'', JStr (ga_Operator r)), (''from_name'', JStr (ga_OperatorName r)),
     (''content'', JStr (ga_OperatorName r @ (utf8 [0x9080, 0x8BF7]) @ join_str '','' (map placeholder [0..<length ms]) @ (utf8 [0x52A0, 0x5165, 0x7FA4, 0x804A]))),
     (''extra'', JArr (map json_of_UserBaseVo ms)), (''type'', JInt GroupMemberAdd)]"
  have "SendGroupMemberAdd c r = SendMessage c (group_message (ga_GroupNo r) ?p)"
    by (simp add: SendGroupMemberAdd_def member_list_def indices_def Let_def assms)
  from notice_names [OF this, where a = "ga_OperatorName r @ (utf8 [0x9080, 0x8BF7])" and b = "(utf8 [0x52A0, 0x5165, 0x7FA4, 0x804A])" and users = ms]
  show ?thesis using assms by simp
qed

lemma remove_notice:
  assumes "gr_Members r = Some (map Some ms)" "CHR ''{'' \<notin> set (gr_OperatorName r)"
  shows "notice (SendGroupMemberRemove c r) c (gr_GroupNo r) ms
    (gr_OperatorName r @ (utf8 [0x5C06]) @ join_str '','' (map ub_Name ms) @ (utf8 [0x79FB, 0x9664, 0x7FA4, 0x804A]))"
proof -
  let ?p = "[(''content'', JStr (gr_OperatorName r @ (utf8 [0x5C06]) @ join_str '','' (map placeholder [0..<length ms]) @ (utf8 [0x79FB, 0x9664, 0x7FA4, 0x804A]))),
     (''extra'', JArr (map json_of_UserBaseVo ms)), (''type'', JInt GroupMemberRemove)]"
  have "SendGroupMemberRemove c r = SendMessage c (group_message (gr_GroupNo r) ?p)"
    by (simp add: SendGroupMemberRemove_def member_list_def indices_def Let_def assms)
  from notice_names [OF this, where a = "gr_OperatorName r @ (utf8 [0x5C06])" and b = "(utf8 [0x79FB, 0x9664, 0x7FA4, 0x804A])" and users = ms]
  show ?thesis using assms by simp
qed

text \<open>The notices with a fixed text: {0} and {1} where the names go.\<close>

lemma placeholder_01: "placeholder 0 = ''{0}''" "placeholder (Suc 0) = ''{1}''"
proof -
  have "(of_char (digit_char 1) :: nat) = of_char (CHR ''1'')" by (simp add: of_digit_char)
  then have "digit_char 1 = CHR ''1''" by (simp only: of_char_eq_iff)
  then have "show_nat (Suc 0) = ''1''" by (subst show_nat.simps) simp
  then show "placeholder 0 = ''{0}''" "placeholder (Suc 0) = ''{1}''" by (simp_all add: placeholder_def)
qed

lemma render_01:
  "names \<noteq> [] \<Longrightarrow> render names (CHR ''{'' # CHR ''0'' # CHR ''}'' # s) = names ! 0 @ render names s"
  "Suc 0 < length names \<Longrightarrow> render names (CHR ''{'' # CHR ''1'' # CHR ''}'' # s) = names ! Suc 0 @ render names s"
  using render_placeholder [of 0 names s] render_placeholder [of "Suc 0" names s] by (simp_all add: placeholder_01)

lemma digits_no_brace [simp]: "CHR ''{'' \<notin> set (show_int i)"
proof -
  have "CHR ''{'' \<notin> set (show_nat n)" for n
    using not_in_digits [OF show_nat_digits, of "CHR ''{''"] by (simp add: is_digit_def)
  then show ?thesis by (simp add: show_int_def)
qed

lemma fixed_notices:
  "notice (SendGroupMemberScanJoin c scan) c (gs_GroupNo scan)
     [\<lparr>ub_UID = gs_Scaner scan, ub_Name = gs_ScanerName scan\<rparr>,
      \<lparr>ub_UID = gs_Generator scan, ub_Name = gs_GeneratorName scan\<rparr>]
     ((utf8 [0x201C]) @ gs_ScanerName scan @ (utf8 [0x201D, 0x901A, 0x8FC7, 0x201C]) @ gs_GeneratorName scan @ (utf8 [0x201D, 0x7684, 0x4E8C, 0x7EF4, 0x7801, 0x52A0, 0x5165, 0x7FA4, 0x804A]))"
  "notice (SendGroupTransferGrouper c tr) c (gt_GroupNo tr)
     [\<lparr>ub_UID = gt_NewGrouper tr, ub_Name = gt_NewGrouperName tr\<rparr>] ((utf8 [0x201C]) @ gt_NewGrouperName tr @ (utf8 [0x201D, 0x5DF2, 0x6210, 0x4E3A, 0x65B0, 0x7FA4, 0x4E3B]))"
  "notice (SendGroupMemberInviteReq c invite) c (gi_GroupNo invite)
     [\<lparr>ub_UID = gi_Inviter invite, ub_Name = gi_InviterName invite\<rparr>]
     ((utf8 [0x201C]) @ gi_InviterName invite @ (utf8 [0x201C, 0x60F3, 0x9080, 0x8BF7]) @ show_int (sint (gi_Num invite)) @ (utf8 [0x4F4D, 0x670B, 0x53CB, 0x52A0, 0x5165, 0x7FA4, 0x804A]))"
  "notice (SendGroupExit c g uid name vis) c g [\<lparr>ub_UID = uid, ub_Name = name\<rparr>] ((utf8 [0x201C]) @ name @ (utf8 [0x201C, 0x9000, 0x51FA, 0x7FA4, 0x804A]))"
  by (rule noticeI [OF SendGroupMemberScanJoin_def] noticeI [OF SendGroupTransferGrouper_def]
      noticeI [OF SendGroupMemberInviteReq_def] noticeI [OF SendGroupExit_def],
      (simp add: user_def render_text render_01 render_plain)+)+

lemma update_notice:
  assumes "CHR ''{'' \<notin> set (update_text (gu_Attr r) (gu_Data r))"
  shows "notice (SendGroupUpdate c r) c (gu_GroupNo r) [\<lparr>ub_UID = gu_Operator r, ub_Name = gu_OperatorName r\<rparr>]
    (gu_OperatorName r @ update_text (gu_Attr r) (gu_Data r))"
  by (rule noticeI [OF SendGroupUpdate_def], (simp add: user_def render_01 render_plain assms)+)



definition sample_users :: "UserBaseVo list" where
  "sample_users = [\<lparr>ub_UID = ''u0'', ub_Name = ''Ann''\<rparr>, \<lparr>ub_UID = ''u1'', ub_Name = ''Bob''\<rparr>, \<lparr>ub_UID = ''u2'', ub_Name = ''Cid''\<rparr>]"

definition sample_create :: MsgGroupCreateReq where
  "sample_create = \<lparr>gc_Creator = ''u0'', gc_CreatorName = ''Ann'', gc_GroupNo = ''g'', gc_Version = 1,
     gc_Members = Some (map Some sample_users)\<rparr>"


end
