(* ===== verification/DecimalPow.thy ===== *)
theory DecimalPow
  imports DecimalText
begin

text \<open>
  \<^verbatim>\<open>Decimal.Pow\<close>: it halves its exponent with \<^verbatim>\<open>Div\<close> until its integer part is 0. Nothing in the code
  bounds that recursion, so it is a partial function, and that it ends is a theorem.
\<close>

text \<open>The literals 1 and 2 of the code are float64 constants.\<close>

definition float_one :: uint64 where "float_one = 0x3FF0000000000000"
definition float_two :: uint64 where "float_two = 0x4000000000000000"

partial_function (option) Pow :: "int \<Rightarrow> decimal \<Rightarrow> decimal \<Rightarrow> decimal dres option" where
  "Pow dp d d2 =
     (if IntPart d2 = 0 then Some (NewFromFloat float_one)
      else
        (case bind_res (NewFromFloat float_two) (Div dp d2) of
           Err e \<Rightarrow> Some (Err e)
         | Panic m \<Rightarrow> Some (Panic m)
         | Ok half \<Rightarrow>
             Option.bind (Pow dp d half) (\<lambda>r. Some (bind_res r (\<lambda>temp.
               if sint (IntPart d2) mod 2 = 0 then Mul temp temp
               else if 0 < sint (IntPart d2) then bind_res (Mul temp temp) (\<lambda>t. Mul t d)
               else bind_res (Mul temp temp) (\<lambda>t. Div dp t d))))))"

lemma shift_out_power: "shift_out (2 ^ k) e = (1, e + word_of_nat k)"
proof (induction k arbitrary: e)
  case 0
  show ?case by (subst shift_out.simps) simp
next
  case (Suc k)
  then show ?case by (subst shift_out.simps) (simp add: algebra_simps)
qed

lemma float_parts:
  "float_exp float_one = 1023" "float_mant float_one = 0" "\<not> float_sign float_one"
  "float_exp float_two = 1024" "float_mant float_two = 0" "\<not> float_sign float_two"
  by (simp_all add: float_exp_def float_mant_def float_sign_def float_one_def float_two_def)

lemma shift_out_52: "shift_out 4503599627370496 e = (1, e + 52)"
  using shift_out_power [of 52 e] by simp

lemma float_one_dec: "NewFromFloat float_one = Ok \<lparr>coef = Some 1, dexp = 0\<rparr>"
  by (simp add: NewFromFloat_def NewFromFloatWithExponent_def float_parts shift_out_52 min_int32_def)

lemma float_two_dec: "NewFromFloat float_two = Ok \<lparr>coef = Some 2, dexp = 0\<rparr>"
  by (simp add: NewFromFloat_def NewFromFloatWithExponent_def float_parts shift_out_52 min_int32_def)

lemma denote_two [simp]: "denote \<lparr>coef = Some 2, dexp = 0\<rparr> = 2"
  by (simp add: denote_def)

lemma small32_simps [simp]: "small32 0" "small32 16" "small32 (- 16)"
  by (simp_all add: small32_def)

lemma dexp_DivRound:
  assumes "small32 p" "small32 (dexp d)" "small32 (dexp d2)" and z: "DivRound d d2 p = Ok z"
  shows "dexp z = - p"
proof -
  obtain q r where qr: "QuoRem d d2 p = Ok (q, r)"
    using z by (auto simp: DivRound_def bind_res_Ok)
  have "dexp q = - p" by (rule QuoRem_spec(3) [OF assms(1-3) qr])
  then show ?thesis
    using z qr
    by (auto simp: DivRound_def Let_def bind_res_Ok Add_def Sub_def New_def min_dec_def split: if_splits)
qed

text \<open>One halving of the exponent, in units of the last of its 16 digits.\<close>

lemma halve:
  assumes "small32 (dexp d2)"
  shows "\<exists>h. bind_res (NewFromFloat float_two) (Div 16 d2) = Ok h \<and> small32 (dexp h)
    \<and> denote h * 10 ^ 16 = of_int (rnear (denote d2 * 10 ^ 16 / 2))"
proof -
  have w: "word_of_int 16 = (16 :: int32)" by simp
  obtain z where z: "DivRound d2 \<lparr>coef = Some 2, dexp = 0\<rparr> 16 = Ok z"
    "denote z = of_int (rnear (denote d2 / 2 * 10 powi sint (16 :: int32))) * 10 powi (- sint (16 :: int32))"
    using DivRound_spec [of 16 d2 "\<lparr>coef = Some 2, dexp = 0\<rparr>"] assms by auto
  have "dexp z = - 16" using dexp_DivRound [OF _ _ _ z(1)] assms by simp
  moreover have "(10::rat) powi (- 16) * 10 ^ 16 = 1"
    by (simp add: power_int_minus)
  ultimately show ?thesis
    using z by (simp add: float_two_dec Div_def w power_int_def mult.commute)
qed

lemma nat_floor_less: "y + 1 < x \<Longrightarrow> 1 \<le> x \<Longrightarrow> nat \<lfloor>y\<rfloor> < nat \<lfloor>x\<rfloor>" for x y :: rat
proof -
  assume "y + 1 < x" "1 \<le> x"
  then have "\<lfloor>y\<rfloor> < \<lfloor>x\<rfloor>" "0 < \<lfloor>x\<rfloor>" by linarith+
  then show ?thesis by simp
qed

lemma IntPart_zero: "\<bar>denote d2\<bar> < 1 \<Longrightarrow> IntPart d2 = 0"
proof -
  assume "\<bar>denote d2\<bar> < 1"
  then have "rtrunc (denote d2) = 0"
    by (auto simp: rtrunc_def floor_eq_iff ceiling_eq_iff)
  then show ?thesis by (simp add: IntPart_def dval_rescale)
qed

subsection \<open>The recursion ends\<close>

lemma Pow_returns:
  assumes "small32 (dexp d2)"
  shows "\<exists>r. Pow 16 d d2 = Some r"
  using assms
proof (induction "nat \<lfloor>\<bar>denote d2\<bar> * 10 ^ 16\<rfloor>" arbitrary: d2 rule: less_induct)
  case less
  show ?case
  proof (cases "IntPart d2 = 0")
    case True
    then show ?thesis by (subst Pow.simps) simp
  next
    case False
    define x where "x = \<bar>denote d2\<bar> * 10 ^ 16"
    have "1 \<le> \<bar>denote d2\<bar>" using False IntPart_zero [of d2] by linarith
    then have big: "10 ^ 16 \<le> x" by (simp add: x_def)
    obtain h where h: "bind_res (NewFromFloat float_two) (Div 16 d2) = Ok h" "small32 (dexp h)"
      "denote h * 10 ^ 16 = of_int (rnear (denote d2 * 10 ^ 16 / 2))"
      using halve [OF less.prems] by auto
    have "\<bar>denote h\<bar> * 10 ^ 16 = \<bar>of_int (rnear (denote d2 * 10 ^ 16 / 2)) :: rat\<bar>"
      unfolding h(3) [symmetric] by (simp add: abs_mult)
    also have "\<dots> \<le> \<bar>denote d2 * 10 ^ 16 / 2\<bar> + 1 / 2"
      using rnear_error [of "denote d2 * 10 ^ 16 / 2"] by linarith
    also have "\<bar>denote d2 * 10 ^ 16 / 2\<bar> = x / 2" by (simp add: x_def abs_mult)
    finally have "\<bar>denote h\<bar> * 10 ^ 16 \<le> x / 2 + 1 / 2" .
    then have "\<bar>denote h\<bar> * 10 ^ 16 + 1 < x" using big by simp
    then have "nat \<lfloor>\<bar>denote h\<bar> * 10 ^ 16\<rfloor> < nat \<lfloor>x\<rfloor>"
      using big by (intro nat_floor_less) auto
    then obtain r where "Pow 16 d h = Some r"
      using less.hyps [OF _ h(2)] by (auto simp: x_def)
    then show ?thesis
      using False h(1) by (subst Pow.simps) simp
  qed
qed

subsection \<open>What it computes\<close>

lemma Mul_small:
  assumes "\<bar>sint (dexp a) + sint (dexp b)\<bar> \<le> max_int32"
  shows "\<exists>p. Mul a b = Ok p \<and> denote p = denote a * denote b \<and> sint (dexp p) = sint (dexp a) + sint (dexp b)"
proof -
  have r: "min_int32 \<le> sint (dexp a) + sint (dexp b)" "sint (dexp a) + sint (dexp b) \<le> max_int32"
    using assms by (auto simp: min_int32_def max_int32_def)
  then obtain p where p: "Mul a b = Ok p" "dexp p = word_of_int (sint (dexp a) + sint (dexp b))"
    by (auto simp: Mul_cases)
  then show ?thesis using denote_Mul [OF p(1)] sint_of_int32 [OF r] by simp
qed

lemma IntPart_value:
  assumes "of_nat n \<le> denote d2" "denote d2 < of_nat n + 1" "n < 2 ^ 63"
  shows "sint (IntPart d2) = int n"
proof -
  have "rtrunc (denote d2) = int n"
    using assms by (auto simp: rtrunc_def floor_eq_iff)
  then show ?thesis
    using assms(3) by (simp add: IntPart_def dval_rescale sint_sbintrunc' signed_take_bit_int_eq_self
        del: of_int_of_nat_eq)
qed

lemma IntPart_zero_iff: "IntPart d2 = 0 \<longleftrightarrow> sint (IntPart d2) = 0"
  using signed_eq_0_iff [of "IntPart d2"] by auto

lemma rnear_ge: "of_int k \<le> y \<Longrightarrow> k \<le> rnear y"
proof -
  assume "of_int k \<le> y"
  then have "of_int k - 1 / 2 \<le> (of_int (rnear y) :: rat)" using rnear_bounds(1) [of y] by linarith
  then show ?thesis by linarith
qed

text \<open>
  \<open>j\<close> halvings are left: the exponent is at least \<open>2^(j+1) - 1\<close> units of its 16th digit below the next
  integer, so that rounding it never reaches that integer.
\<close>

definition below_next :: "nat \<Rightarrow> nat \<Rightarrow> decimal \<Rightarrow> bool" where
  "below_next j n d2 \<longleftrightarrow> small32 (dexp d2) \<and> of_nat n \<le> denote d2
     \<and> denote d2 * 10 ^ 16 \<le> (of_nat n + 1) * 10 ^ 16 - (2 ^ (j + 1) - 1)"

lemma below_next_less: "below_next j n d2 \<Longrightarrow> denote d2 < of_nat n + 1"
proof -
  assume b: "below_next j n d2"
  have "(2::rat) \<le> 2 ^ (j + 1)" by simp
  then have "denote d2 * 10 ^ 16 < (of_nat n + 1) * 10 ^ 16"
    using b unfolding below_next_def by linarith
  then show ?thesis by simp
qed

lemma below_next_small:
  assumes "below_next j n d2" "n < 2 ^ j"
  shows "n < 2 ^ 63"
proof -
  have "of_nat n * 10 ^ 16 \<le> denote d2 * 10 ^ 16"
    using assms(1) by (simp add: below_next_def)
  then have "(2::rat) ^ (j + 1) \<le> 10 ^ 16 + 1"
    using assms(1) by (simp add: below_next_def algebra_simps)
  also have "\<dots> < 2 ^ 54" by simp
  finally have "j + 1 < 54" by (rule power_less_imp_less_exp [rotated]) simp
  then have "(2::nat) ^ j \<le> 2 ^ 53" by (intro power_increasing) auto
  then show ?thesis using assms(2) by simp
qed

lemma below_next_half:
  assumes b: "below_next (Suc j) n d2"
    and h: "small32 (dexp h)" "denote h * 10 ^ 16 = of_int (rnear (denote d2 * 10 ^ 16 / 2))"
  shows "below_next j (n div 2) h"
proof -
  let ?y = "denote d2 * 10 ^ 16 / 2"
  have n: "(of_nat (n div 2) :: rat) \<le> of_nat n / 2" "(of_nat n + 1) / 2 \<le> (of_nat (n div 2) + 1 :: rat)"
  proof -
    have "2 * (n div 2) \<le> n" "n \<le> 2 * (n div 2) + 1" by simp_all
    then have "(of_nat (2 * (n div 2)) :: rat) \<le> of_nat n" "(of_nat n :: rat) \<le> of_nat (2 * (n div 2) + 1)"
      by (simp_all only: of_nat_le_iff)
    then show "(of_nat (n div 2) :: rat) \<le> of_nat n / 2" "(of_nat n + 1) / 2 \<le> (of_nat (n div 2) + 1 :: rat)"
      by simp_all
  qed
  have up: "denote d2 * 10 ^ 16 \<le> (of_nat n + 1) * 10 ^ 16 - (2 * 2 ^ (j + 1) - 1)"
    and lo: "of_nat n \<le> denote d2"
    using b by (simp_all add: below_next_def)
  have "of_int (int (n div 2) * 10 ^ 16) \<le> ?y"
    using n(1) lo by simp
  from rnear_ge [OF this] have "(of_int (int (n div 2) * 10 ^ 16) :: rat) \<le> of_int (rnear ?y)"
    by (simp only: of_int_le_iff)
  then have "of_nat (n div 2) * 10 ^ 16 \<le> denote h * 10 ^ 16"
    unfolding h(2) by simp
  moreover have "denote h * 10 ^ 16 \<le> (of_nat (n div 2) + 1) * 10 ^ 16 - (2 ^ (j + 1) - 1)"
    using rnear_bounds(2) [of ?y] up n(2) unfolding h(2) by (simp add: algebra_simps)
  ultimately show ?thesis using h(1) by (simp add: below_next_def)
qed

lemma Pow_of_power:
  assumes "below_next j n d2" "n < 2 ^ j" "int n * \<bar>sint (dexp d)\<bar> \<le> max_int32"
  shows "\<exists>p. Pow 16 d d2 = Some (Ok p) \<and> denote p = denote d ^ n \<and> sint (dexp p) = int n * sint (dexp d)"
  using assms
proof (induction j arbitrary: n d2)
  case 0
  then have "IntPart d2 = 0"
    using IntPart_value [of 0 d2] below_next_less [of 0 0 d2] by (simp add: below_next_def IntPart_zero_iff)
  with "0.prems" show ?case
    by (subst Pow.simps) (simp add: float_one_dec denote_def)
next
  case (Suc j)
  have ip: "sint (IntPart d2) = int n"
    using IntPart_value below_next_less [OF Suc.prems(1)] below_next_small [OF Suc.prems(1,2)] Suc.prems(1)
    by (simp add: below_next_def)
  show ?case
  proof (cases "n = 0")
    case True
    with ip have "IntPart d2 = 0" by (simp add: IntPart_zero_iff)
    with True show ?thesis by (subst Pow.simps) (simp add: float_one_dec denote_def)
  next
    case False
    define k where "k = n div 2"
    define e where "e = sint (dexp d)"
    obtain h where h: "bind_res (NewFromFloat float_two) (Div 16 d2) = Ok h" "small32 (dexp h)"
      "denote h * 10 ^ 16 = of_int (rnear (denote d2 * 10 ^ 16 / 2))"
      using halve [of d2] Suc.prems(1) by (auto simp: below_next_def)
    have nz: "IntPart d2 \<noteq> 0" using False ip by (simp add: IntPart_zero_iff)
    have n2: "n = 2 * k + (if odd n then 1 else 0)" by (auto simp: k_def)
    have kn: "int k * \<bar>e\<bar> + int k * \<bar>e\<bar> + (if odd n then \<bar>e\<bar> else 0) = int n * \<bar>e\<bar>"
      by (subst n2) (simp add: algebra_simps)
    have le: "int k * \<bar>e\<bar> + int k * \<bar>e\<bar> \<le> int n * \<bar>e\<bar>"
      unfolding kn [symmetric] by simp
    have max: "int n * \<bar>e\<bar> \<le> max_int32" using Suc.prems(3) by (simp add: e_def)
    have "k < 2 ^ j" using Suc.prems(2) by (simp add: k_def)
    moreover have "int k * \<bar>sint (dexp d)\<bar> \<le> max_int32"
      using max mult_right_mono [of "int k" "int n" "\<bar>e\<bar>"] by (simp add: k_def e_def)
    ultimately obtain t where t: "Pow 16 d h = Some (Ok t)" "denote t = denote d ^ k" "sint (dexp t) = int k * e"
      using Suc.IH [of k h] below_next_half [OF Suc.prems(1) h(2,3)] by (auto simp: k_def e_def)
    have abs2: "\<bar>int k * e + int k * e\<bar> = int k * \<bar>e\<bar> + int k * \<bar>e\<bar>"
      by (simp add: abs_mult flip: mult_2)
    have "\<bar>sint (dexp t) + sint (dexp t)\<bar> \<le> max_int32"
      unfolding t(3) abs2 using le max by linarith
    from Mul_small [OF this] obtain s where s: "Mul t t = Ok s" "denote s = denote d ^ k * denote d ^ k"
      "sint (dexp s) = int k * e + int k * e"
      using t by auto
    show ?thesis
    proof (cases "even n")
      case True
      then have n2: "n = k + k" by (auto simp: k_def)
      have "denote s = denote d ^ n" "sint (dexp s) = int n * e"
        using s unfolding n2 by (simp_all add: power_add mult_2 algebra_simps)
      with True nz ip h(1) t(1) s(1) show ?thesis
        by (subst Pow.simps) (simp add: e_def)
    next
      case odd: False
      then have o: "int n mod 2 \<noteq> 0" by presburger
      have "\<bar>sint (dexp s) + sint (dexp d)\<bar> \<le> max_int32"
        using abs_triangle_ineq [of "int k * e + int k * e" e] odd kn max
        unfolding s(3) abs2 by (simp add: e_def)
      from Mul_small [OF this] obtain p where p: "Mul s d = Ok p" "denote p = denote s * denote d"
        "sint (dexp p) = sint (dexp s) + sint (dexp d)"
        by auto
      have "denote p = denote d ^ n"
        using odd unfolding p(2) s(2) by (subst n2) (simp add: power_add mult_2)
      moreover have "sint (dexp p) = int n * e"
        using odd unfolding p(3) s(3) by (subst n2) (simp add: e_def algebra_simps)
      ultimately show ?thesis
        using o False nz ip h(1) t(1) s(1) p(1)
        by (subst Pow.simps) (simp add: e_def)
    qed
  qed
qed



end
