(* ===== verification/NetIp.thy ===== *)
theory NetIp
  imports Prelude
begin

text \<open>
  \<^verbatim>\<open>pkg/util/ip.go\<close>: the address of a client behind proxies, and the private IPv4 addresses of
  the machine. What the kernel reports of the network interfaces is a parameter: a list of
  interfaces, or an error. The calls of outside services are in \<open>UtilRest\<close>.
\<close>

subsection \<open>Package net\<close>

text \<open>A \<open>net.IP\<close> is its bytes: four, sixteen, or none for nil.\<close>

type_synonym ip = "nat list"

definition To4 :: "ip \<Rightarrow> ip" where
  "To4 p =
     (if length p = 4 then p
      else if length p = 16 \<and> take 12 p = replicate 10 0 @ [255, 255] then drop 12 p
      else [])"

definition IsLoopback :: "ip \<Rightarrow> bool" where
  "IsLoopback p = (if To4 p \<noteq> [] then hd (To4 p) = 127 else p = replicate 15 0 @ [1])"

definition dotted :: "ip \<Rightarrow> string" where
  "dotted p = join_str ''.'' (map show_nat p)"

datatype net_addr = IPNet ip | IPAddr ip | OtherAddr

record iface =
  if_up :: bool
  if_loopback :: bool
  if_name :: string
  if_addrs :: "string + net_addr list"

text \<open>\<open>net.SplitHostPort\<close>, as far as its host: None is an error.\<close>

definition index_of :: "char \<Rightarrow> string \<Rightarrow> nat option" where
  "index_of d s = (if d \<in> set s then Some (length (takeWhile (\<lambda>c. c \<noteq> d) s)) else None)"

definition last_index_of :: "char \<Rightarrow> string \<Rightarrow> nat option" where
  "last_index_of d s = map_option (\<lambda>i. length s - 1 - i) (index_of d (rev s))"

definition split_host :: "string \<Rightarrow> string option" where
  "split_host s =
     (case last_index_of (CHR '':'') s of
        None \<Rightarrow> None
      | Some i \<Rightarrow>
          if s ! 0 = CHR ''['' then
            (case index_of (CHR '']'') s of
               None \<Rightarrow> None
             | Some e \<Rightarrow>
                 if e + 1 = length s \<or> e + 1 \<noteq> i \<or> CHR ''['' \<in> set (drop 1 s) \<or> CHR '']'' \<in> set (drop (e + 1) s)
                 then None else Some (take (e - 1) (drop 1 s)))
          else if CHR '':'' \<in> set (take i s) \<or> CHR ''['' \<in> set s \<or> CHR '']'' \<in> set s then None
          else Some (take i s))"

subsection \<open>The code\<close>

definition IsIntranet :: "string \<Rightarrow> bool" where
  "IsIntranet ipStr =
     (if has_prefix ipStr ''10.'' \<or> has_prefix ipStr ''192.168.'' then True
      else if has_prefix ipStr ''172.'' then
        (let arr = split_str ipStr ''.'' in
         if length arr \<noteq> 4 then False
         else (case parse_int 64 (arr ! 1) of
                 (second, Some e) \<Rightarrow> False
               | (second, None) \<Rightarrow> 16 \<le> second \<and> second \<le> 31))
      else False)"

definition addr_ip :: "net_addr \<Rightarrow> ip" where
  "addr_ip a = (case a of IPNet p \<Rightarrow> p | IPAddr p \<Rightarrow> p | OtherAddr \<Rightarrow> [])"

fun scan_addrs :: "net_addr list \<Rightarrow> string list \<Rightarrow> string list" where
  "scan_addrs [] ips = ips"
| "scan_addrs (a # rest) ips =
     (if addr_ip a = [] \<or> IsLoopback (addr_ip a) then scan_addrs rest ips
      else if To4 (addr_ip a) = [] then scan_addrs rest ips
      else if IsIntranet (dotted (To4 (addr_ip a)))
      then scan_addrs rest (ips @ [dotted (To4 (addr_ip a))])
      else scan_addrs rest ips)"

text \<open>The addresses found before an error are returned with it.\<close>

fun scan_ifaces :: "iface list \<Rightarrow> string list \<Rightarrow> string list \<times> string option" where
  "scan_ifaces [] ips = (ips, None)"
| "scan_ifaces (i # rest) ips =
     (if \<not> if_up i \<or> if_loopback i \<or> has_prefix (if_name i) ''docker'' \<or> has_prefix (if_name i) ''w-''
      then scan_ifaces rest ips
      else (case if_addrs i of
              Inr addrs \<Rightarrow> scan_ifaces rest (scan_addrs addrs ips)
            | Inl e \<Rightarrow> (ips, Some e)))"

definition GetIntranetIP :: "string + iface list \<Rightarrow> string list \<times> string option" where
  "GetIntranetIP net = (case net of Inr ifaces \<Rightarrow> scan_ifaces ifaces [] | Inl e \<Rightarrow> ([], Some e))"

fun first_nonblank :: "string list \<Rightarrow> string option" where
  "first_nonblank [] = None"
| "first_nonblank (p # ps) = (if trim_space p \<noteq> [] then Some (trim_space p) else first_nonblank ps)"

definition GetClientPublicIP :: "(string \<Rightarrow> string) \<Rightarrow> string \<Rightarrow> string" where
  "GetClientPublicIP header remoteAddr =
     (case first_nonblank (split_str (header ''X-Forwarded-For'') '','') of
        Some p \<Rightarrow> p
      | None \<Rightarrow>
          if trim_space (header ''X-Real-Ip'') \<noteq> [] then trim_space (header ''X-Real-Ip'')
          else (case split_host (trim_space remoteAddr) of Some h \<Rightarrow> h | None \<Rightarrow> []))"

subsection \<open>The private addresses\<close>

lemma show_nat_inj [simp]: "show_nat m = show_nat n \<longleftrightarrow> m = n"
  by (metis digits_val_show_nat)

lemma dot_not_in_show [simp]: "CHR ''.'' \<notin> set (show_nat n)"
  using not_in_digits [OF show_nat_digits] by simp

lemma has_prefix_split:
  "d \<notin> set x \<Longrightarrow> d \<notin> set y \<Longrightarrow> has_prefix (x @ d # s) (y @ d # t) \<longleftrightarrow> x = y \<and> has_prefix s t"
proof (induction x arbitrary: y)
  case Nil
  then show ?case by (cases y) auto
next
  case (Cons c x)
  then show ?case by (cases y) auto
qed

lemma show_blocks: "show_nat 10 = ''10''" "show_nat 172 = ''172''" "show_nat 192 = ''192''" "show_nat 168 = ''168''"
  by code_simp+

definition private_ip :: "ip \<Rightarrow> bool" where
  "private_ip p \<longleftrightarrow> p ! 0 = 10 \<or> p ! 0 = 172 \<and> 16 \<le> p ! 1 \<and> p ! 1 \<le> 31 \<or> p ! 0 = 192 \<and> p ! 1 = 168"

definition wf_ip :: "ip \<Rightarrow> bool" where
  "wf_ip p = list_all (\<lambda>b. b < 256) p"

lemma parse_byte: "b < 256 \<Longrightarrow> parse_int 64 (show_nat b) = (int b, None)"
proof -
  assume b: "b < 256"
  obtain c cs where s: "show_nat b = c # cs" by (cases "show_nat b") auto
  have "is_digit c" using show_nat_digits [of b] s by simp
  then have "c \<noteq> CHR ''+''" "c \<noteq> CHR ''-''" by auto
  then show ?thesis
    using b s parse_uint_show [of b 64] by (simp add: parse_int_def)
qed

lemma IsIntranet_dotted:
  assumes "length p = 4" "wf_ip p"
  shows "IsIntranet (dotted p) \<longleftrightarrow> private_ip p"
proof -
  obtain a b c d where p: "p = [a, b, c, d]"
    using assms(1) by (auto simp: length_Suc_conv numeral_eq_Suc)
  have b: "b < 256" using assms(2) p by (simp add: wf_ip_def)
  have dp: "dotted p = show_nat a @ CHR ''.'' # show_nat b @ CHR ''.'' # show_nat c @ CHR ''.'' # show_nat d"
    by (simp add: dotted_def p)
  have pre: "has_prefix (dotted p) (show_nat n @ CHR ''.'' # t) \<longleftrightarrow>
      a = n \<and> has_prefix (show_nat b @ CHR ''.'' # show_nat c @ CHR ''.'' # show_nat d) t" for n t
    unfolding dp by (subst has_prefix_split) auto
  have ten: "has_prefix (dotted p) ''10.'' \<longleftrightarrow> a = 10"
    using pre [of 10 "[]"] by (simp add: show_blocks)
  have m172: "has_prefix (dotted p) ''172.'' \<longleftrightarrow> a = 172"
    using pre [of 172 "[]"] by (simp add: show_blocks)
  have m192: "has_prefix (dotted p) ''192.168.'' \<longleftrightarrow> a = 192 \<and> b = 168"
    using pre [of 192 "show_nat 168 @ CHR ''.'' # []"] show_nat_inj [of b 168]
    by (simp only: has_prefix_split dot_not_in_show not_False_eq_True has_prefix.simps)
      (simp add: show_blocks del: show_nat_inj)
  have split: "split_str (dotted p) ''.'' = [show_nat a, show_nat b, show_nat c, show_nat d]"
    unfolding dotted_def p using split_join [of "map show_nat [a, b, c, d]" "CHR ''.''" "[]"] by simp
  show ?thesis
    unfolding IsIntranet_def ten m172 m192 split private_ip_def
    using b by (auto simp: p parse_byte Let_def)
qed

lemma scan_addrs_app: "scan_addrs as ips = ips @ scan_addrs as []"
proof (induction as arbitrary: ips)
  case (Cons a as)
  show ?case
    unfolding scan_addrs.simps using Cons [of ips] Cons [of "ips @ [dotted (To4 (addr_ip a))]"]
      Cons [of "[dotted (To4 (addr_ip a))]"] by simp
qed simp

text \<open>What the function is for, without its loops.\<close>

definition private_addrs :: "net_addr list \<Rightarrow> string list" where
  "private_addrs addrs =
     map dotted (filter private_ip (filter (\<lambda>p. length p = 4) (map (To4 \<circ> addr_ip) addrs)))"

definition usable_iface :: "iface \<Rightarrow> bool" where
  "usable_iface i \<longleftrightarrow> if_up i \<and> \<not> if_loopback i \<and> \<not> has_prefix (if_name i) ''docker'' \<and> \<not> has_prefix (if_name i) ''w-''"

definition iface_private :: "iface \<Rightarrow> string list" where
  "iface_private i = private_addrs (projr (if_addrs i))"

lemma length_To4: "length (To4 p) = (if To4 p = [] then 0 else 4)"
  by (auto simp: To4_def)

lemma wf_To4: "wf_ip p \<Longrightarrow> wf_ip (To4 p)"
  by (auto simp: To4_def wf_ip_def list_all_iff dest: in_set_dropD)

lemma scan_addrs_private:
  "list_all (wf_ip \<circ> addr_ip) addrs \<Longrightarrow> scan_addrs addrs [] = private_addrs addrs"
proof (induction addrs)
  case (Cons a as)
  let ?q = "To4 (addr_ip a)"
  have IH: "scan_addrs as ips = ips @ private_addrs as" for ips
    using Cons by (subst scan_addrs_app) simp
  have nil: "addr_ip a = [] \<Longrightarrow> ?q = []" by (simp add: To4_def)
  show ?case
  proof (cases "?q = []")
    case True
    then show ?thesis by (simp add: IH private_addrs_def)
  next
    case False
    then have l: "length ?q = 4" by (simp add: length_To4)
    have w: "wf_ip ?q" using Cons.prems by (simp add: wf_To4)
    have "?q ! 0 = hd ?q" using False by (simp add: hd_conv_nth)
    then have lo: "IsLoopback (addr_ip a) \<Longrightarrow> \<not> private_ip ?q"
      using False by (auto simp: IsLoopback_def private_ip_def)
    show ?thesis
      using False nil lo l IsIntranet_dotted [OF l w] by (auto simp: IH private_addrs_def)
  qed
qed (simp add: private_addrs_def)
text \<open>\<^verbatim>\<open>GetIntranetIP\<close> returns exactly the private IPv4 addresses (RFC 1918: 10/8, 172.16/12,
  192.168/16) of the interfaces that are up, are not the loopback and are not called docker\<open>...\<close> or
  w-\<open>...\<close>, in the order the system lists them, written in dotted decimal. An address with an
  IPv4-mapped form is read as IPv4. The text test \<^verbatim>\<open>IsIntranet\<close> thus decides the same as the test on
  the bytes.\<close>

theorem intranet_addresses_private:
  assumes "\<And>i. i \<in> set ifaces \<Longrightarrow> \<exists>addrs. if_addrs i = Inr addrs \<and> list_all (wf_ip \<circ> addr_ip) addrs"
  shows "GetIntranetIP (Inr ifaces)
    = (concat (map iface_private (filter usable_iface ifaces)), None)"
proof -
  have "scan_ifaces ifaces ips
      = (ips @ concat (map iface_private (filter usable_iface ifaces)), None)" for ips
    using assms
  proof (induction ifaces arbitrary: ips)
    case (Cons i rest)
    obtain addrs where a: "if_addrs i = Inr addrs" "list_all (wf_ip \<circ> addr_ip) addrs"
      using Cons.prems [of i] by (auto simp: comp_def)
    have "scan_addrs addrs ips = ips @ private_addrs addrs"
      using scan_addrs_app scan_addrs_private [OF a(2)] by metis
    moreover have "\<And>ips. scan_ifaces rest ips
        = (ips @ concat (map iface_private (filter usable_iface rest)), None)"
      using Cons.IH Cons.prems by simp
    ultimately show ?case using a by (auto simp: usable_iface_def [of i] iface_private_def [of i])
  qed simp
  then show ?thesis by (simp add: GetIntranetIP_def)
qed

definition example_ifaces :: "iface list" where
  "example_ifaces =
     [\<lparr>if_up = True, if_loopback = True, if_name = ''lo'', if_addrs = Inr [IPNet [127, 0, 0, 1]]\<rparr>,
      \<lparr>if_up = True, if_loopback = False, if_name = ''eth0'',
        if_addrs = Inr [IPNet [8, 8, 8, 8], IPNet (replicate 10 0 @ [255, 255, 172, 20, 0, 9]), IPAddr [172, 32, 0, 1]]\<rparr>,
      \<lparr>if_up = True, if_loopback = False, if_name = ''docker0'', if_addrs = Inr [IPNet [172, 17, 0, 1]]\<rparr>]"

lemma intranet_addresses_private_witness: "fst (GetIntranetIP (Inr example_ifaces)) = [''172.20.0.9'']"
proof -
  have "GetIntranetIP (Inr example_ifaces)
      = (concat (map iface_private (filter usable_iface example_ifaces)), None)"
    by (rule intranet_addresses_private) (auto simp: example_ifaces_def wf_ip_def addr_ip_def numeral_eq_Suc)
  also have "concat (map iface_private (filter usable_iface example_ifaces)) = [''172.20.0.9'']"
    by code_simp
  finally show ?thesis by simp
qed

text \<open>A client behind proxies is the first nonblank entry of the forwarded list, whoever wrote it.\<close>

lemma GetClientPublicIP_forwarded:
  assumes "trim_space p \<noteq> []" "CHR '','' \<notin> set p"
  shows "GetClientPublicIP (\<lambda>k. if k = ''X-Forwarded-For'' then p @ CHR '','' # rest else h k) remote = trim_space p"
  using assms(1) split_acc_sep [OF assms(2), of "[]" "[]" rest]
  by (simp add: GetClientPublicIP_def split_str_def)

end
