(* ===== verification/Settings.thy ===== *)
theory Settings
  imports NetIp ImTypes
begin

text \<open>
  The configuration of the server, \<^verbatim>\<open>config/config.go\<close>: its nested structs as records (the field
  \<^verbatim>\<open>Group.Field\<close> is \<open>Group_Field\<close>, a field of \<^verbatim>\<open>Config\<close> itself \<open>cfg_Field\<close>), the defaults of \<^verbatim>\<open>New\<close>, and
  \<^verbatim>\<open>ConfigureWithViper\<close>, its assignments in the order of the code. \<^verbatim>\<open>viper\<close> is a parameter: what its
  getters return for a key. So are the environment variables and the network interfaces. The integers
  of the configuration (int, int64, durations in nanoseconds) are held as their values.
\<close>

definition DebugMode :: string where "DebugMode = ''debug''"
definition ReleaseMode :: string where "ReleaseMode = ''release''"
definition BenchMode :: string where "BenchMode = ''bench''"

definition FileServiceAliyunOSS :: string where "FileServiceAliyunOSS = ''aliyunOSS''"
definition FileServiceSeaweedFS :: string where "FileServiceSeaweedFS = ''seaweedFS''"
definition FileServiceMinio :: string where "FileServiceMinio = ''minio''"
definition FileServiceQiniu :: string where "FileServiceQiniu = ''qiniu''"

definition SMSProviderAliyun :: string where "SMSProviderAliyun = ''aliyun''"
definition SMSProviderUniSms :: string where "SMSProviderUniSms = ''unisms''"
definition SMSProviderJdSms :: string where "SMSProviderJdSms = ''jdsms''"
definition SMSProviderSmsbao :: string where "SMSProviderSmsbao = ''smsbao''"

text \<open>Package \<^verbatim>\<open>time\<close>: a duration counts nanoseconds.\<close>

definition time_Millisecond :: int where "time_Millisecond = 1000000"
definition time_Second :: int where "time_Second = 1000 * time_Millisecond"
definition time_Minute :: int where "time_Minute = 60 * time_Second"
definition time_Hour :: int where "time_Hour = 60 * time_Minute"

subsection \<open>The structs\<close>

record AliyunSMSConfig =
  AliyunSMS_AccessKeyID :: string
  AliyunSMS_AccessKeySecret :: string
  AliyunSMS_SignName :: string
  AliyunSMS_UserRegisterTemplateCode :: string
  AliyunSMS_UserForgetPwdTemplateCode :: string
  AliyunSMS_UserLoginTemplateCode :: string
  AliyunSMS_UserIdentityTemplateCode :: string

record OSSConfig =
  OSS_OssType :: string
  OSS_Endpoint :: string
  OSS_BucketName :: string
  OSS_BucketURL :: string
  OSS_AccessKeyID :: string
  OSS_AccessKeySecret :: string
  OSS_LimitSize :: int

record MinioConfig =
  Minio_URL :: string
  Minio_UploadURL :: string
  Minio_DownloadURL :: string
  Minio_AccessKeyID :: string
  Minio_SecretAccessKey :: string

record SeaweedConfig =
  Seaweed_URL :: string

record QiniuConfig =
  Qiniu_URL :: string
  Qiniu_BucketName :: string
  Qiniu_AccessKey :: string
  Qiniu_SecretKey :: string

record JdSMSConfig =
  JdSMS_SpCode :: string
  JdSMS_LoginName :: string
  JdSMS_Password :: string
  JdSMS_MessageContent :: string
  JdSMS_ApiUrl :: string

record UnismsConfig =
  UniSMS_Signature :: string
  UniSMS_AccessKeyID :: string
  UniSMS_AccessKeySecret :: string
  UniSMS_TemplateId :: string

record SmsbaoConfig =
  Smsbao_Account :: string
  Smsbao_APIKey :: string
  Smsbao_Template :: string

record AliyunInternationalSMSConfig =
  AliyunIntl_AccessKeyID :: string
  AliyunIntl_AccessSecret :: string
  AliyunIntl_SignName :: string

record APNSPush =
  APNS_Dev :: bool
  APNS_Topic :: string
  APNS_Password :: string
  APNS_Cert :: string

record HMSPush =
  HMS_PackageName :: string
  HMS_AppID :: string
  HMS_AppSecret :: string

record MIPush =
  MI_PackageName :: string
  MI_AppID :: string
  MI_AppSecret :: string
  MI_ChannelID :: string

record OPPOPush =
  OPPO_PackageName :: string
  OPPO_AppID :: string
  OPPO_AppKey :: string
  OPPO_AppSecret :: string
  OPPO_MasterSecret :: string

record VIVOPush =
  VIVO_PackageName :: string
  VIVO_AppID :: string
  VIVO_AppKey :: string
  VIVO_AppSecret :: string

record FIREBASEPush =
  FIREBASE_PackageName :: string
  FIREBASE_JsonPath :: string
  FIREBASE_ProjectId :: string

record TablePartitionConfig =
  Table_MessageTableCount :: int
  Table_MessageUserEditTableCount :: int
  Table_ChannelOffsetTableCount :: int

record Config_Sass =
  Sass_Switch :: bool
  Sass_CompanyCode :: string

record Config_External =
  External_IP :: string
  External_BaseURL :: string
  External_H5BaseURL :: string
  External_APIBaseURL :: string
  External_WebLoginURL :: string

record Config_Logger =
  Logger_Dir :: string
  Logger_Level :: int
  Logger_LineNum :: bool

record Config_DB =
  DB_MySQLAddr :: string
  DB_MySQLMaxOpenConns :: int
  DB_MySQLMaxIdleConns :: int
  DB_MySQLConnMaxLifetime :: int
  DB_Migration :: bool
  DB_RedisAddr :: string
  DB_RedisPass :: string
  DB_AsynctaskRedisAddr :: string

record Config_Cluster =
  Cluster_NodeID :: int

record Config_Cache =
  Cache_TokenCachePrefix :: string
  Cache_LoginDeviceCachePrefix :: string
  Cache_LoginDeviceCacheExpire :: int
  Cache_UIDTokenCachePrefix :: string
  Cache_FriendApplyTokenCachePrefix :: string
  Cache_FriendApplyExpire :: int
  Cache_TokenExpire :: int
  Cache_NameCacheExpire :: int

record Config_Ip2region =
  Ip2region_DbPath :: string

record Config_Account =
  Account_SystemUID :: string
  Account_FileHelperUID :: string
  Account_SystemGroupID :: string
  Account_SystemGroupName :: string
  Account_AdminUID :: string

record Config_WuKongIM =
  WuKongIM_APIURL :: string
  WuKongIM_ManagerToken :: string

record Config_Avatar =
  Avatar_Default :: string
  Avatar_DefaultCount :: int
  Avatar_Partition :: int
  Avatar_DefaultBaseURL :: string

record Config_ShortNo =
  ShortNo_NumOn :: bool
  ShortNo_NumLen :: int
  ShortNo_EditOff :: bool

record Config_Robot =
  Robot_MessageExpire :: int
  Robot_InlineQueryTimeout :: int
  Robot_EventPoolSize :: int

record Config_Gitee =
  Gitee_OAuthURL :: string
  Gitee_ClientID :: string
  Gitee_ClientSecret :: string

record Config_Github =
  Github_OAuthURL :: string
  Github_ClientID :: string
  Github_ClientSecret :: string

record Config_OWT =
  OWT_URL :: string
  OWT_ServiceID :: string
  OWT_ServiceKey :: string
  OWT_RoomMaxCount :: int

record Config_Livekit =
  Livekit_Off :: bool
  Livekit_URL :: string
  Livekit_Key :: string
  Livekit_Secret :: string
  Livekit_InviteTimeoutSeconds :: int
  Livekit_RoomMaxCount :: int

record Config_Register =
  Register_Off :: bool
  Register_OnlyChina :: bool
  Register_StickerAddOff :: bool
  Register_UsernameOn :: bool

record Config_Organization =
  Organization_ImportOn :: bool

record Config_Friend =
  Friend_AddedTipsText :: string

record Config_ZincSearch =
  ZincSearch_SearchOn :: bool
  ZincSearch_APIURL :: string
  ZincSearch_ZincUsername :: string
  ZincSearch_ZincPassword :: string
  ZincSearch_SyncIntervalSecond :: int
  ZincSearch_SyncCount :: int

record Config_Group =
  Group_SameDayCreateMaxCount :: int
  Group_CreateGroupVerifyFriendOn :: bool

record Config_Message =
  Message_SendMessageOn :: bool
  Message_SyncReadedCountIntervalSecond :: int

record Config_Wechat =
  Wechat_AppID :: string
  Wechat_AppSecret :: string

record Config_Tracing =
  Tracing_On :: bool
  Tracing_Addr :: string

record Config_Support =
  Support_Email :: string
  Support_EmailSmtp :: string
  Support_EmailPwd :: string

record Config_Push =
  Push_ContentDetailOn :: bool
  Push_PushPoolSize :: int
  Push_APNS :: APNSPush
  Push_MI :: MIPush
  Push_HMS :: HMSPush
  Push_VIVO :: VIVOPush
  Push_OPPO :: OPPOPush
  Push_FIREBASE :: FIREBASEPush

record Config =
  cfg_Mode :: string
  cfg_AppID :: string
  cfg_AppName :: string
  cfg_Version :: string
  cfg_RootDir :: string
  cfg_Addr :: string
  cfg_GRPCAddr :: string
  cfg_SSLAddr :: string
  cfg_MessageSaveAcrossDevice :: bool
  cfg_WelcomeMessage :: string
  cfg_PhoneSearchOff :: bool
  cfg_OnlineStatusOn :: bool
  cfg_GroupUpgradeWhenMemberCount :: int
  cfg_EventPoolSize :: int
  cfg_AdminPwd :: string
  cfg_Sass :: Config_Sass
  cfg_External :: Config_External
  cfg_Logger :: Config_Logger
  cfg_DB :: Config_DB
  cfg_Cluster :: Config_Cluster
  cfg_Cache :: Config_Cache
  cfg_Ip2region :: Config_Ip2region
  cfg_Account :: Config_Account
  cfg_FileService :: string
  cfg_OSS :: OSSConfig
  cfg_Minio :: MinioConfig
  cfg_Seaweed :: SeaweedConfig
  cfg_Qiniu :: QiniuConfig
  cfg_SMSCode :: string
  cfg_SMSProvider :: string
  cfg_UniSMS :: UnismsConfig
  cfg_AliyunSMS :: AliyunSMSConfig
  cfg_AliyunInternationalSMS :: AliyunInternationalSMSConfig
  cfg_JdSMS :: JdSMSConfig
  cfg_Smsbao :: SmsbaoConfig
  cfg_WuKongIM :: Config_WuKongIM
  cfg_Avatar :: Config_Avatar
  cfg_ShortNo :: Config_ShortNo
  cfg_Robot :: Config_Robot
  cfg_Gitee :: Config_Gitee
  cfg_Github :: Config_Github
  cfg_OWT :: Config_OWT
  cfg_Livekit :: Config_Livekit
  cfg_Register :: Config_Register
  cfg_Organization :: Config_Organization
  cfg_Friend :: Config_Friend
  cfg_ZincSearch :: Config_ZincSearch
  cfg_Group :: Config_Group
  cfg_Push :: Config_Push
  cfg_Message :: Config_Message
  cfg_Wechat :: Config_Wechat
  cfg_Tracing :: Config_Tracing
  cfg_Support :: Config_Support
  cfg_Test :: bool
  cfg_QRCodeInfoURL :: string
  cfg_VisitorUIDPrefix :: string
  cfg_TimingWheelTick :: int
  cfg_TimingWheelSize :: int
  cfg_ElasticsearchURL :: string
  cfg_TablePartitionConfig :: TablePartitionConfig
  cfg_AppRSAPrivateKey :: string
  cfg_AppRSAPubKey :: string

definition zero_AliyunSMSConfig :: AliyunSMSConfig where
  "zero_AliyunSMSConfig = \<lparr>AliyunSMS_AccessKeyID = [], AliyunSMS_AccessKeySecret = [], AliyunSMS_SignName = [], AliyunSMS_UserRegisterTemplateCode = [], AliyunSMS_UserForgetPwdTemplateCode = [], AliyunSMS_UserLoginTemplateCode = [], AliyunSMS_UserIdentityTemplateCode = []\<rparr>"

definition zero_OSSConfig :: OSSConfig where
  "zero_OSSConfig = \<lparr>OSS_OssType = [], OSS_Endpoint = [], OSS_BucketName = [], OSS_BucketURL = [], OSS_AccessKeyID = [], OSS_AccessKeySecret = [], OSS_LimitSize = 0\<rparr>"

definition zero_MinioConfig :: MinioConfig where
  "zero_MinioConfig = \<lparr>Minio_URL = [], Minio_UploadURL = [], Minio_DownloadURL = [], Minio_AccessKeyID = [], Minio_SecretAccessKey = []\<rparr>"

definition zero_SeaweedConfig :: SeaweedConfig where
  "zero_SeaweedConfig = \<lparr>Seaweed_URL = []\<rparr>"

definition zero_QiniuConfig :: QiniuConfig where
  "zero_QiniuConfig = \<lparr>Qiniu_URL = [], Qiniu_BucketName = [], Qiniu_AccessKey = [], Qiniu_SecretKey = []\<rparr>"

definition zero_JdSMSConfig :: JdSMSConfig where
  "zero_JdSMSConfig = \<lparr>JdSMS_SpCode = [], JdSMS_LoginName = [], JdSMS_Password = [], JdSMS_MessageContent = [], JdSMS_ApiUrl = []\<rparr>"

definition zero_UnismsConfig :: UnismsConfig where
  "zero_UnismsConfig = \<lparr>UniSMS_Signature = [], UniSMS_AccessKeyID = [], UniSMS_AccessKeySecret = [], UniSMS_TemplateId = []\<rparr>"

definition zero_SmsbaoConfig :: SmsbaoConfig where
  "zero_SmsbaoConfig = \<lparr>Smsbao_Account = [], Smsbao_APIKey = [], Smsbao_Template = []\<rparr>"

definition zero_AliyunInternationalSMSConfig :: AliyunInternationalSMSConfig where
  "zero_AliyunInternationalSMSConfig = \<lparr>AliyunIntl_AccessKeyID = [], AliyunIntl_AccessSecret = [], AliyunIntl_SignName = []\<rparr>"

definition zero_HMSPush :: HMSPush where
  "zero_HMSPush = \<lparr>HMS_PackageName = [], HMS_AppID = [], HMS_AppSecret = []\<rparr>"

definition zero_MIPush :: MIPush where
  "zero_MIPush = \<lparr>MI_PackageName = [], MI_AppID = [], MI_AppSecret = [], MI_ChannelID = []\<rparr>"

definition zero_OPPOPush :: OPPOPush where
  "zero_OPPOPush = \<lparr>OPPO_PackageName = [], OPPO_AppID = [], OPPO_AppKey = [], OPPO_AppSecret = [], OPPO_MasterSecret = []\<rparr>"

definition zero_VIVOPush :: VIVOPush where
  "zero_VIVOPush = \<lparr>VIVO_PackageName = [], VIVO_AppID = [], VIVO_AppKey = [], VIVO_AppSecret = []\<rparr>"

definition zero_FIREBASEPush :: FIREBASEPush where
  "zero_FIREBASEPush = \<lparr>FIREBASE_PackageName = [], FIREBASE_JsonPath = [], FIREBASE_ProjectId = []\<rparr>"

definition zero_Config_Sass :: Config_Sass where
  "zero_Config_Sass = \<lparr>Sass_Switch = False, Sass_CompanyCode = []\<rparr>"

definition zero_Config_Logger :: Config_Logger where
  "zero_Config_Logger = \<lparr>Logger_Dir = [], Logger_Level = 0, Logger_LineNum = False\<rparr>"

definition zero_Config_Register :: Config_Register where
  "zero_Config_Register = \<lparr>Register_Off = False, Register_OnlyChina = False, Register_StickerAddOff = False, Register_UsernameOn = False\<rparr>"

definition zero_Config_Organization :: Config_Organization where
  "zero_Config_Organization = \<lparr>Organization_ImportOn = False\<rparr>"

definition zero_Config_ZincSearch :: Config_ZincSearch where
  "zero_Config_ZincSearch = \<lparr>ZincSearch_SearchOn = False, ZincSearch_APIURL = [], ZincSearch_ZincUsername = [], ZincSearch_ZincPassword = [], ZincSearch_SyncIntervalSecond = 0, ZincSearch_SyncCount = 0\<rparr>"

definition zero_Config_Message :: Config_Message where
  "zero_Config_Message = \<lparr>Message_SendMessageOn = False, Message_SyncReadedCountIntervalSecond = 0\<rparr>"

definition zero_Config_Wechat :: Config_Wechat where
  "zero_Config_Wechat = \<lparr>Wechat_AppID = [], Wechat_AppSecret = []\<rparr>"

definition zero_Config_Tracing :: Config_Tracing where
  "zero_Config_Tracing = \<lparr>Tracing_On = False, Tracing_Addr = []\<rparr>"

definition GetEnvBool :: "(string \<Rightarrow> string) \<Rightarrow> string \<Rightarrow> bool \<Rightarrow> bool" where
  "GetEnvBool env key dflt = (if trim_space (env key) = [] then dflt else env key = ''true'')"

definition newTablePartitionConfig :: TablePartitionConfig where
  "newTablePartitionConfig = \<lparr>Table_MessageTableCount = 10, Table_MessageUserEditTableCount = 3, Table_ChannelOffsetTableCount = 3\<rparr>"

text \<open>The later sections of the defaults, and the whole.\<close>

definition default_Github :: Config_Github where
  "default_Github = \<lparr>Github_OAuthURL = ''https://github.com/login/oauth/authorize'', Github_ClientID = [], Github_ClientSecret = []\<rparr>"

definition default_OWT :: Config_OWT where
  "default_OWT = \<lparr>OWT_URL = [], OWT_ServiceID = [], OWT_ServiceKey = [], OWT_RoomMaxCount = 9\<rparr>"

definition default_Livekit :: Config_Livekit where
  "default_Livekit = \<lparr>Livekit_Off = False, Livekit_URL = [], Livekit_Key = [], Livekit_Secret = [], Livekit_InviteTimeoutSeconds = 60, Livekit_RoomMaxCount = 9\<rparr>"

definition default_Friend :: Config_Friend where
  "default_Friend = \<lparr>Friend_AddedTipsText = (utf8 [0x6211, 0x4EEC, 0x5DF2, 0x7ECF, 0x662F, 0x597D, 0x53CB, 0x4E86, 0xFF0C, 0x53EF, 0x4EE5, 0x6109, 0x5FEB, 0x7684, 0x804A, 0x5929, 0x4E86, 0xFF01])\<rparr>"

definition default_Group :: Config_Group where
  "default_Group = \<lparr>Group_SameDayCreateMaxCount = 10, Group_CreateGroupVerifyFriendOn = True\<rparr>"

definition default_Push :: Config_Push where
  "default_Push = \<lparr>Push_ContentDetailOn = True, Push_PushPoolSize = 100, Push_APNS = \<lparr>APNS_Dev = True, APNS_Topic = ''com.jianyu.im'', APNS_Password = ''123456'', APNS_Cert = []\<rparr>, Push_MI = zero_MIPush, Push_HMS = zero_HMSPush, Push_VIVO = zero_VIVOPush, Push_OPPO = zero_OPPOPush, Push_FIREBASE = zero_FIREBASEPush\<rparr>"

definition default_Support :: Config_Support where
  "default_Support = \<lparr>Support_Email = [], Support_EmailSmtp = ''smtp.exmail.qq.com:25'', Support_EmailPwd = []\<rparr>"

definition New_config :: "(string \<Rightarrow> string) \<Rightarrow> Config" where
  "New_config env = \<lparr>
     cfg_Mode = ReleaseMode,
     cfg_AppID = ''jianyuim'',
     cfg_AppName = (utf8 [0x7B80, 0x8BED]),
     cfg_Version = [],
     cfg_RootDir = ''jydata'',
     cfg_Addr = '':8000'',
     cfg_GRPCAddr = '':9009'',
     cfg_SSLAddr = [],
     cfg_MessageSaveAcrossDevice = True,
     cfg_WelcomeMessage = (utf8 [0x6B22, 0x8FCE, 0x4F7F, 0x7528] @ ''{{appName}}''),
     cfg_PhoneSearchOff = False,
     cfg_OnlineStatusOn = True,
     cfg_GroupUpgradeWhenMemberCount = 1000,
     cfg_EventPoolSize = 100,
     cfg_AdminPwd = [],
     cfg_Sass = zero_Config_Sass,
     cfg_External = \<lparr>External_IP = [], External_BaseURL = [], External_H5BaseURL = [], External_APIBaseURL = [], External_WebLoginURL = []\<rparr>,
     cfg_Logger = zero_Config_Logger,
     cfg_DB = \<lparr>DB_MySQLAddr = ''root:demo@tcp(127.0.0.1:3306)/test?charset=utf8mb4&parseTime=true'', DB_MySQLMaxOpenConns = 100, DB_MySQLMaxIdleConns = 10, DB_MySQLConnMaxLifetime = time_Second * 60 * 60 * 4, DB_Migration = True, DB_RedisAddr = ''127.0.0.1:6379'', DB_RedisPass = [], DB_AsynctaskRedisAddr = []\<rparr>,
     cfg_Cluster = \<lparr>Cluster_NodeID = 1\<rparr>,
     cfg_Cache = \<lparr>Cache_TokenCachePrefix = ''token:'', Cache_LoginDeviceCachePrefix = ''login_device:'', Cache_LoginDeviceCacheExpire = time_Minute * 5, Cache_UIDTokenCachePrefix = ''uidtoken:'', Cache_FriendApplyTokenCachePrefix = ''friend_token:'', Cache_FriendApplyExpire = time_Hour * 24 * 15, Cache_TokenExpire = time_Hour * 24 * 30, Cache_NameCacheExpire = time_Hour * 24 * 7\<rparr>,
     cfg_Ip2region = \<lparr>Ip2region_DbPath = ''configs/xdb/ip2region.xdb''\<rparr>,
     cfg_Account = \<lparr>Account_SystemUID = ''u_10000'', Account_FileHelperUID = ''fileHelper'', Account_SystemGroupID = ''g_10000'', Account_SystemGroupName = (utf8 [0x610F, 0x89C1, 0x53CD, 0x9988, 0x7FA4]), Account_AdminUID = ''admin''\<rparr>,
     cfg_FileService = FileServiceMinio,
     cfg_OSS = zero_OSSConfig,
     cfg_Minio = zero_MinioConfig,
     cfg_Seaweed = zero_SeaweedConfig,
     cfg_Qiniu = zero_QiniuConfig,
     cfg_SMSCode = [],
     cfg_SMSProvider = SMSProviderAliyun,
     cfg_UniSMS = zero_UnismsConfig,
     cfg_AliyunSMS = zero_AliyunSMSConfig,
     cfg_AliyunInternationalSMS = zero_AliyunInternationalSMSConfig,
     cfg_JdSMS = zero_JdSMSConfig,
     cfg_Smsbao = zero_SmsbaoConfig,
     cfg_WuKongIM = \<lparr>WuKongIM_APIURL = ''http://127.0.0.1:5001'', WuKongIM_ManagerToken = []\<rparr>,
     cfg_Avatar = \<lparr>Avatar_Default = [], Avatar_DefaultCount = 900, Avatar_Partition = 100, Avatar_DefaultBaseURL = []\<rparr>,
     cfg_ShortNo = \<lparr>ShortNo_NumOn = False, ShortNo_NumLen = 7, ShortNo_EditOff = False\<rparr>,
     cfg_Robot = \<lparr>Robot_MessageExpire = time_Hour * 24 * 7, Robot_InlineQueryTimeout = time_Second * 10, Robot_EventPoolSize = 100\<rparr>,
     cfg_Gitee = \<lparr>Gitee_OAuthURL = ''https://gitee.com/oauth/authorize'', Gitee_ClientID = [], Gitee_ClientSecret = []\<rparr>,
     cfg_Github = default_Github,
     cfg_OWT = default_OWT,
     cfg_Livekit = default_Livekit,
     cfg_Register = zero_Config_Register,
     cfg_Organization = zero_Config_Organization,
     cfg_Friend = default_Friend,
     cfg_ZincSearch = zero_Config_ZincSearch,
     cfg_Group = default_Group,
     cfg_Push = default_Push,
     cfg_Message = zero_Config_Message,
     cfg_Wechat = zero_Config_Wechat,
     cfg_Tracing = zero_Config_Tracing,
     cfg_Support = default_Support,
     cfg_Test = GetEnvBool env ''Test'' False,
     cfg_QRCodeInfoURL = ''v1/qrcode/:code'',
     cfg_VisitorUIDPrefix = ''_vt_'',
     cfg_TimingWheelTick = time_Millisecond * 10,
     cfg_TimingWheelSize = 100,
     cfg_ElasticsearchURL = ''http://elasticsearch:9200'',
     cfg_TablePartitionConfig = newTablePartitionConfig,
     cfg_AppRSAPrivateKey = [],
     cfg_AppRSAPubKey = []\<rparr>"

subsection \<open>Reading the settings\<close>

text \<open>
  The getters of \<^verbatim>\<open>viper\<close> give the zero value for a key that is not set; \<open>Get\<close> gives None for nil, and
  \<open>ToBool\<close> is the conversion of package \<^verbatim>\<open>cast\<close>.
\<close>

record 'o viper =
  vp_GetString :: "string \<Rightarrow> string"
  vp_GetInt :: "string \<Rightarrow> int"
  vp_GetInt64 :: "string \<Rightarrow> int"
  vp_GetDuration :: "string \<Rightarrow> int"
  vp_GetBool :: "string \<Rightarrow> bool"
  vp_Get :: "string \<Rightarrow> 'o option"
  ToBool :: "'o \<Rightarrow> bool"

definition getString :: "'o viper \<Rightarrow> string \<Rightarrow> string \<Rightarrow> string" where
  "getString vp key dflt = (let v = vp_GetString vp key in if v = [] then dflt else v)"

definition getBool :: "'o viper \<Rightarrow> string \<Rightarrow> bool \<Rightarrow> bool" where
  "getBool vp key dflt = (case vp_Get vp key of None \<Rightarrow> dflt | Some obj \<Rightarrow> ToBool vp obj)"

definition getInt :: "'o viper \<Rightarrow> string \<Rightarrow> int \<Rightarrow> int" where
  "getInt vp key dflt = (let v = vp_GetInt vp key in if v = 0 then dflt else v)"

definition getInt64 :: "'o viper \<Rightarrow> string \<Rightarrow> int \<Rightarrow> int" where
  "getInt64 vp key dflt = (let v = vp_GetInt64 vp key in if v = 0 then dflt else v)"

definition getDuration :: "'o viper \<Rightarrow> string \<Rightarrow> int \<Rightarrow> int" where
  "getDuration vp key dflt = (let v = vp_GetDuration vp key in if v = 0 then dflt else v)"

text \<open>\<open>strings.ReplaceAll\<close> for a nonempty old text, and \<open>filepath.Join\<close> with its cleaning.\<close>

definition replace_all :: "string \<Rightarrow> string \<Rightarrow> string \<Rightarrow> string" where
  "replace_all s old new = join_str new (split_str s old)"

fun clean_parts :: "bool \<Rightarrow> string list \<Rightarrow> string list \<Rightarrow> string list" where
  "clean_parts rooted out [] = rev out"
| "clean_parts rooted out (p # ps) =
     (if p = [] \<or> p = ''.'' then clean_parts rooted out ps
      else if p = ''..'' then
        (if out \<noteq> [] \<and> hd out \<noteq> ''..'' then clean_parts rooted (tl out) ps
         else if rooted then clean_parts rooted out ps
         else clean_parts rooted (p # out) ps)
      else clean_parts rooted (p # out) ps)"

definition path_clean :: "string \<Rightarrow> string" where
  "path_clean p =
     (let rooted = has_prefix p ''/'';
          out = (if rooted then ''/'' else []) @ join_str ''/'' (clean_parts rooted [] (split_str p ''/''))
      in if out = [] then ''.'' else out)"

definition filepath_Join :: "string list \<Rightarrow> string" where
  "filepath_Join elems =
     (let es = dropWhile (\<lambda>e. e = []) elems in if es = [] then [] else path_clean (join_str ''/'' es))"

text \<open>The assignments of a section, in their order.\<close>

definition in_order :: "('a \<Rightarrow> 'a) list \<Rightarrow> 'a \<Rightarrow> 'a" where
  "in_order steps c = foldl (\<lambda>c f. f c) c steps"

definition DebugLevel :: int where "DebugLevel = - 1"
definition InfoLevel :: int where "InfoLevel = 0"

text \<open>The level is a Go int until it is converted to the 8-bit level of the logger.\<close>

definition configureLog :: "'o viper \<Rightarrow> Config \<Rightarrow> Config" where
  "configureLog vp c =
     (let l = vp_GetInt vp ''logger.level'';
          logLevel = (if l = 0 then (if cfg_Mode c = DebugMode then DebugLevel else InfoLevel)
                      else signed_take_bit 63 (l - 2));
          dir = (if trim_space (vp_GetString vp ''logger.dir'') = [] then ''logs'' else vp_GetString vp ''logger.dir'');
          dir = (if has_prefix (trim_space dir) ''/'' then dir else filepath_Join [cfg_RootDir c, dir])
      in c\<lparr>cfg_Logger := \<lparr>Logger_Dir = dir, Logger_Level = signed_take_bit 7 logLevel,
             Logger_LineNum = vp_GetBool vp ''logger.lineNum''\<rparr>\<rparr>)"

definition configure_basic :: "'o viper \<Rightarrow> Config \<Rightarrow> Config" where
  "configure_basic v = in_order
     [(\<lambda>c. c\<lparr>cfg_Mode := getString v ''application.environment'' (DebugMode)\<rparr>),
      (\<lambda>c. c\<lparr>cfg_AppID := getString v ''appID'' (cfg_AppID c)\<rparr>),
      (\<lambda>c. c\<lparr>cfg_AppName := getString v ''application.appName'' (cfg_AppName c)\<rparr>),
      (\<lambda>c. c\<lparr>cfg_RootDir := getString v ''rootDir'' (cfg_RootDir c)\<rparr>),
      (\<lambda>c. c\<lparr>cfg_Version := getString v ''version'' (cfg_Version c)\<rparr>),
      (\<lambda>c. c\<lparr>cfg_Addr := getString v ''server.http.port'' (cfg_Addr c)\<rparr>),
      (\<lambda>c. c\<lparr>cfg_GRPCAddr := getString v ''server.grpc.port'' (''0.0.0.0'' @ cfg_GRPCAddr c)\<rparr>),
      (\<lambda>c. c\<lparr>cfg_SSLAddr := getString v ''sslAddr'' (cfg_SSLAddr c)\<rparr>),
      (\<lambda>c. c\<lparr>cfg_MessageSaveAcrossDevice := getBool v ''messageSaveAcrossDevice'' (cfg_MessageSaveAcrossDevice c)\<rparr>),
      (\<lambda>c. c\<lparr>cfg_WelcomeMessage := getString v ''welcomeMessage'' (cfg_WelcomeMessage c)\<rparr>),
      (\<lambda>c. if trim_space (cfg_WelcomeMessage c) \<noteq> [] then c\<lparr>cfg_WelcomeMessage := replace_all (cfg_WelcomeMessage c) ''{{appName}}'' (cfg_AppName c)\<rparr> else c),
      (\<lambda>c. c\<lparr>cfg_PhoneSearchOff := getBool v ''application.phoneSearchOff'' (cfg_PhoneSearchOff c)\<rparr>),
      (\<lambda>c. c\<lparr>cfg_OnlineStatusOn := getBool v ''onlineStatusOn'' (cfg_OnlineStatusOn c)\<rparr>),
      (\<lambda>c. c\<lparr>cfg_GroupUpgradeWhenMemberCount := getInt v ''groupUpgradeWhenMemberCount'' (cfg_GroupUpgradeWhenMemberCount c)\<rparr>),
      (\<lambda>c. c\<lparr>cfg_EventPoolSize := getInt64 v ''eventPoolSize'' (cfg_EventPoolSize c)\<rparr>),
      (\<lambda>c. c\<lparr>cfg_AdminPwd := getString v ''adminPwd'' (cfg_AdminPwd c)\<rparr>)]"

definition configure_sass :: "'o viper \<Rightarrow> Config \<Rightarrow> Config" where
  "configure_sass v = in_order
     [(\<lambda>c. c\<lparr>cfg_Sass := (cfg_Sass c)\<lparr>Sass_Switch := getBool v ''sass.switch'' (Sass_Switch (cfg_Sass c))\<rparr>\<rparr>),
      (\<lambda>c. c\<lparr>cfg_Sass := (cfg_Sass c)\<lparr>Sass_CompanyCode := getString v ''sass.companyCode'' (Sass_CompanyCode (cfg_Sass c))\<rparr>\<rparr>)]"

definition configure_external :: "string \<Rightarrow> 'o viper \<Rightarrow> Config \<Rightarrow> Config" where
  "configure_external intranetIP v = in_order
     [(\<lambda>c. c\<lparr>cfg_External := (cfg_External c)\<lparr>External_IP := getString v ''external.ip'' (External_IP (cfg_External c))\<rparr>\<rparr>),
      (\<lambda>c. if trim_space (External_IP (cfg_External c)) = [] then c\<lparr>cfg_External := (cfg_External c)\<lparr>External_IP := intranetIP\<rparr>\<rparr> else c),
      (\<lambda>c. c\<lparr>cfg_External := (cfg_External c)\<lparr>External_WebLoginURL := getString v ''external.webLoginURL'' (External_WebLoginURL (cfg_External c))\<rparr>\<rparr>),
      (\<lambda>c. c\<lparr>cfg_External := (cfg_External c)\<lparr>External_BaseURL := getString v ''external.baseURL'' (External_BaseURL (cfg_External c))\<rparr>\<rparr>),
      (\<lambda>c. if trim_space (External_WebLoginURL (cfg_External c)) = [] then c\<lparr>cfg_External := (cfg_External c)\<lparr>External_WebLoginURL := ''http://'' @ External_IP (cfg_External c) @ '':82''\<rparr>\<rparr> else c),
      (\<lambda>c. if trim_space (External_BaseURL (cfg_External c)) = [] then c\<lparr>cfg_External := (cfg_External c)\<lparr>External_BaseURL := ''http://'' @ External_IP (cfg_External c) @ '':8090''\<rparr>\<rparr> else c),
      (\<lambda>c. if trim_space (External_H5BaseURL (cfg_External c)) = [] then c\<lparr>cfg_External := (cfg_External c)\<lparr>External_H5BaseURL := External_BaseURL (cfg_External c) @ ''/web''\<rparr>\<rparr> else c),
      (\<lambda>c. if trim_space (External_APIBaseURL (cfg_External c)) = [] then c\<lparr>cfg_External := (cfg_External c)\<lparr>External_APIBaseURL := External_BaseURL (cfg_External c) @ ''/v1''\<rparr>\<rparr> else c)]"

definition configure_db :: "'o viper \<Rightarrow> Config \<Rightarrow> Config" where
  "configure_db v = in_order
     [(\<lambda>c. c\<lparr>cfg_DB := (cfg_DB c)\<lparr>DB_MySQLAddr := getString v ''database.default.dns'' (DB_MySQLAddr (cfg_DB c))\<rparr>\<rparr>),
      (\<lambda>c. c\<lparr>cfg_DB := (cfg_DB c)\<lparr>DB_MySQLMaxOpenConns := getInt v ''database.default.maxOpenConns'' (DB_MySQLMaxOpenConns (cfg_DB c))\<rparr>\<rparr>),
      (\<lambda>c. c\<lparr>cfg_DB := (cfg_DB c)\<lparr>DB_MySQLMaxIdleConns := getInt v ''database.default.maxIdleConns'' (DB_MySQLMaxIdleConns (cfg_DB c))\<rparr>\<rparr>),
      (\<lambda>c. c\<lparr>cfg_DB := (cfg_DB c)\<lparr>DB_MySQLConnMaxLifetime := getDuration v ''db.mysqlConnMaxLifetime'' (DB_MySQLConnMaxLifetime (cfg_DB c))\<rparr>\<rparr>),
      (\<lambda>c. c\<lparr>cfg_DB := (cfg_DB c)\<lparr>DB_Migration := getBool v ''db.migration'' (DB_Migration (cfg_DB c))\<rparr>\<rparr>),
      (\<lambda>c. c\<lparr>cfg_DB := (cfg_DB c)\<lparr>DB_RedisAddr := getString v ''redis.addr'' (DB_RedisAddr (cfg_DB c))\<rparr>\<rparr>),
      (\<lambda>c. c\<lparr>cfg_DB := (cfg_DB c)\<lparr>DB_RedisPass := getString v ''redis.password'' (DB_RedisPass (cfg_DB c))\<rparr>\<rparr>),
      (\<lambda>c. c\<lparr>cfg_DB := (cfg_DB c)\<lparr>DB_AsynctaskRedisAddr := getString v ''db.asynctaskRedisAddr'' (DB_AsynctaskRedisAddr (cfg_DB c))\<rparr>\<rparr>)]"

definition configure_cluster :: "'o viper \<Rightarrow> Config \<Rightarrow> Config" where
  "configure_cluster v = in_order
     [(\<lambda>c. c\<lparr>cfg_Cluster := (cfg_Cluster c)\<lparr>Cluster_NodeID := getInt v ''cluster.nodeID'' (Cluster_NodeID (cfg_Cluster c))\<rparr>\<rparr>)]"

definition configure_cache :: "'o viper \<Rightarrow> Config \<Rightarrow> Config" where
  "configure_cache v = in_order
     [(\<lambda>c. c\<lparr>cfg_Cache := (cfg_Cache c)\<lparr>Cache_TokenCachePrefix := getString v ''cache.tokenCachePrefix'' (Cache_TokenCachePrefix (cfg_Cache c))\<rparr>\<rparr>),
      (\<lambda>c. c\<lparr>cfg_Cache := (cfg_Cache c)\<lparr>Cache_LoginDeviceCachePrefix := getString v ''cache.loginDeviceCachePrefix'' (Cache_LoginDeviceCachePrefix (cfg_Cache c))\<rparr>\<rparr>),
      (\<lambda>c. c\<lparr>cfg_Cache := (cfg_Cache c)\<lparr>Cache_LoginDeviceCacheExpire := getDuration v ''cache.loginDeviceCacheExpire'' (Cache_LoginDeviceCacheExpire (cfg_Cache c))\<rparr>\<rparr>),
      (\<lambda>c. c\<lparr>cfg_Cache := (cfg_Cache c)\<lparr>Cache_UIDTokenCachePrefix := getString v ''cache.uidTokenCachePrefix'' (Cache_UIDTokenCachePrefix (cfg_Cache c))\<rparr>\<rparr>),
      (\<lambda>c. c\<lparr>cfg_Cache := (cfg_Cache c)\<lparr>Cache_FriendApplyTokenCachePrefix := getString v ''cache.friendApplyTokenCachePrefix'' (Cache_FriendApplyTokenCachePrefix (cfg_Cache c))\<rparr>\<rparr>),
      (\<lambda>c. c\<lparr>cfg_Cache := (cfg_Cache c)\<lparr>Cache_FriendApplyExpire := getDuration v ''cache.friendApplyExpire'' (Cache_FriendApplyExpire (cfg_Cache c))\<rparr>\<rparr>),
      (\<lambda>c. c\<lparr>cfg_Cache := (cfg_Cache c)\<lparr>Cache_TokenExpire := getDuration v ''cache.tokenExpire'' (Cache_TokenExpire (cfg_Cache c))\<rparr>\<rparr>),
      (\<lambda>c. c\<lparr>cfg_Cache := (cfg_Cache c)\<lparr>Cache_NameCacheExpire := getDuration v ''cache.nameCacheExpire'' (Cache_NameCacheExpire (cfg_Cache c))\<rparr>\<rparr>)]"

definition configure_account :: "'o viper \<Rightarrow> Config \<Rightarrow> Config" where
  "configure_account v = in_order
     [(\<lambda>c. c\<lparr>cfg_Account := (cfg_Account c)\<lparr>Account_SystemUID := getString v ''account.systemUID'' (Account_SystemUID (cfg_Account c))\<rparr>\<rparr>),
      (\<lambda>c. c\<lparr>cfg_Account := (cfg_Account c)\<lparr>Account_FileHelperUID := getString v ''account.fileHelperUID'' (Account_FileHelperUID (cfg_Account c))\<rparr>\<rparr>),
      (\<lambda>c. c\<lparr>cfg_Account := (cfg_Account c)\<lparr>Account_SystemGroupID := getString v ''account.systemGroupID'' (Account_SystemGroupID (cfg_Account c))\<rparr>\<rparr>),
      (\<lambda>c. c\<lparr>cfg_Account := (cfg_Account c)\<lparr>Account_SystemGroupName := getString v ''account.systemGroupName'' (Account_SystemGroupName (cfg_Account c))\<rparr>\<rparr>),
      (\<lambda>c. c\<lparr>cfg_Account := (cfg_Account c)\<lparr>Account_AdminUID := getString v ''account.adminUID'' (Account_AdminUID (cfg_Account c))\<rparr>\<rparr>)]"

definition configure_files :: "'o viper \<Rightarrow> Config \<Rightarrow> Config" where
  "configure_files v = in_order
     [(\<lambda>c. c\<lparr>cfg_FileService := getString v ''fileService'' (cfg_FileService c)\<rparr>),
      (\<lambda>c. c\<lparr>cfg_OSS := (cfg_OSS c)\<lparr>OSS_OssType := getString v ''oss.type'' (OSS_OssType (cfg_OSS c))\<rparr>\<rparr>),
      (\<lambda>c. c\<lparr>cfg_OSS := (cfg_OSS c)\<lparr>OSS_Endpoint := getString v ''oss.endpoint'' (OSS_Endpoint (cfg_OSS c))\<rparr>\<rparr>),
      (\<lambda>c. c\<lparr>cfg_OSS := (cfg_OSS c)\<lparr>OSS_BucketURL := getString v ''oss.bucketUrl'' (OSS_BucketURL (cfg_OSS c))\<rparr>\<rparr>),
      (\<lambda>c. c\<lparr>cfg_OSS := (cfg_OSS c)\<lparr>OSS_AccessKeyID := getString v ''oss.accessKeyId'' (OSS_AccessKeyID (cfg_OSS c))\<rparr>\<rparr>),
      (\<lambda>c. c\<lparr>cfg_OSS := (cfg_OSS c)\<lparr>OSS_AccessKeySecret := getString v ''oss.accessKeySecret'' (OSS_AccessKeySecret (cfg_OSS c))\<rparr>\<rparr>),
      (\<lambda>c. c\<lparr>cfg_OSS := (cfg_OSS c)\<lparr>OSS_BucketName := getString v ''oss.bucketName'' (OSS_BucketName (cfg_OSS c))\<rparr>\<rparr>),
      (\<lambda>c. c\<lparr>cfg_OSS := (cfg_OSS c)\<lparr>OSS_LimitSize := getInt v ''oss.limitSize'' (OSS_LimitSize (cfg_OSS c))\<rparr>\<rparr>),
      (\<lambda>c. c\<lparr>cfg_Minio := (cfg_Minio c)\<lparr>Minio_URL := getString v ''minio.url'' (Minio_URL (cfg_Minio c))\<rparr>\<rparr>),
      (\<lambda>c. if cfg_FileService c = FileServiceMinio \<and> trim_space (Minio_URL (cfg_Minio c)) = [] then c\<lparr>cfg_Minio := (cfg_Minio c)\<lparr>Minio_URL := ''http://'' @ External_IP (cfg_External c) @ '':9000''\<rparr>\<rparr> else c),
      (\<lambda>c. c\<lparr>cfg_Minio := (cfg_Minio c)\<lparr>Minio_UploadURL := getString v ''minio.uploadURL'' (Minio_UploadURL (cfg_Minio c))\<rparr>\<rparr>),
      (\<lambda>c. if trim_space (Minio_UploadURL (cfg_Minio c)) = [] then c\<lparr>cfg_Minio := (cfg_Minio c)\<lparr>Minio_UploadURL := Minio_URL (cfg_Minio c)\<rparr>\<rparr> else c),
      (\<lambda>c. c\<lparr>cfg_Minio := (cfg_Minio c)\<lparr>Minio_DownloadURL := getString v ''minio.downloadURL'' (Minio_DownloadURL (cfg_Minio c))\<rparr>\<rparr>),
      (\<lambda>c. if trim_space (Minio_DownloadURL (cfg_Minio c)) = [] then c\<lparr>cfg_Minio := (cfg_Minio c)\<lparr>Minio_DownloadURL := Minio_URL (cfg_Minio c)\<rparr>\<rparr> else c),
      (\<lambda>c. c\<lparr>cfg_Minio := (cfg_Minio c)\<lparr>Minio_AccessKeyID := getString v ''minio.accessKeyID'' (Minio_AccessKeyID (cfg_Minio c))\<rparr>\<rparr>),
      (\<lambda>c. c\<lparr>cfg_Minio := (cfg_Minio c)\<lparr>Minio_SecretAccessKey := getString v ''minio.secretAccessKey'' (Minio_SecretAccessKey (cfg_Minio c))\<rparr>\<rparr>),
      (\<lambda>c. c\<lparr>cfg_Seaweed := (cfg_Seaweed c)\<lparr>Seaweed_URL := getString v ''seaweed.url'' (Seaweed_URL (cfg_Seaweed c))\<rparr>\<rparr>),
      (\<lambda>c. c\<lparr>cfg_Qiniu := (cfg_Qiniu c)\<lparr>Qiniu_URL := getString v ''qiniu.url'' (Qiniu_URL (cfg_Qiniu c))\<rparr>\<rparr>),
      (\<lambda>c. c\<lparr>cfg_Qiniu := (cfg_Qiniu c)\<lparr>Qiniu_BucketName := getString v ''qiniu.bucketName'' (Qiniu_BucketName (cfg_Qiniu c))\<rparr>\<rparr>),
      (\<lambda>c. c\<lparr>cfg_Qiniu := (cfg_Qiniu c)\<lparr>Qiniu_AccessKey := getString v ''qiniu.accessKey'' (Qiniu_AccessKey (cfg_Qiniu c))\<rparr>\<rparr>),
      (\<lambda>c. c\<lparr>cfg_Qiniu := (cfg_Qiniu c)\<lparr>Qiniu_SecretKey := getString v ''qiniu.secretKey'' (Qiniu_SecretKey (cfg_Qiniu c))\<rparr>\<rparr>)]"

definition configure_sms :: "'o viper \<Rightarrow> Config \<Rightarrow> Config" where
  "configure_sms v = in_order
     [(\<lambda>c. c\<lparr>cfg_SMSCode := getString v ''smsCode'' (cfg_SMSCode c)\<rparr>),
      (\<lambda>c. c\<lparr>cfg_SMSProvider := getString v ''smsProvider'' (cfg_SMSProvider c)\<rparr>),
      (\<lambda>c. c\<lparr>cfg_JdSMS := (cfg_JdSMS c)\<lparr>JdSMS_SpCode := getString v ''jdSMS.spCode'' (JdSMS_SpCode (cfg_JdSMS c))\<rparr>\<rparr>),
      (\<lambda>c. c\<lparr>cfg_JdSMS := (cfg_JdSMS c)\<lparr>JdSMS_LoginName := getString v ''jdSMS.loginName'' (JdSMS_LoginName (cfg_JdSMS c))\<rparr>\<rparr>),
      (\<lambda>c. c\<lparr>cfg_JdSMS := (cfg_JdSMS c)\<lparr>JdSMS_Password := getString v ''jdSMS.passWord'' (JdSMS_Password (cfg_JdSMS c))\<rparr>\<rparr>),
      (\<lambda>c. c\<lparr>cfg_JdSMS := (cfg_JdSMS c)\<lparr>JdSMS_MessageContent := getString v ''jdSMS.messageContent'' (JdSMS_MessageContent (cfg_JdSMS c))\<rparr>\<rparr>),
      (\<lambda>c. c\<lparr>cfg_JdSMS := (cfg_JdSMS c)\<lparr>JdSMS_ApiUrl := getString v ''jdSMS.apiUrl'' (JdSMS_ApiUrl (cfg_JdSMS c))\<rparr>\<rparr>),
      (\<lambda>c. c\<lparr>cfg_UniSMS := (cfg_UniSMS c)\<lparr>UniSMS_AccessKeyID := getString v ''uniSMS.accessKeyID'' (UniSMS_AccessKeyID (cfg_UniSMS c))\<rparr>\<rparr>),
      (\<lambda>c. c\<lparr>cfg_UniSMS := (cfg_UniSMS c)\<lparr>UniSMS_Signature := getString v ''uniSMS.signature'' (UniSMS_Signature (cfg_UniSMS c))\<rparr>\<rparr>),
      (\<lambda>c. c\<lparr>cfg_UniSMS := (cfg_UniSMS c)\<lparr>UniSMS_AccessKeySecret := getString v ''uniSMS.accessKeySecret'' (UniSMS_AccessKeySecret (cfg_UniSMS c))\<rparr>\<rparr>),
      (\<lambda>c. c\<lparr>cfg_UniSMS := (cfg_UniSMS c)\<lparr>UniSMS_TemplateId := getString v ''uniSMS.templateId'' (UniSMS_TemplateId (cfg_UniSMS c))\<rparr>\<rparr>),
      (\<lambda>c. c\<lparr>cfg_Smsbao := (cfg_Smsbao c)\<lparr>Smsbao_Account := getString v ''smsbao.account'' (Smsbao_Account (cfg_Smsbao c))\<rparr>\<rparr>),
      (\<lambda>c. c\<lparr>cfg_Smsbao := (cfg_Smsbao c)\<lparr>Smsbao_APIKey := getString v ''smsbao.apiKey'' (Smsbao_APIKey (cfg_Smsbao c))\<rparr>\<rparr>),
      (\<lambda>c. c\<lparr>cfg_Smsbao := (cfg_Smsbao c)\<lparr>Smsbao_Template := getString v ''smsbao.template'' (Smsbao_Template (cfg_Smsbao c))\<rparr>\<rparr>),
      (\<lambda>c. c\<lparr>cfg_AliyunSMS := (cfg_AliyunSMS c)\<lparr>AliyunSMS_AccessKeyID := getString v ''aliyunSMS.accessKeyId'' (AliyunSMS_AccessKeyID (cfg_AliyunSMS c))\<rparr>\<rparr>),
      (\<lambda>c. c\<lparr>cfg_AliyunSMS := (cfg_AliyunSMS c)\<lparr>AliyunSMS_AccessKeySecret := getString v ''aliyunSMS.accessKeySecret'' (AliyunSMS_AccessKeySecret (cfg_AliyunSMS c))\<rparr>\<rparr>),
      (\<lambda>c. c\<lparr>cfg_AliyunSMS := (cfg_AliyunSMS c)\<lparr>AliyunSMS_SignName := getString v ''aliyunSMS.signName'' (AliyunSMS_SignName (cfg_AliyunSMS c))\<rparr>\<rparr>),
      (\<lambda>c. c\<lparr>cfg_AliyunSMS := (cfg_AliyunSMS c)\<lparr>AliyunSMS_UserRegisterTemplateCode := getString v ''aliyunSMS.userRegisterTemplateCode'' (AliyunSMS_UserRegisterTemplateCode (cfg_AliyunSMS c))\<rparr>\<rparr>),
      (\<lambda>c. c\<lparr>cfg_AliyunSMS := (cfg_AliyunSMS c)\<lparr>AliyunSMS_UserForgetPwdTemplateCode := getString v ''aliyunSMS.userForgetPwdTemplateCode'' (AliyunSMS_UserForgetPwdTemplateCode (cfg_AliyunSMS c))\<rparr>\<rparr>),
      (\<lambda>c. c\<lparr>cfg_AliyunSMS := (cfg_AliyunSMS c)\<lparr>AliyunSMS_UserLoginTemplateCode := getString v ''aliyunSMS.userLoginTemplateCode'' (AliyunSMS_UserLoginTemplateCode (cfg_AliyunSMS c))\<rparr>\<rparr>),
      (\<lambda>c. c\<lparr>cfg_AliyunSMS := (cfg_AliyunSMS c)\<lparr>AliyunSMS_UserIdentityTemplateCode := getString v ''aliyunSMS.userIdentityTemplateCode'' (AliyunSMS_UserIdentityTemplateCode (cfg_AliyunSMS c))\<rparr>\<rparr>),
      (\<lambda>c. c\<lparr>cfg_AliyunInternationalSMS := (cfg_AliyunInternationalSMS c)\<lparr>AliyunIntl_AccessKeyID := getString v ''aliyunInternationalSMS.accessKeyID'' (AliyunIntl_AccessKeyID (cfg_AliyunInternationalSMS c))\<rparr>\<rparr>),
      (\<lambda>c. c\<lparr>cfg_AliyunInternationalSMS := (cfg_AliyunInternationalSMS c)\<lparr>AliyunIntl_AccessSecret := getString v ''aliyunInternationalSMS.accessSecret'' (AliyunIntl_AccessSecret (cfg_AliyunInternationalSMS c))\<rparr>\<rparr>),
      (\<lambda>c. c\<lparr>cfg_AliyunInternationalSMS := (cfg_AliyunInternationalSMS c)\<lparr>AliyunIntl_SignName := getString v ''aliyunInternationalSMS.signName'' (AliyunIntl_SignName (cfg_AliyunInternationalSMS c))\<rparr>\<rparr>)]"

definition configure_im :: "'o viper \<Rightarrow> Config \<Rightarrow> Config" where
  "configure_im v = in_order
     [(\<lambda>c. c\<lparr>cfg_WuKongIM := (cfg_WuKongIM c)\<lparr>WuKongIM_APIURL := getString v ''im.apiURL'' (WuKongIM_APIURL (cfg_WuKongIM c))\<rparr>\<rparr>),
      (\<lambda>c. c\<lparr>cfg_WuKongIM := (cfg_WuKongIM c)\<lparr>WuKongIM_ManagerToken := getString v ''im.token'' (WuKongIM_ManagerToken (cfg_WuKongIM c))\<rparr>\<rparr>)]"

definition configure_avatar :: "'o viper \<Rightarrow> Config \<Rightarrow> Config" where
  "configure_avatar v = in_order
     [(\<lambda>c. c\<lparr>cfg_Avatar := (cfg_Avatar c)\<lparr>Avatar_Default := getString v ''avatar.default'' (Avatar_Default (cfg_Avatar c))\<rparr>\<rparr>),
      (\<lambda>c. c\<lparr>cfg_Avatar := (cfg_Avatar c)\<lparr>Avatar_DefaultCount := getInt v ''avatar.defaultCount'' (Avatar_DefaultCount (cfg_Avatar c))\<rparr>\<rparr>),
      (\<lambda>c. c\<lparr>cfg_Avatar := (cfg_Avatar c)\<lparr>Avatar_Partition := getInt v ''avatar.partition'' (Avatar_Partition (cfg_Avatar c))\<rparr>\<rparr>),
      (\<lambda>c. c\<lparr>cfg_Avatar := (cfg_Avatar c)\<lparr>Avatar_DefaultBaseURL := getString v ''avatar.defaultBaseURL'' (Avatar_DefaultBaseURL (cfg_Avatar c))\<rparr>\<rparr>)]"

definition configure_shortno :: "'o viper \<Rightarrow> Config \<Rightarrow> Config" where
  "configure_shortno v = in_order
     [(\<lambda>c. c\<lparr>cfg_ShortNo := (cfg_ShortNo c)\<lparr>ShortNo_NumOn := getBool v ''shortNo.numOn'' (ShortNo_NumOn (cfg_ShortNo c))\<rparr>\<rparr>),
      (\<lambda>c. c\<lparr>cfg_ShortNo := (cfg_ShortNo c)\<lparr>ShortNo_NumLen := getInt v ''shortNo.numLen'' (ShortNo_NumLen (cfg_ShortNo c))\<rparr>\<rparr>),
      (\<lambda>c. c\<lparr>cfg_ShortNo := (cfg_ShortNo c)\<lparr>ShortNo_EditOff := getBool v ''shortNo.editOff'' (ShortNo_EditOff (cfg_ShortNo c))\<rparr>\<rparr>)]"

definition configure_robot :: "'o viper \<Rightarrow> Config \<Rightarrow> Config" where
  "configure_robot v = in_order
     [(\<lambda>c. c\<lparr>cfg_Robot := (cfg_Robot c)\<lparr>Robot_MessageExpire := getDuration v ''robot.messageExpire'' (Robot_MessageExpire (cfg_Robot c))\<rparr>\<rparr>),
      (\<lambda>c. c\<lparr>cfg_Robot := (cfg_Robot c)\<lparr>Robot_InlineQueryTimeout := getDuration v ''robot.inlineQueryTimeout'' (Robot_InlineQueryTimeout (cfg_Robot c))\<rparr>\<rparr>),
      (\<lambda>c. c\<lparr>cfg_Robot := (cfg_Robot c)\<lparr>Robot_EventPoolSize := getInt64 v ''robot.eventPoolSize'' (Robot_EventPoolSize (cfg_Robot c))\<rparr>\<rparr>)]"

definition configure_oauth :: "'o viper \<Rightarrow> Config \<Rightarrow> Config" where
  "configure_oauth v = in_order
     [(\<lambda>c. c\<lparr>cfg_Gitee := (cfg_Gitee c)\<lparr>Gitee_OAuthURL := getString v ''gitee.oauthURL'' (Gitee_OAuthURL (cfg_Gitee c))\<rparr>\<rparr>),
      (\<lambda>c. c\<lparr>cfg_Gitee := (cfg_Gitee c)\<lparr>Gitee_ClientID := getString v ''gitee.clientID'' (Gitee_ClientID (cfg_Gitee c))\<rparr>\<rparr>),
      (\<lambda>c. c\<lparr>cfg_Gitee := (cfg_Gitee c)\<lparr>Gitee_ClientSecret := getString v ''gitee.clientSecret'' (Gitee_ClientSecret (cfg_Gitee c))\<rparr>\<rparr>),
      (\<lambda>c. c\<lparr>cfg_Github := (cfg_Github c)\<lparr>Github_OAuthURL := getString v ''github.oauthURL'' (Github_OAuthURL (cfg_Github c))\<rparr>\<rparr>),
      (\<lambda>c. c\<lparr>cfg_Github := (cfg_Github c)\<lparr>Github_ClientID := getString v ''github.clientID'' (Github_ClientID (cfg_Github c))\<rparr>\<rparr>),
      (\<lambda>c. c\<lparr>cfg_Github := (cfg_Github c)\<lparr>Github_ClientSecret := getString v ''github.clientSecret'' (Github_ClientSecret (cfg_Github c))\<rparr>\<rparr>)]"

definition configure_owt :: "'o viper \<Rightarrow> Config \<Rightarrow> Config" where
  "configure_owt v = in_order
     [(\<lambda>c. c\<lparr>cfg_OWT := (cfg_OWT c)\<lparr>OWT_URL := getString v ''owt.url'' (OWT_URL (cfg_OWT c))\<rparr>\<rparr>),
      (\<lambda>c. c\<lparr>cfg_OWT := (cfg_OWT c)\<lparr>OWT_ServiceID := getString v ''owt.serviceID'' (OWT_ServiceID (cfg_OWT c))\<rparr>\<rparr>),
      (\<lambda>c. c\<lparr>cfg_OWT := (cfg_OWT c)\<lparr>OWT_ServiceKey := getString v ''owt.serviceKey'' (OWT_ServiceKey (cfg_OWT c))\<rparr>\<rparr>),
      (\<lambda>c. c\<lparr>cfg_OWT := (cfg_OWT c)\<lparr>OWT_RoomMaxCount := getInt v ''owt.roomMaxCount'' (OWT_RoomMaxCount (cfg_OWT c))\<rparr>\<rparr>)]"

definition configure_livekit :: "'o viper \<Rightarrow> Config \<Rightarrow> Config" where
  "configure_livekit v = in_order
     [(\<lambda>c. c\<lparr>cfg_Livekit := (cfg_Livekit c)\<lparr>Livekit_Off := getBool v ''livekit.off'' (Livekit_Off (cfg_Livekit c))\<rparr>\<rparr>),
      (\<lambda>c. c\<lparr>cfg_Livekit := (cfg_Livekit c)\<lparr>Livekit_URL := getString v ''sfu.url'' (Livekit_URL (cfg_Livekit c))\<rparr>\<rparr>),
      (\<lambda>c. c\<lparr>cfg_Livekit := (cfg_Livekit c)\<lparr>Livekit_Key := getString v ''sfu.key'' (Livekit_Key (cfg_Livekit c))\<rparr>\<rparr>),
      (\<lambda>c. c\<lparr>cfg_Livekit := (cfg_Livekit c)\<lparr>Livekit_Secret := getString v ''sfu.secret'' (Livekit_Secret (cfg_Livekit c))\<rparr>\<rparr>),
      (\<lambda>c. c\<lparr>cfg_OWT := (cfg_OWT c)\<lparr>OWT_RoomMaxCount := getInt v ''owt.roomMaxCount'' (OWT_RoomMaxCount (cfg_OWT c))\<rparr>\<rparr>),
      (\<lambda>c. c\<lparr>cfg_Livekit := (cfg_Livekit c)\<lparr>Livekit_InviteTimeoutSeconds := getInt v ''livekit.inviteTimeoutSeconds'' (Livekit_InviteTimeoutSeconds (cfg_Livekit c))\<rparr>\<rparr>)]"

definition configure_register :: "'o viper \<Rightarrow> Config \<Rightarrow> Config" where
  "configure_register v = in_order
     [(\<lambda>c. c\<lparr>cfg_Register := (cfg_Register c)\<lparr>Register_Off := getBool v ''register.off'' (Register_Off (cfg_Register c))\<rparr>\<rparr>),
      (\<lambda>c. c\<lparr>cfg_Register := (cfg_Register c)\<lparr>Register_OnlyChina := getBool v ''register.onlyChina'' (Register_OnlyChina (cfg_Register c))\<rparr>\<rparr>),
      (\<lambda>c. c\<lparr>cfg_Register := (cfg_Register c)\<lparr>Register_StickerAddOff := getBool v ''register.stickerAddOff'' (Register_StickerAddOff (cfg_Register c))\<rparr>\<rparr>),
      (\<lambda>c. c\<lparr>cfg_Register := (cfg_Register c)\<lparr>Register_UsernameOn := getBool v ''register.usernameOn'' (Register_UsernameOn (cfg_Register c))\<rparr>\<rparr>)]"

definition configure_organization :: "'o viper \<Rightarrow> Config \<Rightarrow> Config" where
  "configure_organization v = in_order
     [(\<lambda>c. c\<lparr>cfg_Organization := (cfg_Organization c)\<lparr>Organization_ImportOn := getBool v ''organization.importOn'' (Organization_ImportOn (cfg_Organization c))\<rparr>\<rparr>)]"

definition configure_friend :: "'o viper \<Rightarrow> Config \<Rightarrow> Config" where
  "configure_friend v = in_order
     [(\<lambda>c. c\<lparr>cfg_Friend := (cfg_Friend c)\<lparr>Friend_AddedTipsText := getString v ''friend.addedTipsText'' (Friend_AddedTipsText (cfg_Friend c))\<rparr>\<rparr>)]"

definition configure_zinc :: "'o viper \<Rightarrow> Config \<Rightarrow> Config" where
  "configure_zinc v = in_order
     [(\<lambda>c. c\<lparr>cfg_ZincSearch := (cfg_ZincSearch c)\<lparr>ZincSearch_SearchOn := getBool v ''zincSearch.searchOn'' (ZincSearch_SearchOn (cfg_ZincSearch c))\<rparr>\<rparr>),
      (\<lambda>c. c\<lparr>cfg_ZincSearch := (cfg_ZincSearch c)\<lparr>ZincSearch_APIURL := getString v ''zincSearch.apiURL'' (ZincSearch_APIURL (cfg_ZincSearch c))\<rparr>\<rparr>),
      (\<lambda>c. c\<lparr>cfg_ZincSearch := (cfg_ZincSearch c)\<lparr>ZincSearch_ZincUsername := getString v ''zincSearch.username'' (ZincSearch_ZincUsername (cfg_ZincSearch c))\<rparr>\<rparr>),
      (\<lambda>c. c\<lparr>cfg_ZincSearch := (cfg_ZincSearch c)\<lparr>ZincSearch_ZincPassword := getString v ''zincSearch.password'' (ZincSearch_ZincPassword (cfg_ZincSearch c))\<rparr>\<rparr>),
      (\<lambda>c. c\<lparr>cfg_ZincSearch := (cfg_ZincSearch c)\<lparr>ZincSearch_SyncIntervalSecond := getInt v ''zincSearch.syncIntervalSecond'' (ZincSearch_SyncIntervalSecond (cfg_ZincSearch c))\<rparr>\<rparr>),
      (\<lambda>c. c\<lparr>cfg_ZincSearch := (cfg_ZincSearch c)\<lparr>ZincSearch_SyncCount := getInt v ''zincSearch.syncCount'' (ZincSearch_SyncCount (cfg_ZincSearch c))\<rparr>\<rparr>)]"

definition configure_group :: "'o viper \<Rightarrow> Config \<Rightarrow> Config" where
  "configure_group v = in_order
     [(\<lambda>c. c\<lparr>cfg_Group := (cfg_Group c)\<lparr>Group_SameDayCreateMaxCount := getInt v ''group.sameDayCreateMaxCount'' (Group_SameDayCreateMaxCount (cfg_Group c))\<rparr>\<rparr>),
      (\<lambda>c. c\<lparr>cfg_Group := (cfg_Group c)\<lparr>Group_CreateGroupVerifyFriendOn := getBool v ''group.createGroupVerifyFriendOn'' (Group_CreateGroupVerifyFriendOn (cfg_Group c))\<rparr>\<rparr>)]"

definition configure_push :: "'o viper \<Rightarrow> Config \<Rightarrow> Config" where
  "configure_push v = in_order
     [(\<lambda>c. c\<lparr>cfg_Push := (cfg_Push c)\<lparr>Push_ContentDetailOn := getBool v ''push.contentDetailOn'' (Push_ContentDetailOn (cfg_Push c))\<rparr>\<rparr>),
      (\<lambda>c. c\<lparr>cfg_Push := (cfg_Push c)\<lparr>Push_PushPoolSize := getInt64 v ''push.pushPoolSize'' (Push_PushPoolSize (cfg_Push c))\<rparr>\<rparr>),
      (\<lambda>c. c\<lparr>cfg_Push := (cfg_Push c)\<lparr>Push_APNS := (Push_APNS (cfg_Push c))\<lparr>APNS_Dev := getBool v ''push.apns.dev'' (APNS_Dev (Push_APNS (cfg_Push c)))\<rparr>\<rparr>\<rparr>),
      (\<lambda>c. c\<lparr>cfg_Push := (cfg_Push c)\<lparr>Push_APNS := (Push_APNS (cfg_Push c))\<lparr>APNS_Topic := getString v ''push.apns.topic'' (APNS_Topic (Push_APNS (cfg_Push c)))\<rparr>\<rparr>\<rparr>),
      (\<lambda>c. c\<lparr>cfg_Push := (cfg_Push c)\<lparr>Push_APNS := (Push_APNS (cfg_Push c))\<lparr>APNS_Password := getString v ''push.apns.password'' (APNS_Password (Push_APNS (cfg_Push c)))\<rparr>\<rparr>\<rparr>),
      (\<lambda>c. c\<lparr>cfg_Push := (cfg_Push c)\<lparr>Push_APNS := (Push_APNS (cfg_Push c))\<lparr>APNS_Cert := getString v ''push.apns.cert'' (APNS_Cert (Push_APNS (cfg_Push c)))\<rparr>\<rparr>\<rparr>),
      (\<lambda>c. c\<lparr>cfg_Push := (cfg_Push c)\<lparr>Push_HMS := (Push_HMS (cfg_Push c))\<lparr>HMS_PackageName := getString v ''push.hms.packageName'' (HMS_PackageName (Push_HMS (cfg_Push c)))\<rparr>\<rparr>\<rparr>),
      (\<lambda>c. c\<lparr>cfg_Push := (cfg_Push c)\<lparr>Push_HMS := (Push_HMS (cfg_Push c))\<lparr>HMS_AppID := getString v ''push.hms.appID'' (HMS_AppID (Push_HMS (cfg_Push c)))\<rparr>\<rparr>\<rparr>),
      (\<lambda>c. c\<lparr>cfg_Push := (cfg_Push c)\<lparr>Push_HMS := (Push_HMS (cfg_Push c))\<lparr>HMS_AppSecret := getString v ''push.hms.appSecret'' (HMS_AppSecret (Push_HMS (cfg_Push c)))\<rparr>\<rparr>\<rparr>),
      (\<lambda>c. c\<lparr>cfg_Push := (cfg_Push c)\<lparr>Push_MI := (Push_MI (cfg_Push c))\<lparr>MI_PackageName := getString v ''push.mi.packageName'' (MI_PackageName (Push_MI (cfg_Push c)))\<rparr>\<rparr>\<rparr>),
      (\<lambda>c. c\<lparr>cfg_Push := (cfg_Push c)\<lparr>Push_MI := (Push_MI (cfg_Push c))\<lparr>MI_AppID := getString v ''push.mi.appID'' (MI_AppID (Push_MI (cfg_Push c)))\<rparr>\<rparr>\<rparr>),
      (\<lambda>c. c\<lparr>cfg_Push := (cfg_Push c)\<lparr>Push_MI := (Push_MI (cfg_Push c))\<lparr>MI_AppSecret := getString v ''push.mi.appSecret'' (MI_AppSecret (Push_MI (cfg_Push c)))\<rparr>\<rparr>\<rparr>),
      (\<lambda>c. c\<lparr>cfg_Push := (cfg_Push c)\<lparr>Push_MI := (Push_MI (cfg_Push c))\<lparr>MI_ChannelID := getString v ''push.mi.channelID'' (MI_ChannelID (Push_MI (cfg_Push c)))\<rparr>\<rparr>\<rparr>),
      (\<lambda>c. c\<lparr>cfg_Push := (cfg_Push c)\<lparr>Push_VIVO := (Push_VIVO (cfg_Push c))\<lparr>VIVO_PackageName := getString v ''push.vivo.packageName'' (VIVO_PackageName (Push_VIVO (cfg_Push c)))\<rparr>\<rparr>\<rparr>),
      (\<lambda>c. c\<lparr>cfg_Push := (cfg_Push c)\<lparr>Push_VIVO := (Push_VIVO (cfg_Push c))\<lparr>VIVO_AppID := getString v ''push.vivo.appID'' (VIVO_AppID (Push_VIVO (cfg_Push c)))\<rparr>\<rparr>\<rparr>),
      (\<lambda>c. c\<lparr>cfg_Push := (cfg_Push c)\<lparr>Push_VIVO := (Push_VIVO (cfg_Push c))\<lparr>VIVO_AppKey := getString v ''push.vivo.appKey'' (VIVO_AppKey (Push_VIVO (cfg_Push c)))\<rparr>\<rparr>\<rparr>),
      (\<lambda>c. c\<lparr>cfg_Push := (cfg_Push c)\<lparr>Push_VIVO := (Push_VIVO (cfg_Push c))\<lparr>VIVO_AppSecret := getString v ''push.vivo.appSecret'' (VIVO_AppSecret (Push_VIVO (cfg_Push c)))\<rparr>\<rparr>\<rparr>),
      (\<lambda>c. c\<lparr>cfg_Push := (cfg_Push c)\<lparr>Push_OPPO := (Push_OPPO (cfg_Push c))\<lparr>OPPO_PackageName := getString v ''push.oppo.packageName'' (OPPO_PackageName (Push_OPPO (cfg_Push c)))\<rparr>\<rparr>\<rparr>),
      (\<lambda>c. c\<lparr>cfg_Push := (cfg_Push c)\<lparr>Push_OPPO := (Push_OPPO (cfg_Push c))\<lparr>OPPO_AppID := getString v ''push.oppo.appID'' (OPPO_AppID (Push_OPPO (cfg_Push c)))\<rparr>\<rparr>\<rparr>),
      (\<lambda>c. c\<lparr>cfg_Push := (cfg_Push c)\<lparr>Push_OPPO := (Push_OPPO (cfg_Push c))\<lparr>OPPO_AppKey := getString v ''push.oppo.appKey'' (OPPO_AppKey (Push_OPPO (cfg_Push c)))\<rparr>\<rparr>\<rparr>),
      (\<lambda>c. c\<lparr>cfg_Push := (cfg_Push c)\<lparr>Push_OPPO := (Push_OPPO (cfg_Push c))\<lparr>OPPO_AppSecret := getString v ''push.oppo.appSecret'' (OPPO_AppSecret (Push_OPPO (cfg_Push c)))\<rparr>\<rparr>\<rparr>),
      (\<lambda>c. c\<lparr>cfg_Push := (cfg_Push c)\<lparr>Push_OPPO := (Push_OPPO (cfg_Push c))\<lparr>OPPO_MasterSecret := getString v ''push.oppo.masterSecret'' (OPPO_MasterSecret (Push_OPPO (cfg_Push c)))\<rparr>\<rparr>\<rparr>),
      (\<lambda>c. c\<lparr>cfg_Push := (cfg_Push c)\<lparr>Push_FIREBASE := (Push_FIREBASE (cfg_Push c))\<lparr>FIREBASE_JsonPath := getString v ''push.firebase.jsonPath'' (FIREBASE_JsonPath (Push_FIREBASE (cfg_Push c)))\<rparr>\<rparr>\<rparr>),
      (\<lambda>c. c\<lparr>cfg_Push := (cfg_Push c)\<lparr>Push_FIREBASE := (Push_FIREBASE (cfg_Push c))\<lparr>FIREBASE_ProjectId := getString v ''push.firebase.projectId'' (FIREBASE_ProjectId (Push_FIREBASE (cfg_Push c)))\<rparr>\<rparr>\<rparr>),
      (\<lambda>c. c\<lparr>cfg_Push := (cfg_Push c)\<lparr>Push_FIREBASE := (Push_FIREBASE (cfg_Push c))\<lparr>FIREBASE_PackageName := getString v ''push.firebase.packageName'' (FIREBASE_PackageName (Push_FIREBASE (cfg_Push c)))\<rparr>\<rparr>\<rparr>)]"

definition configure_message :: "'o viper \<Rightarrow> Config \<Rightarrow> Config" where
  "configure_message v = in_order
     [(\<lambda>c. c\<lparr>cfg_Message := (cfg_Message c)\<lparr>Message_SendMessageOn := getBool v ''message.sendMessageOn'' (Message_SendMessageOn (cfg_Message c))\<rparr>\<rparr>),
      (\<lambda>c. c\<lparr>cfg_Message := (cfg_Message c)\<lparr>Message_SyncReadedCountIntervalSecond := getInt v ''message.syncReadedCountIntervalSecond'' (Message_SyncReadedCountIntervalSecond (cfg_Message c))\<rparr>\<rparr>)]"

definition configure_wechat :: "'o viper \<Rightarrow> Config \<Rightarrow> Config" where
  "configure_wechat v = in_order
     [(\<lambda>c. c\<lparr>cfg_Wechat := (cfg_Wechat c)\<lparr>Wechat_AppID := getString v ''wechat.appID'' (Wechat_AppID (cfg_Wechat c))\<rparr>\<rparr>),
      (\<lambda>c. c\<lparr>cfg_Wechat := (cfg_Wechat c)\<lparr>Wechat_AppSecret := getString v ''wechat.appSecret'' (Wechat_AppSecret (cfg_Wechat c))\<rparr>\<rparr>)]"

definition configure_tracing :: "'o viper \<Rightarrow> Config \<Rightarrow> Config" where
  "configure_tracing v = in_order
     [(\<lambda>c. c\<lparr>cfg_Tracing := (cfg_Tracing c)\<lparr>Tracing_On := getBool v ''tracing.on'' (Tracing_On (cfg_Tracing c))\<rparr>\<rparr>),
      (\<lambda>c. c\<lparr>cfg_Tracing := (cfg_Tracing c)\<lparr>Tracing_Addr := getString v ''tracing.addr'' (Tracing_Addr (cfg_Tracing c))\<rparr>\<rparr>)]"

definition configure_support :: "'o viper \<Rightarrow> Config \<Rightarrow> Config" where
  "configure_support v = in_order
     [(\<lambda>c. c\<lparr>cfg_Support := (cfg_Support c)\<lparr>Support_Email := getString v ''support.email'' (Support_Email (cfg_Support c))\<rparr>\<rparr>),
      (\<lambda>c. c\<lparr>cfg_Support := (cfg_Support c)\<lparr>Support_EmailSmtp := getString v ''support.emailSmtp'' (Support_EmailSmtp (cfg_Support c))\<rparr>\<rparr>),
      (\<lambda>c. c\<lparr>cfg_Support := (cfg_Support c)\<lparr>Support_EmailPwd := getString v ''support.emailPwd'' (Support_EmailPwd (cfg_Support c))\<rparr>\<rparr>)]"

definition configure_all :: "string \<Rightarrow> 'o viper \<Rightarrow> Config \<Rightarrow> Config" where
  "configure_all intranetIP v = in_order
     [configure_basic v,
      configure_sass v,
      configure_external intranetIP v,
      configureLog v,
      configure_db v,
      configure_cluster v,
      configure_cache v,
      configure_account v,
      configure_files v,
      configure_sms v,
      configure_im v,
      configure_avatar v,
      configure_shortno v,
      configure_robot v,
      configure_oauth v,
      configure_owt v,
      configure_livekit v,
      configure_register v,
      configure_organization v,
      configure_friend v,
      configure_zinc v,
      configure_group v,
      configure_push v,
      configure_message v,
      configure_wechat v,
      configure_tracing v,
      configure_support v]"

text \<open>The address of the machine is asked first: an error of the system panics.\<close>

definition getIntranetIP :: "string + iface list \<Rightarrow> (string, string) res" where
  "getIntranetIP net =
     (case GetIntranetIP net of
        (ips, Some e) \<Rightarrow> Panic e
      | (ips, None) \<Rightarrow> Ok (if ips \<noteq> [] then ips ! 0 else []))"

definition ConfigureWithViper :: "string + iface list \<Rightarrow> 'o viper \<Rightarrow> Config \<Rightarrow> (string, Config) res" where
  "ConfigureWithViper net vp c =
     bind_res (getIntranetIP net) (\<lambda>intranetIP. Ok (configure_all intranetIP vp c))"

subsection \<open>Paths and identifiers\<close>

definition GetAvatarPath :: "string \<Rightarrow> string" where
  "GetAvatarPath uid = ''users/'' @ uid @ ''/avatar''"

text \<open>The partition is converted to a uint32, and a zero divisor panics.\<close>

definition avatar_id :: "Config \<Rightarrow> string \<Rightarrow> (string, uint32) res" where
  "avatar_id c s =
     (let p = word_of_int (Avatar_Partition (cfg_Avatar c)) :: uint32
      in if p = 0 then Panic ''runtime error: integer divide by zero'' else Ok (HashCrc32 s mod p))"

definition GetGroupAvatarFilePath :: "Config \<Rightarrow> string \<Rightarrow> (string, string) res" where
  "GetGroupAvatarFilePath c groupNo =
     map_ok (\<lambda>i. ''group/'' @ show_nat (unat i) @ ''/'' @ groupNo @ ''.png'') (avatar_id c groupNo)"

definition GetCommunityAvatarFilePath :: "Config \<Rightarrow> string \<Rightarrow> (string, string) res" where
  "GetCommunityAvatarFilePath c communityNo =
     map_ok (\<lambda>i. ''community/'' @ show_nat (unat i) @ ''/'' @ communityNo @ ''.png'') (avatar_id c communityNo)"

definition GetCommunityCoverFilePath :: "Config \<Rightarrow> string \<Rightarrow> (string, string) res" where
  "GetCommunityCoverFilePath c communityNo =
     map_ok (\<lambda>i. ''community/'' @ show_nat (unat i) @ ''/'' @ communityNo @ ''_cover.png'') (avatar_id c communityNo)"

definition GetOrganizationLogoFilePath :: "string \<Rightarrow> string" where
  "GetOrganizationLogoFilePath orgId = ''organization/logo/'' @ orgId @ ''.png''"

definition IsVisitorChannel :: "string \<Rightarrow> bool" where
  "IsVisitorChannel uid = has_suffix uid ''@ht''"

definition GetCustomerServiceChannelID :: "string \<Rightarrow> string \<times> bool" where
  "GetCustomerServiceChannelID channelID =
     (if \<not> str_contains channelID ''|'' then ([], False) else (split_str channelID ''|'' ! 1, True))"

definition GetCustomerServiceVisitorUID :: "string \<Rightarrow> string \<times> bool" where
  "GetCustomerServiceVisitorUID channelID =
     (if \<not> str_contains channelID ''|'' then ([], False) else (split_str channelID ''|'' ! 0, True))"

definition ComposeCustomerServiceChannelID :: "string \<Rightarrow> string \<Rightarrow> string" where
  "ComposeCustomerServiceChannelID vid channelID = vid @ ''|'' @ channelID"

definition IsVisitor :: "Config \<Rightarrow> string \<Rightarrow> bool" where
  "IsVisitor c uid = has_prefix uid (cfg_VisitorUIDPrefix c)"

definition GetEnv :: "(string \<Rightarrow> string) \<Rightarrow> string \<Rightarrow> string \<Rightarrow> string" where
  "GetEnv env key dflt = (if trim_space (env key) = [] then dflt else env key)"

definition GetEnvInt64 :: "(string \<Rightarrow> string) \<Rightarrow> string \<Rightarrow> int \<Rightarrow> int" where
  "GetEnvInt64 env key dflt = (if trim_space (env key) = [] then dflt else fst (parse_int 64 (env key)))"

definition GetEnvInt :: "(string \<Rightarrow> string) \<Rightarrow> string \<Rightarrow> int \<Rightarrow> int" where
  "GetEnvInt env key dflt = (if trim_space (env key) = [] then dflt else fst (parse_int 64 (env key)))"

text \<open>The conversion of \<^verbatim>\<open>strconv\<close> is a parameter; its value is used whatever its error.\<close>

definition GetEnvFloat64 :: "(string \<Rightarrow> uint64 \<times> num_error option) \<Rightarrow> (string \<Rightarrow> string) \<Rightarrow> string \<Rightarrow> uint64 \<Rightarrow> uint64" where
  "GetEnvFloat64 ParseFloat env key dflt = (if trim_space (env key) = [] then dflt else fst (ParseFloat (env key)))"

definition StringEnv :: "(string \<Rightarrow> string) \<Rightarrow> string \<Rightarrow> string \<Rightarrow> string" where
  "StringEnv env v key = (if env key \<noteq> [] then env key else v)"

definition BoolEnv :: "(string \<Rightarrow> string) \<Rightarrow> bool \<Rightarrow> string \<Rightarrow> bool" where
  "BoolEnv env b key = (if trim_space (env key) \<noteq> [] then env key = ''true'' else b)"

subsection \<open>The settings as tables\<close>

text \<open>
  What each section does to its group of fields, without the order of its assignments: every setting
  is read from its own key and keeps its value when the key gives none.
\<close>

named_theorems config_sections "what each section of the configuration sets"

definition welcome_text :: "string \<Rightarrow> string \<Rightarrow> string" where
  "welcome_text app m = (if trim_space m \<noteq> [] then replace_all m ''{{appName}}'' app else m)"

definition nonblank :: "string \<Rightarrow> string \<Rightarrow> string" where
  "nonblank s dflt = (if trim_space s = [] then dflt else s)"

text \<open>A guarded assignment is an assignment of a guarded value.\<close>

lemma if_assign:
  "(if P then c\<lparr>cfg_WelcomeMessage := x\<rparr> else c) = c\<lparr>cfg_WelcomeMessage := if P then x else cfg_WelcomeMessage c\<rparr>"
  "(if P then c\<lparr>cfg_External := e\<rparr> else c) = c\<lparr>cfg_External := if P then e else cfg_External c\<rparr>"
  "(if P then c\<lparr>cfg_Minio := m\<rparr> else c) = c\<lparr>cfg_Minio := if P then m else cfg_Minio c\<rparr>"
  "(if P then e'\<lparr>External_IP := x\<rparr> else e') = e'\<lparr>External_IP := if P then x else External_IP e'\<rparr>"
  "(if P then e'\<lparr>External_WebLoginURL := x\<rparr> else e') = e'\<lparr>External_WebLoginURL := if P then x else External_WebLoginURL e'\<rparr>"
  "(if P then e'\<lparr>External_BaseURL := x\<rparr> else e') = e'\<lparr>External_BaseURL := if P then x else External_BaseURL e'\<rparr>"
  "(if P then e'\<lparr>External_H5BaseURL := x\<rparr> else e') = e'\<lparr>External_H5BaseURL := if P then x else External_H5BaseURL e'\<rparr>"
  "(if P then e'\<lparr>External_APIBaseURL := x\<rparr> else e') = e'\<lparr>External_APIBaseURL := if P then x else External_APIBaseURL e'\<rparr>"
  "(if P then m'\<lparr>Minio_URL := x\<rparr> else m') = m'\<lparr>Minio_URL := if P then x else Minio_URL m'\<rparr>"
  "(if P then m'\<lparr>Minio_UploadURL := x\<rparr> else m') = m'\<lparr>Minio_UploadURL := if P then x else Minio_UploadURL m'\<rparr>"
  "(if P then m'\<lparr>Minio_DownloadURL := x\<rparr> else m') = m'\<lparr>Minio_DownloadURL := if P then x else Minio_DownloadURL m'\<rparr>"
  by simp_all

definition set_Sass :: "'o viper \<Rightarrow> Config_Sass \<Rightarrow> Config_Sass" where
  "set_Sass v s = s\<lparr>Sass_Switch := getBool v ''sass.switch'' (Sass_Switch s),
       Sass_CompanyCode := getString v ''sass.companyCode'' (Sass_CompanyCode s)\<rparr>"

definition set_DB :: "'o viper \<Rightarrow> Config_DB \<Rightarrow> Config_DB" where
  "set_DB v s = s\<lparr>DB_MySQLAddr := getString v ''database.default.dns'' (DB_MySQLAddr s),
       DB_MySQLMaxOpenConns := getInt v ''database.default.maxOpenConns'' (DB_MySQLMaxOpenConns s),
       DB_MySQLMaxIdleConns := getInt v ''database.default.maxIdleConns'' (DB_MySQLMaxIdleConns s),
       DB_MySQLConnMaxLifetime := getDuration v ''db.mysqlConnMaxLifetime'' (DB_MySQLConnMaxLifetime s),
       DB_Migration := getBool v ''db.migration'' (DB_Migration s),
       DB_RedisAddr := getString v ''redis.addr'' (DB_RedisAddr s),
       DB_RedisPass := getString v ''redis.password'' (DB_RedisPass s),
       DB_AsynctaskRedisAddr := getString v ''db.asynctaskRedisAddr'' (DB_AsynctaskRedisAddr s)\<rparr>"

definition set_Cluster :: "'o viper \<Rightarrow> Config_Cluster \<Rightarrow> Config_Cluster" where
  "set_Cluster v s = s\<lparr>Cluster_NodeID := getInt v ''cluster.nodeID'' (Cluster_NodeID s)\<rparr>"

definition set_Cache :: "'o viper \<Rightarrow> Config_Cache \<Rightarrow> Config_Cache" where
  "set_Cache v s = s\<lparr>Cache_TokenCachePrefix := getString v ''cache.tokenCachePrefix'' (Cache_TokenCachePrefix s),
       Cache_LoginDeviceCachePrefix := getString v ''cache.loginDeviceCachePrefix'' (Cache_LoginDeviceCachePrefix s),
       Cache_LoginDeviceCacheExpire := getDuration v ''cache.loginDeviceCacheExpire'' (Cache_LoginDeviceCacheExpire s),
       Cache_UIDTokenCachePrefix := getString v ''cache.uidTokenCachePrefix'' (Cache_UIDTokenCachePrefix s),
       Cache_FriendApplyTokenCachePrefix := getString v ''cache.friendApplyTokenCachePrefix'' (Cache_FriendApplyTokenCachePrefix s),
       Cache_FriendApplyExpire := getDuration v ''cache.friendApplyExpire'' (Cache_FriendApplyExpire s),
       Cache_TokenExpire := getDuration v ''cache.tokenExpire'' (Cache_TokenExpire s),
       Cache_NameCacheExpire := getDuration v ''cache.nameCacheExpire'' (Cache_NameCacheExpire s)\<rparr>"

definition set_Account :: "'o viper \<Rightarrow> Config_Account \<Rightarrow> Config_Account" where
  "set_Account v s = s\<lparr>Account_SystemUID := getString v ''account.systemUID'' (Account_SystemUID s),
       Account_FileHelperUID := getString v ''account.fileHelperUID'' (Account_FileHelperUID s),
       Account_SystemGroupID := getString v ''account.systemGroupID'' (Account_SystemGroupID s),
       Account_SystemGroupName := getString v ''account.systemGroupName'' (Account_SystemGroupName s),
       Account_AdminUID := getString v ''account.adminUID'' (Account_AdminUID s)\<rparr>"

definition set_OSS :: "'o viper \<Rightarrow> OSSConfig \<Rightarrow> OSSConfig" where
  "set_OSS v s = s\<lparr>OSS_OssType := getString v ''oss.type'' (OSS_OssType s),
       OSS_Endpoint := getString v ''oss.endpoint'' (OSS_Endpoint s),
       OSS_BucketURL := getString v ''oss.bucketUrl'' (OSS_BucketURL s),
       OSS_AccessKeyID := getString v ''oss.accessKeyId'' (OSS_AccessKeyID s),
       OSS_AccessKeySecret := getString v ''oss.accessKeySecret'' (OSS_AccessKeySecret s),
       OSS_BucketName := getString v ''oss.bucketName'' (OSS_BucketName s),
       OSS_LimitSize := getInt v ''oss.limitSize'' (OSS_LimitSize s)\<rparr>"

definition set_Seaweed :: "'o viper \<Rightarrow> SeaweedConfig \<Rightarrow> SeaweedConfig" where
  "set_Seaweed v s = s\<lparr>Seaweed_URL := getString v ''seaweed.url'' (Seaweed_URL s)\<rparr>"

definition set_Qiniu :: "'o viper \<Rightarrow> QiniuConfig \<Rightarrow> QiniuConfig" where
  "set_Qiniu v s = s\<lparr>Qiniu_URL := getString v ''qiniu.url'' (Qiniu_URL s),
       Qiniu_BucketName := getString v ''qiniu.bucketName'' (Qiniu_BucketName s),
       Qiniu_AccessKey := getString v ''qiniu.accessKey'' (Qiniu_AccessKey s),
       Qiniu_SecretKey := getString v ''qiniu.secretKey'' (Qiniu_SecretKey s)\<rparr>"

definition set_JdSMS :: "'o viper \<Rightarrow> JdSMSConfig \<Rightarrow> JdSMSConfig" where
  "set_JdSMS v s = s\<lparr>JdSMS_SpCode := getString v ''jdSMS.spCode'' (JdSMS_SpCode s),
       JdSMS_LoginName := getString v ''jdSMS.loginName'' (JdSMS_LoginName s),
       JdSMS_Password := getString v ''jdSMS.passWord'' (JdSMS_Password s),
       JdSMS_MessageContent := getString v ''jdSMS.messageContent'' (JdSMS_MessageContent s),
       JdSMS_ApiUrl := getString v ''jdSMS.apiUrl'' (JdSMS_ApiUrl s)\<rparr>"

definition set_UniSMS :: "'o viper \<Rightarrow> UnismsConfig \<Rightarrow> UnismsConfig" where
  "set_UniSMS v s = s\<lparr>UniSMS_AccessKeyID := getString v ''uniSMS.accessKeyID'' (UniSMS_AccessKeyID s),
       UniSMS_Signature := getString v ''uniSMS.signature'' (UniSMS_Signature s),
       UniSMS_AccessKeySecret := getString v ''uniSMS.accessKeySecret'' (UniSMS_AccessKeySecret s),
       UniSMS_TemplateId := getString v ''uniSMS.templateId'' (UniSMS_TemplateId s)\<rparr>"

definition set_Smsbao :: "'o viper \<Rightarrow> SmsbaoConfig \<Rightarrow> SmsbaoConfig" where
  "set_Smsbao v s = s\<lparr>Smsbao_Account := getString v ''smsbao.account'' (Smsbao_Account s),
       Smsbao_APIKey := getString v ''smsbao.apiKey'' (Smsbao_APIKey s),
       Smsbao_Template := getString v ''smsbao.template'' (Smsbao_Template s)\<rparr>"

definition set_AliyunSMS :: "'o viper \<Rightarrow> AliyunSMSConfig \<Rightarrow> AliyunSMSConfig" where
  "set_AliyunSMS v s = s\<lparr>AliyunSMS_AccessKeyID := getString v ''aliyunSMS.accessKeyId'' (AliyunSMS_AccessKeyID s),
       AliyunSMS_AccessKeySecret := getString v ''aliyunSMS.accessKeySecret'' (AliyunSMS_AccessKeySecret s),
       AliyunSMS_SignName := getString v ''aliyunSMS.signName'' (AliyunSMS_SignName s),
       AliyunSMS_UserRegisterTemplateCode := getString v ''aliyunSMS.userRegisterTemplateCode'' (AliyunSMS_UserRegisterTemplateCode s),
       AliyunSMS_UserForgetPwdTemplateCode := getString v ''aliyunSMS.userForgetPwdTemplateCode'' (AliyunSMS_UserForgetPwdTemplateCode s),
       AliyunSMS_UserLoginTemplateCode := getString v ''aliyunSMS.userLoginTemplateCode'' (AliyunSMS_UserLoginTemplateCode s),
       AliyunSMS_UserIdentityTemplateCode := getString v ''aliyunSMS.userIdentityTemplateCode'' (AliyunSMS_UserIdentityTemplateCode s)\<rparr>"

definition set_AliyunInternationalSMS :: "'o viper \<Rightarrow> AliyunInternationalSMSConfig \<Rightarrow> AliyunInternationalSMSConfig" where
  "set_AliyunInternationalSMS v s = s\<lparr>AliyunIntl_AccessKeyID := getString v ''aliyunInternationalSMS.accessKeyID'' (AliyunIntl_AccessKeyID s),
       AliyunIntl_AccessSecret := getString v ''aliyunInternationalSMS.accessSecret'' (AliyunIntl_AccessSecret s),
       AliyunIntl_SignName := getString v ''aliyunInternationalSMS.signName'' (AliyunIntl_SignName s)\<rparr>"

definition set_WuKongIM :: "'o viper \<Rightarrow> Config_WuKongIM \<Rightarrow> Config_WuKongIM" where
  "set_WuKongIM v s = s\<lparr>WuKongIM_APIURL := getString v ''im.apiURL'' (WuKongIM_APIURL s),
       WuKongIM_ManagerToken := getString v ''im.token'' (WuKongIM_ManagerToken s)\<rparr>"

definition set_Avatar :: "'o viper \<Rightarrow> Config_Avatar \<Rightarrow> Config_Avatar" where
  "set_Avatar v s = s\<lparr>Avatar_Default := getString v ''avatar.default'' (Avatar_Default s),
       Avatar_DefaultCount := getInt v ''avatar.defaultCount'' (Avatar_DefaultCount s),
       Avatar_Partition := getInt v ''avatar.partition'' (Avatar_Partition s),
       Avatar_DefaultBaseURL := getString v ''avatar.defaultBaseURL'' (Avatar_DefaultBaseURL s)\<rparr>"

definition set_ShortNo :: "'o viper \<Rightarrow> Config_ShortNo \<Rightarrow> Config_ShortNo" where
  "set_ShortNo v s = s\<lparr>ShortNo_NumOn := getBool v ''shortNo.numOn'' (ShortNo_NumOn s),
       ShortNo_NumLen := getInt v ''shortNo.numLen'' (ShortNo_NumLen s),
       ShortNo_EditOff := getBool v ''shortNo.editOff'' (ShortNo_EditOff s)\<rparr>"

definition set_Robot :: "'o viper \<Rightarrow> Config_Robot \<Rightarrow> Config_Robot" where
  "set_Robot v s = s\<lparr>Robot_MessageExpire := getDuration v ''robot.messageExpire'' (Robot_MessageExpire s),
       Robot_InlineQueryTimeout := getDuration v ''robot.inlineQueryTimeout'' (Robot_InlineQueryTimeout s),
       Robot_EventPoolSize := getInt64 v ''robot.eventPoolSize'' (Robot_EventPoolSize s)\<rparr>"

definition set_Gitee :: "'o viper \<Rightarrow> Config_Gitee \<Rightarrow> Config_Gitee" where
  "set_Gitee v s = s\<lparr>Gitee_OAuthURL := getString v ''gitee.oauthURL'' (Gitee_OAuthURL s),
       Gitee_ClientID := getString v ''gitee.clientID'' (Gitee_ClientID s),
       Gitee_ClientSecret := getString v ''gitee.clientSecret'' (Gitee_ClientSecret s)\<rparr>"

definition set_Github :: "'o viper \<Rightarrow> Config_Github \<Rightarrow> Config_Github" where
  "set_Github v s = s\<lparr>Github_OAuthURL := getString v ''github.oauthURL'' (Github_OAuthURL s),
       Github_ClientID := getString v ''github.clientID'' (Github_ClientID s),
       Github_ClientSecret := getString v ''github.clientSecret'' (Github_ClientSecret s)\<rparr>"

definition set_OWT :: "'o viper \<Rightarrow> Config_OWT \<Rightarrow> Config_OWT" where
  "set_OWT v s = s\<lparr>OWT_URL := getString v ''owt.url'' (OWT_URL s),
       OWT_ServiceID := getString v ''owt.serviceID'' (OWT_ServiceID s),
       OWT_ServiceKey := getString v ''owt.serviceKey'' (OWT_ServiceKey s),
       OWT_RoomMaxCount := getInt v ''owt.roomMaxCount'' (OWT_RoomMaxCount s)\<rparr>"

definition set_Livekit :: "'o viper \<Rightarrow> Config_Livekit \<Rightarrow> Config_Livekit" where
  "set_Livekit v s = s\<lparr>Livekit_Off := getBool v ''livekit.off'' (Livekit_Off s),
       Livekit_URL := getString v ''sfu.url'' (Livekit_URL s),
       Livekit_Key := getString v ''sfu.key'' (Livekit_Key s),
       Livekit_Secret := getString v ''sfu.secret'' (Livekit_Secret s),
       Livekit_InviteTimeoutSeconds := getInt v ''livekit.inviteTimeoutSeconds'' (Livekit_InviteTimeoutSeconds s)\<rparr>"

definition set_Register :: "'o viper \<Rightarrow> Config_Register \<Rightarrow> Config_Register" where
  "set_Register v s = s\<lparr>Register_Off := getBool v ''register.off'' (Register_Off s),
       Register_OnlyChina := getBool v ''register.onlyChina'' (Register_OnlyChina s),
       Register_StickerAddOff := getBool v ''register.stickerAddOff'' (Register_StickerAddOff s),
       Register_UsernameOn := getBool v ''register.usernameOn'' (Register_UsernameOn s)\<rparr>"

definition set_Organization :: "'o viper \<Rightarrow> Config_Organization \<Rightarrow> Config_Organization" where
  "set_Organization v s = s\<lparr>Organization_ImportOn := getBool v ''organization.importOn'' (Organization_ImportOn s)\<rparr>"

definition set_Friend :: "'o viper \<Rightarrow> Config_Friend \<Rightarrow> Config_Friend" where
  "set_Friend v s = s\<lparr>Friend_AddedTipsText := getString v ''friend.addedTipsText'' (Friend_AddedTipsText s)\<rparr>"

definition set_ZincSearch :: "'o viper \<Rightarrow> Config_ZincSearch \<Rightarrow> Config_ZincSearch" where
  "set_ZincSearch v s = s\<lparr>ZincSearch_SearchOn := getBool v ''zincSearch.searchOn'' (ZincSearch_SearchOn s),
       ZincSearch_APIURL := getString v ''zincSearch.apiURL'' (ZincSearch_APIURL s),
       ZincSearch_ZincUsername := getString v ''zincSearch.username'' (ZincSearch_ZincUsername s),
       ZincSearch_ZincPassword := getString v ''zincSearch.password'' (ZincSearch_ZincPassword s),
       ZincSearch_SyncIntervalSecond := getInt v ''zincSearch.syncIntervalSecond'' (ZincSearch_SyncIntervalSecond s),
       ZincSearch_SyncCount := getInt v ''zincSearch.syncCount'' (ZincSearch_SyncCount s)\<rparr>"

definition set_Group :: "'o viper \<Rightarrow> Config_Group \<Rightarrow> Config_Group" where
  "set_Group v s = s\<lparr>Group_SameDayCreateMaxCount := getInt v ''group.sameDayCreateMaxCount'' (Group_SameDayCreateMaxCount s),
       Group_CreateGroupVerifyFriendOn := getBool v ''group.createGroupVerifyFriendOn'' (Group_CreateGroupVerifyFriendOn s)\<rparr>"

definition set_APNS :: "'o viper \<Rightarrow> APNSPush \<Rightarrow> APNSPush" where
  "set_APNS v s = s\<lparr>APNS_Dev := getBool v ''push.apns.dev'' (APNS_Dev s), APNS_Topic := getString v ''push.apns.topic'' (APNS_Topic s), APNS_Password := getString v ''push.apns.password'' (APNS_Password s), APNS_Cert := getString v ''push.apns.cert'' (APNS_Cert s)\<rparr>"

definition set_HMS :: "'o viper \<Rightarrow> HMSPush \<Rightarrow> HMSPush" where
  "set_HMS v s = s\<lparr>HMS_PackageName := getString v ''push.hms.packageName'' (HMS_PackageName s), HMS_AppID := getString v ''push.hms.appID'' (HMS_AppID s), HMS_AppSecret := getString v ''push.hms.appSecret'' (HMS_AppSecret s)\<rparr>"

definition set_MI :: "'o viper \<Rightarrow> MIPush \<Rightarrow> MIPush" where
  "set_MI v s = s\<lparr>MI_PackageName := getString v ''push.mi.packageName'' (MI_PackageName s), MI_AppID := getString v ''push.mi.appID'' (MI_AppID s), MI_AppSecret := getString v ''push.mi.appSecret'' (MI_AppSecret s), MI_ChannelID := getString v ''push.mi.channelID'' (MI_ChannelID s)\<rparr>"

definition set_VIVO :: "'o viper \<Rightarrow> VIVOPush \<Rightarrow> VIVOPush" where
  "set_VIVO v s = s\<lparr>VIVO_PackageName := getString v ''push.vivo.packageName'' (VIVO_PackageName s), VIVO_AppID := getString v ''push.vivo.appID'' (VIVO_AppID s), VIVO_AppKey := getString v ''push.vivo.appKey'' (VIVO_AppKey s), VIVO_AppSecret := getString v ''push.vivo.appSecret'' (VIVO_AppSecret s)\<rparr>"

definition set_OPPO :: "'o viper \<Rightarrow> OPPOPush \<Rightarrow> OPPOPush" where
  "set_OPPO v s = s\<lparr>OPPO_PackageName := getString v ''push.oppo.packageName'' (OPPO_PackageName s), OPPO_AppID := getString v ''push.oppo.appID'' (OPPO_AppID s), OPPO_AppKey := getString v ''push.oppo.appKey'' (OPPO_AppKey s), OPPO_AppSecret := getString v ''push.oppo.appSecret'' (OPPO_AppSecret s), OPPO_MasterSecret := getString v ''push.oppo.masterSecret'' (OPPO_MasterSecret s)\<rparr>"

definition set_FIREBASE :: "'o viper \<Rightarrow> FIREBASEPush \<Rightarrow> FIREBASEPush" where
  "set_FIREBASE v s = s\<lparr>FIREBASE_JsonPath := getString v ''push.firebase.jsonPath'' (FIREBASE_JsonPath s), FIREBASE_ProjectId := getString v ''push.firebase.projectId'' (FIREBASE_ProjectId s), FIREBASE_PackageName := getString v ''push.firebase.packageName'' (FIREBASE_PackageName s)\<rparr>"

definition set_Push :: "'o viper \<Rightarrow> Config_Push \<Rightarrow> Config_Push" where
  "set_Push v s = s\<lparr>Push_ContentDetailOn := getBool v ''push.contentDetailOn'' (Push_ContentDetailOn s),
       Push_PushPoolSize := getInt64 v ''push.pushPoolSize'' (Push_PushPoolSize s),
       Push_APNS := set_APNS v (Push_APNS s),
       Push_HMS := set_HMS v (Push_HMS s),
       Push_MI := set_MI v (Push_MI s),
       Push_VIVO := set_VIVO v (Push_VIVO s),
       Push_OPPO := set_OPPO v (Push_OPPO s),
       Push_FIREBASE := set_FIREBASE v (Push_FIREBASE s)\<rparr>"

definition set_Message :: "'o viper \<Rightarrow> Config_Message \<Rightarrow> Config_Message" where
  "set_Message v s = s\<lparr>Message_SendMessageOn := getBool v ''message.sendMessageOn'' (Message_SendMessageOn s),
       Message_SyncReadedCountIntervalSecond := getInt v ''message.syncReadedCountIntervalSecond'' (Message_SyncReadedCountIntervalSecond s)\<rparr>"

definition set_Wechat :: "'o viper \<Rightarrow> Config_Wechat \<Rightarrow> Config_Wechat" where
  "set_Wechat v s = s\<lparr>Wechat_AppID := getString v ''wechat.appID'' (Wechat_AppID s),
       Wechat_AppSecret := getString v ''wechat.appSecret'' (Wechat_AppSecret s)\<rparr>"

definition set_Tracing :: "'o viper \<Rightarrow> Config_Tracing \<Rightarrow> Config_Tracing" where
  "set_Tracing v s = s\<lparr>Tracing_On := getBool v ''tracing.on'' (Tracing_On s),
       Tracing_Addr := getString v ''tracing.addr'' (Tracing_Addr s)\<rparr>"

definition set_Support :: "'o viper \<Rightarrow> Config_Support \<Rightarrow> Config_Support" where
  "set_Support v s = s\<lparr>Support_Email := getString v ''support.email'' (Support_Email s),
       Support_EmailSmtp := getString v ''support.emailSmtp'' (Support_EmailSmtp s),
       Support_EmailPwd := getString v ''support.emailPwd'' (Support_EmailPwd s)\<rparr>"

lemma in_order_Nil: "in_order [] c = c"
  by (simp add: in_order_def)

lemma in_order_Cons: "in_order (f # fs) c = in_order fs (f c)"
  by (simp add: in_order_def)

lemmas in_order_simps = in_order_Nil in_order_Cons

lemmas set_defs = set_Sass_def set_DB_def set_Cluster_def set_Cache_def set_Account_def set_OSS_def set_Seaweed_def set_Qiniu_def set_JdSMS_def set_UniSMS_def set_Smsbao_def set_AliyunSMS_def set_AliyunInternationalSMS_def set_WuKongIM_def set_Avatar_def set_ShortNo_def set_Robot_def set_Gitee_def set_Github_def set_OWT_def set_Livekit_def set_Register_def set_Organization_def set_Friend_def set_ZincSearch_def set_Group_def set_APNS_def set_HMS_def set_MI_def set_VIVO_def set_OPPO_def set_FIREBASE_def set_Push_def set_Message_def set_Wechat_def set_Tracing_def set_Support_def

lemma configure_sass_eq [config_sections]: "configure_sass v c = c\<lparr>cfg_Sass := set_Sass v (cfg_Sass c)\<rparr>"
  unfolding configure_sass_def set_defs by (simp add: in_order_simps)

lemma configure_db_eq [config_sections]: "configure_db v c = c\<lparr>cfg_DB := set_DB v (cfg_DB c)\<rparr>"
  unfolding configure_db_def set_defs by (simp add: in_order_simps)

lemma configure_cluster_eq [config_sections]: "configure_cluster v c = c\<lparr>cfg_Cluster := set_Cluster v (cfg_Cluster c)\<rparr>"
  unfolding configure_cluster_def set_defs by (simp add: in_order_simps)

lemma configure_cache_eq [config_sections]: "configure_cache v c = c\<lparr>cfg_Cache := set_Cache v (cfg_Cache c)\<rparr>"
  unfolding configure_cache_def set_defs by (simp add: in_order_simps)

lemma configure_account_eq [config_sections]: "configure_account v c = c\<lparr>cfg_Account := set_Account v (cfg_Account c)\<rparr>"
  unfolding configure_account_def set_defs by (simp add: in_order_simps)

lemma configure_sms_eq [config_sections]: "configure_sms v c = c\<lparr>cfg_SMSCode := getString v ''smsCode'' (cfg_SMSCode c), cfg_SMSProvider := getString v ''smsProvider'' (cfg_SMSProvider c), cfg_JdSMS := set_JdSMS v (cfg_JdSMS c), cfg_UniSMS := set_UniSMS v (cfg_UniSMS c), cfg_Smsbao := set_Smsbao v (cfg_Smsbao c), cfg_AliyunSMS := set_AliyunSMS v (cfg_AliyunSMS c), cfg_AliyunInternationalSMS := set_AliyunInternationalSMS v (cfg_AliyunInternationalSMS c)\<rparr>"
  unfolding configure_sms_def set_defs by (simp add: in_order_simps)

lemma configure_im_eq [config_sections]: "configure_im v c = c\<lparr>cfg_WuKongIM := set_WuKongIM v (cfg_WuKongIM c)\<rparr>"
  unfolding configure_im_def set_defs by (simp add: in_order_simps)

lemma configure_avatar_eq [config_sections]: "configure_avatar v c = c\<lparr>cfg_Avatar := set_Avatar v (cfg_Avatar c)\<rparr>"
  unfolding configure_avatar_def set_defs by (simp add: in_order_simps)

lemma configure_shortno_eq [config_sections]: "configure_shortno v c = c\<lparr>cfg_ShortNo := set_ShortNo v (cfg_ShortNo c)\<rparr>"
  unfolding configure_shortno_def set_defs by (simp add: in_order_simps)

lemma configure_robot_eq [config_sections]: "configure_robot v c = c\<lparr>cfg_Robot := set_Robot v (cfg_Robot c)\<rparr>"
  unfolding configure_robot_def set_defs by (simp add: in_order_simps)

lemma configure_oauth_eq [config_sections]: "configure_oauth v c = c\<lparr>cfg_Gitee := set_Gitee v (cfg_Gitee c), cfg_Github := set_Github v (cfg_Github c)\<rparr>"
  unfolding configure_oauth_def set_defs by (simp add: in_order_simps)

lemma configure_owt_eq [config_sections]: "configure_owt v c = c\<lparr>cfg_OWT := set_OWT v (cfg_OWT c)\<rparr>"
  unfolding configure_owt_def set_defs by (simp add: in_order_simps)

lemma configure_register_eq [config_sections]: "configure_register v c = c\<lparr>cfg_Register := set_Register v (cfg_Register c)\<rparr>"
  unfolding configure_register_def set_defs by (simp add: in_order_simps)

lemma configure_organization_eq [config_sections]: "configure_organization v c = c\<lparr>cfg_Organization := set_Organization v (cfg_Organization c)\<rparr>"
  unfolding configure_organization_def set_defs by (simp add: in_order_simps)

lemma configure_friend_eq [config_sections]: "configure_friend v c = c\<lparr>cfg_Friend := set_Friend v (cfg_Friend c)\<rparr>"
  unfolding configure_friend_def set_defs by (simp add: in_order_simps)

lemma configure_zinc_eq [config_sections]: "configure_zinc v c = c\<lparr>cfg_ZincSearch := set_ZincSearch v (cfg_ZincSearch c)\<rparr>"
  unfolding configure_zinc_def set_defs by (simp add: in_order_simps)

lemma configure_group_eq [config_sections]: "configure_group v c = c\<lparr>cfg_Group := set_Group v (cfg_Group c)\<rparr>"
  unfolding configure_group_def set_defs by (simp add: in_order_simps)

lemma configure_push_eq [config_sections]: "configure_push v c = c\<lparr>cfg_Push := set_Push v (cfg_Push c)\<rparr>"
  unfolding configure_push_def set_defs by (simp add: in_order_simps)

lemma configure_message_eq [config_sections]: "configure_message v c = c\<lparr>cfg_Message := set_Message v (cfg_Message c)\<rparr>"
  unfolding configure_message_def set_defs by (simp add: in_order_simps)

lemma configure_wechat_eq [config_sections]: "configure_wechat v c = c\<lparr>cfg_Wechat := set_Wechat v (cfg_Wechat c)\<rparr>"
  unfolding configure_wechat_def set_defs by (simp add: in_order_simps)

lemma configure_tracing_eq [config_sections]: "configure_tracing v c = c\<lparr>cfg_Tracing := set_Tracing v (cfg_Tracing c)\<rparr>"
  unfolding configure_tracing_def set_defs by (simp add: in_order_simps)

lemma configure_support_eq [config_sections]: "configure_support v c = c\<lparr>cfg_Support := set_Support v (cfg_Support c)\<rparr>"
  unfolding configure_support_def set_defs by (simp add: in_order_simps)

lemma configure_basic_eq [config_sections]: "configure_basic v c = c\<lparr>cfg_Mode := getString v ''application.environment'' DebugMode,
    cfg_AppID := getString v ''appID'' (cfg_AppID c),
    cfg_AppName := getString v ''application.appName'' (cfg_AppName c),
    cfg_RootDir := getString v ''rootDir'' (cfg_RootDir c),
    cfg_Version := getString v ''version'' (cfg_Version c),
    cfg_Addr := getString v ''server.http.port'' (cfg_Addr c),
    cfg_GRPCAddr := getString v ''server.grpc.port'' (''0.0.0.0'' @ cfg_GRPCAddr c),
    cfg_SSLAddr := getString v ''sslAddr'' (cfg_SSLAddr c),
    cfg_MessageSaveAcrossDevice := getBool v ''messageSaveAcrossDevice'' (cfg_MessageSaveAcrossDevice c),
    cfg_WelcomeMessage := welcome_text (getString v ''application.appName'' (cfg_AppName c)) (getString v ''welcomeMessage'' (cfg_WelcomeMessage c)),
    cfg_PhoneSearchOff := getBool v ''application.phoneSearchOff'' (cfg_PhoneSearchOff c),
    cfg_OnlineStatusOn := getBool v ''onlineStatusOn'' (cfg_OnlineStatusOn c),
    cfg_GroupUpgradeWhenMemberCount := getInt v ''groupUpgradeWhenMemberCount'' (cfg_GroupUpgradeWhenMemberCount c),
    cfg_EventPoolSize := getInt64 v ''eventPoolSize'' (cfg_EventPoolSize c),
    cfg_AdminPwd := getString v ''adminPwd'' (cfg_AdminPwd c)\<rparr>"
  unfolding configure_basic_def by (simp add: in_order_simps welcome_text_def if_assign)

lemma configure_livekit_eq [config_sections]:
  "configure_livekit v c = c\<lparr>cfg_Livekit := set_Livekit v (cfg_Livekit c),
     cfg_OWT := (cfg_OWT c)\<lparr>OWT_RoomMaxCount := getInt v ''owt.roomMaxCount'' (OWT_RoomMaxCount (cfg_OWT c))\<rparr>\<rparr>"
  unfolding configure_livekit_def set_defs by (simp add: in_order_simps)

definition set_External :: "string \<Rightarrow> 'o viper \<Rightarrow> Config_External \<Rightarrow> Config_External" where
  "set_External intranetIP v s =
     (let addr = nonblank (getString v ''external.ip'' (External_IP s)) intranetIP;
          base = nonblank (getString v ''external.baseURL'' (External_BaseURL s)) (''http://'' @ addr @ '':8090'')
      in s\<lparr>External_IP := addr,
           External_WebLoginURL := nonblank (getString v ''external.webLoginURL'' (External_WebLoginURL s))
             (''http://'' @ addr @ '':82''),
           External_BaseURL := base,
           External_H5BaseURL := nonblank (External_H5BaseURL s) (base @ ''/web''),
           External_APIBaseURL := nonblank (External_APIBaseURL s) (base @ ''/v1'')\<rparr>)"

definition set_Minio :: "string \<Rightarrow> string \<Rightarrow> 'o viper \<Rightarrow> MinioConfig \<Rightarrow> MinioConfig" where
  "set_Minio service addr v s =
     (let key = getString v ''minio.url'' (Minio_URL s);
          url = (if service = FileServiceMinio then nonblank key (''http://'' @ addr @ '':9000'') else key)
      in s\<lparr>Minio_URL := url,
           Minio_UploadURL := nonblank (getString v ''minio.uploadURL'' (Minio_UploadURL s)) url,
           Minio_DownloadURL := nonblank (getString v ''minio.downloadURL'' (Minio_DownloadURL s)) url,
           Minio_AccessKeyID := getString v ''minio.accessKeyID'' (Minio_AccessKeyID s),
           Minio_SecretAccessKey := getString v ''minio.secretAccessKey'' (Minio_SecretAccessKey s)\<rparr>)"

lemma configure_external_eq [config_sections]:
  "configure_external intranetIP v c = c\<lparr>cfg_External := set_External intranetIP v (cfg_External c)\<rparr>"
  unfolding configure_external_def set_External_def
  by (simp add: in_order_simps nonblank_def Let_def if_assign)

lemma configure_files_eq [config_sections]:
  "configure_files v c = c\<lparr>cfg_FileService := getString v ''fileService'' (cfg_FileService c),
     cfg_OSS := set_OSS v (cfg_OSS c),
     cfg_Minio := set_Minio (getString v ''fileService'' (cfg_FileService c)) (External_IP (cfg_External c)) v (cfg_Minio c),
     cfg_Seaweed := set_Seaweed v (cfg_Seaweed c), cfg_Qiniu := set_Qiniu v (cfg_Qiniu c)\<rparr>"
  unfolding configure_files_def set_defs set_Minio_def
  by (simp add: in_order_simps nonblank_def Let_def if_assign)

definition set_Logger :: "'o viper \<Rightarrow> string \<Rightarrow> string \<Rightarrow> Config_Logger" where
  "set_Logger v mode rootDir =
     (let l = vp_GetInt v ''logger.level'';
          dir = nonblank (vp_GetString v ''logger.dir'') ''logs''
      in \<lparr>Logger_Dir = (if has_prefix (trim_space dir) ''/'' then dir else filepath_Join [rootDir, dir]),
          Logger_Level = signed_take_bit 7 (if l = 0 then (if mode = DebugMode then DebugLevel else InfoLevel)
            else signed_take_bit 63 (l - 2)),
          Logger_LineNum = vp_GetBool v ''logger.lineNum''\<rparr>)"

lemma configureLog_eq [config_sections]:
  "configureLog v c = c\<lparr>cfg_Logger := set_Logger v (cfg_Mode c) (cfg_RootDir c)\<rparr>"
  by (simp add: configureLog_def set_Logger_def nonblank_def Let_def)

lemma set_OWT_twice [simp]:
  "(set_OWT v s)\<lparr>OWT_RoomMaxCount := getInt v ''owt.roomMaxCount'' (OWT_RoomMaxCount (set_OWT v s))\<rparr> = set_OWT v s"
  by (simp add: set_OWT_def getInt_def Let_def)

lemma configure_all_groups [simp]:
  "cfg_Sass (configure_all intranetIP v c) = set_Sass v (cfg_Sass c)"
  "cfg_DB (configure_all intranetIP v c) = set_DB v (cfg_DB c)"
  "cfg_Cluster (configure_all intranetIP v c) = set_Cluster v (cfg_Cluster c)"
  "cfg_Cache (configure_all intranetIP v c) = set_Cache v (cfg_Cache c)"
  "cfg_Account (configure_all intranetIP v c) = set_Account v (cfg_Account c)"
  "cfg_OSS (configure_all intranetIP v c) = set_OSS v (cfg_OSS c)"
  "cfg_Seaweed (configure_all intranetIP v c) = set_Seaweed v (cfg_Seaweed c)"
  "cfg_Qiniu (configure_all intranetIP v c) = set_Qiniu v (cfg_Qiniu c)"
  "cfg_JdSMS (configure_all intranetIP v c) = set_JdSMS v (cfg_JdSMS c)"
  "cfg_UniSMS (configure_all intranetIP v c) = set_UniSMS v (cfg_UniSMS c)"
  "cfg_Smsbao (configure_all intranetIP v c) = set_Smsbao v (cfg_Smsbao c)"
  "cfg_AliyunSMS (configure_all intranetIP v c) = set_AliyunSMS v (cfg_AliyunSMS c)"
  "cfg_AliyunInternationalSMS (configure_all intranetIP v c) = set_AliyunInternationalSMS v (cfg_AliyunInternationalSMS c)"
  "cfg_WuKongIM (configure_all intranetIP v c) = set_WuKongIM v (cfg_WuKongIM c)"
  "cfg_Avatar (configure_all intranetIP v c) = set_Avatar v (cfg_Avatar c)"
  "cfg_ShortNo (configure_all intranetIP v c) = set_ShortNo v (cfg_ShortNo c)"
  "cfg_Robot (configure_all intranetIP v c) = set_Robot v (cfg_Robot c)"
  "cfg_Gitee (configure_all intranetIP v c) = set_Gitee v (cfg_Gitee c)"
  "cfg_Github (configure_all intranetIP v c) = set_Github v (cfg_Github c)"
  "cfg_OWT (configure_all intranetIP v c) = set_OWT v (cfg_OWT c)"
  "cfg_Livekit (configure_all intranetIP v c) = set_Livekit v (cfg_Livekit c)"
  "cfg_Register (configure_all intranetIP v c) = set_Register v (cfg_Register c)"
  "cfg_Organization (configure_all intranetIP v c) = set_Organization v (cfg_Organization c)"
  "cfg_Friend (configure_all intranetIP v c) = set_Friend v (cfg_Friend c)"
  "cfg_ZincSearch (configure_all intranetIP v c) = set_ZincSearch v (cfg_ZincSearch c)"
  "cfg_Group (configure_all intranetIP v c) = set_Group v (cfg_Group c)"
  "cfg_Push (configure_all intranetIP v c) = set_Push v (cfg_Push c)"
  "cfg_Message (configure_all intranetIP v c) = set_Message v (cfg_Message c)"
  "cfg_Wechat (configure_all intranetIP v c) = set_Wechat v (cfg_Wechat c)"
  "cfg_Tracing (configure_all intranetIP v c) = set_Tracing v (cfg_Tracing c)"
  "cfg_Support (configure_all intranetIP v c) = set_Support v (cfg_Support c)"
  by (simp_all add: configure_all_def in_order_simps config_sections)

lemma configure_all_fields [simp]:
  "cfg_AppID (configure_all intranetIP v c) = getString v ''appID'' (cfg_AppID c)"
  "cfg_AppName (configure_all intranetIP v c) = getString v ''application.appName'' (cfg_AppName c)"
  "cfg_RootDir (configure_all intranetIP v c) = getString v ''rootDir'' (cfg_RootDir c)"
  "cfg_Version (configure_all intranetIP v c) = getString v ''version'' (cfg_Version c)"
  "cfg_Addr (configure_all intranetIP v c) = getString v ''server.http.port'' (cfg_Addr c)"
  "cfg_SSLAddr (configure_all intranetIP v c) = getString v ''sslAddr'' (cfg_SSLAddr c)"
  "cfg_AdminPwd (configure_all intranetIP v c) = getString v ''adminPwd'' (cfg_AdminPwd c)"
  "cfg_FileService (configure_all intranetIP v c) = getString v ''fileService'' (cfg_FileService c)"
  "cfg_SMSCode (configure_all intranetIP v c) = getString v ''smsCode'' (cfg_SMSCode c)"
  "cfg_SMSProvider (configure_all intranetIP v c) = getString v ''smsProvider'' (cfg_SMSProvider c)"
  "cfg_MessageSaveAcrossDevice (configure_all intranetIP v c) = getBool v ''messageSaveAcrossDevice'' (cfg_MessageSaveAcrossDevice c)"
  "cfg_PhoneSearchOff (configure_all intranetIP v c) = getBool v ''application.phoneSearchOff'' (cfg_PhoneSearchOff c)"
  "cfg_OnlineStatusOn (configure_all intranetIP v c) = getBool v ''onlineStatusOn'' (cfg_OnlineStatusOn c)"
  "cfg_GroupUpgradeWhenMemberCount (configure_all intranetIP v c) = getInt v ''groupUpgradeWhenMemberCount'' (cfg_GroupUpgradeWhenMemberCount c)"
  "cfg_EventPoolSize (configure_all intranetIP v c) = getInt64 v ''eventPoolSize'' (cfg_EventPoolSize c)"
  by (simp_all add: configure_all_def in_order_simps config_sections)

lemma configure_all_special [simp]:
  "cfg_Mode (configure_all intranetIP v c) = getString v ''application.environment'' DebugMode"
  "cfg_GRPCAddr (configure_all intranetIP v c) = getString v ''server.grpc.port'' (''0.0.0.0'' @ cfg_GRPCAddr c)"
  "cfg_WelcomeMessage (configure_all intranetIP v c) = welcome_text (getString v ''application.appName'' (cfg_AppName c)) (getString v ''welcomeMessage'' (cfg_WelcomeMessage c))"
  "cfg_External (configure_all intranetIP v c) = set_External intranetIP v (cfg_External c)"
  "cfg_Minio (configure_all intranetIP v c) = set_Minio (getString v ''fileService'' (cfg_FileService c))
     (External_IP (set_External intranetIP v (cfg_External c))) v (cfg_Minio c)"
  "cfg_Logger (configure_all intranetIP v c) = set_Logger v (getString v ''application.environment'' DebugMode) (getString v ''rootDir'' (cfg_RootDir c))"
  by (simp_all add: configure_all_def in_order_simps config_sections)

text \<open>The fields no setting reaches.\<close>

lemma configure_all_unset [simp]:
  "cfg_Ip2region (configure_all intranetIP v c) = cfg_Ip2region c"
  "cfg_Test (configure_all intranetIP v c) = cfg_Test c"
  "cfg_QRCodeInfoURL (configure_all intranetIP v c) = cfg_QRCodeInfoURL c"
  "cfg_VisitorUIDPrefix (configure_all intranetIP v c) = cfg_VisitorUIDPrefix c"
  "cfg_TimingWheelTick (configure_all intranetIP v c) = cfg_TimingWheelTick c"
  "cfg_TimingWheelSize (configure_all intranetIP v c) = cfg_TimingWheelSize c"
  "cfg_ElasticsearchURL (configure_all intranetIP v c) = cfg_ElasticsearchURL c"
  "cfg_TablePartitionConfig (configure_all intranetIP v c) = cfg_TablePartitionConfig c"
  by (simp_all add: configure_all_def in_order_simps config_sections)

definition string_settings :: "(string \<times> (Config \<Rightarrow> string)) list" where
  "string_settings =
     [(''appID'', \<lambda>c. cfg_AppID c),
      (''application.appName'', \<lambda>c. cfg_AppName c),
      (''rootDir'', \<lambda>c. cfg_RootDir c),
      (''version'', \<lambda>c. cfg_Version c),
      (''server.http.port'', \<lambda>c. cfg_Addr c),
      (''sslAddr'', \<lambda>c. cfg_SSLAddr c),
      (''adminPwd'', \<lambda>c. cfg_AdminPwd c),
      (''sass.companyCode'', \<lambda>c. Sass_CompanyCode (cfg_Sass c)),
      (''database.default.dns'', \<lambda>c. DB_MySQLAddr (cfg_DB c)),
      (''redis.addr'', \<lambda>c. DB_RedisAddr (cfg_DB c)),
      (''redis.password'', \<lambda>c. DB_RedisPass (cfg_DB c)),
      (''db.asynctaskRedisAddr'', \<lambda>c. DB_AsynctaskRedisAddr (cfg_DB c)),
      (''cache.tokenCachePrefix'', \<lambda>c. Cache_TokenCachePrefix (cfg_Cache c)),
      (''cache.loginDeviceCachePrefix'', \<lambda>c. Cache_LoginDeviceCachePrefix (cfg_Cache c)),
      (''cache.uidTokenCachePrefix'', \<lambda>c. Cache_UIDTokenCachePrefix (cfg_Cache c)),
      (''cache.friendApplyTokenCachePrefix'', \<lambda>c. Cache_FriendApplyTokenCachePrefix (cfg_Cache c)),
      (''account.systemUID'', \<lambda>c. Account_SystemUID (cfg_Account c)),
      (''account.fileHelperUID'', \<lambda>c. Account_FileHelperUID (cfg_Account c)),
      (''account.systemGroupID'', \<lambda>c. Account_SystemGroupID (cfg_Account c)),
      (''account.systemGroupName'', \<lambda>c. Account_SystemGroupName (cfg_Account c)),
      (''account.adminUID'', \<lambda>c. Account_AdminUID (cfg_Account c)),
      (''fileService'', \<lambda>c. cfg_FileService c),
      (''oss.type'', \<lambda>c. OSS_OssType (cfg_OSS c)),
      (''oss.endpoint'', \<lambda>c. OSS_Endpoint (cfg_OSS c)),
      (''oss.bucketUrl'', \<lambda>c. OSS_BucketURL (cfg_OSS c)),
      (''oss.accessKeyId'', \<lambda>c. OSS_AccessKeyID (cfg_OSS c)),
      (''oss.accessKeySecret'', \<lambda>c. OSS_AccessKeySecret (cfg_OSS c)),
      (''oss.bucketName'', \<lambda>c. OSS_BucketName (cfg_OSS c)),
      (''seaweed.url'', \<lambda>c. Seaweed_URL (cfg_Seaweed c)),
      (''qiniu.url'', \<lambda>c. Qiniu_URL (cfg_Qiniu c)),
      (''qiniu.bucketName'', \<lambda>c. Qiniu_BucketName (cfg_Qiniu c)),
      (''qiniu.accessKey'', \<lambda>c. Qiniu_AccessKey (cfg_Qiniu c)),
      (''qiniu.secretKey'', \<lambda>c. Qiniu_SecretKey (cfg_Qiniu c)),
      (''smsCode'', \<lambda>c. cfg_SMSCode c),
      (''smsProvider'', \<lambda>c. cfg_SMSProvider c),
      (''jdSMS.spCode'', \<lambda>c. JdSMS_SpCode (cfg_JdSMS c)),
      (''jdSMS.loginName'', \<lambda>c. JdSMS_LoginName (cfg_JdSMS c)),
      (''jdSMS.passWord'', \<lambda>c. JdSMS_Password (cfg_JdSMS c)),
      (''jdSMS.messageContent'', \<lambda>c. JdSMS_MessageContent (cfg_JdSMS c)),
      (''jdSMS.apiUrl'', \<lambda>c. JdSMS_ApiUrl (cfg_JdSMS c)),
      (''uniSMS.accessKeyID'', \<lambda>c. UniSMS_AccessKeyID (cfg_UniSMS c)),
      (''uniSMS.signature'', \<lambda>c. UniSMS_Signature (cfg_UniSMS c)),
      (''uniSMS.accessKeySecret'', \<lambda>c. UniSMS_AccessKeySecret (cfg_UniSMS c)),
      (''uniSMS.templateId'', \<lambda>c. UniSMS_TemplateId (cfg_UniSMS c)),
      (''smsbao.account'', \<lambda>c. Smsbao_Account (cfg_Smsbao c)),
      (''smsbao.apiKey'', \<lambda>c. Smsbao_APIKey (cfg_Smsbao c)),
      (''smsbao.template'', \<lambda>c. Smsbao_Template (cfg_Smsbao c)),
      (''aliyunSMS.accessKeyId'', \<lambda>c. AliyunSMS_AccessKeyID (cfg_AliyunSMS c)),
      (''aliyunSMS.accessKeySecret'', \<lambda>c. AliyunSMS_AccessKeySecret (cfg_AliyunSMS c)),
      (''aliyunSMS.signName'', \<lambda>c. AliyunSMS_SignName (cfg_AliyunSMS c)),
      (''aliyunSMS.userRegisterTemplateCode'', \<lambda>c. AliyunSMS_UserRegisterTemplateCode (cfg_AliyunSMS c)),
      (''aliyunSMS.userForgetPwdTemplateCode'', \<lambda>c. AliyunSMS_UserForgetPwdTemplateCode (cfg_AliyunSMS c)),
      (''aliyunSMS.userLoginTemplateCode'', \<lambda>c. AliyunSMS_UserLoginTemplateCode (cfg_AliyunSMS c)),
      (''aliyunSMS.userIdentityTemplateCode'', \<lambda>c. AliyunSMS_UserIdentityTemplateCode (cfg_AliyunSMS c)),
      (''aliyunInternationalSMS.accessKeyID'', \<lambda>c. AliyunIntl_AccessKeyID (cfg_AliyunInternationalSMS c)),
      (''aliyunInternationalSMS.accessSecret'', \<lambda>c. AliyunIntl_AccessSecret (cfg_AliyunInternationalSMS c)),
      (''aliyunInternationalSMS.signName'', \<lambda>c. AliyunIntl_SignName (cfg_AliyunInternationalSMS c)),
      (''im.apiURL'', \<lambda>c. WuKongIM_APIURL (cfg_WuKongIM c)),
      (''im.token'', \<lambda>c. WuKongIM_ManagerToken (cfg_WuKongIM c)),
      (''avatar.default'', \<lambda>c. Avatar_Default (cfg_Avatar c)),
      (''avatar.defaultBaseURL'', \<lambda>c. Avatar_DefaultBaseURL (cfg_Avatar c)),
      (''gitee.oauthURL'', \<lambda>c. Gitee_OAuthURL (cfg_Gitee c)),
      (''gitee.clientID'', \<lambda>c. Gitee_ClientID (cfg_Gitee c)),
      (''gitee.clientSecret'', \<lambda>c. Gitee_ClientSecret (cfg_Gitee c)),
      (''github.oauthURL'', \<lambda>c. Github_OAuthURL (cfg_Github c)),
      (''github.clientID'', \<lambda>c. Github_ClientID (cfg_Github c)),
      (''github.clientSecret'', \<lambda>c. Github_ClientSecret (cfg_Github c)),
      (''owt.url'', \<lambda>c. OWT_URL (cfg_OWT c)),
      (''owt.serviceID'', \<lambda>c. OWT_ServiceID (cfg_OWT c)),
      (''owt.serviceKey'', \<lambda>c. OWT_ServiceKey (cfg_OWT c)),
      (''sfu.url'', \<lambda>c. Livekit_URL (cfg_Livekit c)),
      (''sfu.key'', \<lambda>c. Livekit_Key (cfg_Livekit c)),
      (''sfu.secret'', \<lambda>c. Livekit_Secret (cfg_Livekit c)),
      (''friend.addedTipsText'', \<lambda>c. Friend_AddedTipsText (cfg_Friend c)),
      (''zincSearch.apiURL'', \<lambda>c. ZincSearch_APIURL (cfg_ZincSearch c)),
      (''zincSearch.username'', \<lambda>c. ZincSearch_ZincUsername (cfg_ZincSearch c)),
      (''zincSearch.password'', \<lambda>c. ZincSearch_ZincPassword (cfg_ZincSearch c)),
      (''push.apns.topic'', \<lambda>c. APNS_Topic (Push_APNS (cfg_Push c))),
      (''push.apns.password'', \<lambda>c. APNS_Password (Push_APNS (cfg_Push c))),
      (''push.apns.cert'', \<lambda>c. APNS_Cert (Push_APNS (cfg_Push c))),
      (''push.hms.packageName'', \<lambda>c. HMS_PackageName (Push_HMS (cfg_Push c))),
      (''push.hms.appID'', \<lambda>c. HMS_AppID (Push_HMS (cfg_Push c))),
      (''push.hms.appSecret'', \<lambda>c. HMS_AppSecret (Push_HMS (cfg_Push c))),
      (''push.mi.packageName'', \<lambda>c. MI_PackageName (Push_MI (cfg_Push c))),
      (''push.mi.appID'', \<lambda>c. MI_AppID (Push_MI (cfg_Push c))),
      (''push.mi.appSecret'', \<lambda>c. MI_AppSecret (Push_MI (cfg_Push c))),
      (''push.mi.channelID'', \<lambda>c. MI_ChannelID (Push_MI (cfg_Push c))),
      (''push.vivo.packageName'', \<lambda>c. VIVO_PackageName (Push_VIVO (cfg_Push c))),
      (''push.vivo.appID'', \<lambda>c. VIVO_AppID (Push_VIVO (cfg_Push c))),
      (''push.vivo.appKey'', \<lambda>c. VIVO_AppKey (Push_VIVO (cfg_Push c))),
      (''push.vivo.appSecret'', \<lambda>c. VIVO_AppSecret (Push_VIVO (cfg_Push c))),
      (''push.oppo.packageName'', \<lambda>c. OPPO_PackageName (Push_OPPO (cfg_Push c))),
      (''push.oppo.appID'', \<lambda>c. OPPO_AppID (Push_OPPO (cfg_Push c))),
      (''push.oppo.appKey'', \<lambda>c. OPPO_AppKey (Push_OPPO (cfg_Push c))),
      (''push.oppo.appSecret'', \<lambda>c. OPPO_AppSecret (Push_OPPO (cfg_Push c))),
      (''push.oppo.masterSecret'', \<lambda>c. OPPO_MasterSecret (Push_OPPO (cfg_Push c))),
      (''push.firebase.jsonPath'', \<lambda>c. FIREBASE_JsonPath (Push_FIREBASE (cfg_Push c))),
      (''push.firebase.projectId'', \<lambda>c. FIREBASE_ProjectId (Push_FIREBASE (cfg_Push c))),
      (''push.firebase.packageName'', \<lambda>c. FIREBASE_PackageName (Push_FIREBASE (cfg_Push c))),
      (''wechat.appID'', \<lambda>c. Wechat_AppID (cfg_Wechat c)),
      (''wechat.appSecret'', \<lambda>c. Wechat_AppSecret (cfg_Wechat c)),
      (''tracing.addr'', \<lambda>c. Tracing_Addr (cfg_Tracing c)),
      (''support.email'', \<lambda>c. Support_Email (cfg_Support c)),
      (''support.emailSmtp'', \<lambda>c. Support_EmailSmtp (cfg_Support c)),
      (''support.emailPwd'', \<lambda>c. Support_EmailPwd (cfg_Support c))]"

definition bool_settings :: "(string \<times> (Config \<Rightarrow> bool)) list" where
  "bool_settings =
     [(''messageSaveAcrossDevice'', \<lambda>c. cfg_MessageSaveAcrossDevice c),
      (''application.phoneSearchOff'', \<lambda>c. cfg_PhoneSearchOff c),
      (''onlineStatusOn'', \<lambda>c. cfg_OnlineStatusOn c),
      (''sass.switch'', \<lambda>c. Sass_Switch (cfg_Sass c)),
      (''db.migration'', \<lambda>c. DB_Migration (cfg_DB c)),
      (''shortNo.numOn'', \<lambda>c. ShortNo_NumOn (cfg_ShortNo c)),
      (''shortNo.editOff'', \<lambda>c. ShortNo_EditOff (cfg_ShortNo c)),
      (''livekit.off'', \<lambda>c. Livekit_Off (cfg_Livekit c)),
      (''register.off'', \<lambda>c. Register_Off (cfg_Register c)),
      (''register.onlyChina'', \<lambda>c. Register_OnlyChina (cfg_Register c)),
      (''register.stickerAddOff'', \<lambda>c. Register_StickerAddOff (cfg_Register c)),
      (''register.usernameOn'', \<lambda>c. Register_UsernameOn (cfg_Register c)),
      (''organization.importOn'', \<lambda>c. Organization_ImportOn (cfg_Organization c)),
      (''zincSearch.searchOn'', \<lambda>c. ZincSearch_SearchOn (cfg_ZincSearch c)),
      (''group.createGroupVerifyFriendOn'', \<lambda>c. Group_CreateGroupVerifyFriendOn (cfg_Group c)),
      (''push.contentDetailOn'', \<lambda>c. Push_ContentDetailOn (cfg_Push c)),
      (''push.apns.dev'', \<lambda>c. APNS_Dev (Push_APNS (cfg_Push c))),
      (''message.sendMessageOn'', \<lambda>c. Message_SendMessageOn (cfg_Message c)),
      (''tracing.on'', \<lambda>c. Tracing_On (cfg_Tracing c))]"

definition int_settings :: "(string \<times> (Config \<Rightarrow> int)) list" where
  "int_settings =
     [(''groupUpgradeWhenMemberCount'', \<lambda>c. cfg_GroupUpgradeWhenMemberCount c),
      (''database.default.maxOpenConns'', \<lambda>c. DB_MySQLMaxOpenConns (cfg_DB c)),
      (''database.default.maxIdleConns'', \<lambda>c. DB_MySQLMaxIdleConns (cfg_DB c)),
      (''cluster.nodeID'', \<lambda>c. Cluster_NodeID (cfg_Cluster c)),
      (''oss.limitSize'', \<lambda>c. OSS_LimitSize (cfg_OSS c)),
      (''avatar.defaultCount'', \<lambda>c. Avatar_DefaultCount (cfg_Avatar c)),
      (''avatar.partition'', \<lambda>c. Avatar_Partition (cfg_Avatar c)),
      (''shortNo.numLen'', \<lambda>c. ShortNo_NumLen (cfg_ShortNo c)),
      (''owt.roomMaxCount'', \<lambda>c. OWT_RoomMaxCount (cfg_OWT c)),
      (''livekit.inviteTimeoutSeconds'', \<lambda>c. Livekit_InviteTimeoutSeconds (cfg_Livekit c)),
      (''zincSearch.syncIntervalSecond'', \<lambda>c. ZincSearch_SyncIntervalSecond (cfg_ZincSearch c)),
      (''zincSearch.syncCount'', \<lambda>c. ZincSearch_SyncCount (cfg_ZincSearch c)),
      (''group.sameDayCreateMaxCount'', \<lambda>c. Group_SameDayCreateMaxCount (cfg_Group c)),
      (''message.syncReadedCountIntervalSecond'', \<lambda>c. Message_SyncReadedCountIntervalSecond (cfg_Message c))]"

definition int64_settings :: "(string \<times> (Config \<Rightarrow> int)) list" where
  "int64_settings =
     [(''eventPoolSize'', \<lambda>c. cfg_EventPoolSize c),
      (''robot.eventPoolSize'', \<lambda>c. Robot_EventPoolSize (cfg_Robot c)),
      (''push.pushPoolSize'', \<lambda>c. Push_PushPoolSize (cfg_Push c))]"

definition duration_settings :: "(string \<times> (Config \<Rightarrow> int)) list" where
  "duration_settings =
     [(''db.mysqlConnMaxLifetime'', \<lambda>c. DB_MySQLConnMaxLifetime (cfg_DB c)),
      (''cache.loginDeviceCacheExpire'', \<lambda>c. Cache_LoginDeviceCacheExpire (cfg_Cache c)),
      (''cache.friendApplyExpire'', \<lambda>c. Cache_FriendApplyExpire (cfg_Cache c)),
      (''cache.tokenExpire'', \<lambda>c. Cache_TokenExpire (cfg_Cache c)),
      (''cache.nameCacheExpire'', \<lambda>c. Cache_NameCacheExpire (cfg_Cache c)),
      (''robot.messageExpire'', \<lambda>c. Robot_MessageExpire (cfg_Robot c)),
      (''robot.inlineQueryTimeout'', \<lambda>c. Robot_InlineQueryTimeout (cfg_Robot c))]"

lemma string_settings_read: "list_all (\<lambda>(key, get). get (configure_all intranetIP v c) = getString v key (get c)) string_settings"
  by (simp add: string_settings_def set_defs)

lemma bool_settings_read: "list_all (\<lambda>(key, get). get (configure_all intranetIP v c) = getBool v key (get c)) bool_settings"
  by (simp add: bool_settings_def set_defs)

lemma int_settings_read: "list_all (\<lambda>(key, get). get (configure_all intranetIP v c) = getInt v key (get c)) int_settings"
  by (simp add: int_settings_def set_defs)

lemma int64_settings_read: "list_all (\<lambda>(key, get). get (configure_all intranetIP v c) = getInt64 v key (get c)) int64_settings"
  by (simp add: int64_settings_def set_defs)

lemma duration_settings_read: "list_all (\<lambda>(key, get). get (configure_all intranetIP v c) = getDuration v key (get c)) duration_settings"
  by (simp add: duration_settings_def set_defs)

subsection \<open>What the settings mean\<close>

lemma trim_space_nonblank: "trim_space d \<noteq> [] \<Longrightarrow> trim_space (nonblank s d) \<noteq> []"
  by (simp add: nonblank_def)

lemma trim_space_slash: "CHR ''/'' \<in> set s \<Longrightarrow> trim_space s \<noteq> []"
proof
  assume s: "CHR ''/'' \<in> set s" and a: "trim_space s = []"
  have "CHR ''/'' \<notin> \<Union> (set ` set space_runes)" by code_simp
  then have "CHR ''/'' \<in> set (trim_space s)" using s by (rule trim_space_keeps)
  with a show False by simp
qed

text \<open>The addresses handed to clients are never blank.\<close>

definition reachable_urls :: "Config \<Rightarrow> string list" where
  "reachable_urls c =
     [External_WebLoginURL (cfg_External c), External_BaseURL (cfg_External c),
      External_H5BaseURL (cfg_External c), External_APIBaseURL (cfg_External c)] @
     (if cfg_FileService c = FileServiceMinio
      then [Minio_URL (cfg_Minio c), Minio_UploadURL (cfg_Minio c), Minio_DownloadURL (cfg_Minio c)] else [])"

lemma reachable_urls_nonblank: "list_all (\<lambda>u. trim_space u \<noteq> []) (reachable_urls (configure_all ip v c))"
proof -
  have "trim_space (External_WebLoginURL (set_External ip v (cfg_External c))) \<noteq> []"
    and "trim_space (External_BaseURL (set_External ip v (cfg_External c))) \<noteq> []"
    and "trim_space (External_H5BaseURL (set_External ip v (cfg_External c))) \<noteq> []"
    and "trim_space (External_APIBaseURL (set_External ip v (cfg_External c))) \<noteq> []"
    unfolding set_External_def Let_def
    by (simp_all del: append.simps) (rule trim_space_nonblank, rule trim_space_slash, simp)+
  moreover have "trim_space (Minio_URL (set_Minio FileServiceMinio a v m)) \<noteq> []" for a m
    unfolding set_Minio_def Let_def
    by (simp del: append.simps) (rule trim_space_nonblank, rule trim_space_slash, simp)
  moreover have
    "Minio_UploadURL (set_Minio w a v m) = nonblank (getString v ''minio.uploadURL'' (Minio_UploadURL m)) (Minio_URL (set_Minio w a v m))"
    "Minio_DownloadURL (set_Minio w a v m) = nonblank (getString v ''minio.downloadURL'' (Minio_DownloadURL m)) (Minio_URL (set_Minio w a v m))"
    for w a m by (simp_all add: set_Minio_def Let_def)
  ultimately show ?thesis by (simp add: reachable_urls_def trim_space_nonblank)
qed


definition example_viper :: "string viper" where
  "example_viper = \<lparr>vp_GetString = (\<lambda>k. if k = ''appID'' then ''acme'' else []),
     vp_GetInt = (\<lambda>k. if k = ''livekit.roomMaxCount'' then 50 else 0), vp_GetInt64 = (\<lambda>k. 0),
     vp_GetDuration = (\<lambda>k. 0), vp_GetBool = (\<lambda>k. False), vp_Get = (\<lambda>k. None), ToBool = (\<lambda>x. x = ''true'')\<rparr>"


text \<open>The identifiers of a customer service channel are recovered when they hold no bar.\<close>

lemma customer_service_roundtrip:
  assumes "CHR ''|'' \<notin> set vid"
  shows "GetCustomerServiceVisitorUID (ComposeCustomerServiceChannelID vid ch) = (vid, True)"
    and "CHR ''|'' \<notin> set ch \<Longrightarrow> GetCustomerServiceChannelID (ComposeCustomerServiceChannelID vid ch) = (ch, True)"
proof -
  have b: "str_contains (vid @ ''|'' @ ch) ''|''" by (auto simp: str_contains_iff)
  have s: "split_str (vid @ ''|'' @ ch) ''|'' = vid # split_str ch ''|''"
    using split_acc_sep [OF assms, of "[]" "[]" ch] by (simp add: split_str_def)
  show "GetCustomerServiceVisitorUID (ComposeCustomerServiceChannelID vid ch) = (vid, True)"
    using b s by (simp add: GetCustomerServiceVisitorUID_def ComposeCustomerServiceChannelID_def)
  show "GetCustomerServiceChannelID (ComposeCustomerServiceChannelID vid ch) = (ch, True)" if "CHR ''|'' \<notin> set ch"
    using b s split_acc_end [OF that, of "[]" "[]"]
    by (simp add: GetCustomerServiceChannelID_def ComposeCustomerServiceChannelID_def split_str_def)
qed

lemma avatar_id_bound: "avatar_id c s = Ok i \<Longrightarrow> i < word_of_int (Avatar_Partition (cfg_Avatar c))"
  by (auto simp: avatar_id_def Let_def word_mod_less_divisor word_gt_0 split: if_splits)

end
