(* ===== verification/ErrorCodes.thy ===== *)
theory ErrorCodes
  imports Prelude
begin

text \<open>
  The error values of \<^verbatim>\<open>pkg/errors\<close> (and of its copy \<^verbatim>\<open>pkg/errors/errors\<close>) with the registry that keeps
  their codes apart, and the translation between HTTP statuses and gRPC codes of
  \<^verbatim>\<open>pkg/internal/httputil\<close>. Errors of other packages are a parameter: their text, and the gRPC status
  that \<^verbatim>\<open>status.FromError\<close> finds in them. The message of \<^verbatim>\<open>Newf\<close> is the text \<^verbatim>\<open>fmt.Sprintf\<close> made of its
  format.
\<close>

subsection \<open>HTTP statuses and gRPC codes\<close>

datatype grpc_code =
    C_OK | Canceled | Unknown | InvalidArgument | DeadlineExceeded | NotFoundCode | AlreadyExists
  | PermissionDenied | ResourceExhausted | FailedPrecondition | Aborted | OutOfRange | Unimplemented
  | Internal | Unavailable | DataLoss | Unauthenticated | OtherCode nat

definition StatusClientClosed :: int where "StatusClientClosed = 499"

definition GRPCCodeFromStatus :: "int \<Rightarrow> grpc_code" where
  "GRPCCodeFromStatus code =
     (if code = 200 then C_OK
      else if code = 400 then InvalidArgument
      else if code = 401 then Unauthenticated
      else if code = 403 then PermissionDenied
      else if code = 404 then NotFoundCode
      else if code = 409 then Aborted
      else if code = 429 then ResourceExhausted
      else if code = 500 then Internal
      else if code = 501 then Unimplemented
      else if code = 503 then Unavailable
      else if code = 504 then DeadlineExceeded
      else if code = StatusClientClosed then Canceled
      else Unknown)"

definition StatusFromGRPCCode :: "grpc_code \<Rightarrow> int" where
  "StatusFromGRPCCode code =
     (case code of
        C_OK \<Rightarrow> 200
      | Canceled \<Rightarrow> StatusClientClosed
      | Unknown \<Rightarrow> 500
      | InvalidArgument \<Rightarrow> 400
      | DeadlineExceeded \<Rightarrow> 504
      | NotFoundCode \<Rightarrow> 404
      | AlreadyExists \<Rightarrow> 409
      | PermissionDenied \<Rightarrow> 403
      | Unauthenticated \<Rightarrow> 401
      | ResourceExhausted \<Rightarrow> 429
      | FailedPrecondition \<Rightarrow> 400
      | Aborted \<Rightarrow> 409
      | OutOfRange \<Rightarrow> 400
      | Unimplemented \<Rightarrow> 501
      | Internal \<Rightarrow> 500
      | Unavailable \<Rightarrow> 503
      | DataLoss \<Rightarrow> 500
      | OtherCode n \<Rightarrow> 500)"

definition ContentType :: "string \<Rightarrow> string" where
  "ContentType subtype = join_str ''/'' [''application'', subtype]"

definition str_index :: "char \<Rightarrow> string \<Rightarrow> int" where
  "str_index d s = (if d \<in> set s then int (length (takeWhile (\<lambda>c. c \<noteq> d) s)) else - 1)"

definition ContentSubtype :: "string \<Rightarrow> string" where
  "ContentSubtype contentType =
     (let left = str_index (CHR ''/'') contentType in
      if left = - 1 then []
      else
        let right = str_index (CHR '';'') contentType;
            right = (if right = - 1 then int (length contentType) else right)
        in if right < left then []
           else drop (nat (left + 1)) (take (nat right) contentType))"

subsection \<open>Errors\<close>

record Error =
  Code_of :: int32
  Reason_of :: string
  Message_of :: string
  Metadata_of :: "string \<rightharpoonup> string"

record JyError =
  jy_reason :: string
  CnMessage :: string
  EnMessage :: string

text \<open>\<open>Wrapped\<close> is an error that unwraps to another; \<open>Foreign\<close> one of another package.\<close>

datatype 'x go_error = AppError Error | Bilingual JyError | Wrapped string "'x go_error" | Foreign 'x

datatype detail = ErrorInfo string "string \<rightharpoonup> string" | OtherDetail

record 'x grpc =
  status_FromError :: "'x go_error \<Rightarrow> (grpc_code \<times> string \<times> detail list) option"
  error_text :: "'x go_error \<Rightarrow> string"

text \<open>The map \<^verbatim>\<open>_codes\<close>: every error made with a reason, by code, reason and message.\<close>

type_synonym registry = "string \<rightharpoonup> Error"

definition code_key :: "Error \<Rightarrow> string" where
  "code_key e = show_int (sint (Code_of e)) @ ''_'' @ Reason_of e @ ''_'' @ Message_of e"

definition New_error :: "int \<Rightarrow> string \<Rightarrow> string \<Rightarrow> registry \<Rightarrow> (unit, Error) res \<times> registry" where
  "New_error code reason message codes =
     (let e = \<lparr>Code_of = word_of_int code, Reason_of = reason, Message_of = message, Metadata_of = Map.empty\<rparr>
      in if Reason_of e \<noteq> [] then
           (if code_key e \<in> dom codes then (Panic (''ecode: '' @ code_key e @ '',already exist''), codes)
            else (Ok e, codes(code_key e \<mapsto> e)))
         else (Ok e, codes))"

definition WithMetadata :: "Error \<Rightarrow> (string \<rightharpoonup> string) \<Rightarrow> Error" where
  "WithMetadata e md = e\<lparr>Metadata_of := md\<rparr>"

text \<open>\<open>errors.As\<close> for the type \<^verbatim>\<open>*Error\<close>: the first in the chain.\<close>

fun as_Error :: "'x go_error \<Rightarrow> Error option" where
  "as_Error (AppError e) = Some e"
| "as_Error (Bilingual j) = None"
| "as_Error (Wrapped msg err) = as_Error err"
| "as_Error (Foreign x) = None"

definition Is_error :: "Error \<Rightarrow> 'x go_error \<Rightarrow> bool" where
  "Is_error e err = (case as_Error err of Some se \<Rightarrow> Reason_of se = Reason_of e | None \<Rightarrow> False)"

definition UnknownCode :: int where "UnknownCode = 500"
definition UnknownReason :: string where "UnknownReason = []"

fun first_info :: "detail list \<Rightarrow> (string \<times> (string \<rightharpoonup> string)) option" where
  "first_info [] = None"
| "first_info (ErrorInfo reason md # ds) = Some (reason, md)"
| "first_info (OtherDetail # ds) = first_info ds"

text \<open>A nil error is None, and gives a nil \<^verbatim>\<open>*Error\<close>.\<close>

definition FromError :: "'x grpc \<Rightarrow> 'x go_error option \<Rightarrow> registry \<Rightarrow> (unit, Error option) res \<times> registry" where
  "FromError g err codes =
     (case err of
        None \<Rightarrow> (Ok None, codes)
      | Some er \<Rightarrow>
          (case as_Error er of
             Some se \<Rightarrow> (Ok (Some se), codes)
           | None \<Rightarrow>
               (case (case status_FromError g er of
                        Some (code, msg, details) \<Rightarrow>
                          map_option (\<lambda>(reason, md). (code, msg, reason, md)) (first_info details)
                      | None \<Rightarrow> None) of
                  Some (code, msg, reason, md) \<Rightarrow>
                    (case New_error (StatusFromGRPCCode code) reason msg codes of
                       (r, codes') \<Rightarrow> (map_ok (\<lambda>e. Some (WithMetadata e md)) r, codes'))
                | None \<Rightarrow>
                    (case New_error UnknownCode UnknownReason (error_text g er) codes of
                       (r, codes') \<Rightarrow> (map_ok Some r, codes')))))"

definition Code_error :: "'x grpc \<Rightarrow> 'x go_error option \<Rightarrow> registry \<Rightarrow> (unit, int) res \<times> registry" where
  "Code_error g err codes =
     (case err of
        None \<Rightarrow> (Ok 200, codes)
      | Some er \<Rightarrow>
          (case FromError g err codes of
             (r, codes') \<Rightarrow> (bind_res r (\<lambda>se. case se of
                 None \<Rightarrow> Panic ''runtime error: invalid memory address or nil pointer dereference''
               | Some se \<Rightarrow> Ok (sint (Code_of se))), codes')))"

text \<open>The reason, in \<^verbatim>\<open>pkg/errors/errors\<close>: a nil error dereferences nothing.\<close>

definition Reason_error :: "'x grpc \<Rightarrow> 'x go_error option \<Rightarrow> registry \<Rightarrow> (unit, string) res \<times> registry" where
  "Reason_error g err codes =
     (case FromError g err codes of
        (r, codes') \<Rightarrow> (if err \<noteq> None
           then bind_res r (\<lambda>se. case se of
                 None \<Rightarrow> Panic ''runtime error: invalid memory address or nil pointer dereference''
               | Some se \<Rightarrow> Ok (Reason_of se))
           else map_ok (\<lambda>_. UnknownReason) r, codes'))"

text \<open>The status an error travels as, in \<^verbatim>\<open>pkg/errors/errors\<close>.\<close>

definition GRPCStatus :: "Error \<Rightarrow> grpc_code \<times> string \<times> detail list" where
  "GRPCStatus e =
     (GRPCCodeFromStatus (sint (Code_of e)), Message_of e, [ErrorInfo (Reason_of e) (Metadata_of e)])"

text \<open>The constructors by status, each with its test.\<close>

definition Newf :: "int \<Rightarrow> string \<Rightarrow> string \<Rightarrow> registry \<Rightarrow> (unit, Error) res \<times> registry" where
  "Newf code reason formatted = New_error code reason formatted"

definition Errorf :: "int \<Rightarrow> string \<Rightarrow> string \<Rightarrow> registry \<Rightarrow> (unit, Error) res \<times> registry" where
  "Errorf code reason formatted = New_error code reason formatted"

definition Unauthorized where "Unauthorized reason message = Newf 401 reason message"
definition Forbidden where "Forbidden reason message = Newf 403 reason message"
definition NotFound where "NotFound reason message = Newf 404 reason message"
definition Conflict where "Conflict reason message = Newf 409 reason message"
definition InternalServer where "InternalServer reason message = Newf 500 reason message"
definition ServiceUnavailable where "ServiceUnavailable reason message = Newf 503 reason message"
definition GatewayTimeout where "GatewayTimeout reason message = Newf 504 reason message"
definition ClientClosed where "ClientClosed reason message = Newf 499 reason message"

definition code_is :: "int \<Rightarrow> 'x grpc \<Rightarrow> 'x go_error option \<Rightarrow> registry \<Rightarrow> (unit, bool) res \<times> registry" where
  "code_is n g err codes = (case Code_error g err codes of (r, codes') \<Rightarrow> (map_ok (\<lambda>c. c = n) r, codes'))"

definition IsBadRequest where "IsBadRequest g err codes = code_is 400 g err codes"
definition IsUnauthorized where "IsUnauthorized g err codes = code_is 401 g err codes"
definition IsForbidden where "IsForbidden g err codes = code_is 403 g err codes"
definition IsNotFound where "IsNotFound g err codes = code_is 404 g err codes"
definition IsConflict where "IsConflict g err codes = code_is 409 g err codes"
definition IsInternalServer where "IsInternalServer g err codes = code_is 500 g err codes"
definition IsServiceUnavailable where "IsServiceUnavailable g err codes = code_is 503 g err codes"
definition IsGatewayTimeout where "IsGatewayTimeout g err codes = code_is 504 g err codes"
definition IsClientClosed where "IsClientClosed g err codes = code_is 499 g err codes"

text \<open>The errors shown to users, in Chinese unless the request asks for English.\<close>

definition BadRequest :: "string \<Rightarrow> string \<Rightarrow> string \<Rightarrow> JyError" where
  "BadRequest reason cnMessage enMessage = \<lparr>jy_reason = reason, CnMessage = cnMessage, EnMessage = enMessage\<rparr>"

definition Error_jy :: "JyError \<Rightarrow> string" where
  "Error_jy j = CnMessage j"

text \<open>\<open>errorf\<close> is \<^verbatim>\<open>fmt.Errorf\<close> without operands; \<open>lang\<close> the header of the request.\<close>

definition ToError :: "(string \<Rightarrow> string) \<Rightarrow> string \<Rightarrow> JyError \<Rightarrow> string" where
  "ToError errorf lang j =
     (if lang = ''cn'' then errorf (CnMessage j)
      else if lang = ''en'' then errorf (EnMessage j)
      else errorf (CnMessage j))"

subsection \<open>Codes that survive the translation\<close>

definition http_codes :: "int list" where
  "http_codes = [200, 400, 401, 403, 404, 409, 429, 499, 500, 501, 503, 504]"

lemma status_roundtrip: "StatusFromGRPCCode (GRPCCodeFromStatus c) = c \<longleftrightarrow> c \<in> set http_codes"
  by (auto simp: StatusFromGRPCCode_def GRPCCodeFromStatus_def StatusClientClosed_def http_codes_def)

lemma takeWhile_not_in: "d \<notin> set x \<Longrightarrow> takeWhile (\<lambda>c. c \<noteq> d) (x @ d # y) = x"
  by (induction x) auto

lemma content_subtype_roundtrip: "CHR '';'' \<notin> set s \<Longrightarrow> ContentSubtype (ContentType s) = s"
proof -
  assume s: "CHR '';'' \<notin> set s"
  have c: "ContentType s = ''application'' @ CHR ''/'' # s"
    by (simp add: ContentType_def)
  have "str_index (CHR ''/'') (ContentType s) = 11"
    unfolding c str_index_def by (subst takeWhile_not_in) simp_all
  moreover have "str_index (CHR '';'') (ContentType s) = - 1"
    using s by (simp add: c str_index_def)
  ultimately show ?thesis
    by (simp add: ContentSubtype_def c)
qed

subsection \<open>The registry\<close>

text \<open>Every operation only adds to the registry.\<close>

named_theorems registry_grows "operations that only add to the registry"

lemma New_error_grows [registry_grows]: "codes \<subseteq>\<^sub>m snd (New_error c r m codes)"
  by (auto simp: New_error_def Let_def map_le_def)

lemma FromError_grows [registry_grows]: "codes \<subseteq>\<^sub>m snd (FromError g err codes)"
  using New_error_grows
  by (auto simp: FromError_def split: option.splits prod.splits) (metis snd_conv)+

lemma Code_error_grows [registry_grows]: "codes \<subseteq>\<^sub>m snd (Code_error g err codes)"
  using FromError_grows [of codes g err]
  by (auto simp: Code_error_def split: option.splits prod.splits)

lemma code_is_grows [registry_grows]: "codes \<subseteq>\<^sub>m snd (code_is n g err codes)"
  using Code_error_grows [of codes g err] by (auto simp: code_is_def split: prod.splits)

text \<open>An error that arrives with the status of \<open>e\<close>.\<close>

definition arrives_as :: "'x grpc \<Rightarrow> 'x go_error \<Rightarrow> Error \<Rightarrow> bool" where
  "arrives_as g er e \<longleftrightarrow> as_Error er = None \<and> status_FromError g er = Some (GRPCStatus e)
     \<and> sint (Code_of e) \<in> set http_codes"

lemma FromError_arrived:
  assumes "arrives_as g er e"
  shows "FromError g (Some er) codes =
    (case New_error (sint (Code_of e)) (Reason_of e) (Message_of e) codes of
       (r, codes') \<Rightarrow> (map_ok (\<lambda>x. Some (WithMetadata x (Metadata_of e))) r, codes'))"
proof -
  have "StatusFromGRPCCode (GRPCCodeFromStatus (sint (Code_of e))) = sint (Code_of e)"
    using assms status_roundtrip [of "sint (Code_of e)"] by (simp add: arrives_as_def)
  then show ?thesis
    using assms by (simp add: arrives_as_def FromError_def GRPCStatus_def)
qed

lemma code_key_metadata [simp]: "code_key (e\<lparr>Metadata_of := md\<rparr>) = code_key e"
  by (simp add: code_key_def)

lemma as_made: "\<lparr>Code_of = Code_of e, Reason_of = Reason_of e, Message_of = Message_of e,
     Metadata_of = md\<rparr> = (e :: Error)\<lparr>Metadata_of := md\<rparr>"
  by (cases e) simp

lemma New_error_made:
  "Reason_of e \<noteq> [] \<Longrightarrow> New_error (sint (Code_of e)) (Reason_of e) (Message_of e) codes =
     (if code_key e \<in> dom codes then (Panic (''ecode: '' @ code_key e @ '',already exist''), codes)
      else (Ok (e\<lparr>Metadata_of := Map.empty\<rparr>), codes(code_key e \<mapsto> e\<lparr>Metadata_of := Map.empty\<rparr>)))"
  by (simp add: New_error_def Let_def as_made del: domIff)

lemma FromError_again:
  assumes "arrives_as g er e" "Reason_of e \<noteq> []" "code_key e \<in> dom codes"
  shows "is_panic (fst (FromError g (Some er) codes))"
  using assms(3) unfolding FromError_arrived [OF assms(1)] New_error_made [OF assms(2)] by simp

lemma code_is_panics:
  "is_panic (fst (FromError g (Some er) codes)) \<Longrightarrow> is_panic (fst (code_is n g (Some er) codes))"
  by (cases "FromError g (Some er) codes") (auto simp: code_is_def Code_error_def is_panic_def split: res.splits)


definition example_error :: Error where
  "example_error = \<lparr>Code_of = 404, Reason_of = ''USER'', Message_of = ''no such user'', Metadata_of = [''uid'' \<mapsto> ''u1'']\<rparr>"

definition example_grpc :: "unit grpc" where
  "example_grpc = \<lparr>status_FromError = (\<lambda>er. Some (GRPCStatus example_error)), error_text = (\<lambda>er. ''rpc error'')\<rparr>"


end
