(* ===== verification/TextUtil.thy ===== *)
theory TextUtil
  imports Prelude "HOL-Library.List_Lexorder" "HOL-Library.Char_ord"
begin

text \<open>
  The text helpers of \<^verbatim>\<open>pkg/util\<close>: base 62 (\<^verbatim>\<open>base62.go\<close>), names and lists (\<^verbatim>\<open>string.go\<close>), substrings
  and signed parameters (\<^verbatim>\<open>common.go\<close>, \<^verbatim>\<open>sign.go\<close>) and paging (\<^verbatim>\<open>page.go\<close>). MD5 and the random source
  are parameters.
\<close>

subsection \<open>Base 62\<close>

text \<open>The cases 0 to 8 of the switch are empty: Go does not fall through to the case 9.\<close>

definition tenValue2Char :: "int \<Rightarrow> string" where
  "tenValue2Char ten =
     (if ten < 0 then []
      else if ten < 9 then []
      else if ten = 9 then show_int ten
      else if ten = 33 \<or> ten = 59 then (if ten = 33 then ''s'' else ''S'')
      else if ten < 36 then [char_of (nat ten + 87)]
      else if ten \<le> 61 then [char_of (nat ten + 29)]
      else [])"

function ten2hex_loop :: "int \<Rightarrow> string \<Rightarrow> int \<times> string" where
  "ten2hex_loop ten hex =
     (if 62 \<le> ten then ten2hex_loop (quo ten 62) (tenValue2Char (rem ten 62) @ hex) else (ten, hex))"
  by pat_completeness auto
termination by (relation "measure (\<lambda>(ten, hex). nat ten)") (auto simp: quo_def sgn_if)

declare ten2hex_loop.simps [simp del]

definition Ten2Hex :: "int \<Rightarrow> string" where
  "Ten2Hex ten =
     (case ten2hex_loop ten [] of (ten, hex) \<Rightarrow> if ten \<noteq> 0 then tenValue2Char ten @ hex else hex)"

subsection \<open>Names and lists\<close>

definition isUpper :: "char \<Rightarrow> bool" where
  "isUpper b \<longleftrightarrow> 65 \<le> (of_char b :: nat) \<and> (of_char b :: nat) \<le> 90"

definition isLower :: "char \<Rightarrow> bool" where
  "isLower b \<longleftrightarrow> 97 \<le> (of_char b :: nat) \<and> (of_char b :: nat) \<le> 122"

definition isDigit :: "char \<Rightarrow> bool" where
  "isDigit b \<longleftrightarrow> 48 \<le> (of_char b :: nat) \<and> (of_char b :: nat) \<le> 57"

definition toLower :: "char \<Rightarrow> char" where
  "toLower b = (if isUpper b then char_of ((of_char b :: nat) - 65 + 97) else b)"

definition UnderscoreName :: "string \<Rightarrow> string" where
  "UnderscoreName name =
     concat (map (\<lambda>i. toLower (name ! i) #
         (if i \<noteq> length name - 1 \<and> isUpper (name ! (i + 1)) \<and>
             (isLower (name ! i) \<or> isDigit (name ! i) \<or> (i \<noteq> length name - 2 \<and> isLower (name ! (i + 2))))
          then ''_'' else []))
       [0..<length name])"

text \<open>The inner loop looks for the element at a later index and stops at the first.\<close>

fun repeated_from :: "string list \<Rightarrow> string \<Rightarrow> nat list \<Rightarrow> bool" where
  "repeated_from arr x [] = False"
| "repeated_from arr x (j # js) = (if x = arr ! j then True else repeated_from arr x js)"

definition RemoveRepeatedElement :: "string list \<Rightarrow> string list" where
  "RemoveRepeatedElement arr =
     foldl (\<lambda>newArr i. if repeated_from arr (arr ! i) [i + 1..<length arr] then newArr else newArr @ [arr ! i])
       [] [0..<length arr]"

definition GenerUUID :: "string \<Rightarrow> string" where
  "GenerUUID u = join_str [] (split_str u ''-'')"

text \<open>\<open>intn k\<close> is the k-th number drawn.\<close>

definition GetRandomString :: "(nat \<Rightarrow> nat) \<Rightarrow> nat \<Rightarrow> string" where
  "GetRandomString intn num =
     map (\<lambda>k. ''0123456789abcdefghijklmnopqrstuvwxyzABCDEFGHIJKLMNOPQRSTUVWXYZ'' ! intn k) [0..<num]"

definition GetRandomSalt :: "(nat \<Rightarrow> nat) \<Rightarrow> string" where
  "GetRandomSalt intn = GetRandomString intn 8"

subsection \<open>Substrings\<close>

text \<open>On the runes of the text; additions wrap at 64 bits, and a slice out of bounds panics.\<close>

definition go_slice :: "'r list \<Rightarrow> int \<Rightarrow> int \<Rightarrow> (unit, 'r list) res" where
  "go_slice xs i j =
     (if 0 \<le> i \<and> i \<le> j \<and> j \<le> int (length xs) then Ok (take (nat (j - i)) (drop (nat i) xs))
      else Panic ''runtime error: slice bounds out of range'')"

definition add64 :: "int \<Rightarrow> int \<Rightarrow> int" where
  "add64 a b = signed_take_bit 63 (a + b)"

definition Substr :: "'r list \<Rightarrow> int \<Rightarrow> int \<Rightarrow> (unit, 'r list) res" where
  "Substr runeStr start len =
     (if len = 0 then Ok []
      else
        let lenStr = int (length runeStr);
            start = (if start < 0 then add64 lenStr start else start);
            start = (if start > lenStr then lenStr else start);
            stop = add64 start len;
            stop = (if stop > lenStr then lenStr else stop);
            stop = (if len < 0 then add64 lenStr len else stop);
            (start, stop) = (if start > stop then (stop, start) else (start, stop))
        in go_slice runeStr start stop)"

subsection \<open>Signed parameters\<close>

text \<open>
  A parameter by its dynamic type: the integer types printed with %d, the text, a uint32 (printed with
  %s, as fmt reports a wrong verb) and any other value, with the text %s makes of it.
\<close>

datatype obj = OInt int | OUint32 int | OStr string | OOther string

definition objToStr :: "obj \<Rightarrow> string" where
  "objToStr v =
     (case v of
        OInt n \<Rightarrow> show_int n
      | OUint32 n \<Rightarrow> ''%!s(uint32='' @ show_int n @ '')''
      | OStr s \<Rightarrow> s
      | OOther s \<Rightarrow> s)"

definition ObjToStr :: "obj \<Rightarrow> string" where
  "ObjToStr v =
     (case v of
        OInt n \<Rightarrow> show_int n
      | OUint32 n \<Rightarrow> ''%!s(uint32='' @ show_int n @ '')''
      | OStr s \<Rightarrow> s
      | OOther s \<Rightarrow> s)"

text \<open>A map is an association list with distinct keys, in the order the loop meets them.\<close>

definition sorted_keys :: "(string \<times> obj) list \<Rightarrow> string list" where
  "sorted_keys params = sort (map fst params)"

definition param :: "(string \<times> obj) list \<Rightarrow> string \<Rightarrow> obj" where
  "param params k = the (map_of params k)"

definition MapToQueryParamSort :: "(string \<times> obj) list \<Rightarrow> string" where
  "MapToQueryParamSort params =
     (if length params = 0 then []
      else
        let strs = foldl (\<lambda>strs k. if param params k = OStr [] then strs
                     else strs @ k @ ''='' @ objToStr (param params k) @ ''&'') [] (sorted_keys params)
        in if length strs > 0 then take (length strs - 1) strs else strs)"

definition Sign_params :: "(string \<Rightarrow> string) \<Rightarrow> (string \<times> obj) list \<Rightarrow> string \<Rightarrow> string" where
  "Sign_params md5 params appKey = md5 (MapToQueryParamSort params @ ''&key='' @ appKey)"

definition GetSignStr :: "(string \<times> obj) list \<Rightarrow> string" where
  "GetSignStr params =
     (let keys = sorted_keys params in
      foldl (\<lambda>signStr i. let k = keys ! i; v = param params k in
               if v = OStr [] then signStr
               else k @ ''='' @ ObjToStr v @ (if i \<noteq> length keys - 1 then ''&'' else []))
        [] [0..<length keys])"

subsection \<open>Paging\<close>

definition ToPageNumOrDefault :: "string \<Rightarrow> string \<Rightarrow> nat \<times> nat" where
  "ToPageNumOrDefault pageIndex pageSize =
     ((if pageIndex = [] then 1 else fst (parse_uint 64 pageIndex)),
      (if pageSize = [] then 10 else fst (parse_uint 64 pageSize)))"

subsection \<open>What the helpers compute\<close>

lemma repeated_from_iff: "repeated_from arr x js \<longleftrightarrow> (\<exists>j \<in> set js. x = arr ! j)"
  by (induction js) auto

lemma set_drop_nth: "set (drop k arr) = (\<lambda>j. arr ! j) ` {k..<length arr}"
proof -
  have "drop k arr = map (\<lambda>j. arr ! j) [k..<length arr]"
    by (metis drop_map drop_upt map_nth add_0)
  then show ?thesis by simp
qed

lemma repeated_later: "repeated_from arr x [k..<length arr] \<longleftrightarrow> x \<in> set (drop k arr)"
  by (auto simp: repeated_from_iff set_drop_nth)

lemma RemoveRepeatedElement_remdups: "RemoveRepeatedElement arr = remdups arr"
proof -
  let ?f = "\<lambda>newArr i. if repeated_from arr (arr ! i) [i + 1..<length arr] then newArr else newArr @ [arr ! i]"
  have "foldl ?f acc [k..<length arr] = acc @ remdups (drop k arr)" if "k \<le> length arr" for k acc
    using that
  proof (induction "length arr - k" arbitrary: k acc)
    case (Suc m)
    then have k: "k < length arr" by simp
    have IH: "foldl ?f acc [Suc k..<length arr] = acc @ remdups (drop (Suc k) arr)" for acc
      using Suc k by simp
    show ?case
      unfolding upt_conv_Cons [OF k] foldl.simps IH
      using k by (simp add: repeated_later Cons_nth_drop_Suc [symmetric] del: upt_Suc)
  qed simp
  from this [of 0 "[]"] show ?thesis by (simp add: RemoveRepeatedElement_def)
qed

text \<open>The digits of a number in base 62, most significant first; none for zero.\<close>

fun digits62 :: "nat \<Rightarrow> nat list" where
  "digits62 n = (if n = 0 then [] else digits62 (n div 62) @ [n mod 62])"

declare digits62.simps [simp del]

definition digit_text :: "nat \<Rightarrow> string" where
  "digit_text d = tenValue2Char (int d)"

lemma quo_rem_62: "quo (int n) 62 = int (n div 62)" "rem (int n) 62 = int (n mod 62)"
proof -
  show q: "quo (int n) 62 = int (n div 62)"
    by (cases "n = 0") (simp_all add: quo_def zdiv_int)
  show "rem (int n) 62 = int (n mod 62)"
    unfolding rem_def q by (simp add: zmod_int zdiv_int minus_mult_div_eq_mod [symmetric])
qed

lemma ten2hex_loop_digits:
  "(case ten2hex_loop (int n) hex of (t, h) \<Rightarrow> if t \<noteq> 0 then tenValue2Char t @ h else h)
   = concat (map digit_text (digits62 n)) @ hex"
proof (induction n arbitrary: hex rule: less_induct)
  case (less n)
  show ?case
  proof (cases "62 \<le> n")
    case True
    then have "n div 62 < n" by simp
    with True show ?thesis
      using less by (subst ten2hex_loop.simps, subst digits62.simps) (simp add: quo_rem_62 digit_text_def [of "n mod 62"])
  next
    case False
    have "digits62 0 = []" by (simp add: digits62.simps)
    with False show ?thesis
      by (subst ten2hex_loop.simps, subst digits62.simps) (auto simp: digit_text_def)
  qed
qed

lemma Ten2Hex_digits: "Ten2Hex (int n) = concat (map digit_text (digits62 n))"
  using ten2hex_loop_digits [of n "[]"] by (simp add: Ten2Hex_def)

text \<open>The nine smallest digits are not written, and 33 and 59 share their letters with 28 and 54.\<close>

lemma Ten2Hex_collisions: "Ten2Hex 5 = []" "Ten2Hex 62 = Ten2Hex 0" "Ten2Hex 33 = Ten2Hex 28" "Ten2Hex 9 = Ten2Hex (9 + 62)"
  by code_simp+

definition pair_text :: "(string \<times> obj) list \<Rightarrow> string \<Rightarrow> string" where
  "pair_text params k = k @ ''='' @ objToStr (param params k)"

lemma join_snoc: "concat (map (\<lambda>k. f k @ [d]) ks) = (if ks = [] then [] else join_str [d] (map f ks) @ [d])"
proof (induction ks)
  case (Cons k ks)
  then show ?case by (cases ks) auto
qed simp

lemma MapToQueryParamSort_join:
  "MapToQueryParamSort params
   = join_str ''&'' (map (pair_text params) (filter (\<lambda>k. param params k \<noteq> OStr []) (sorted_keys params)))"
proof -
  let ?ks = "\<lambda>ks. filter (\<lambda>k. param params k \<noteq> OStr []) ks"
  have f: "foldl (\<lambda>strs k. if param params k = OStr [] then strs
         else strs @ k @ ''='' @ objToStr (param params k) @ ''&'') acc ks
     = acc @ concat (map (\<lambda>k. pair_text params k @ ''&'') (?ks ks))" for ks acc
    by (induction ks arbitrary: acc) (simp_all add: pair_text_def)
  show ?thesis
  proof (cases "params = []")
    case True
    then show ?thesis by (simp add: MapToQueryParamSort_def sorted_keys_def)
  next
    case False
    then show ?thesis
      unfolding MapToQueryParamSort_def f by (simp add: join_snoc)
  qed
qed

text \<open>The loops of the text helpers compute what they are named for.
  \<^verbatim>\<open>RemoveRepeatedElement\<close> keeps the last occurrence of every element, in order (HOL's \<open>remdups\<close>).
  \<^verbatim>\<open>MapToQueryParamSort\<close> joins the pairs \<open>key=value\<close> whose value is not the empty text, by ascending
  key, with \<open>&\<close>. \<^verbatim>\<open>Ten2Hex\<close> writes the base 62 digits of its number, each by the digit table; that
  table writes nothing for 0 to 8 and the same letter for 28 and 33 (54 and 59), so the text does not
  determine the number: 62 and 0 have the same one.\<close>

theorem text_loops_equiv:
  "RemoveRepeatedElement arr = remdups arr
   \<and> MapToQueryParamSort params
     = join_str ''&'' (map (pair_text params) (filter (\<lambda>k. param params k \<noteq> OStr []) (sorted_keys params)))
   \<and> Ten2Hex (int n) = concat (map digit_text (digits62 n))
   \<and> Ten2Hex 62 = Ten2Hex 0 \<and> Ten2Hex 33 = Ten2Hex 28"
  using RemoveRepeatedElement_remdups MapToQueryParamSort_join Ten2Hex_digits Ten2Hex_collisions by simp

text \<open>A substring that starts inside the text; a start before its beginning panics.\<close>

lemma Substr_inside:
  assumes "0 \<le> start" "start \<le> int (length xs)" "0 < len" "int (length xs) + len < 2 ^ 63"
  shows "Substr xs start len = Ok (take (nat len) (drop (nat start) xs))"
proof -
  have "add64 start len = start + len"
    using assms by (simp add: add64_def signed_take_bit_int_eq_self)
  then show ?thesis
    using assms by (auto simp: Substr_def Let_def go_slice_def)
qed

lemma Substr_panics: "is_panic (Substr ''abc'' (- 5) 2)"
  by code_simp

end
