(* ===== verification/ConfigValue.thy ===== *)
theory ConfigValue
  imports DecimalText
begin

text \<open>
  The values of a configuration, \<^verbatim>\<open>pkg/zconfig/config\<close>: what a source's format decodes to
  (\<open>cval\<close>), the typed views of \<^verbatim>\<open>value.go\<close>, the lookup by a dotted path and the conversion of
  \<^verbatim>\<open>reader.go\<close>, and the placeholders of \<^verbatim>\<open>options.go\<close>.

  A Go map is a list of its entries, with distinct keys, in the order its iteration takes them: Go
  leaves that order open, so a statement about all lists is one about all orders. The conversions
  between float64 and text or integers are a parameter.
\<close>

datatype cval =
    CNil | CBool bool | CInt int64 | CInt32 int32 | CInt64 int64 | CFloat uint64 | CStr string
  | CBytes string | CMap "(string \<times> cval) list" | CAnyMap "(cval \<times> cval) list" | CSlice "cval list"
  | COther "string option"

text \<open>\<open>COther\<close> is a value of any other type, with the text of its \<^verbatim>\<open>String\<close> method if it has one.\<close>

type_synonym cmap = "(string \<times> cval) list"

record go_float =
  float_text :: "uint64 \<Rightarrow> string"
  float_int64 :: "uint64 \<Rightarrow> int64"
  int64_float :: "int64 \<Rightarrow> uint64"
  parse_float :: "string \<Rightarrow> uint64 \<times> num_error option"

datatype value_error = TypeAssert | BadNumber num_error | BadBool string | NotFoundKey | NoMethod

subsection \<open>The typed views\<close>

definition sprint :: "go_float \<Rightarrow> cval \<Rightarrow> string" where
  "sprint F v =
     (case v of
        CBool b \<Rightarrow> (if b then ''true'' else ''false'')
      | CInt n \<Rightarrow> show_int (sint n)
      | CInt32 n \<Rightarrow> show_int (sint n)
      | CInt64 n \<Rightarrow> show_int (sint n)
      | CFloat x \<Rightarrow> float_text F x
      | CStr s \<Rightarrow> s
      | CNil \<Rightarrow> ''<nil>''
      | COther (Some t) \<Rightarrow> t
      | _ \<Rightarrow> [])"

definition ParseBool :: "string \<Rightarrow> (value_error, bool) res" where
  "ParseBool s =
     (if s \<in> set [''1'', ''t'', ''T'', ''TRUE'', ''true'', ''True''] then Ok True
      else if s \<in> set [''0'', ''f'', ''F'', ''FALSE'', ''false'', ''False''] then Ok False
      else Err (BadBool s))"

definition Bool_value :: "go_float \<Rightarrow> cval \<Rightarrow> (value_error, bool) res" where
  "Bool_value F v =
     (case v of
        CBool b \<Rightarrow> Ok b
      | CInt n \<Rightarrow> ParseBool (sprint F v)
      | CInt32 n \<Rightarrow> ParseBool (sprint F v)
      | CInt64 n \<Rightarrow> ParseBool (sprint F v)
      | CFloat x \<Rightarrow> ParseBool (sprint F v)
      | CStr s \<Rightarrow> ParseBool (sprint F v)
      | _ \<Rightarrow> Err TypeAssert)"

text \<open>The value returned beside an error of the parser is lost with it.\<close>

definition Int_value :: "go_float \<Rightarrow> cval \<Rightarrow> (value_error, int64) res" where
  "Int_value F v =
     (case v of
        CInt n \<Rightarrow> Ok n
      | CInt32 n \<Rightarrow> Ok (scast n)
      | CInt64 n \<Rightarrow> Ok n
      | CFloat x \<Rightarrow> Ok (float_int64 F x)
      | CStr s \<Rightarrow> (case parse_int 64 s of
            (n, None) \<Rightarrow> Ok (word_of_int n)
          | (n, Some e) \<Rightarrow> Err (BadNumber e))
      | _ \<Rightarrow> Err TypeAssert)"

definition Float_value :: "go_float \<Rightarrow> cval \<Rightarrow> (value_error, uint64) res" where
  "Float_value F v =
     (case v of
        CFloat x \<Rightarrow> Ok x
      | CInt n \<Rightarrow> Ok (int64_float F n)
      | CInt32 n \<Rightarrow> Ok (int64_float F (scast n))
      | CInt64 n \<Rightarrow> Ok (int64_float F n)
      | CStr s \<Rightarrow> (case parse_float F s of
            (x, None) \<Rightarrow> Ok x
          | (x, Some e) \<Rightarrow> Err (BadNumber e))
      | _ \<Rightarrow> Err TypeAssert)"

definition String_value :: "go_float \<Rightarrow> cval \<Rightarrow> (value_error, string) res" where
  "String_value F v =
     (case v of
        CStr s \<Rightarrow> Ok s
      | CBool b \<Rightarrow> Ok (sprint F v)
      | CInt n \<Rightarrow> Ok (sprint F v)
      | CInt32 n \<Rightarrow> Ok (sprint F v)
      | CInt64 n \<Rightarrow> Ok (sprint F v)
      | CFloat x \<Rightarrow> Ok (sprint F v)
      | CBytes b \<Rightarrow> Ok b
      | COther (Some t) \<Rightarrow> Ok t
      | _ \<Rightarrow> Err TypeAssert)"

definition Duration_value :: "go_float \<Rightarrow> cval \<Rightarrow> (value_error, int64) res" where
  "Duration_value F v = Int_value F v"

text \<open>The string an expression ignoring the error goes on with.\<close>

definition string_or_empty :: "go_float \<Rightarrow> cval \<Rightarrow> string" where
  "string_or_empty F v = (case String_value F v of Ok s \<Rightarrow> s | _ \<Rightarrow> [])"

subsection \<open>Lookup\<close>

text \<open>
  The value found is stored in a fresh \<^verbatim>\<open>atomic.Value\<close>, which panics on nil.
\<close>

fun read_keys :: "cmap \<Rightarrow> string list \<Rightarrow> ('e, cval option) res" where
  "read_keys next [] = Ok None"
| "read_keys next [key] =
     (case map_of next key of
        None \<Rightarrow> Ok None
      | Some CNil \<Rightarrow> Panic ''sync/atomic: store of nil value into Value''
      | Some v \<Rightarrow> Ok (Some v))"
| "read_keys next (key # k # ks) =
     (case map_of next key of
        Some (CMap vm) \<Rightarrow> read_keys vm (k # ks)
      | _ \<Rightarrow> Ok None)"

definition readValue :: "cmap \<Rightarrow> string \<Rightarrow> ('e, cval option) res" where
  "readValue values path = read_keys values (split_str path ''.'')"

subsection \<open>Conversion\<close>

definition put_entry :: "string \<Rightarrow> cval \<Rightarrow> cmap \<Rightarrow> cmap" where
  "put_entry k v m =
     (if k \<in> fst ` set m then map (\<lambda>(k', w). (k', if k' = k then v else w)) m else m @ [(k, v)])"

fun convertMap :: "go_float \<Rightarrow> cval \<Rightarrow> cval" where
  "convertMap F (CMap m) = CMap (map (\<lambda>(k, v). (k, convertMap F v)) m)"
| "convertMap F (CAnyMap m) = CMap (foldl (\<lambda>dst (k, v). put_entry k v dst) [] (map (\<lambda>(k, v). (sprint F k, convertMap F v)) m))"
| "convertMap F (CSlice vs) = CSlice (map (convertMap F) vs)"
| "convertMap F v = v"

subsection \<open>Package os: expansion of placeholders\<close>

definition isShellSpecialVar :: "char \<Rightarrow> bool" where
  "isShellSpecialVar c \<longleftrightarrow> c \<in> set ''*#$@!?-0123456789''"

definition isAlphaNum :: "char \<Rightarrow> bool" where
  "isAlphaNum c \<longleftrightarrow>
     (let n = of_char c :: nat
      in c = CHR ''_'' \<or> 48 \<le> n \<and> n \<le> 57 \<or> 97 \<le> n \<and> n \<le> 122 \<or> 65 \<le> n \<and> n \<le> 90)"

text \<open>The name after a dollar sign and the number of characters it takes; the text is not empty.\<close>

definition getShellName :: "string \<Rightarrow> string \<times> nat" where
  "getShellName s =
     (if hd s = CHR ''{'' then
        (if length s > 2 \<and> isShellSpecialVar (s ! 1) \<and> s ! 2 = CHR ''}'' then ([s ! 1], 3)
         else if CHR ''}'' \<in> set (tl s) then
           (let name = takeWhile (\<lambda>c. c \<noteq> CHR ''}'') (tl s)
            in if name = [] then ([], 2) else (name, length name + 2))
         else ([], 1))
      else if isShellSpecialVar (hd s) then ([hd s], 1)
      else (takeWhile isAlphaNum s, length (takeWhile isAlphaNum s)))"

partial_function (option) Expand_loop ::
    "(string \<Rightarrow> ('e, string) res) \<Rightarrow> string \<Rightarrow> nat \<Rightarrow> string \<Rightarrow> ('e, string) res option" where
  "Expand_loop mapping s j buf =
     (if length s \<le> j then Some (Ok buf)
      else if s ! j = CHR ''$'' \<and> j + 1 < length s then
        (case getShellName (drop (j + 1) s) of
           (name, w) \<Rightarrow>
             if name = [] \<and> 0 < w then Expand_loop mapping s (j + w + 1) buf
             else if name = [] then Expand_loop mapping s (j + w + 1) (buf @ [s ! j])
             else (case mapping name of
                     Ok t \<Rightarrow> Expand_loop mapping s (j + w + 1) (buf @ t)
                   | Err e \<Rightarrow> Some (Err e)
                   | Panic m \<Rightarrow> Some (Panic m)))
      else Expand_loop mapping s (j + 1) (buf @ [s ! j]))"

definition Expand :: "(string \<Rightarrow> ('e, string) res) \<Rightarrow> string \<Rightarrow> ('e, string) res option" where
  "Expand mapping s = Expand_loop mapping s 0 []"

subsection \<open>The resolver\<close>

definition mapper :: "go_float \<Rightarrow> cmap \<Rightarrow> string \<Rightarrow> ('e, string) res" where
  "mapper F input name =
     (let args = split_str (trim_space name) '':'' in
      bind_res (readValue input (args ! 0)) (\<lambda>r.
        case r of
          Some v \<Rightarrow> Ok (string_or_empty F v)
        | None \<Rightarrow> Ok (if length args > 1 then args ! 1 else [])))"

text \<open>
  The resolver changes the maps and slices of its input in place, while the placeholders are looked
  up in the same input: the state is the whole input, and a position in it is a path.
\<close>

datatype pos = AtKey string | AtIndex nat

fun put_at :: "pos list \<Rightarrow> cval \<Rightarrow> cval \<Rightarrow> cval" where
  "put_at [] x v = x"
| "put_at (AtKey k # q) x (CMap m) = CMap (map (\<lambda>(k', v). (k', if k' = k then put_at q x v else v)) m)"
| "put_at (AtIndex i # q) x (CSlice vs) =
     CSlice (if i < length vs then vs[i := put_at q x (vs ! i)] else vs)"
| "put_at (p # q) x v = v"

definition entries :: "cval \<Rightarrow> cmap" where
  "entries v = (case v of CMap m \<Rightarrow> m | _ \<Rightarrow> [])"

definition lift_opt :: "('e, 'a) res option \<Rightarrow> ('a \<Rightarrow> ('e, 'b) res option) \<Rightarrow> ('e, 'b) res option" where
  "lift_opt r f =
     (case r of
        None \<Rightarrow> None
      | Some (Ok x) \<Rightarrow> f x
      | Some (Err e) \<Rightarrow> Some (Err e)
      | Some (Panic m) \<Rightarrow> Some (Panic m))"

text \<open>One string: expanded where it stands.\<close>

definition expand_at :: "go_float \<Rightarrow> pos list \<Rightarrow> string \<Rightarrow> cval \<Rightarrow> ('e, cval) res option" where
  "expand_at F q s input =
     lift_opt (Expand (mapper F (entries input)) s) (\<lambda>t. Some (Ok (put_at q (CStr t) input)))"

text \<open>A slice directly inside a slice is not entered.\<close>

function resolve_map :: "go_float \<Rightarrow> pos list \<Rightarrow> cmap \<Rightarrow> cval \<Rightarrow> ('e, cval) res option"
  and resolve_slice :: "go_float \<Rightarrow> pos list \<Rightarrow> nat \<Rightarrow> cval list \<Rightarrow> cval \<Rightarrow> ('e, cval) res option" where
  "resolve_map F p [] input = Some (Ok input)"
| "resolve_map F p ((k, v) # sub) input =
     lift_opt (case v of
         CStr s \<Rightarrow> expand_at F (p @ [AtKey k]) s input
       | CMap m \<Rightarrow> resolve_map F (p @ [AtKey k]) m input
       | CSlice vs \<Rightarrow> resolve_slice F (p @ [AtKey k]) 0 vs input
       | _ \<Rightarrow> Some (Ok input))
       (resolve_map F p sub)"
| "resolve_slice F p i [] input = Some (Ok input)"
| "resolve_slice F p i (v # vs) input =
     lift_opt (case v of
         CStr s \<Rightarrow> expand_at F (p @ [AtIndex i]) s input
       | CMap m \<Rightarrow> resolve_map F (p @ [AtIndex i]) m input
       | _ \<Rightarrow> Some (Ok input))
       (resolve_slice F p (i + 1) vs)"
  by pat_completeness auto
termination
  by (relation "measure (\<lambda>x. case x of Inl (F, p, m, input) \<Rightarrow> size_list (size_prod (\<lambda>_. 0) size) m
        | Inr (F, p, i, vs, input) \<Rightarrow> size_list size vs)")
    auto

definition defaultResolver :: "go_float \<Rightarrow> cmap \<Rightarrow> ('e, cmap) res option" where
  "defaultResolver F input =
     lift_opt (resolve_map F [] input (CMap input)) (\<lambda>v. Some (Ok (entries v)))"

end
