(* ===== verification/ConfigResolve.thy ===== *)
theory ConfigResolve
  imports ConfigValue
begin

text \<open>
  The resolver of placeholders, against two references: \<^verbatim>\<open>os.Expand\<close> as substitution in the tokens of a
  text, and the in-place resolution of a configuration as the substitution of all its texts at once.
\<close>

subsection \<open>Expansion is substitution in the tokens\<close>

text \<open>A text is a sequence of literal characters and names.\<close>

datatype token = Lit char | Name string

function tokens :: "string \<Rightarrow> token list" where
  "tokens [] = []"
| "tokens (c # cs) =
     (if c = CHR ''$'' \<and> cs \<noteq> [] then
        (case getShellName cs of
           (name, w) \<Rightarrow> (if name = [] \<and> 0 < w then [] else if name = [] then [Lit c] else [Name name])
             @ tokens (drop w cs))
      else Lit c # tokens cs)"
  by pat_completeness auto
termination by (relation "measure length") auto

fun subst :: "(string \<Rightarrow> ('e, string) res) \<Rightarrow> token list \<Rightarrow> ('e, string) res" where
  "subst f [] = Ok []"
| "subst f (Lit c # ts) = map_ok (\<lambda>t. c # t) (subst f ts)"
| "subst f (Name n # ts) = bind_res (f n) (\<lambda>t. map_ok (\<lambda>u. t @ u) (subst f ts))"

lemma map_ok_bind: "map_ok g (bind_res r f) = bind_res r (\<lambda>x. map_ok g (f x))"
  by (cases r) auto

lemma map_ok_map_ok: "map_ok g (map_ok f r) = map_ok (\<lambda>x. g (f x)) r"
  by (cases r) auto

lemma map_ok_id: "map_ok (\<lambda>x. x) r = r"
  by (cases r) auto

lemma Expand_loop_tokens:
  "j \<le> length s \<or> drop j s = [] \<Longrightarrow>
   Expand_loop f s j buf = Some (map_ok (\<lambda>t. buf @ t) (subst f (tokens (drop j s))))"
proof (induction "length s - j" arbitrary: j buf rule: less_induct)
  case less
  show ?case
  proof (cases "length s \<le> j")
    case True
    then show ?thesis by (subst Expand_loop.simps) simp
  next
    case False
    then have j: "j < length s" by simp
    have d: "drop j s = s ! j # drop (j + 1) s" using j by (simp add: Cons_nth_drop_Suc)
    have IH: "Expand_loop f s (j + w + 1) b = Some (map_ok (\<lambda>t. b @ t) (subst f (tokens (drop w (drop (j + 1) s)))))" for w b
    proof (cases "j + w + 1 \<le> length s")
      case True
      then show ?thesis using less.hyps [of "j + w + 1" b] j by (simp add: ac_simps)
    next
      case False
      then show ?thesis by (subst Expand_loop.simps) simp
    qed
    have c: "Expand_loop f s (j + 1) b = Some (map_ok (\<lambda>t. b @ t) (subst f (tokens (drop (j + 1) s))))" for b
      using IH [of 0 b] by simp
    have e: "drop (j + 1) s \<noteq> [] \<longleftrightarrow> j + 1 < length s" by auto
    show ?thesis
    proof (cases "s ! j = CHR ''$'' \<and> j + 1 < length s")
      case True
      obtain name w where g: "getShellName (drop (j + 1) s) = (name, w)" by (cases "getShellName (drop (j + 1) s)")
      have t: "tokens (drop j s) = (if name = [] \<and> 0 < w then [] else if name = [] then [Lit (s ! j)] else [Name name])
             @ tokens (drop w (drop (j + 1) s))"
        using True g unfolding d by (simp only: tokens.simps e simp_thms if_True prod.case)
      consider "name = [] \<and> 0 < w" | "name = []" "w = 0" | "name \<noteq> []" by auto
      then show ?thesis
      proof cases
        case 1
        then show ?thesis
          using True g unfolding t by (subst Expand_loop.simps) (simp add: IH [simplified])
      next
        case 2
        then show ?thesis
          using True g unfolding t by (subst Expand_loop.simps) (simp add: c [simplified] map_ok_map_ok)
      next
        case 3
        then show ?thesis
          using True g unfolding t
          by (subst Expand_loop.simps) (cases "f name", simp_all add: IH [simplified] map_ok_map_ok)
      qed
    next
      case n: False
      then have t: "tokens (drop j s) = Lit (s ! j) # tokens (drop (j + 1) s)"
        unfolding d by (simp only: tokens.simps e if_False)
      show ?thesis
        using n False unfolding t by (subst Expand_loop.simps) (auto simp: c [simplified] map_ok_map_ok)
    qed
  qed
qed

lemma Expand_tokens: "Expand f s = Some (subst f (tokens s))"
  using Expand_loop_tokens [of 0 s f "[]"] by (simp add: Expand_def map_ok_id)

definition literal :: "string \<Rightarrow> bool" where
  "literal s \<longleftrightarrow> tokens s = map Lit s"

definition refs :: "string \<Rightarrow> string list" where
  "refs s = concat (map (\<lambda>t. case t of Name n \<Rightarrow> [n] | Lit c \<Rightarrow> []) (tokens s))"

lemma literal_no_dollar: "CHR ''$'' \<notin> set s \<Longrightarrow> literal s"
  unfolding literal_def by (induction s) auto

lemma subst_literal: "subst f (map Lit s) = Ok s"
  by (induction s) auto

lemma subst_cong: "(\<And>n. Name n \<in> set ts \<Longrightarrow> f n = g n) \<Longrightarrow> subst f ts = subst g ts"
proof (induction ts)
  case (Cons t ts)
  then show ?case by (cases t) auto
qed simp

lemma subst_ok: "(\<And>n. Name n \<in> set ts \<Longrightarrow> \<exists>t. f n = Ok t) \<Longrightarrow> \<exists>t. subst f ts = Ok t"
proof (induction ts)
  case (Cons t ts)
  then obtain u where u: "subst f ts = Ok u" by auto
  show ?case
  proof (cases t)
    case (Lit c)
    then show ?thesis using u by simp
  next
    case (Name n)
    then obtain v where "f n = Ok v" using Cons.prems by auto
    then show ?thesis using u Name by simp
  qed
qed simp

lemma refs_iff: "n \<in> set (refs s) \<longleftrightarrow> Name n \<in> set (tokens s)"
  by (auto simp: refs_def split: token.splits)

subsection \<open>Resolution at once\<close>

text \<open>The texts of a configuration with their places, in the order the resolver takes them.\<close>

function sites :: "cval \<Rightarrow> (pos list \<times> string) list"
  and map_sites :: "cmap \<Rightarrow> (pos list \<times> string) list"
  and slice_sites :: "nat \<Rightarrow> cval list \<Rightarrow> (pos list \<times> string) list" where
  "sites v = (case v of CStr s \<Rightarrow> [([], s)] | CMap m \<Rightarrow> map_sites m | CSlice vs \<Rightarrow> slice_sites 0 vs | _ \<Rightarrow> [])"
| "map_sites [] = []"
| "map_sites ((k, v) # m) = map (\<lambda>(q, s). (AtKey k # q, s)) (sites v) @ map_sites m"
| "slice_sites i [] = []"
| "slice_sites i (v # vs) =
     map (\<lambda>(q, s). (AtIndex i # q, s)) (case v of CSlice ws \<Rightarrow> [] | _ \<Rightarrow> sites v) @ slice_sites (i + 1) vs"
  by pat_completeness auto
termination
  by (relation "measure (\<lambda>x. case x of
        Inl v \<Rightarrow> 2 * size v
      | Inr (Inl m) \<Rightarrow> 2 * size_list (size_prod (\<lambda>_. 0) size) m + 1
      | Inr (Inr (i, vs)) \<Rightarrow> 2 * size_list size vs + 1)")
    auto

declare sites.simps [simp del]

lemma sites_simps [simp]:
  "sites (CStr s) = [([], s)]" "sites (CMap m) = map_sites m" "sites (CSlice vs) = slice_sites 0 vs"
  "sites CNil = []" "sites (CBool b) = []" "sites (CInt n) = []" "sites (CInt32 n') = []"
  "sites (CInt64 n) = []" "sites (CFloat x) = []" "sites (CBytes s) = []" "sites (CAnyMap am) = []"
  "sites (COther t) = []"
  by (simp_all add: sites.simps)

text \<open>The reference: every text replaced, all looked up in the same configuration.\<close>

fun expand_all :: "(string \<Rightarrow> string) \<Rightarrow> cval \<Rightarrow> cval" where
  "expand_all g (CStr s) = CStr (g s)"
| "expand_all g (CMap m) = CMap (map (\<lambda>(k, v). (k, expand_all g v)) m)"
| "expand_all g (CSlice vs) = CSlice (map (\<lambda>v. case v of CSlice ws \<Rightarrow> CSlice ws | _ \<Rightarrow> expand_all g v) vs)"
| "expand_all g v = v"

fun wf_cval :: "cval \<Rightarrow> bool" where
  "wf_cval (CMap m) = (distinct (map fst m) \<and> list_all (\<lambda>(k, v). wf_cval v) m)"
| "wf_cval (CSlice vs) = list_all wf_cval vs"
| "wf_cval v = True"

fun run_sites :: "go_float \<Rightarrow> (pos list \<times> string) list \<Rightarrow> cval \<Rightarrow> ('e, cval) res option" where
  "run_sites F [] input = Some (Ok input)"
| "run_sites F ((q, s) # S) input = lift_opt (expand_at F q s input) (run_sites F S)"

lemma lift_opt_assoc: "lift_opt (lift_opt r f) g = lift_opt r (\<lambda>x. lift_opt (f x) g)"
  by (auto simp: lift_opt_def split: option.splits res.splits)

lemma lift_opt_simps [simp]:
  "lift_opt (Some (Ok x)) f = f x" "lift_opt (Some (Err e)) f = Some (Err e)"
  "lift_opt (Some (Panic m)) f = Some (Panic m)"
  by (simp_all add: lift_opt_def)

lemma lift_opt_unit [simp]: "lift_opt r (\<lambda>x. Some (Ok x)) = r"
  by (auto simp: lift_opt_def split: option.splits res.splits)

lemma run_sites_Nil [simp]: "run_sites F [] = (\<lambda>x. Some (Ok x))"
  by (rule ext) simp

lemma run_sites_append: "(run_sites F (S @ S') input :: ('e, cval) res option) = lift_opt (run_sites F S input) (run_sites F S')"
proof (induction S arbitrary: input)
  case (Cons x S)
  have "(run_sites F (S @ S') :: cval \<Rightarrow> ('e, cval) res option) = (\<lambda>y. lift_opt (run_sites F S y) (run_sites F S'))"
    by (rule ext) (rule Cons)
  then show ?case by (cases x) (simp add: lift_opt_assoc)
qed simp

definition under :: "pos list \<Rightarrow> (pos list \<times> string) list \<Rightarrow> (pos list \<times> string) list" where
  "under p S = map (\<lambda>(q, s). (p @ q, s)) S"

lemma under_simps [simp]: "under p [] = []" "under p (S @ S') = under p S @ under p S'"
  "under p [(q, s)] = [(p @ q, s)]"
  by (simp_all add: under_def)

lemma under_under: "under p (map (\<lambda>(q, s). (x # q, s)) S) = under (p @ [x]) S"
  by (induction S) (auto simp: under_def)

lemma resolve_sites:
  "(resolve_map F p m input :: ('e, cval) res option) = run_sites F (under p (map_sites m)) input"
  "(resolve_slice F p i vs input :: ('e, cval) res option) = run_sites F (under p (slice_sites i vs)) input"
proof (induction F p m input and F p i vs input rule: resolve_map_resolve_slice.induct)
  case (2 F p k v sub input)
  have "(run_sites F (under (p @ [AtKey k]) (sites v)) input :: ('e, cval) res option) =
     (case v of
         CStr s \<Rightarrow> expand_at F (p @ [AtKey k]) s input
       | CMap m \<Rightarrow> resolve_map F (p @ [AtKey k]) m input
       | CSlice vs \<Rightarrow> resolve_slice F (p @ [AtKey k]) 0 vs input
       | _ \<Rightarrow> Some (Ok input))"
    using 2 by (cases v) auto
  moreover have "(resolve_map F p sub :: cval \<Rightarrow> ('e, cval) res option) = run_sites F (under p (map_sites sub))"
    using 2 by (intro ext)
  ultimately show ?case by (simp add: under_under run_sites_append)
next
  case (4 F p i v vs input)
  have "(run_sites F (under (p @ [AtIndex i]) (case v of CSlice ws \<Rightarrow> [] | _ \<Rightarrow> sites v)) input :: ('e, cval) res option) =
     (case v of
         CStr s \<Rightarrow> expand_at F (p @ [AtIndex i]) s input
       | CMap m \<Rightarrow> resolve_map F (p @ [AtIndex i]) m input
       | _ \<Rightarrow> Some (Ok input))"
    using 4 by (cases v) auto
  moreover have "(resolve_slice F p (i + 1) vs :: cval \<Rightarrow> ('e, cval) res option) = run_sites F (under p (slice_sites (i + 1) vs))"
    using 4 by (intro ext)
  ultimately show ?case by (simp add: under_under run_sites_append)
qed simp_all

lemma lift_opt_returns: "\<exists>r. x = Some r \<Longrightarrow> (\<And>y. \<exists>r. f y = Some r) \<Longrightarrow> \<exists>r. lift_opt x f = Some r"
  by (auto simp: lift_opt_def split: res.splits)

lemma expand_at_returns: "\<exists>r. expand_at F q s input = Some r"
  unfolding expand_at_def Expand_tokens by (rule lift_opt_returns) simp_all

lemma run_sites_returns: "\<exists>r. run_sites F S input = Some r"
proof (induction S arbitrary: input)
  case (Cons x S)
  then show ?case by (cases x) (auto intro!: lift_opt_returns expand_at_returns)
qed simp

text \<open>Resolving ends, also when placeholders refer to each other in a circle.\<close>

lemma defaultResolver_returns: "\<exists>r. defaultResolver F m = Some r"
  unfolding defaultResolver_def resolve_sites
  by (rule lift_opt_returns) (rule run_sites_returns, simp)

subsection \<open>The half-resolved configuration\<close>

fun find_keys :: "cmap \<Rightarrow> string list \<Rightarrow> cval option" where
  "find_keys m [] = None"
| "find_keys m [k] = map_of m k"
| "find_keys m (k # k' # ks) = (case map_of m k of Some (CMap vm) \<Rightarrow> find_keys vm (k' # ks) | _ \<Rightarrow> None)"

lemma read_keys_find:
  "read_keys m ks = (case find_keys m ks of
     None \<Rightarrow> Ok None
   | Some CNil \<Rightarrow> Panic ''sync/atomic: store of nil value into Value''
   | Some v \<Rightarrow> Ok (Some v))"
  by (induction m ks rule: find_keys.induct) (auto split: option.splits cval.splits)

definition target :: "cmap \<Rightarrow> string \<Rightarrow> cval option" where
  "target m n = find_keys m (split_str (split_str (trim_space n) '':'' ! 0) ''.'')"

text \<open>A name may refer to nothing, to a text without placeholders of its own, or to another value.\<close>

definition target_ok :: "cmap \<Rightarrow> string \<Rightarrow> bool" where
  "target_ok m n =
     (case target m n of Some CNil \<Rightarrow> False | Some (CStr t) \<Rightarrow> literal t | _ \<Rightarrow> True)"

definition settled :: "cmap \<Rightarrow> bool" where
  "settled m = list_all (\<lambda>(q, s). list_all (target_ok m) (refs s)) (map_sites m)"

inductive like :: "cval \<Rightarrow> cval \<Rightarrow> bool" where
  like_str: "(literal t \<Longrightarrow> u = t) \<Longrightarrow> like (CStr u) (CStr t)"
| like_map: "list_all2 (\<lambda>x y. fst x = fst y \<and> like (snd x) (snd y)) a b \<Longrightarrow> like (CMap a) (CMap b)"
| like_slice: "like (CSlice a) (CSlice b)"
| like_refl: "like v v"

inductive_cases like_CStr: "like v (CStr t)"
inductive_cases like_CMap: "like v (CMap m)"
inductive_cases like_CSlice: "like v (CSlice vs)"

lemma like_map_entries:
  "like v (CMap b) \<Longrightarrow> \<exists>a. v = CMap a \<and> list_all2 (\<lambda>x y. fst x = fst y \<and> like (snd x) (snd y)) a b"
  by (erule like_CMap) (auto intro: list_all2_refl like_refl)

lemma like_lookup:
  "list_all2 (\<lambda>x y. fst x = fst y \<and> like (snd x) (snd y)) a b \<Longrightarrow> rel_option like (map_of a k) (map_of b k)"
proof (induction a b rule: list_all2_induct)
  case (Cons x xs y ys)
  then show ?case by (cases x; cases y) auto
qed simp

lemma like_other: "like w v \<Longrightarrow> (\<And>t. v \<noteq> CStr t) \<Longrightarrow> (\<And>m. v \<noteq> CMap m) \<Longrightarrow> (\<And>vs. v \<noteq> CSlice vs) \<Longrightarrow> w = v"
  by (induction rule: like.cases) auto

lemma like_is_map: "like w v \<Longrightarrow> (\<exists>m. w = CMap m) \<longleftrightarrow> (\<exists>m. v = CMap m)"
  by (induction rule: like.cases) auto

lemma like_find:
  "list_all2 (\<lambda>x y. fst x = fst y \<and> like (snd x) (snd y)) a b \<Longrightarrow> rel_option like (find_keys a ks) (find_keys b ks)"
proof (induction b ks arbitrary: a rule: find_keys.induct)
  case (2 m k)
  then show ?case by (simp add: like_lookup)
next
  case (3 m k k' ks)
  note l = like_lookup [OF "3.prems", of k]
  show ?case
  proof (cases "map_of m k")
    case None
    then show ?thesis using l by (cases "map_of a k") auto
  next
    case (Some v)
    then obtain w where w: "map_of a k = Some w" "like w v" using l by (cases "map_of a k") auto
    show ?thesis
    proof (cases "\<exists>vm. v = CMap vm")
      case True
      then obtain vm where vm: "v = CMap vm" ..
      then obtain wm where wm: "w = CMap wm" "list_all2 (\<lambda>x y. fst x = fst y \<and> like (snd x) (snd y)) wm vm"
        using w(2) like_map_entries by blast
      show ?thesis using "3.IH" [OF Some vm wm(2)] Some w wm vm by simp
    next
      case False
      then have "\<nexists>wm. w = CMap wm" using like_is_map [OF w(2)] by blast
      then show ?thesis using False Some w by (auto split: cval.splits)
    qed
  qed
qed simp

lemma like_text:
  assumes "like w v" "case v of CStr t \<Rightarrow> literal t | _ \<Rightarrow> True"
  shows "string_or_empty F w = string_or_empty F v"
  using assms by (cases rule: like.cases) (auto simp: string_or_empty_def String_value_def)

lemma like_nil: "like w v \<Longrightarrow> w = CNil \<longleftrightarrow> v = CNil"
  by (induction rule: like.cases) auto

lemma mapper_target:
  "mapper F m n =
     (case target m n of
        None \<Rightarrow> Ok (if length (split_str (trim_space n) '':'') > 1 then split_str (trim_space n) '':'' ! 1 else [])
      | Some CNil \<Rightarrow> Panic ''sync/atomic: store of nil value into Value''
      | Some v \<Rightarrow> Ok (string_or_empty F v))"
  by (simp add: mapper_def Let_def readValue_def read_keys_find target_def split: option.splits cval.splits)

definition lookup_text :: "go_float \<Rightarrow> cmap \<Rightarrow> string \<Rightarrow> string" where
  "lookup_text F m n =
     (case target m n of
        None \<Rightarrow> (if length (split_str (trim_space n) '':'') > 1 then split_str (trim_space n) '':'' ! 1 else [])
      | Some v \<Rightarrow> string_or_empty F v)"

lemma mapper_like:
  assumes "like (CMap a) (CMap m)" "target_ok m n"
  shows "mapper F a n = Ok (lookup_text F m n)"
proof -
  obtain l: "rel_option like (target a n) (target m n)"
    using like_map_entries [OF assms(1)] like_find by (fastforce simp: target_def)
  show ?thesis
  proof (cases "target m n")
    case None
    then show ?thesis using l by (cases "target a n") (auto simp: mapper_target lookup_text_def)
  next
    case (Some v)
    then obtain w where w: "target a n = Some w" "like w v" using l by (cases "target a n") auto
    have v: "v \<noteq> CNil" "case v of CStr t \<Rightarrow> literal t | _ \<Rightarrow> True"
      using assms(2) Some by (auto simp: target_ok_def split: cval.splits)
    have "w \<noteq> CNil" using like_nil [OF w(2)] v(1) by simp
    then have "mapper F a n = Ok (string_or_empty F w)"
      using w(1) by (simp add: mapper_target split: cval.splits)
    then show ?thesis using like_text [OF w(2) v(2)] Some by (simp add: lookup_text_def)
  qed
qed

text \<open>What a text expands to when every name is looked up in \<open>m\<close>.\<close>

fun subst_text :: "(string \<Rightarrow> string) \<Rightarrow> token list \<Rightarrow> string" where
  "subst_text f [] = []"
| "subst_text f (Lit c # ts) = c # subst_text f ts"
| "subst_text f (Name n # ts) = f n @ subst_text f ts"

definition expanded :: "go_float \<Rightarrow> cmap \<Rightarrow> string \<Rightarrow> string" where
  "expanded F m s = subst_text (lookup_text F m) (tokens s)"

lemma subst_total: "(\<And>n. Name n \<in> set ts \<Longrightarrow> f n = Ok (g n)) \<Longrightarrow> subst f ts = Ok (subst_text g ts)"
proof (induction ts)
  case (Cons t ts)
  then show ?case by (cases t) auto
qed simp

lemma expanded_literal: "literal s \<Longrightarrow> expanded F m s = s"
proof -
  have "subst_text f (map Lit t) = t" for f t by (induction t) auto
  then show "literal s \<Longrightarrow> expanded F m s = s" by (simp add: expanded_def literal_def)
qed

subsection \<open>The resolver computes the reference\<close>

abbreviation put_text :: "(string \<Rightarrow> string) \<Rightarrow> cval \<Rightarrow> pos list \<times> string \<Rightarrow> cval" where
  "put_text g r x \<equiv> put_at (fst x) (CStr (g (snd x))) r"

lemma put_under_key:
  "foldl (put_text g) (CMap M) (map (\<lambda>(q, s). (AtKey k # q, s)) S)
   = CMap (map (\<lambda>(k', v). (k', if k' = k then foldl (put_text g) v S else v)) M)"
proof (induction S arbitrary: M)
  case (Cons x S)
  show ?case
    by (cases x) (auto simp: Cons comp_def split: prod.splits intro!: map_cong)
qed (auto simp: map_idI split: prod.splits)

lemma put_under_index:
  "i < length V \<Longrightarrow> foldl (put_text g) (CSlice V) (map (\<lambda>(q, s). (AtIndex i # q, s)) S)
   = CSlice (V[i := foldl (put_text g) (V ! i) S])"
proof (induction S arbitrary: V)
  case (Cons x S)
  then show ?case by (cases x) simp
qed simp

lemma fold_map_sites:
  "distinct (map fst (pre @ m)) \<Longrightarrow> (\<And>k v. (k, v) \<in> set m \<Longrightarrow> foldl (put_text g) v (sites v) = expand_all g v) \<Longrightarrow>
   foldl (put_text g) (CMap (pre @ m)) (map_sites m) = CMap (pre @ map (\<lambda>(k, v). (k, expand_all g v)) m)"
proof (induction m arbitrary: pre)
  case (Cons x m)
  obtain k v where x: "x = (k, v)" by (cases x)
  have others: "map (\<lambda>(k', w). (k', if k' = k then foldl (put_text g) w (sites v) else w)) (pre @ (k, v) # m)
      = pre @ (k, expand_all g v) # m"
    using Cons.prems x by (auto simp: map_idI image_iff split: prod.splits intro!: map_idI)
  have "foldl (put_text g) (CMap ((pre @ [(k, expand_all g v)]) @ m)) (map_sites m)
      = CMap ((pre @ [(k, expand_all g v)]) @ map (\<lambda>(k, v). (k, expand_all g v)) m)"
    using Cons.prems x by (intro Cons.IH) auto
  then show ?case using others by (simp add: x put_under_key)
qed simp

definition expand_elem :: "(string \<Rightarrow> string) \<Rightarrow> cval \<Rightarrow> cval" where
  "expand_elem g v = (case v of CSlice ws \<Rightarrow> CSlice ws | _ \<Rightarrow> expand_all g v)"

lemma fold_slice_sites:
  "(\<And>v. v \<in> set vs \<Longrightarrow> foldl (put_text g) v (sites v) = expand_all g v) \<Longrightarrow>
   foldl (put_text g) (CSlice (pre @ vs)) (slice_sites (length pre) vs) = CSlice (pre @ map (expand_elem g) vs)"
proof (induction vs arbitrary: pre)
  case (Cons v vs)
  have hd: "foldl (put_text g) v (case v of CSlice ws \<Rightarrow> [] | _ \<Rightarrow> sites v) = expand_elem g v"
    using Cons.prems [of v] by (cases v) (simp_all add: expand_elem_def)
  have "foldl (put_text g) (CSlice ((pre @ [expand_elem g v]) @ vs)) (slice_sites (length (pre @ [expand_elem g v])) vs)
      = CSlice ((pre @ [expand_elem g v]) @ map (expand_elem g) vs)"
    using Cons.prems by (intro Cons.IH) auto
  then show ?case
    by (simp add: put_under_index hd del: put_at.simps)
qed simp

lemma fold_sites: "wf_cval v \<Longrightarrow> foldl (put_text g) v (sites v) = expand_all g v"
proof (induction v rule: wf_cval.induct)
  case (1 m)
  have "foldl (put_text g) (CMap ([] @ m)) (map_sites m) = CMap ([] @ map (\<lambda>(k, v). (k, expand_all g v)) m)"
    using 1 by (intro fold_map_sites) (auto simp: list_all_iff)
  then show ?case by simp
next
  case (2 vs)
  have "foldl (put_text g) (CSlice ([] @ vs)) (slice_sites (length ([] :: cval list)) vs) = CSlice ([] @ map (expand_elem g) vs)"
    by (rule fold_slice_sites) (use 2 in \<open>simp add: list_all_iff\<close>)
  then show ?case by (simp add: expand_elem_def [abs_def])
qed simp_all

text \<open>Writing at a place of the original keeps the likeness.\<close>

lemma map_sites_iff: "(p, s) \<in> set (map_sites m) \<longleftrightarrow> (\<exists>k v q. (k, v) \<in> set m \<and> p = AtKey k # q \<and> (q, s) \<in> set (sites v))"
  by (induction m) (auto, blast+)

lemma slice_sites_index: "(p, s) \<in> set (slice_sites i vs) \<Longrightarrow> \<exists>j q. p = AtIndex j # q"
  by (induction vs arbitrary: i) auto

lemma put_like:
  "like r v \<Longrightarrow> wf_cval v \<Longrightarrow> (q, s) \<in> set (sites v) \<Longrightarrow> (literal s \<Longrightarrow> u = s) \<Longrightarrow> like (put_at q (CStr u) r) v"
proof (induction v arbitrary: r q rule: wf_cval.induct)
  case (1 m)
  obtain a where a: "r = CMap a" "list_all2 (\<lambda>x y. fst x = fst y \<and> like (snd x) (snd y)) a m"
    using like_map_entries [OF "1.prems"(1)] by auto
  obtain k v p where p: "(k, v) \<in> set m" "q = AtKey k # p" "(p, s) \<in> set (sites v)"
    using "1.prems"(3) by (auto simp: map_sites_iff)
  have d: "distinct (map fst m)" and wf: "wf_cval v" using "1.prems"(2) p(1) by (auto simp: list_all_iff)
  have "like (put_at p (CStr u) w) y" if "(k, y) \<in> set m" "like w y" for w y
  proof -
    have "y = v" using d p(1) that(1) by (metis eq_key_imp_eq_value)
    then show ?thesis using "1.IH" [OF p(1) refl, of w p] that(2) wf p(3) "1.prems"(4) by simp
  qed
  then have "list_all2 (\<lambda>x y. fst x = fst y \<and> like (snd x) (snd y))
      (map (\<lambda>(k', w). (k', if k' = k then put_at p (CStr u) w else w)) a) m"
    using a(2) by (auto simp: list_all2_conv_all_nth split: prod.splits; metis nth_mem prod.collapse)
  then show ?case using a(1) p(2) by (auto intro: like_map)
next
  case (2 vs)
  then obtain ws where "r = CSlice ws" by (auto elim: like_CSlice)
  moreover obtain j p where "q = AtIndex j # p" using slice_sites_index "2.prems"(3) by fastforce
  ultimately show ?case by (auto intro: like_slice)
qed (auto intro: like_str)


lemma expand_settled:
  assumes "like (CMap a) (CMap m)" "settled m" "(q, s) \<in> set (map_sites m)"
  shows "(expand_at F q s (CMap a) :: ('e, cval) res option) = Some (Ok (put_text (expanded F m) (CMap a) (q, s)))"
proof -
  have "target_ok m n" if "Name n \<in> set (tokens s)" for n
    using assms(2,3) that unfolding settled_def list_all_iff refs_iff [symmetric] by fastforce
  then have "(subst (mapper F a) (tokens s) :: ('e, string) res) = Ok (expanded F m s)"
    unfolding expanded_def by (intro subst_total mapper_like [OF assms(1)]) simp
  then show ?thesis by (simp add: expand_at_def Expand_tokens entries_def)
qed

lemma run_settled:
  assumes "settled m" "wf_cval (CMap m)"
  shows "like r (CMap m) \<Longrightarrow> set S \<subseteq> set (map_sites m) \<Longrightarrow>
    (run_sites F S r :: ('e, cval) res option) = Some (Ok (foldl (put_text (expanded F m)) r S))"
proof (induction S arbitrary: r)
  case (Cons x S)
  obtain q s where x: "x = (q, s)" by (cases x)
  obtain a where a: "r = CMap a" using like_map_entries [OF Cons.prems(1)] by auto
  have l: "like (put_text (expanded F m) r x) (CMap m)"
    using put_like [OF Cons.prems(1) assms(2), of q s] expanded_literal Cons.prems(2) x by auto
  have "(expand_at F q s r :: ('e, cval) res option) = Some (Ok (put_text (expanded F m) r x))"
    using expand_settled [of a m q s F] Cons.prems assms(1) x a by simp
  then show ?case using Cons.IH [OF l] Cons.prems(2) by (simp add: x)
qed simp

lemma expand_all_map: "expand_all g (CMap m) = CMap (map (\<lambda>(k, v). (k, expand_all g v)) m)"
  by simp

lemma lookup_text_cong: "map_of m = map_of m' \<Longrightarrow> lookup_text F m = lookup_text F m'"
proof -
  assume e: "map_of m = map_of m'"
  have "find_keys m ks = find_keys m' ks" for ks
    by (cases "(m, ks)" rule: find_keys.cases) (simp_all add: e)
  then show ?thesis by (intro ext) (simp add: lookup_text_def target_def)
qed

lemma expanded_perm: "wf_cval (CMap m) \<Longrightarrow> wf_cval (CMap m') \<Longrightarrow> set m = set m' \<Longrightarrow> expanded F m = expanded F m'"
  unfolding expanded_def [abs_def]
  by (subst lookup_text_cong [of m m']) (simp_all add: map_of_inject_set)



definition no_floats :: go_float where
  "no_floats = \<lparr>float_text = (\<lambda>_. []), float_int64 = (\<lambda>_. 0), int64_float = (\<lambda>_. 0), parse_float = (\<lambda>_. (0, None))\<rparr>"


lemma find_prefix_plain: "set s \<inter> \<Union> (set ` set ps) = {} \<Longrightarrow> find_prefix ps s = 0"
proof (induction ps)
  case (Cons p ps)
  then show ?case by (cases p) (auto simp: has_prefix_iff)
qed simp

lemma trim_space_plain: "set s \<inter> \<Union> (set ` set space_runes) = {} \<Longrightarrow> trim_space s = s"
  by (simp add: trim_space_def trim_left_runes.simps find_prefix_plain)

text \<open>With a chain of placeholders the result depends on the order of the iteration.\<close>

lemma resolver_order_matters:
  "(defaultResolver no_floats [(''a'', CStr ''$b''), (''b'', CStr ''$c''), (''c'', CStr ''x'')] :: (unit, cmap) res option)
     = Some (Ok [(''a'', CStr ''$c''), (''b'', CStr ''x''), (''c'', CStr ''x'')]) \<and>
   (defaultResolver no_floats [(''c'', CStr ''x''), (''b'', CStr ''$c''), (''a'', CStr ''$b'')] :: (unit, cmap) res option)
     = Some (Ok [(''c'', CStr ''x''), (''b'', CStr ''x''), (''a'', CStr ''x'')])"
proof -
  have t: "tokens ''x'' = [Lit (CHR ''x'')]" "tokens ''$b'' = [Name ''b'']" "tokens ''$c'' = [Name ''c'']" by code_simp+
  have p: "list_all (\<lambda>r. CHR ''b'' \<notin> set r \<and> CHR ''c'' \<notin> set r) space_runes" by code_simp
  have n: "split_str (split_str (trim_space [c]) '':'' ! 0) ''.'' = [[c]]" if "c \<in> {CHR ''b'', CHR ''c''}" for c
  proof -
    have "trim_space [c] = [c]" using p that by (intro trim_space_plain) (auto simp: list_all_iff)
    then show ?thesis using that by (auto simp: split_str_no_sep)
  qed
  show ?thesis
    by (simp add: defaultResolver_def resolve_sites under_def expand_at_def Expand_tokens t mapper_target target_def n
        string_or_empty_def String_value_def entries_def
        del: tokens.simps)
qed

end
