(* ===== verification/ConfigStore.thy ===== *)
theory ConfigStore
  imports ConfigResolve Systems
begin

text \<open>
  The configuration itself, \<^verbatim>\<open>pkg/zconfig/config\<close>: the sources (environment and files), the decoding and
  merging of \<^verbatim>\<open>reader.go\<close>, and the state machine of \<^verbatim>\<open>config.go\<close> with its cache of values and its
  observers. The merge of package mergo, the codecs, the file system and the environment are
  parameters.
\<close>

subsection \<open>Package encoding\<close>

datatype cfg_error =
    KeyNotFound | UnsupportedFormat string string | NotGobEncodable | ValueError value_error | External string

record codec =
  codec_Name :: string
  codec_Unmarshal :: "string \<Rightarrow> cmap \<Rightarrow> (cfg_error, cmap) res"

text \<open>Unmarshal gives the content of the map it is handed afterwards. Names are ASCII.\<close>

definition RegisterCodec :: "codec option \<Rightarrow> (string \<rightharpoonup> codec) \<Rightarrow> ('e, string \<rightharpoonup> codec) res" where
  "RegisterCodec c registered =
     (case c of
        None \<Rightarrow> Panic ''cannot register a nil Codec''
      | Some c \<Rightarrow>
          if codec_Name c = [] then Panic ''cannot register Codec with empty string result for Name()''
          else Ok (registered(map to_lower (codec_Name c) \<mapsto> c)))"

definition GetCodec :: "(string \<rightharpoonup> codec) \<Rightarrow> string \<Rightarrow> codec option" where
  "GetCodec registered contentSubtype = registered contentSubtype"

subsection \<open>The reader\<close>

record KeyValue =
  KV_Key :: string
  KV_Value :: string
  KV_Format :: string

record cfg_source =
  src_Load :: "(cfg_error, KeyValue list) res"
  src_Watch :: "(cfg_error, unit) res"

record cfg_options =
  opt_sources :: "cfg_source list"
  opt_decoder :: "KeyValue \<Rightarrow> cmap \<Rightarrow> (cfg_error, cmap) res"
  opt_resolver :: "cmap \<Rightarrow> (cfg_error, cmap) res option"

definition defaultDecoder :: "(string \<rightharpoonup> codec) \<Rightarrow> KeyValue \<Rightarrow> cmap \<Rightarrow> (cfg_error, cmap) res" where
  "defaultDecoder registered src tgt =
     (if KV_Format src = [] then Ok (put_entry (KV_Key src) (CBytes (KV_Value src)) tgt)
      else (case GetCodec registered (KV_Format src) of
              Some c \<Rightarrow> codec_Unmarshal c (KV_Value src) tgt
            | None \<Rightarrow> Err (UnsupportedFormat (KV_Key src) (KV_Format src))))"

definition WithSource :: "cfg_source list \<Rightarrow> cfg_options \<Rightarrow> cfg_options" where
  "WithSource s o1 = o1\<lparr>opt_sources := s\<rparr>"

definition WithDecoder :: "(KeyValue \<Rightarrow> cmap \<Rightarrow> (cfg_error, cmap) res) \<Rightarrow> cfg_options \<Rightarrow> cfg_options" where
  "WithDecoder d o1 = o1\<lparr>opt_decoder := d\<rparr>"

definition WithResolver :: "(cmap \<Rightarrow> (cfg_error, cmap) res option) \<Rightarrow> cfg_options \<Rightarrow> cfg_options" where
  "WithResolver r o1 = o1\<lparr>opt_resolver := r\<rparr>"

text \<open>
  The copy goes through package gob, which only knows the types registered with it: a value of
  another type, or a map with keys that are not strings, cannot be copied.
\<close>

fun gob_ok :: "cval \<Rightarrow> bool" where
  "gob_ok (CMap m) = list_all (\<lambda>(k, v). gob_ok v) m"
| "gob_ok (CSlice vs) = list_all gob_ok vs"
| "gob_ok (CAnyMap m) = False"
| "gob_ok (COther t) = False"
| "gob_ok v = True"

definition cloneMap :: "cmap \<Rightarrow> (cfg_error, cmap) res" where
  "cloneMap src = (if gob_ok (CMap src) then Ok src else Err NotGobEncodable)"

type_synonym merger = "cmap \<Rightarrow> cmap \<Rightarrow> (cfg_error, cmap) res"

fun merge_all :: "go_float \<Rightarrow> merger \<Rightarrow> cfg_options \<Rightarrow> KeyValue list \<Rightarrow> cmap \<Rightarrow> (cfg_error, cmap) res" where
  "merge_all F mergo o1 [] merged = Ok merged"
| "merge_all F mergo o1 (kv # kvs) merged =
     bind_res (opt_decoder o1 kv [])
       (\<lambda>next. bind_res (mergo merged (entries (convertMap F (CMap next)))) (merge_all F mergo o1 kvs))"

definition Merge :: "go_float \<Rightarrow> merger \<Rightarrow> cfg_options \<Rightarrow> KeyValue list \<Rightarrow> cmap \<Rightarrow> (cfg_error, cmap) res option" where
  "Merge F mergo o1 kvs values =
     lift_opt (Some (cloneMap values)) (\<lambda>merged.
       lift_opt (Some (merge_all F mergo o1 kvs merged)) (opt_resolver o1))"

subsection \<open>The environment\<close>

fun matchPrefix :: "string list \<Rightarrow> string \<Rightarrow> string option" where
  "matchPrefix [] s = None"
| "matchPrefix (p # ps) s = (if has_prefix s p then Some p else matchPrefix ps s)"

definition env_split :: "string \<Rightarrow> string \<times> string" where
  "env_split envstr =
     (takeWhile (\<lambda>c. c \<noteq> CHR ''='') envstr, tl (dropWhile (\<lambda>c. c \<noteq> CHR ''='') envstr))"

fun env_Load :: "string list \<Rightarrow> string list \<Rightarrow> ('e, KeyValue list) res" where
  "env_Load prefixs [] = Ok []"
| "env_Load prefixs (envstr # environ) =
     (case env_split envstr of (k, v) \<Rightarrow>
        if prefixs = [] then map_ok (\<lambda>kvs. \<lparr>KV_Key = k, KV_Value = v, KV_Format = []\<rparr> # kvs) (env_Load prefixs environ)
        else (case matchPrefix prefixs envstr of
                None \<Rightarrow> env_Load prefixs environ
              | Some p \<Rightarrow>
                  if length k < length p then Panic ''slice bounds out of range''
                  else if length k = length p then Panic ''index out of range [0] with length 0''
                  else map_ok (\<lambda>kvs. \<lparr>KV_Key = (let k = drop (length p) k in if hd k = CHR ''_'' then tl k else k),
                         KV_Value = v, KV_Format = []\<rparr> # kvs) (env_Load prefixs environ)))"

subsection \<open>Files\<close>

definition format :: "string \<Rightarrow> string" where
  "format name = (let p = split_str name ''.'' in if length p > 1 then last p else [])"

record file_system =
  fs_Stat :: "string \<Rightarrow> (cfg_error, bool) res"
  fs_ReadAll :: "string \<Rightarrow> (cfg_error, string) res"
  fs_Name :: "string \<Rightarrow> (cfg_error, string) res"
  fs_ReadDir :: "string \<Rightarrow> (cfg_error, (string \<times> bool) list) res"
  fs_Join :: "string \<Rightarrow> string \<Rightarrow> string"
  fs_Base :: "string \<Rightarrow> string"
  fs_Watch :: "string \<Rightarrow> (cfg_error, unit) res"

definition loadFile :: "file_system \<Rightarrow> string \<Rightarrow> (cfg_error, KeyValue) res" where
  "loadFile fs path =
     bind_res (fs_ReadAll fs path) (\<lambda>data.
     bind_res (fs_Name fs path) (\<lambda>name.
       Ok \<lparr>KV_Key = name, KV_Value = data, KV_Format = format name\<rparr>))"

fun loadDir_files :: "file_system \<Rightarrow> string \<Rightarrow> (string \<times> bool) list \<Rightarrow> (cfg_error, KeyValue list) res" where
  "loadDir_files fs path [] = Ok []"
| "loadDir_files fs path ((name, isDir) # files) =
     (if isDir \<or> has_prefix name ''.'' then loadDir_files fs path files
      else bind_res (loadFile fs (fs_Join fs path name)) (\<lambda>kv. map_ok (\<lambda>kvs. kv # kvs) (loadDir_files fs path files)))"

definition loadDir :: "file_system \<Rightarrow> string \<Rightarrow> (cfg_error, KeyValue list) res" where
  "loadDir fs path = bind_res (fs_ReadDir fs path) (loadDir_files fs path)"

definition file_Load :: "file_system \<Rightarrow> string \<Rightarrow> (cfg_error, KeyValue list) res" where
  "file_Load fs path =
     bind_res (fs_Stat fs path) (\<lambda>isDir.
       if isDir then loadDir fs path else map_ok (\<lambda>kv. [kv]) (loadFile fs path))"

datatype fs_event = Event bool string | WatchError cfg_error

text \<open>
  One event of the watcher; the flag says that it is a rename and nothing else. A renamed file that
  is still there is watched under its new name.
\<close>

definition file_Next :: "file_system \<Rightarrow> string \<Rightarrow> fs_event \<Rightarrow> (cfg_error, KeyValue list) res" where
  "file_Next fs path ev =
     (case ev of
        WatchError e \<Rightarrow> Err e
      | Event rename name \<Rightarrow>
          bind_res (case (rename, fs_Stat fs name) of (True, Ok d) \<Rightarrow> fs_Watch fs name | _ \<Rightarrow> Ok ()) (\<lambda>_.
          bind_res (fs_Stat fs path) (\<lambda>isDir.
          bind_res (loadFile fs (if isDir then fs_Join fs path (fs_Base fs name) else path)) (\<lambda>kv. Ok [kv]))))"

definition file_source :: "file_system \<Rightarrow> string \<Rightarrow> cfg_source" where
  "file_source fs path = \<lparr>src_Load = file_Load fs path, src_Watch = fs_Watch fs path\<rparr>"

definition env_source :: "string list \<Rightarrow> string list \<Rightarrow> cfg_source" where
  "env_source prefixs environ = \<lparr>src_Load = env_Load prefixs environ, src_Watch = Ok ()\<rparr>"

subsection \<open>Stored values\<close>

fun same_type :: "cval \<Rightarrow> cval \<Rightarrow> bool" where
  "same_type CNil w = (w = CNil)"
| "same_type (CBool _) w = (case w of CBool _ \<Rightarrow> True | _ \<Rightarrow> False)"
| "same_type (CInt _) w = (case w of CInt _ \<Rightarrow> True | _ \<Rightarrow> False)"
| "same_type (CInt32 _) w = (case w of CInt32 _ \<Rightarrow> True | _ \<Rightarrow> False)"
| "same_type (CInt64 _) w = (case w of CInt64 _ \<Rightarrow> True | _ \<Rightarrow> False)"
| "same_type (CFloat _) w = (case w of CFloat _ \<Rightarrow> True | _ \<Rightarrow> False)"
| "same_type (CStr _) w = (case w of CStr _ \<Rightarrow> True | _ \<Rightarrow> False)"
| "same_type (CBytes _) w = (case w of CBytes _ \<Rightarrow> True | _ \<Rightarrow> False)"
| "same_type (CMap _) w = (case w of CMap _ \<Rightarrow> True | _ \<Rightarrow> False)"
| "same_type (CAnyMap _) w = (case w of CAnyMap _ \<Rightarrow> True | _ \<Rightarrow> False)"
| "same_type (CSlice _) w = (case w of CSlice _ \<Rightarrow> True | _ \<Rightarrow> False)"
| "same_type (COther _) w = (case w of COther _ \<Rightarrow> True | _ \<Rightarrow> False)"

text \<open>\<^verbatim>\<open>atomic.Value.Store\<close> over a value that is not nil.\<close>

definition Store_atomic :: "cval \<Rightarrow> cval \<Rightarrow> ('e, cval) res" where
  "Store_atomic old new =
     (if new = CNil then Panic ''sync/atomic: store of nil value into Value''
      else if \<not> same_type old new then Panic ''sync/atomic: store of inconsistently typed value into Value''
      else Ok new)"

text \<open>
  \<^verbatim>\<open>reflect.DeepEqual\<close>: floats compare as numbers, maps whatever their order. The two types no
  configuration that was copied holds are compared as they are.
\<close>

definition float_nan :: "uint64 \<Rightarrow> bool" where
  "float_nan x \<longleftrightarrow> 0x7FF0000000000000 < take_bit 63 x"

definition float_eq :: "uint64 \<Rightarrow> uint64 \<Rightarrow> bool" where
  "float_eq x y \<longleftrightarrow> \<not> float_nan x \<and> \<not> float_nan y \<and> (x = y \<or> take_bit 63 x = 0 \<and> take_bit 63 y = 0)"

lemma entry_size: "(a, b) \<in> set m \<Longrightarrow> size b \<le> size_list (size_prod (\<lambda>_. 0) size) m"
  by (induction m) auto

function deep_equal :: "cval \<Rightarrow> cval \<Rightarrow> bool" where
  "deep_equal (CMap m) w =
     (case w of
        CMap m' \<Rightarrow> length m = length m' \<and>
          list_all (\<lambda>(k, v). case map_of m' k of Some v' \<Rightarrow> deep_equal v v' | None \<Rightarrow> False) m
      | _ \<Rightarrow> False)"
| "deep_equal (CSlice vs) w =
     (case w of CSlice ws \<Rightarrow> length vs = length ws \<and> list_all (\<lambda>(v, v'). deep_equal v v') (zip vs ws) | _ \<Rightarrow> False)"
| "deep_equal (CFloat x) w = (case w of CFloat y \<Rightarrow> float_eq x y | _ \<Rightarrow> False)"
| "deep_equal CNil w = (CNil = w)"
| "deep_equal (CBool b) w = ((CBool b) = w)"
| "deep_equal (CInt n) w = ((CInt n) = w)"
| "deep_equal (CInt32 n32) w = ((CInt32 n32) = w)"
| "deep_equal (CInt64 n) w = ((CInt64 n) = w)"
| "deep_equal (CStr s) w = ((CStr s) = w)"
| "deep_equal (CBytes s) w = ((CBytes s) = w)"
| "deep_equal (CAnyMap am) w = ((CAnyMap am) = w)"
| "deep_equal (COther t) w = ((COther t) = w)"
  by pat_completeness auto
termination
  by (relation "measure (\<lambda>(v, w). size v)")
    (auto dest!: set_zip_leftD simp: less_Suc_eq_le intro: size_list_estimation' entry_size)

subsection \<open>The configuration\<close>

text \<open>
  The cache and the observers are \<^verbatim>\<open>sync.Map\<close>s, the cache in the order \<^verbatim>\<open>Range\<close> takes. \<open>cfg_calls\<close> lists
  the calls of observers and \<open>cfg_running\<close> counts the goroutines that watch a source.
\<close>

record config =
  cfg_values :: cmap
  cfg_cached :: "(string \<times> cval) list"
  cfg_observers :: "string \<rightharpoonup> nat"
  cfg_watchers :: "(cfg_error, unit) res list"
  cfg_logs :: "string list"
  cfg_calls :: "(nat \<times> string \<times> cval) list"
  cfg_running :: nat

definition New_cfg :: config where
  "New_cfg = \<lparr>cfg_values = [], cfg_cached = [], cfg_observers = Map.empty, cfg_watchers = [], cfg_logs = [],
     cfg_calls = [], cfg_running = 0\<rparr>"

definition default_options :: "(string \<rightharpoonup> codec) \<Rightarrow> go_float \<Rightarrow> cfg_options" where
  "default_options registered F =
     \<lparr>opt_sources = [], opt_decoder = defaultDecoder registered, opt_resolver = defaultResolver F\<rparr>"

text \<open>A value handed out is the one in the cache, shared with it, or the error value.\<close>

datatype value_ref = Atomic string | ErrValue

definition Load_ref :: "config \<Rightarrow> value_ref \<Rightarrow> cval" where
  "Load_ref c r =
     (case r of
        Atomic k \<Rightarrow> (case map_of (cfg_cached c) k of Some v \<Rightarrow> v | None \<Rightarrow> CNil)
      | ErrValue \<Rightarrow> CNil)"

definition Store_ref :: "value_ref \<Rightarrow> cval \<Rightarrow> config \<Rightarrow> ('e, config) res" where
  "Store_ref r x c =
     (case r of
        Atomic k \<Rightarrow> map_ok (\<lambda>x. c\<lparr>cfg_cached := put_entry k x (cfg_cached c)\<rparr>) (Store_atomic (Load_ref c r) x)
      | ErrValue \<Rightarrow> Ok c)"

definition view_ref :: "(go_float \<Rightarrow> cval \<Rightarrow> (value_error, 'a) res) \<Rightarrow> go_float \<Rightarrow> config \<Rightarrow> value_ref \<Rightarrow> (cfg_error, 'a) res" where
  "view_ref view F c r =
     (case r of
        Atomic k \<Rightarrow> (case view F (Load_ref c r) of Ok x \<Rightarrow> Ok x | Err e \<Rightarrow> Err (ValueError e) | Panic m \<Rightarrow> Panic m)
      | ErrValue \<Rightarrow> Err KeyNotFound)"

definition Value_cfg :: "string \<Rightarrow> config \<Rightarrow> ('e, value_ref \<times> config) res" where
  "Value_cfg key c =
     (if key \<in> fst ` set (cfg_cached c) then Ok (Atomic key, c)
      else bind_res (readValue (cfg_values c) key) (\<lambda>r.
        case r of
          Some v \<Rightarrow> Ok (Atomic key, c\<lparr>cfg_cached := cfg_cached c @ [(key, v)]\<rparr>)
        | None \<Rightarrow> Ok (ErrValue, c)))"

definition Watch_cfg :: "string \<Rightarrow> nat \<Rightarrow> config \<Rightarrow> ('e, cfg_error option \<times> config) res" where
  "Watch_cfg key obs c =
     bind_res (Value_cfg key c) (\<lambda>(v, c).
       if Load_ref c v = CNil then Ok (Some KeyNotFound, c)
       else Ok (None, c\<lparr>cfg_observers := (cfg_observers c)(key \<mapsto> obs)\<rparr>))"

fun range_cached :: "(string \<times> cval) list \<Rightarrow> config \<Rightarrow> ('e, config) res" where
  "range_cached [] c = Ok c"
| "range_cached ((k, v) # rest) c =
     bind_res (readValue (cfg_values c) k) (\<lambda>r.
       case r of
         Some n \<Rightarrow>
           if deep_equal n v then range_cached rest c
           else bind_res (Store_ref (Atomic k) n c) (\<lambda>c.
             range_cached rest
               (case cfg_observers c k of
                  Some obs \<Rightarrow> c\<lparr>cfg_calls := cfg_calls c @ [(obs, k, n)]\<rparr>
                | None \<Rightarrow> c))
       | None \<Rightarrow> range_cached rest c)"

text \<open>One turn of the loop of a watching goroutine, from what the watcher's \<^verbatim>\<open>Next\<close> returned.\<close>

definition watch_round :: "go_float \<Rightarrow> merger \<Rightarrow> cfg_options \<Rightarrow> (cfg_error, KeyValue list) res \<Rightarrow> config \<Rightarrow> (cfg_error, config) res option" where
  "watch_round F mergo o1 next c =
     (case next of
        Panic m \<Rightarrow> Some (Panic m)
      | Err e \<Rightarrow> Some (Ok (c\<lparr>cfg_logs := cfg_logs c @ [''Failed to watch next config'']\<rparr>))
      | Ok kvs \<Rightarrow>
          (case Merge F mergo o1 kvs (cfg_values c) of
             None \<Rightarrow> None
           | Some (Panic m) \<Rightarrow> Some (Panic m)
           | Some (Err e) \<Rightarrow> Some (Ok (c\<lparr>cfg_logs := cfg_logs c @ [''Failed to merge next config'']\<rparr>))
           | Some (Ok values) \<Rightarrow> Some (range_cached (cfg_cached c) (c\<lparr>cfg_values := values\<rparr>))))"

fun Load_sources :: "go_float \<Rightarrow> merger \<Rightarrow> cfg_options \<Rightarrow> cfg_source list \<Rightarrow> config \<Rightarrow> (cfg_error, cfg_error option \<times> config) res option" where
  "Load_sources F mergo o1 [] c = Some (Ok (None, c))"
| "Load_sources F mergo o1 (src # srcs) c =
     (case src_Load src of
        Panic m \<Rightarrow> Some (Panic m)
      | Err e \<Rightarrow> Some (Ok (Some e, c))
      | Ok kvs \<Rightarrow>
          (case Merge F mergo o1 kvs (cfg_values c) of
             None \<Rightarrow> None
           | Some (Panic m) \<Rightarrow> Some (Panic m)
           | Some (Err e) \<Rightarrow> Some (Ok (Some e, c\<lparr>cfg_logs := cfg_logs c @ [''Failed to merge config source'']\<rparr>))
           | Some (Ok values) \<Rightarrow>
               (let c = c\<lparr>cfg_values := values\<rparr> in
                case src_Watch src of
                  Panic m \<Rightarrow> Some (Panic m)
                | Err e \<Rightarrow> Some (Ok (Some e, c\<lparr>cfg_logs := cfg_logs c @ [''Failed to watch config source'']\<rparr>))
                | Ok _ \<Rightarrow> Load_sources F mergo o1 srcs (c\<lparr>cfg_running := cfg_running c + 1\<rparr>))))"

definition Load_cfg :: "go_float \<Rightarrow> merger \<Rightarrow> cfg_options \<Rightarrow> config \<Rightarrow> (cfg_error, cfg_error option \<times> config) res option" where
  "Load_cfg F mergo o1 = Load_sources F mergo o1 (opt_sources o1)"

fun Close_watchers :: "(cfg_error, unit) res list \<Rightarrow> (cfg_error, unit) res" where
  "Close_watchers [] = Ok ()"
| "Close_watchers (w # ws) = bind_res w (\<lambda>_. Close_watchers ws)"

definition Close_cfg :: "config \<Rightarrow> (cfg_error, unit) res" where
  "Close_cfg c = Close_watchers (cfg_watchers c)"

subsection \<open>What a round does\<close>

definition current :: "cmap \<Rightarrow> string \<Rightarrow> cval option" where
  "current values k = find_keys values (split_str k ''.'')"

lemma readValue_current:
  "readValue values k = (case current values k of
     None \<Rightarrow> Ok None
   | Some CNil \<Rightarrow> Panic ''sync/atomic: store of nil value into Value''
   | Some v \<Rightarrow> Ok (Some v))"
  by (simp add: readValue_def current_def read_keys_find)

definition refreshed :: "cmap \<Rightarrow> string \<Rightarrow> cval \<Rightarrow> cval" where
  "refreshed values k v = (case current values k of Some n \<Rightarrow> if deep_equal n v then v else n | None \<Rightarrow> v)"

definition notified :: "cmap \<Rightarrow> (string \<rightharpoonup> nat) \<Rightarrow> string \<times> cval \<Rightarrow> (nat \<times> string \<times> cval) list" where
  "notified values observers x =
     (case (current values (fst x), observers (fst x)) of
        (Some n, Some obs) \<Rightarrow> if deep_equal n (snd x) then [] else [(obs, fst x, n)]
      | _ \<Rightarrow> [])"

lemma map_of_middle:
  "distinct (map fst (pre @ (k, v) # rest)) \<Longrightarrow> map_of (pre @ (k, v) # rest) k = Some v"
  by (simp add: map_of_eq_None_iff [THEN iffD2] map_add_Some_iff)

lemma put_middle:
  "distinct (map fst (pre @ (k, v) # rest)) \<Longrightarrow> put_entry k n (pre @ (k, v) # rest) = pre @ (k, n) # rest"
  by (auto simp: put_entry_def image_iff intro!: map_idI)

lemma config_eta: "cfg_cached c = l \<Longrightarrow> c\<lparr>cfg_cached := l\<rparr> = c" "cfg_calls c = l' \<Longrightarrow> c\<lparr>cfg_calls := l'\<rparr> = c"
  by (cases c; simp)+

lemma range_cached_Ok:
  "(range_cached rest c :: ('e, config) res) = Ok c' \<Longrightarrow> cfg_cached c = pre @ rest \<Longrightarrow> distinct (map fst (pre @ rest)) \<Longrightarrow>
   c' = c\<lparr>cfg_cached := pre @ map (\<lambda>(k, v). (k, refreshed (cfg_values c) k v)) rest,
         cfg_calls := cfg_calls c @ concat (map (notified (cfg_values c) (cfg_observers c)) rest)\<rparr>
   \<and> (\<forall>(k, v) \<in> set rest. current (cfg_values c) k \<noteq> Some CNil)"
proof (induction rest arbitrary: c pre)
  case Nil
  then show ?case by (simp add: config_eta)
next
  case (Cons x rest)
  obtain k v where x: "x = (k, v)" by (cases x)
  show ?case
  proof (cases "current (cfg_values c) k")
    case None
    then have "(range_cached rest c :: ('e, config) res) = Ok c'" using Cons.prems(1) x by (simp add: readValue_current)
    then show ?thesis
      using Cons.IH [of c "pre @ [x]"] Cons.prems x None
      by (auto simp: refreshed_def [of _ k] notified_def [of _ _ "(k, v)"])
  next
    case (Some n)
    show ?thesis
    proof (cases "deep_equal n v")
      case True
      then have "(range_cached rest c :: ('e, config) res) = Ok c'" "n \<noteq> CNil"
        using Cons.prems(1) x Some by (auto simp: readValue_current split: cval.splits)
      then show ?thesis
        using Cons.IH [of c "pre @ [x]"] Cons.prems x Some True
        by (auto simp: refreshed_def [of _ k] notified_def [of _ _ "(k, v)"] split: option.splits)
    next
      case False
      let ?d = "c\<lparr>cfg_cached := pre @ (k, n) # rest\<rparr>"
      let ?e = "case cfg_observers ?d k of Some obs \<Rightarrow> ?d\<lparr>cfg_calls := cfg_calls ?d @ [(obs, k, n)]\<rparr> | None \<Rightarrow> ?d"
      have n: "n \<noteq> CNil" using Cons.prems(1) x Some by (auto simp: readValue_current)
      have "(range_cached rest ?e :: ('e, config) res) = Ok c'"
        using Cons.prems x Some False n
        by (auto simp: readValue_current go_res Store_ref_def Store_atomic_def Load_ref_def map_of_middle put_middle
            split: if_splits cval.splits)
      moreover have "cfg_cached ?e = (pre @ [(k, n)]) @ rest" by (simp split: option.splits)
      moreover have "distinct (map fst ((pre @ [(k, n)]) @ rest))" using Cons.prems x by simp
      ultimately have "c' = ?e\<lparr>cfg_cached := (pre @ [(k, n)]) @ map (\<lambda>(k, v). (k, refreshed (cfg_values ?e) k v)) rest,
           cfg_calls := cfg_calls ?e @ concat (map (notified (cfg_values ?e) (cfg_observers ?e)) rest)\<rparr>
         \<and> (\<forall>(k, v) \<in> set rest. current (cfg_values ?e) k \<noteq> Some CNil)"
        using Cons.IH by blast
      then show ?thesis
        using x Some False n by (cases "cfg_observers c k") (auto simp: refreshed_def [of _ k] notified_def [of _ _ "(k, v)"])
    qed
  qed
qed

subsection \<open>The state machine\<close>

datatype cfg_op = OpValue string | OpWatch string nat | OpRound "(cfg_error, KeyValue list) res"

text \<open>Closing changes nothing of the state; the rounds are those of all the goroutines.\<close>

inductive cfg_step :: "go_float \<Rightarrow> merger \<Rightarrow> cfg_options \<Rightarrow> config \<Rightarrow> cfg_op \<Rightarrow> config \<Rightarrow> bool" for F mergo o1 where
  step_Value: "(Value_cfg k c :: (cfg_error, value_ref \<times> config) res) = Ok (r, c') \<Longrightarrow> cfg_step F mergo o1 c (OpValue k) c'"
| step_Watch: "(Watch_cfg k obs c :: (cfg_error, cfg_error option \<times> config) res) = Ok (e, c') \<Longrightarrow> cfg_step F mergo o1 c (OpWatch k obs) c'"
| step_Round: "0 < cfg_running c \<Longrightarrow> watch_round F mergo o1 next c = Some (Ok c') \<Longrightarrow> cfg_step F mergo o1 c (OpRound next) c'"

definition cfg_init :: "go_float \<Rightarrow> merger \<Rightarrow> cfg_options \<Rightarrow> config \<Rightarrow> bool" where
  "cfg_init F mergo o1 c \<longleftrightarrow> (\<exists>e. Load_cfg F mergo o1 New_cfg = Some (Ok (e, c)))"

text \<open>The cached values follow the reader.\<close>

definition tracks :: "config \<Rightarrow> bool" where
  "tracks c \<longleftrightarrow>
     distinct (map fst (cfg_cached c)) \<and>
     (\<forall>(k, v) \<in> set (cfg_cached c). v \<noteq> CNil \<and>
        (case current (cfg_values c) k of Some n \<Rightarrow> n = v \<or> deep_equal n v | None \<Rightarrow> True)) \<and>
     dom (cfg_observers c) \<subseteq> fst ` set (cfg_cached c) \<and> cfg_watchers c = []"

lemma Load_sources_keeps:
  "Load_sources F mergo o1 srcs c = Some (Ok (e, c')) \<Longrightarrow>
   cfg_cached c' = cfg_cached c \<and> cfg_observers c' = cfg_observers c \<and> cfg_watchers c' = cfg_watchers c \<and>
   cfg_running c' \<le> cfg_running c + length srcs"
proof (induction srcs arbitrary: c)
  case (Cons src srcs)
  from Cons.prems show ?case
    by (auto simp: Let_def split: res.splits option.splits dest!: Cons.IH)
qed simp

lemma init_tracks: "cfg_init F mergo o1 c \<Longrightarrow> tracks c"
  by (auto simp: cfg_init_def Load_cfg_def tracks_def New_cfg_def dest!: Load_sources_keeps)

lemma Value_cases:
  assumes "(Value_cfg k c :: ('e, value_ref \<times> config) res) = Ok (r, c')"
  shows "k \<in> fst ` set (cfg_cached c) \<and> r = Atomic k \<and> c' = c \<or>
    k \<notin> fst ` set (cfg_cached c) \<and> current (cfg_values c) k = None \<and> r = ErrValue \<and> c' = c \<or>
    (\<exists>v. k \<notin> fst ` set (cfg_cached c) \<and> current (cfg_values c) k = Some v \<and> v \<noteq> CNil \<and> r = Atomic k \<and>
       c' = c\<lparr>cfg_cached := cfg_cached c @ [(k, v)]\<rparr>)"
proof (cases "k \<in> fst ` set (cfg_cached c)")
  case False
  then show ?thesis
    using assms by (cases "current (cfg_values c) k") (auto simp: Value_cfg_def readValue_current split: cval.splits)
qed (use assms in \<open>simp add: Value_cfg_def\<close>)

lemma tracks_append:
  assumes "tracks c" "k \<notin> fst ` set (cfg_cached c)" "current (cfg_values c) k = Some v" "v \<noteq> CNil"
  shows "tracks (c\<lparr>cfg_cached := cfg_cached c @ [(k, v)]\<rparr>)"
  using assms unfolding tracks_def by auto

lemma Value_tracks:
  assumes "(Value_cfg k c :: ('e, value_ref \<times> config) res) = Ok (r, c')" "tracks c"
  shows "tracks c'"
  using Value_cases [OF assms(1)] assms(2) tracks_append [OF assms(2)] by metis

lemma Value_ref:
  assumes "(Value_cfg k c :: ('e, value_ref \<times> config) res) = Ok (r, c')"
  shows "r = ErrValue \<and> c' = c \<and> current (cfg_values c) k = None \<or> r = Atomic k \<and> k \<in> fst ` set (cfg_cached c')"
  using Value_cases [OF assms] by auto

lemma Watch_tracks:
  assumes "(Watch_cfg k obs c :: ('e, cfg_error option \<times> config) res) = Ok (e, c')" "tracks c"
  shows "tracks c'"
proof -
  obtain r d where v: "(Value_cfg k c :: ('e, value_ref \<times> config) res) = Ok (r, d)"
    and w: "(if Load_ref d r = CNil then Ok (Some KeyNotFound, d)
      else Ok (None, d\<lparr>cfg_observers := (cfg_observers d)(k \<mapsto> obs)\<rparr>)) = (Ok (e, c') :: ('e, cfg_error option \<times> config) res)"
    using assms(1) by (auto simp: Watch_cfg_def go_res)
  have t: "tracks d" by (rule Value_tracks [OF v assms(2)])
  show ?thesis
  proof (cases "Load_ref d r = CNil")
    case True
    then show ?thesis using w t by simp
  next
    case False
    then have "k \<in> fst ` set (cfg_cached d)" using Value_ref [OF v] by (auto simp: Load_ref_def)
    then show ?thesis using w t False by (auto simp: tracks_def split: if_splits; force)
  qed
qed

lemma Round_cases:
  assumes "watch_round F mergo o1 next c = Some (Ok c')" "distinct (map fst (cfg_cached c))"
  shows "(\<exists>l. c' = c\<lparr>cfg_logs := cfg_logs c @ [l]\<rparr>) \<or>
    (\<exists>kvs vs. next = Ok kvs \<and> Merge F mergo o1 kvs (cfg_values c) = Some (Ok vs) \<and>
       (\<forall>(k, v) \<in> set (cfg_cached c). current vs k \<noteq> Some CNil) \<and>
       c' = c\<lparr>cfg_values := vs, cfg_cached := map (\<lambda>(k, v). (k, refreshed vs k v)) (cfg_cached c),
         cfg_calls := cfg_calls c @ concat (map (notified vs (cfg_observers c)) (cfg_cached c))\<rparr>)"
proof (cases "\<exists>kvs vs. next = Ok kvs \<and> Merge F mergo o1 kvs (cfg_values c) = Some (Ok vs)")
  case True
  then obtain kvs vs where n: "next = Ok kvs" "Merge F mergo o1 kvs (cfg_values c) = Some (Ok vs)" by blast
  then have "(range_cached (cfg_cached c) (c\<lparr>cfg_values := vs\<rparr>) :: (cfg_error, config) res) = Ok c'"
    using assms(1) by (simp add: watch_round_def)
  from range_cached_Ok [OF this, of "[]"] show ?thesis using n assms(2) by auto
next
  case False
  then show ?thesis using assms(1) by (auto simp: watch_round_def split: res.splits option.splits)
qed

lemma Round_tracks:
  assumes "watch_round F mergo o1 next c = Some (Ok c')" "tracks c"
  shows "tracks c'"
proof -
  have d: "distinct (map fst (cfg_cached c))" using assms(2) by (simp add: tracks_def)
  from Round_cases [OF assms(1) d] show ?thesis
  proof (elim disjE exE conjE)
    fix l assume "c' = c\<lparr>cfg_logs := cfg_logs c @ [l]\<rparr>"
    then show ?thesis using assms(2) by (simp add: tracks_def)
  next
    fix kvs vs
    assume nn: "\<forall>(k, v) \<in> set (cfg_cached c). current vs k \<noteq> Some CNil"
      and c': "c' = c\<lparr>cfg_values := vs, cfg_cached := map (\<lambda>(k, v). (k, refreshed vs k v)) (cfg_cached c),
         cfg_calls := cfg_calls c @ concat (map (notified vs (cfg_observers c)) (cfg_cached c))\<rparr>"
    have keys: "map fst (cfg_cached c') = map fst (cfg_cached c)" "fst ` set (cfg_cached c') = fst ` set (cfg_cached c)"
      by (simp_all add: c' comp_def split_def image_comp)
    have "v' \<noteq> CNil \<and> (case current vs k of Some n \<Rightarrow> n = v' \<or> deep_equal n v' | None \<Rightarrow> True)"
      if m: "(k, v') \<in> set (cfg_cached c')" for k v'
    proof -
      obtain v where v: "(k, v) \<in> set (cfg_cached c)" "v' = refreshed vs k v" using m by (auto simp: c')
      have "current vs k \<noteq> Some CNil" "v \<noteq> CNil" using nn v(1) assms(2) by (auto simp: tracks_def)
      then show ?thesis using v(2) by (cases "current vs k") (auto simp: refreshed_def)
    qed
    moreover have "cfg_values c' = vs" "cfg_observers c' = cfg_observers c" "cfg_watchers c' = cfg_watchers c" by (simp_all add: c')
    ultimately show ?thesis using keys assms(2) unfolding tracks_def by (simp add: Ball_def split_paired_All)
  qed
qed

lemma step_tracks: "tracks c \<Longrightarrow> cfg_step F mergo o1 c op c' \<Longrightarrow> tracks c'"
  by (erule cfg_step.cases) (simp_all add: Value_tracks Watch_tracks Round_tracks)

interpretation cfg: invariant_system "cfg_init F mergo o1" "cfg_step F mergo o1" tracks for F mergo o1
  by unfold_locales (auto intro: init_tracks step_tracks)

subsection \<open>Properties\<close>


text \<open>A configuration with one variable, watched, then changed.\<close>

definition setting :: "string \<Rightarrow> KeyValue" where
  "setting v = \<lparr>KV_Key = ''a'', KV_Value = v, KV_Format = []\<rparr>"

definition one_setting :: cfg_options where
  "one_setting = (default_options Map.empty no_floats)\<lparr>opt_sources := [\<lparr>src_Load = Ok [setting ''1''], src_Watch = Ok ()\<rparr>]\<rparr>"

definition override :: merger where
  "override m next = Ok (foldl (\<lambda>m (k, v). put_entry k v m) m next)"

lemma Merge_setting:
  "Merge no_floats override one_setting [setting v] m =
     (if gob_ok (CMap m) then defaultResolver no_floats (put_entry ''a'' (CBytes v) m) else Some (Err NotGobEncodable))"
  by (simp add: Merge_def cloneMap_def one_setting_def default_options_def defaultDecoder_def setting_def override_def
      put_entry_def entries_def)

definition loaded :: config where
  "loaded = New_cfg\<lparr>cfg_values := [(''a'', CBytes ''1'')], cfg_running := 1\<rparr>"

definition changed :: config where
  "changed = loaded\<lparr>cfg_values := [(''a'', CBytes ''2'')], cfg_cached := [(''a'', CBytes ''2'')],
     cfg_observers := [''a'' \<mapsto> 7], cfg_calls := [(7, ''a'', CBytes ''2'')]\<rparr>"

lemma split_a: "split_str ''a'' ''.'' = [''a'']"
  by (simp add: split_str_no_sep)

lemma load_setting: "Load_cfg no_floats override one_setting New_cfg = Some (Ok (None, loaded))"
proof -
  have "Merge no_floats override one_setting [setting ''1''] (cfg_values New_cfg) = Some (Ok [(''a'', CBytes ''1'')])"
    by (simp add: Merge_setting New_cfg_def put_entry_def defaultResolver_def entries_def)
  then show ?thesis by (simp add: Load_cfg_def one_setting_def loaded_def [folded One_nat_def]) (simp add: New_cfg_def)
qed


text \<open>A cached value whose successor can be stored over it.\<close>

definition storable :: "cmap \<Rightarrow> string \<times> cval \<Rightarrow> bool" where
  "storable values x =
     (case current values (fst x) of
        Some n \<Rightarrow> n \<noteq> CNil \<and> (deep_equal n (snd x) \<or> same_type (snd x) n)
      | None \<Rightarrow> True)"

lemma range_cached_returns:
  "cfg_cached c = pre @ rest \<Longrightarrow> distinct (map fst (pre @ rest)) \<Longrightarrow>
   (if list_all (storable (cfg_values c)) rest
    then \<exists>c'. (range_cached rest c :: ('e, config) res) = Ok c'
    else \<exists>m. (range_cached rest c :: ('e, config) res) = Panic m)"
proof (induction rest arbitrary: c pre)
  case (Cons x rest)
  obtain k v where x: "x = (k, v)" by (cases x)
  note same = Cons.IH [of c "pre @ [x]"] Cons.prems
  show ?case
  proof (cases "current (cfg_values c) k")
    case None
    then show ?thesis using same by (simp add: x readValue_current storable_def [of _ "(k, v)"])
  next
    case (Some n)
    consider "n = CNil" | "n \<noteq> CNil" "deep_equal n v" | "n \<noteq> CNil" "\<not> deep_equal n v" "\<not> same_type v n"
      | "n \<noteq> CNil" "\<not> deep_equal n v" "same_type v n" by blast
    then show ?thesis
    proof cases
      case 1
      then show ?thesis using Some by (simp add: x readValue_current storable_def [of _ "(k, v)"])
    next
      case 2
      then have "readValue (cfg_values c) k = (Ok (Some n) :: ('e, cval option) res)"
        using Some by (simp add: readValue_current split: cval.splits)
      then show ?thesis using 2 Some same by (simp add: x storable_def [of _ "(k, v)"])
    next
      case 3
      then have "readValue (cfg_values c) k = (Ok (Some n) :: ('e, cval option) res)"
        using Some by (simp add: readValue_current split: cval.splits)
      then show ?thesis
        using 3 Some Cons.prems
        by (simp add: x storable_def [of _ "(k, v)"] Store_ref_def Store_atomic_def Load_ref_def map_of_middle
            del: map_of_append)
    next
      case 4
      let ?d = "c\<lparr>cfg_cached := pre @ (k, n) # rest\<rparr>"
      define e where "e = (case cfg_observers ?d k of Some obs \<Rightarrow> ?d\<lparr>cfg_calls := cfg_calls ?d @ [(obs, k, n)]\<rparr> | None \<Rightarrow> ?d)"
      have "readValue (cfg_values c) k = (Ok (Some n) :: ('e, cval option) res)"
        using 4 Some by (simp add: readValue_current split: cval.splits)
      then have "(range_cached (x # rest) c :: ('e, config) res) = range_cached rest e"
        using 4 Cons.prems
        by (simp add: x e_def Store_ref_def Store_atomic_def Load_ref_def map_of_middle put_middle
            del: map_of_append)
      moreover have "cfg_cached e = (pre @ [(k, n)]) @ rest" "cfg_values e = cfg_values c" by (simp_all add: e_def split: option.splits)
      moreover have "distinct (map fst ((pre @ [(k, n)]) @ rest))" using Cons.prems x by simp
      ultimately show ?thesis
        using 4 Some Cons.IH [of e "pre @ [(k, n)]"] by (simp add: x storable_def [of _ "(k, v)"])
    qed
  qed
qed simp

text \<open>C34: A round that merges replaces every cached value that changed, calls exactly the observers of
  these, in the order of the cache and with the new value, and touches nothing else; it panics, and
  ends the process, exactly when a cached key became null or its value changed its type. When
  nothing can be read or merged the round only logs.
\<close>

theorem watch_round_at_once:
  assumes "distinct (map fst (cfg_cached c))"
  shows "watch_round F mergo o1 (Err e) c = Some (Ok (c\<lparr>cfg_logs := cfg_logs c @ [''Failed to watch next config'']\<rparr>)) \<and>
    (case Merge F mergo o1 kvs (cfg_values c) of
       Some (Ok vs) \<Rightarrow>
         if list_all (storable vs) (cfg_cached c)
         then watch_round F mergo o1 (Ok kvs) c =
           Some (Ok (c\<lparr>cfg_values := vs, cfg_cached := map (\<lambda>(k, v). (k, refreshed vs k v)) (cfg_cached c),
             cfg_calls := cfg_calls c @ concat (map (notified vs (cfg_observers c)) (cfg_cached c))\<rparr>))
         else \<exists>m. watch_round F mergo o1 (Ok kvs) c = Some (Panic m)
     | Some (Err e) \<Rightarrow> watch_round F mergo o1 (Ok kvs) c = Some (Ok (c\<lparr>cfg_logs := cfg_logs c @ [''Failed to merge next config'']\<rparr>))
     | _ \<Rightarrow> True)"
proof -
  have "watch_round F mergo o1 (Ok kvs) c =
           Some (Ok (c\<lparr>cfg_values := vs, cfg_cached := map (\<lambda>(k, v). (k, refreshed vs k v)) (cfg_cached c),
             cfg_calls := cfg_calls c @ concat (map (notified vs (cfg_observers c)) (cfg_cached c))\<rparr>))"
    if m: "Merge F mergo o1 kvs (cfg_values c) = Some (Ok vs)" and s: "list_all (storable vs) (cfg_cached c)" for vs
  proof -
    obtain d where d: "(range_cached (cfg_cached c) (c\<lparr>cfg_values := vs\<rparr>) :: (cfg_error, config) res) = Ok d"
      using range_cached_returns [of "c\<lparr>cfg_values := vs\<rparr>" "[]"] assms s by auto
    from range_cached_Ok [OF d, of "[]"] show ?thesis using d m assms by (simp add: watch_round_def)
  qed
  moreover have "\<exists>x. watch_round F mergo o1 (Ok kvs) c = Some (Panic x)"
    if m: "Merge F mergo o1 kvs (cfg_values c) = Some (Ok vs)" and s: "\<not> list_all (storable vs) (cfg_cached c)" for vs
    using range_cached_returns [of "c\<lparr>cfg_values := vs\<rparr>" "[]" "cfg_cached c", where 'e = cfg_error] assms m s
    by (simp add: watch_round_def)
  ultimately show ?thesis by (auto simp: watch_round_def split: option.splits res.splits)
qed

theorem watch_round_at_once_witness:
  "watch_round no_floats override one_setting (Ok [setting ''2''])
     (loaded\<lparr>cfg_cached := [(''a'', CBytes ''1'')], cfg_observers := [''a'' \<mapsto> 7]\<rparr>) = Some (Ok changed)"
proof -
  let ?w = "loaded\<lparr>cfg_cached := [(''a'', CBytes ''1'')], cfg_observers := [''a'' \<mapsto> 7]\<rparr>"
  have m: "Merge no_floats override one_setting [setting ''2''] (cfg_values ?w) = Some (Ok [(''a'', CBytes ''2'')])"
    by (simp add: Merge_setting loaded_def put_entry_def defaultResolver_def entries_def)
  have c: "current [(''a'', CBytes ''2'')] ''a'' = Some (CBytes ''2'')" by (simp add: current_def split_a)
  have s: "list_all (storable [(''a'', CBytes ''2'')]) (cfg_cached ?w)" by (simp add: storable_def c)
  have d: "distinct (map fst (cfg_cached ?w))" by simp
  from watch_round_at_once [OF d, of no_floats override one_setting KeyNotFound "[setting ''2'']"]
  have "watch_round no_floats override one_setting (Ok [setting ''2'']) ?w =
    Some (Ok (?w\<lparr>cfg_values := [(''a'', CBytes ''2'')],
      cfg_cached := map (\<lambda>(k, v). (k, refreshed [(''a'', CBytes ''2'')] k v)) (cfg_cached ?w),
      cfg_calls := cfg_calls ?w @ concat (map (notified [(''a'', CBytes ''2'')] (cfg_observers ?w)) (cfg_cached ?w))\<rparr>))"
    unfolding m using s by simp
  then show ?thesis by (simp add: changed_def loaded_def New_cfg_def refreshed_def notified_def c)
qed

subsection \<open>The environment as a source\<close>

definition env_entry :: "string list \<Rightarrow> string \<Rightarrow> KeyValue" where
  "env_entry prefixs e =
     \<lparr>KV_Key = (let k = drop (case matchPrefix prefixs e of Some p \<Rightarrow> length p | None \<Rightarrow> 0) (fst (env_split e))
               in if prefixs \<noteq> [] \<and> hd k = CHR ''_'' then tl k else k),
      KV_Value = snd (env_split e), KV_Format = []\<rparr>"

definition env_short :: "string list \<Rightarrow> string \<Rightarrow> bool" where
  "env_short prefixs e \<longleftrightarrow>
     (case matchPrefix prefixs e of Some p \<Rightarrow> length (fst (env_split e)) \<le> length p | None \<Rightarrow> False)"

text \<open>Loading the environment gives one entry for each variable that starts with a prefix (for all of
  them when there is none), in order, named without the prefix and one underscore; but it panics
  when the name of a variable is no longer than the prefix it starts with.
\<close>

theorem env_load_panics:
  "if \<exists>e \<in> set environ. env_short prefixs e then \<exists>m. (env_Load prefixs environ :: ('e, KeyValue list) res) = Panic m
   else (env_Load prefixs environ :: ('e, KeyValue list) res) =
     Ok (map (env_entry prefixs) (filter (\<lambda>e. prefixs = [] \<or> matchPrefix prefixs e \<noteq> None) environ))"
proof (induction environ)
  case (Cons e environ)
  obtain k v where kv: "env_split e = (k, v)" by (cases "env_split e")
  show ?case
  proof (cases "prefixs = []")
    case True
    then show ?thesis
      using Cons kv by (cases "\<exists>e \<in> set environ. env_short prefixs e") (auto simp: env_entry_def [of _ e] env_short_def [of _ e])
  next
    case False
    show ?thesis
      using Cons kv False
      by (cases "matchPrefix prefixs e"; cases "\<exists>e \<in> set environ. env_short prefixs e") (auto simp: env_entry_def [of _ e] env_short_def [of _ e] Let_def split: if_splits)
  qed
qed simp


theorem env_load_panics_witness:
  "\<exists>m. (env_Load [''APP''] [''APP=1''] :: (unit, KeyValue list) res) = Panic m"
proof -
  have "\<exists>e \<in> set [''APP=1'']. env_short [''APP''] e" by (simp add: env_short_def env_split_def)
  then show ?thesis using env_load_panics [where 'e = unit and environ = "[''APP=1'']" and prefixs = "[''APP'']"] by (simp only: if_True)
qed

text \<open>The environment never changes: the watcher blocks until it is stopped, then returns nothing at once.\<close>

definition env_Next :: "bool \<Rightarrow> ('e, KeyValue list) res option" where
  "env_Next stopped = (if stopped then Some (Ok []) else None)"

end
