(* ===== verification/Lifecycle.thy ===== *)
theory Lifecycle
  imports Settings Systems Json
begin

text \<open>
  How an application built on the library starts and stops: the registry of modules
  (\<^verbatim>\<open>pkg/register/register.go\<close>), their setup, start and stop (\<^verbatim>\<open>module/module.go\<close>), the server
  (\<^verbatim>\<open>server/server.go\<close>) and the shared context (\<^verbatim>\<open>config/context.go\<close>).

  The functions of a module are those of the application: what each of them returns is a field of
  the module, and the calls are recorded as events, in order.
\<close>

subsection \<open>Data sources\<close>

definition IMDatasourceTypeNone :: int64 where "IMDatasourceTypeNone = 0"
definition IMDatasourceTypeSubscribers :: int64 where "IMDatasourceTypeSubscribers = 1"
definition IMDatasourceTypeChannelInfo :: int64 where "IMDatasourceTypeChannelInfo = push_bit 1 1"
definition IMDatasourceTypeBlacklist :: int64 where "IMDatasourceTypeBlacklist = push_bit 2 1"
definition IMDatasourceTypeWhitelist :: int64 where "IMDatasourceTypeWhitelist = push_bit 3 1"
definition IMDatasourceTypeSystemUIDs :: int64 where "IMDatasourceTypeSystemUIDs = push_bit 4 1"

definition Has :: "int64 \<Rightarrow> int64 \<Rightarrow> bool" where
  "Has i d \<longleftrightarrow> Bit_Operations.and i d = d"

text \<open>Each function may be nil.\<close>

record IMDatasource =
  HasData :: "(string \<Rightarrow> byte \<Rightarrow> int64) option"
  DS_Subscribers :: "(string \<Rightarrow> byte \<Rightarrow> (string, string list) res) option"
  DS_ChannelInfo :: "(string \<Rightarrow> byte \<Rightarrow> (string, (string \<times> json) list) res) option"
  DS_Blacklist :: "(string \<Rightarrow> byte \<Rightarrow> (string, string list) res) option"
  DS_Whitelist :: "(string \<Rightarrow> byte \<Rightarrow> (string, string list) res) option"
  DS_SystemUIDs :: "(string, string list) res option"

definition zero_IMDatasource :: IMDatasource where
  "zero_IMDatasource = \<lparr>HasData = None, DS_Subscribers = None, DS_ChannelInfo = None, DS_Blacklist = None,
     DS_Whitelist = None, DS_SystemUIDs = None\<rparr>"

subsection \<open>Modules\<close>

text \<open>
  \<open>SetupAPI\<close> and \<open>SetupTask\<close> are nil or return a router, or nil; \<open>Start\<close> and \<open>Stop\<close> are nil or return
  an error, or nil.
\<close>

record 'svc module =
  Mod_Name :: string
  SetupAPI :: "bool option"
  SetupTask :: "bool option"
  Mod_Swagger :: string
  Mod_IMDatasource :: IMDatasource
  Service :: "'svc option"
  Start_fn :: "string option option"
  Stop_fn :: "string option option"

definition empty_module :: "'svc module" where
  "empty_module = \<lparr>Mod_Name = [], SetupAPI = None, SetupTask = None, Mod_Swagger = [], Mod_IMDatasource = zero_IMDatasource,
     Service = None, Start_fn = None, Stop_fn = None\<rparr>"

record ('ctx, 'svc) module_registry =
  reg_modules :: "('ctx \<Rightarrow> 'svc module) list"
  reg_once :: bool
  reg_moduleList :: "'svc module list"

definition new_registry :: "('ctx, 'svc) module_registry" where
  "new_registry = \<lparr>reg_modules = [], reg_once = False, reg_moduleList = []\<rparr>"

definition AddModule :: "('ctx \<Rightarrow> 'svc module) \<Rightarrow> ('ctx, 'svc) module_registry \<Rightarrow> ('ctx, 'svc) module_registry" where
  "AddModule f r = r\<lparr>reg_modules := reg_modules r @ [f]\<rparr>"

definition GetModules :: "'ctx \<Rightarrow> ('ctx, 'svc) module_registry \<Rightarrow> 'svc module list \<times> ('ctx, 'svc) module_registry" where
  "GetModules ctx r =
     (let r = (if reg_once r then r
               else r\<lparr>reg_once := True, reg_moduleList := reg_moduleList r @ map (\<lambda>m. m ctx) (reg_modules r)\<rparr>)
      in (reg_moduleList r, r))"

fun find_module :: "string \<Rightarrow> 'svc module list \<Rightarrow> 'svc module option" where
  "find_module name [] = None"
| "find_module name (m # ms) = (if Mod_Name m = name then Some m else find_module name ms)"

definition GetModuleByName :: "string \<Rightarrow> ('ctx, 'svc) module_registry \<Rightarrow> 'svc module" where
  "GetModuleByName name r = (case find_module name (reg_moduleList r) of Some m \<Rightarrow> m | None \<Rightarrow> empty_module)"

definition GetService :: "string \<Rightarrow> ('ctx, 'svc) module_registry \<Rightarrow> 'svc option" where
  "GetService name r = (case find_module name (reg_moduleList r) of Some m \<Rightarrow> Service m | None \<Rightarrow> None)"

subsection \<open>Setup, start and stop\<close>

datatype event = RanSetupAPI string | Routed string | RanSetupTask string | TasksRegistered string
  | RanStart string | RanStop string

definition setup_module :: "bool \<Rightarrow> 'svc module \<Rightarrow> event list" where
  "setup_module with_tasks m =
     (case SetupAPI m of
        None \<Rightarrow> []
      | Some router \<Rightarrow> RanSetupAPI (Mod_Name m) # (if router then [Routed (Mod_Name m)] else []))
     @ (if with_tasks then
          (case SetupTask m of
             None \<Rightarrow> []
           | Some task \<Rightarrow> RanSetupTask (Mod_Name m) # (if task then [TasksRegistered (Mod_Name m)] else []))
        else [])"

text \<open>Setting up returns no error.\<close>

definition Setup :: "bool \<Rightarrow> 'ctx \<Rightarrow> ('ctx, 'svc) module_registry \<Rightarrow> event list \<times> ('ctx, 'svc) module_registry" where
  "Setup with_tasks ctx r =
     (case GetModules ctx r of (ms, r) \<Rightarrow> (concat (map (setup_module with_tasks) ms), r))"

fun start_modules :: "'svc module list \<Rightarrow> event list \<Rightarrow> string option \<times> event list" where
  "start_modules [] t = (None, t)"
| "start_modules (m # ms) t =
     (case Start_fn m of
        None \<Rightarrow> start_modules ms t
      | Some None \<Rightarrow> start_modules ms (t @ [RanStart (Mod_Name m)])
      | Some (Some err) \<Rightarrow> (Some err, t @ [RanStart (Mod_Name m)]))"

definition Start :: "'ctx \<Rightarrow> ('ctx, 'svc) module_registry \<Rightarrow> string option \<times> event list \<times> ('ctx, 'svc) module_registry" where
  "Start ctx r =
     (case GetModules ctx r of (ms, r) \<Rightarrow>
        case start_modules ms [] of (err, t) \<Rightarrow> (err, t, r))"

fun stop_modules :: "'svc module list \<Rightarrow> event list \<Rightarrow> string option \<times> event list" where
  "stop_modules [] t = (None, t)"
| "stop_modules (m # ms) t =
     (case Stop_fn m of
        None \<Rightarrow> stop_modules ms t
      | Some None \<Rightarrow> stop_modules ms (t @ [RanStop (Mod_Name m)])
      | Some (Some err) \<Rightarrow> (Some err, t @ [RanStop (Mod_Name m)]))"

definition Stop :: "'ctx \<Rightarrow> ('ctx, 'svc) module_registry \<Rightarrow> string option \<times> event list \<times> ('ctx, 'svc) module_registry" where
  "Stop ctx r =
     (case GetModules ctx r of (ms, r) \<Rightarrow>
        case stop_modules ms [] of (err, t) \<Rightarrow> (err, t, r))"

subsection \<open>The server\<close>

record server =
  sslAddr :: string
  srv_addr :: string
  grpcAddr :: string

text \<open>The registrations and calls of \<^verbatim>\<open>run\<close> on its router, in order.\<close>

datatype router_call = UseMiddleware string | StaticDir string string | AnyRoute string | RunHTTP string
  | GoRunHTTP string | RunTLS string string string

definition New_server :: "Config \<Rightarrow> server \<times> router_call list" where
  "New_server cfg =
     (\<lparr>sslAddr = cfg_SSLAddr cfg, srv_addr = cfg_Addr cfg, grpcAddr = cfg_GRPCAddr cfg\<rparr>, [UseMiddleware ''CORS''])"

text \<open>
  Without an address for TLS the server blocks serving on its address; with one it serves there in a
  goroutine and blocks serving TLS, with a middleware the routes made before do not have.
\<close>

definition run_server :: "string \<Rightarrow> string \<Rightarrow> string list \<Rightarrow> router_call list" where
  "run_server cwd ssl addr =
     [StaticDir ''/web'' ''./assets/web'', AnyRoute ''/v1/ping'', AnyRoute ''/swagger/:module'']
     @ (case addr of
          [] \<Rightarrow> []
        | a # _ \<Rightarrow> if ssl \<noteq> [] then [GoRunHTTP a] else [RunHTTP a])
     @ (if ssl \<noteq> [] then
          [UseMiddleware ''TLS'', RunTLS ssl (cwd @ ''/assets/ssl/ssl.pem'') (cwd @ ''/assets/ssl/ssl.key'')]
        else [])"

text \<open>The handler of \<^verbatim>\<open>/swagger/:module\<close>: status and body.\<close>

definition swagger_handler :: "string \<Rightarrow> ('ctx, 'svc) module_registry \<Rightarrow> nat \<times> string" where
  "swagger_handler m r =
     (let module = GetModuleByName m r
      in if trim_space (Mod_Swagger module) = [] then (404, []) else (200, Mod_Swagger module))"

text \<open>The router runs in a goroutine beside the start of the modules.\<close>

definition Start_server :: "string \<Rightarrow> server \<Rightarrow> 'ctx \<Rightarrow> ('ctx, 'svc) module_registry \<Rightarrow> router_call list \<times> string option \<times> event list \<times> ('ctx, 'svc) module_registry" where
  "Start_server cwd s ctx r = (run_server cwd (sslAddr s) [srv_addr s], Start ctx r)"

definition Stop_server :: "'ctx \<Rightarrow> ('ctx, 'svc) module_registry \<Rightarrow> string option \<times> event list \<times> ('ctx, 'svc) module_registry" where
  "Stop_server ctx r = Stop ctx r"

subsection \<open>The context\<close>

text \<open>
  The singletons are created when first asked for; what creating them gives is an argument. The
  listeners are variables of the package: a new context does not reset them.
\<close>

record ('db, 'rc, 'mc, 'v) app_context =
  mySQLSession :: "'db option"
  redisCache :: "'rc option"
  memoryCache :: "'mc option"
  valueMap :: "string \<rightharpoonup> 'v"

record 'l listeners =
  onlinStatusListeners :: "'l list"
  eventListeners :: "string \<rightharpoonup> 'l list"
  messagesListeners :: "'l list"

text \<open>\<open>node\<close> and \<open>tracer\<close> are the errors of the identifier generator and of the tracer.\<close>

definition NewContext :: "string option \<Rightarrow> string option \<Rightarrow> ('e, ('db, 'rc, 'mc, 'v) app_context) res" where
  "NewContext node tracer =
     (case (node, tracer) of
        (Some e, _) \<Rightarrow> Panic e
      | (None, Some e) \<Rightarrow> Panic e
      | (None, None) \<Rightarrow> Ok \<lparr>mySQLSession = None, redisCache = None, memoryCache = None, valueMap = Map.empty\<rparr>)"

record OnlineStatus =
  OS_UID :: string
  OS_DeviceFlag :: byte
  OS_Online :: bool
  OS_SocketID :: int64
  OS_OnlineCount :: int64
  OS_TotalOnlineCount :: int64

definition NewMySQL :: "('e, 'db) res \<Rightarrow> ('db, 'rc, 'mc, 'v) app_context \<Rightarrow> ('e, 'db \<times> ('db, 'rc, 'mc, 'v) app_context) res" where
  "NewMySQL opened c =
     (case mySQLSession c of
        Some s \<Rightarrow> Ok (s, c)
      | None \<Rightarrow> map_ok (\<lambda>s. (s, c\<lparr>mySQLSession := Some s\<rparr>)) opened)"

definition DB :: "('e, 'db) res \<Rightarrow> ('db, 'rc, 'mc, 'v) app_context \<Rightarrow> ('e, 'db \<times> ('db, 'rc, 'mc, 'v) app_context) res" where
  "DB opened c = NewMySQL opened c"

definition NewRedisCache_ctx :: "'rc \<Rightarrow> ('db, 'rc, 'mc, 'v) app_context \<Rightarrow> 'rc \<times> ('db, 'rc, 'mc, 'v) app_context" where
  "NewRedisCache_ctx new c =
     (case redisCache c of Some r \<Rightarrow> (r, c) | None \<Rightarrow> (new, c\<lparr>redisCache := Some new\<rparr>))"

definition NewMemoryCache_ctx :: "'mc \<Rightarrow> ('db, 'rc, 'mc, 'v) app_context \<Rightarrow> 'mc \<times> ('db, 'rc, 'mc, 'v) app_context" where
  "NewMemoryCache_ctx new c =
     (case memoryCache c of Some r \<Rightarrow> (r, c) | None \<Rightarrow> (new, c\<lparr>memoryCache := Some new\<rparr>))"

definition Cache_ctx :: "'rc \<Rightarrow> ('db, 'rc, 'mc, 'v) app_context \<Rightarrow> 'rc \<times> ('db, 'rc, 'mc, 'v) app_context" where
  "Cache_ctx new c = NewRedisCache_ctx new c"

definition SetValue :: "'v \<Rightarrow> string \<Rightarrow> ('db, 'rc, 'mc, 'v) app_context \<Rightarrow> ('db, 'rc, 'mc, 'v) app_context" where
  "SetValue v key c = c\<lparr>valueMap := (valueMap c)(key \<mapsto> v)\<rparr>"

definition Value_ctx :: "string \<Rightarrow> ('db, 'rc, 'mc, 'v) app_context \<Rightarrow> 'v option" where
  "Value_ctx key c = valueMap c key"

definition AddOnlineStatusListener :: "'l \<Rightarrow> 'l listeners \<Rightarrow> 'l listeners" where
  "AddOnlineStatusListener l c = c\<lparr>onlinStatusListeners := onlinStatusListeners c @ [l]\<rparr>"

definition GetAllOnlineStatusListeners :: "'l listeners \<Rightarrow> 'l list" where
  "GetAllOnlineStatusListeners c = onlinStatusListeners c"

definition GetEventListeners :: "string \<Rightarrow> 'l listeners \<Rightarrow> 'l list" where
  "GetEventListeners event c = (case eventListeners c event of Some ls \<Rightarrow> ls | None \<Rightarrow> [])"

definition AddEventListener :: "string \<Rightarrow> 'l \<Rightarrow> 'l listeners \<Rightarrow> 'l listeners" where
  "AddEventListener event l c =
     c\<lparr>eventListeners := (eventListeners c)(event \<mapsto>
        (case eventListeners c event of Some ls \<Rightarrow> ls | None \<Rightarrow> []) @ [l])\<rparr>"

definition JyAddEventListener :: "string \<Rightarrow> 'l \<Rightarrow> 'l listeners \<Rightarrow> 'l listeners" where
  "JyAddEventListener event l c =
     (if length (GetEventListeners event c) < 1 then
        c\<lparr>eventListeners := (eventListeners c)(event \<mapsto>
          (case eventListeners c event of Some ls \<Rightarrow> ls | None \<Rightarrow> []) @ [l])\<rparr>
      else c)"

definition AddMessagesListener :: "'l \<Rightarrow> 'l listeners \<Rightarrow> 'l listeners" where
  "AddMessagesListener l c = c\<lparr>messagesListeners := messagesListeners c @ [l]\<rparr>"

text \<open>The calls made, each listener with the messages.\<close>

definition NotifyMessagesListeners :: "'m list \<Rightarrow> 'l listeners \<Rightarrow> ('l \<times> 'm list) list" where
  "NotifyMessagesListeners messages c = map (\<lambda>l. (l, messages)) (messagesListeners c)"

text \<open>The next time of a repeated task; times are in nanoseconds.\<close>

definition Next_time :: "int \<Rightarrow> int \<Rightarrow> int" where
  "Next_time interval prev = prev + interval"


definition no_listeners :: "'l listeners" where
  "no_listeners = \<lparr>onlinStatusListeners = [], eventListeners = Map.empty, messagesListeners = []\<rparr>"

subsection \<open>The list of modules is fixed by the first use\<close>

datatype ('ctx, 'svc) reg_op = OpAdd "'ctx \<Rightarrow> 'svc module" | OpGet 'ctx

fun reg_run :: "('ctx, 'svc) reg_op list \<Rightarrow> ('ctx, 'svc) module_registry \<Rightarrow> 'svc module list list \<times> ('ctx, 'svc) module_registry" where
  "reg_run [] r = ([], r)"
| "reg_run (OpAdd f # ops) r = reg_run ops (AddModule f r)"
| "reg_run (OpGet ctx # ops) r =
     (case GetModules ctx r of (ms, r) \<Rightarrow> case reg_run ops r of (res, r) \<Rightarrow> (ms # res, r))"

definition is_get :: "('ctx, 'svc) reg_op \<Rightarrow> bool" where
  "is_get x \<longleftrightarrow> (case x of OpGet ctx \<Rightarrow> True | OpAdd f \<Rightarrow> False)"

lemma reg_run_adds:
  "reg_run (map OpAdd fs @ ops) r = reg_run ops (r\<lparr>reg_modules := reg_modules r @ fs\<rparr>)"
  by (induction fs arbitrary: r) (simp_all add: AddModule_def)

lemma reg_run_once:
  "reg_once r \<Longrightarrow>
   fst (reg_run ops r) = replicate (length (filter is_get ops)) (reg_moduleList r) \<and>
   reg_moduleList (snd (reg_run ops r)) = reg_moduleList r"
proof (induction ops arbitrary: r)
  case (Cons x ops)
  show ?case
  proof (cases x)
    case (OpAdd f)
    then show ?thesis using Cons.IH [of "AddModule f r"] Cons.prems by (simp add: AddModule_def is_get_def [of "OpAdd f"])
  next
    case (OpGet ctx)
    then show ?thesis
      using Cons.IH [of r] Cons.prems by (simp add: GetModules_def is_get_def [of "OpGet ctx"] case_prod_unfold)
  qed
qed simp

text \<open>C5: The first use of the registry decides: however modules are added and the registry is used
  afterwards, with whatever context, every use sees the modules added before the first one, made with
  its context, in the order they were added; before it no module and no service can be found.
\<close>

theorem modules_fixed_by_first_use:
  "fst (reg_run (map OpAdd fs @ OpGet ctx # later) new_registry)
     = replicate (Suc (length (filter is_get later))) (map (\<lambda>f. f ctx) fs) \<and>
   reg_moduleList (snd (reg_run (map OpAdd fs @ OpGet ctx # later) new_registry)) = map (\<lambda>f. f ctx) fs \<and>
   GetService name (snd (reg_run (map OpAdd fs) new_registry)) = None \<and>
   GetModuleByName name (snd (reg_run (map OpAdd fs) new_registry)) = empty_module"
proof -
  have "reg_run (map OpAdd fs) new_registry = reg_run [] (new_registry\<lparr>reg_modules := fs\<rparr>)"
    using reg_run_adds [of fs "[]" new_registry] by (simp add: new_registry_def)
  moreover have "reg_run (OpGet ctx # later) (new_registry\<lparr>reg_modules := fs\<rparr>) =
    (case reg_run later \<lparr>reg_modules = fs, reg_once = True, reg_moduleList = map (\<lambda>f. f ctx) fs\<rparr> of (res, r) \<Rightarrow> (map (\<lambda>f. f ctx) fs # res, r))"
    by (simp add: GetModules_def new_registry_def)
  ultimately show ?thesis
    using reg_run_once [of "\<lparr>reg_modules = fs, reg_once = True, reg_moduleList = map (\<lambda>f. f ctx) fs\<rparr>" later]
    by (simp add: reg_run_adds new_registry_def GetService_def GetModuleByName_def case_prod_unfold)
qed

subsection \<open>Running in order up to the first error\<close>

text \<open>
  A loop over the modules that calls a function each of them may have, and returns at the first
  error.
\<close>

locale ordered_runner =
  fixes run_all :: "'m list \<Rightarrow> event list \<Rightarrow> string option \<times> event list"
    and call :: "'m \<Rightarrow> string option option" and ev :: "'m \<Rightarrow> event"
  assumes run_Nil: "run_all [] t = (None, t)"
    and run_Cons: "run_all (m # ms) t =
      (case call m of
         None \<Rightarrow> run_all ms t
       | Some None \<Rightarrow> run_all ms (t @ [ev m])
       | Some (Some err) \<Rightarrow> (Some err, t @ [ev m]))"
begin

lemma run_spec:
  "run_all ms t =
     (let called = filter (\<lambda>m. call m \<noteq> None) ms
      in case dropWhile (\<lambda>m. call m = Some None) called of
           [] \<Rightarrow> (None, t @ map ev called)
         | m # _ \<Rightarrow> (the (call m), t @ map ev (takeWhile (\<lambda>m. call m = Some None) called) @ [ev m]))"
proof (induction ms arbitrary: t)
  case (Cons m ms)
  show ?case
  proof (cases "call m")
    case None
    then show ?thesis using Cons by (simp add: run_Cons)
  next
    case (Some e)
    then show ?thesis
      using Cons
      by (cases e; cases "dropWhile (\<lambda>m. call m = Some None) (filter (\<lambda>m. call m \<noteq> None) ms)")
        (simp_all add: run_Cons Let_def del: dropWhile_eq_Nil_conv dropWhile_eq_Cons_conv)
  qed
qed (simp add: run_Nil)

end

interpretation starts: ordered_runner start_modules Start_fn "\<lambda>m. RanStart (Mod_Name m)"
  by unfold_locales simp_all

interpretation stops: ordered_runner stop_modules Stop_fn "\<lambda>m. RanStop (Mod_Name m)"
  by unfold_locales simp_all

text \<open>Starting calls the \<open>Start\<close> functions of the modules that have one, in the order of the
  registry, up to and including the first that fails, and returns its error; stopping does the same
  with the \<open>Stop\<close> functions, in the same order and not in the reverse one, and whether a module was
  started or not: the modules after one that fails to stop keep running.
\<close>

theorem start_and_stop_in_order:
  "reg_once r \<Longrightarrow>
   Start ctx r =
     (let called = filter (\<lambda>m. Start_fn m \<noteq> None) (reg_moduleList r)
      in case dropWhile (\<lambda>m. Start_fn m = Some None) called of
           [] \<Rightarrow> (None, map (\<lambda>m. RanStart (Mod_Name m)) called, r)
         | m # _ \<Rightarrow> (the (Start_fn m),
             map (\<lambda>m. RanStart (Mod_Name m)) (takeWhile (\<lambda>m. Start_fn m = Some None) called) @ [RanStart (Mod_Name m)], r)) \<and>
   Stop ctx r =
     (let called = filter (\<lambda>m. Stop_fn m \<noteq> None) (reg_moduleList r)
      in case dropWhile (\<lambda>m. Stop_fn m = Some None) called of
           [] \<Rightarrow> (None, map (\<lambda>m. RanStop (Mod_Name m)) called, r)
         | m # _ \<Rightarrow> (the (Stop_fn m),
             map (\<lambda>m. RanStop (Mod_Name m)) (takeWhile (\<lambda>m. Stop_fn m = Some None) called) @ [RanStop (Mod_Name m)], r))"
  by (cases "dropWhile (\<lambda>m. Start_fn m = Some None) (filter (\<lambda>m. Start_fn m \<noteq> None) (reg_moduleList r))";
      cases "dropWhile (\<lambda>m. Stop_fn m = Some None) (filter (\<lambda>m. Stop_fn m \<noteq> None) (reg_moduleList r))")
    (simp_all add: Start_def Stop_def GetModules_def starts.run_spec stops.run_spec Let_def
      del: dropWhile_eq_Nil_conv dropWhile_eq_Cons_conv)

theorem start_and_stop_in_order_witness:
  "fst (snd (Start () \<lparr>reg_modules = [], reg_once = True,
      reg_moduleList = [empty_module\<lparr>Mod_Name := ''a'', Start_fn := Some (Some ''e'')\<rparr>, empty_module\<lparr>Mod_Name := ''b'', Start_fn := Some None\<rparr>]\<rparr>))
     = [RanStart ''a'']"
  by (subst start_and_stop_in_order [THEN conjunct1]) (simp_all add: empty_module_def)

subsection \<open>Listeners and singletons\<close>

datatype 'l listen_op = Add_op string 'l | JyAdd_op string 'l

fun listen :: "'l listen_op list \<Rightarrow> 'l listeners \<Rightarrow> 'l listeners" where
  "listen [] c = c"
| "listen (Add_op e l # ops) c = listen ops (AddEventListener e l c)"
| "listen (JyAdd_op e l # ops) c = listen ops (JyAddEventListener e l c)"

definition op_event :: "'l listen_op \<Rightarrow> string" where
  "op_event x = (case x of Add_op e l \<Rightarrow> e | JyAdd_op e l \<Rightarrow> e)"

definition op_listener :: "'l listen_op \<Rightarrow> 'l" where
  "op_listener x = (case x of Add_op e l \<Rightarrow> l | JyAdd_op e l \<Rightarrow> l)"

definition is_add :: "'l listen_op \<Rightarrow> bool" where
  "is_add x \<longleftrightarrow> (case x of Add_op e l \<Rightarrow> True | JyAdd_op e l \<Rightarrow> False)"

lemma op_simps [simp]:
  "op_event (Add_op e l) = e" "op_event (JyAdd_op e l) = e" "op_listener (Add_op e l) = l"
  "op_listener (JyAdd_op e l) = l" "is_add (Add_op e l)" "\<not> is_add (JyAdd_op e l)"
  by (simp_all add: op_event_def op_listener_def is_add_def)

lemma Get_Add: "GetEventListeners e (AddEventListener e' l c) = GetEventListeners e c @ (if e = e' then [l] else [])"
  by (simp add: GetEventListeners_def AddEventListener_def)

lemma Get_JyAdd:
  "GetEventListeners e (JyAddEventListener e' l c) =
     (if e = e' \<and> GetEventListeners e c = [] then [l] else GetEventListeners e c)"
  by (auto simp: GetEventListeners_def JyAddEventListener_def split: option.splits)

lemma listen_more:
  "GetEventListeners e c \<noteq> [] \<Longrightarrow>
   GetEventListeners e (listen ops c) =
     GetEventListeners e c @ map op_listener (filter (\<lambda>x. op_event x = e \<and> is_add x) ops)"
proof (induction ops arbitrary: c)
  case (Cons x ops)
  then show ?case
    by (cases x) (auto simp: Get_Add Get_JyAdd)
qed simp

text \<open>An event is delivered to the first listener registered for it, by either function, and then to
  those that \<open>AddEventListener\<close> adds, in order: \<open>JyAddEventListener\<close> only registers for an event
  nobody listens to yet.
\<close>

theorem event_listeners_in_order:
  "GetEventListeners e (listen ops no_listeners) =
     (case filter (\<lambda>x. op_event x = e) ops of
        [] \<Rightarrow> []
      | x # later \<Rightarrow> op_listener x # map op_listener (filter is_add later))"
proof -
  have "GetEventListeners e (listen ops c) =
     (case filter (\<lambda>x. op_event x = e) ops of
        [] \<Rightarrow> []
      | x # later \<Rightarrow> op_listener x # map op_listener (filter is_add later))"
    if "GetEventListeners e c = []" for c
    using that
  proof (induction ops arbitrary: c)
    case (Cons x ops)
    have f: "filter (\<lambda>x. op_event x = e \<and> is_add x) ops = filter is_add (filter (\<lambda>x. op_event x = e) ops)"
      by (simp add: conj_commute)
    show ?case
      using Cons by (cases x)
        (auto simp: Get_Add Get_JyAdd listen_more f simp del: filter_filter)
  qed simp
  then show ?thesis by (simp add: GetEventListeners_def no_listeners_def)
qed

end
