(* ===== verification/Migration.thy ===== *)
theory Migration
  imports Prelude "HOL-Library.Multiset"
begin

text \<open>
  How the database migrations are found: in a directory with its subdirectories
  (\<^verbatim>\<open>pkg/db/mysql.go\<close>) and in the embedded files of the modules (\<^verbatim>\<open>module/module.go\<close>).

  The file system (listing a directory, parsing a file) and the unstable sort by the order of
  package migrate are parameters; \<open>'m\<close> are the migrations.
\<close>

type_synonym listing = "string \<Rightarrow> (string, (string \<times> bool) list) res"
type_synonym 'm parser = "string \<Rightarrow> string \<Rightarrow> (string, 'm) res"

definition is_sql :: "string \<Rightarrow> bool" where
  "is_sql name = has_suffix name ''.sql''"

subsection \<open>A directory\<close>

text \<open>
  The files of one directory, with the migrations found so far. A subdirectory is looked up under
  the root and not under the directory that lists it.
\<close>

partial_function (option) find_files ::
    "listing \<Rightarrow> 'm parser \<Rightarrow> string \<Rightarrow> string \<Rightarrow> (string \<times> bool) list \<Rightarrow> 'm list \<Rightarrow> (string, 'm list) res option" where
  "find_files readdir parse base dir files migrations =
     (case files of
        [] \<Rightarrow> Some (Ok migrations)
      | (name, isDir) # rest \<Rightarrow>
          if is_sql name then
            (case parse dir name of
               Ok m \<Rightarrow> find_files readdir parse base dir rest (migrations @ [m])
             | Err e \<Rightarrow> Some (Err e)
             | Panic e \<Rightarrow> Some (Panic e))
          else if isDir then
            (case readdir (base @ ''/'' @ name) of
               Ok sub \<Rightarrow>
                 Option.bind (find_files readdir parse base (base @ ''/'' @ name) sub migrations) (\<lambda>r.
                   case r of
                     Ok ms \<Rightarrow> find_files readdir parse base dir rest ms
                   | Err e \<Rightarrow> Some (Err e)
                   | Panic e \<Rightarrow> Some (Panic e))
             | Err e \<Rightarrow> Some (Err e)
             | Panic e \<Rightarrow> Some (Panic e))
          else find_files readdir parse base dir rest migrations)"

definition findMigrations :: "listing \<Rightarrow> 'm parser \<Rightarrow> string \<Rightarrow> string \<Rightarrow> 'm list \<Rightarrow> (string, 'm list) res option" where
  "findMigrations readdir parse base dir migrations =
     (case readdir dir of
        Ok files \<Rightarrow> find_files readdir parse base dir files migrations
      | Err e \<Rightarrow> Some (Err e)
      | Panic e \<Rightarrow> Some (Panic e))"

definition FindMigrations :: "listing \<Rightarrow> 'm parser \<Rightarrow> ('m list \<Rightarrow> 'm list) \<Rightarrow> string \<Rightarrow> (string, 'm list) res option" where
  "FindMigrations readdir parse sort_byID base =
     map_option (map_ok sort_byID) (findMigrations readdir parse base base [])"

subsection \<open>The modules\<close>

fun find_embedded_files :: "'m parser \<Rightarrow> (string \<times> bool) list \<Rightarrow> 'm list \<Rightarrow> (string, 'm list) res" where
  "find_embedded_files parse [] migrations = Ok migrations"
| "find_embedded_files parse ((name, isDir) # files) migrations =
     (if is_sql name then
        (case parse ''sql'' name of
           Ok m \<Rightarrow> find_embedded_files parse files (migrations @ [m])
         | Err e \<Rightarrow> Err e
         | Panic e \<Rightarrow> Panic e)
      else find_embedded_files parse files migrations)"

definition find_embedded :: "listing \<times> 'm parser \<Rightarrow> 'm list \<Rightarrow> (string, 'm list) res" where
  "find_embedded fs migrations =
     bind_res (fst fs ''sql'') (\<lambda>files. find_embedded_files (snd fs) files migrations)"

fun find_all_embedded :: "(listing \<times> 'm parser) list \<Rightarrow> 'm list \<Rightarrow> (string, 'm list) res" where
  "find_all_embedded [] migrations = Ok migrations"
| "find_all_embedded (fs # sqlfss) migrations = bind_res (find_embedded fs migrations) (find_all_embedded sqlfss)"

definition FindMigrations_modules :: "('m list \<Rightarrow> 'm list) \<Rightarrow> (listing \<times> 'm parser) list \<Rightarrow> (string, 'm list) res" where
  "FindMigrations_modules sort_byID sqlfss =
     (if length sqlfss = 0 then Ok [] else map_ok sort_byID (find_all_embedded sqlfss []))"

subsection \<open>What is found\<close>

text \<open>The migrations of the \<^verbatim>\<open>.sql\<close> files of a listing whose files all parse.\<close>

definition sql_of :: "(string \<Rightarrow> string \<Rightarrow> 'm) \<Rightarrow> string \<Rightarrow> (string \<times> bool) list \<Rightarrow> 'm list" where
  "sql_of m dir files = map (\<lambda>x. m dir (fst x)) (filter (\<lambda>x. is_sql (fst x)) files)"

definition flat :: "(string \<times> bool) list \<Rightarrow> bool" where
  "flat files \<longleftrightarrow> list_all (\<lambda>x. snd x \<longrightarrow> is_sql (fst x)) files"

lemma sql_of_simps [simp]:
  "sql_of m dir [] = []"
  "sql_of m dir ((name, isDir) # files) = (if is_sql name then m dir name # sql_of m dir files else sql_of m dir files)"
  by (simp_all add: sql_of_def)

lemma find_files_flat:
  "flat files \<Longrightarrow>
   find_files readdir (\<lambda>d n. Ok (m d n)) base dir files ms = Some (Ok (ms @ sql_of m dir files))"
proof (induction files arbitrary: ms)
  case Nil
  then show ?case by (subst find_files.simps) simp
next
  case (Cons x files)
  obtain name isDir where x: "x = (name, isDir)" by (cases x)
  have "flat files" "isDir \<Longrightarrow> is_sql name" using Cons.prems by (auto simp: flat_def x)
  then show ?case using Cons.IH by (subst find_files.simps) (auto simp: x)
qed

fun two_levels :: "(string \<Rightarrow> string \<Rightarrow> 'm) \<Rightarrow> (string \<Rightarrow> (string \<times> bool) list) \<Rightarrow> string \<Rightarrow> (string \<times> bool) list \<Rightarrow> 'm list" where
  "two_levels m tree base [] = []"
| "two_levels m tree base ((name, isDir) # files) =
     (if is_sql name then [m base name]
      else if isDir then sql_of m (base @ ''/'' @ name) (tree (base @ ''/'' @ name))
      else []) @ two_levels m tree base files"

lemma find_files_two_levels:
  "(\<And>name. (name, True) \<in> set files \<Longrightarrow> \<not> is_sql name \<Longrightarrow> flat (tree (base @ ''/'' @ name))) \<Longrightarrow>
   find_files (\<lambda>d. Ok (tree d)) (\<lambda>d n. Ok (m d n)) base base files ms = Some (Ok (ms @ two_levels m tree base files))"
proof (induction files arbitrary: ms)
  case Nil
  then show ?case by (subst find_files.simps) simp
next
  case (Cons x files)
  obtain name isDir where x: "x = (name, isDir)" by (cases x)
  show ?case using Cons x by (subst find_files.simps) (auto simp: find_files_flat)
qed

text \<open>In a directory whose subdirectories have no subdirectories of their own, exactly the migrations
  of its \<^verbatim>\<open>.sql\<close> files and of those of its subdirectories are found, each once, and in the order
  \<open>sort_byID\<close> puts them, which only reorders them.
\<close>

theorem migrations_of_two_levels:
  assumes "\<And>ms. mset (sort_byID ms) = mset ms"
    and "\<And>name. (name, True) \<in> set (tree base) \<Longrightarrow> \<not> is_sql name \<Longrightarrow> flat (tree (base @ ''/'' @ name))"
  shows "\<exists>ms. FindMigrations (\<lambda>d. Ok (tree d)) (\<lambda>d n. Ok (m d n)) sort_byID base = Some (Ok ms) \<and>
    mset ms = mset (concat (map (\<lambda>(name, isDir).
      if is_sql name then [m base name]
      else if isDir then map (\<lambda>x. m (base @ ''/'' @ name) (fst x)) (filter (\<lambda>x. is_sql (fst x)) (tree (base @ ''/'' @ name)))
      else []) (tree base)))"
proof -
  have "two_levels m tree base files = concat (map (\<lambda>(name, isDir).
      if is_sql name then [m base name]
      else if isDir then map (\<lambda>x. m (base @ ''/'' @ name) (fst x)) (filter (\<lambda>x. is_sql (fst x)) (tree (base @ ''/'' @ name)))
      else []) files)" for files
    by (induction files) (auto simp: sql_of_def)
  moreover have "FindMigrations (\<lambda>d. Ok (tree d)) (\<lambda>d n. Ok (m d n)) sort_byID base
      = Some (Ok (sort_byID (two_levels m tree base (tree base))))"
    using assms(2) by (simp add: FindMigrations_def findMigrations_def find_files_two_levels)
  ultimately show ?thesis using assms(1) by auto
qed

definition one_sub :: "string \<Rightarrow> (string \<times> bool) list" where
  "one_sub d = (if d = ''r'' then [(''1.sql'', False), (''s'', True)] else if d = ''r/s'' then [(''2.sql'', False)] else [])"

theorem migrations_of_two_levels_witness:
  "\<exists>ms. FindMigrations (\<lambda>d. Ok (one_sub d)) (\<lambda>d n. Ok (d, n)) (\<lambda>x. x) ''r'' = Some (Ok ms) \<and>
     mset ms = mset [(''r'', ''1.sql''), (''r/s'', ''2.sql'')]"
  using migrations_of_two_levels [of "\<lambda>x. x" one_sub "''r''" Pair]
  by (simp add: one_sub_def flat_def is_sql_def has_suffix_def)

subsection \<open>Deeper directories\<close>

text \<open>A directory with a subdirectory that has a subdirectory of the same name.\<close>

lemma find_files_diverges:
  assumes "find_files readdir parse base dir files ms = Some r"
  shows "\<not> (readdir (base @ ''/'' @ a) = Ok [(a, True)] \<and> \<not> is_sql a \<and> files = [(a, True)])"
proof (rule find_files.raw_induct [where P = "\<lambda>readdir parse base dir files ms r.
    \<not> (readdir (base @ ''/'' @ a) = Ok [(a, True)] \<and> \<not> is_sql a \<and> files = [(a, True)])", OF _ assms])
  fix ff readdir parse base dir files ms r
  assume IH: "\<And>readdir parse base dir files ms r. ff readdir parse base dir files ms = Some r \<Longrightarrow>
      \<not> (readdir (base @ ''/'' @ a) = Ok [(a, True)] \<and> \<not> is_sql a \<and> files = [(a, True)])"
    and body: "(case files of
        [] \<Rightarrow> Some (Ok ms)
      | (name, isDir) # rest \<Rightarrow>
          if is_sql name then
            (case parse dir name of
               Ok m \<Rightarrow> ff readdir parse base dir rest (ms @ [m])
             | Err e \<Rightarrow> Some (Err e)
             | Panic e \<Rightarrow> Some (Panic e))
          else if isDir then
            (case readdir (base @ ''/'' @ name) of
               Ok sub \<Rightarrow>
                 Option.bind (ff readdir parse base (base @ ''/'' @ name) sub ms) (\<lambda>r.
                   case r of
                     Ok ms \<Rightarrow> ff readdir parse base dir rest ms
                   | Err e \<Rightarrow> Some (Err e)
                   | Panic e \<Rightarrow> Some (Panic e))
             | Err e \<Rightarrow> Some (Err e)
             | Panic e \<Rightarrow> Some (Panic e))
          else ff readdir parse base dir rest ms) = Some r"
  show "\<not> (readdir (base @ ''/'' @ a) = Ok [(a, True)] \<and> \<not> is_sql a \<and> files = [(a, True)])"
  proof
    assume h: "readdir (base @ ''/'' @ a) = Ok [(a, True)] \<and> \<not> is_sql a \<and> files = [(a, True)]"
    then obtain x where "ff readdir parse base (base @ ''/'' @ a) [(a, True)] ms = Some x"
      using body by (auto simp: bind_eq_Some_conv)
    then show False using IH h by blast
  qed
qed



end
