(* ===== verification/Crypt.thy ===== *)
theory Crypt
  imports Json
begin

text \<open>
  Encryption with AES in CBC mode and PKCS padding (\<^verbatim>\<open>pkg/util/aes.go\<close>, \<^verbatim>\<open>pkg/util/crypt/aes.go\<close>), and the
  encrypted configuration files of \<^verbatim>\<open>pkg/zconfig/zconfig.go\<close>.

  The block cipher is a parameter, used through \<open>NewCipher\<close>, which checks the size of the key; the
  chaining of package \<^verbatim>\<open>crypto/cipher\<close> is modelled. Package viper, which parses and merges the
  configurations, is a parameter too.
\<close>

datatype crypt_error = KeySizeError nat | CorruptInput | FileError string | KeyLength | ParseError string

record block_cipher =
  enc_block :: "string \<Rightarrow> string"
  dec_block :: "string \<Rightarrow> string"

definition BlockSize :: nat where "BlockSize = 16"

definition NewCipher :: "(string \<Rightarrow> block_cipher) \<Rightarrow> string \<Rightarrow> (crypt_error, block_cipher) res" where
  "NewCipher aes key =
     (if length key \<in> {16, 24, 32} then Ok (aes key) else Err (KeySizeError (length key)))"

definition xor_char :: "char \<Rightarrow> char \<Rightarrow> char" where
  "xor_char a b = char_of (Bit_Operations.xor (of_char a :: nat) (of_char b))"

definition xor_bytes :: "string \<Rightarrow> string \<Rightarrow> string" where
  "xor_bytes a b = map2 xor_char a b"

subsection \<open>Package cipher: CBC\<close>

text \<open>The blocks of a text that is a number of whole blocks.\<close>

function cbc_encrypt :: "(string \<Rightarrow> string) \<Rightarrow> string \<Rightarrow> string \<Rightarrow> string" where
  "cbc_encrypt e iv s =
     (if length s < BlockSize then []
      else let b = e (xor_bytes iv (take BlockSize s)) in b @ cbc_encrypt e b (drop BlockSize s))"
  by pat_completeness auto
termination by (relation "measure (\<lambda>(e, iv, s). length s)") (auto simp: BlockSize_def)

function cbc_decrypt :: "(string \<Rightarrow> string) \<Rightarrow> string \<Rightarrow> string \<Rightarrow> string" where
  "cbc_decrypt d iv s =
     (if length s < BlockSize then []
      else xor_bytes iv (d (take BlockSize s)) @ cbc_decrypt d (take BlockSize s) (drop BlockSize s))"
  by pat_completeness auto
termination by (relation "measure (\<lambda>(d, iv, s). length s)") (auto simp: BlockSize_def)

declare cbc_encrypt.simps [simp del] cbc_decrypt.simps [simp del]

text \<open>Making the mode checks the vector, using it checks the text.\<close>

definition CBCEncrypt :: "block_cipher \<Rightarrow> string \<Rightarrow> string \<Rightarrow> ('e, string) res" where
  "CBCEncrypt b iv src =
     (if length iv \<noteq> BlockSize then Panic ''cipher.NewCBCEncrypter: IV length must equal block size''
      else if length src mod BlockSize \<noteq> 0 then Panic ''crypto/cipher: input not full blocks''
      else Ok (cbc_encrypt (enc_block b) iv src))"

definition CBCDecrypt :: "block_cipher \<Rightarrow> string \<Rightarrow> string \<Rightarrow> ('e, string) res" where
  "CBCDecrypt b iv src =
     (if length iv \<noteq> BlockSize then Panic ''cipher.NewCBCDecrypter: IV length must equal block size''
      else if length src mod BlockSize \<noteq> 0 then Panic ''crypto/cipher: input not full blocks''
      else Ok (cbc_decrypt (dec_block b) iv src))"

subsection \<open>Padding\<close>

definition PKCS5Padding :: "string \<Rightarrow> nat \<Rightarrow> string" where
  "PKCS5Padding ciphertext blockSize =
     (let padding = blockSize - length ciphertext mod blockSize
      in ciphertext @ replicate padding (char_of padding))"

definition PKCS5UnPadding :: "string \<Rightarrow> ('e, string) res" where
  "PKCS5UnPadding origData =
     (if origData = [] then Panic ''index out of range [-1]''
      else let unpadding = of_char (last origData)
           in if length origData < unpadding then Ok ''unpadding error''
              else Ok (take (length origData - unpadding) origData))"

definition PKCS7Padding :: "string \<Rightarrow> nat \<Rightarrow> string" where
  "PKCS7Padding ciphertext blockSize =
     (let padding = blockSize - length ciphertext mod blockSize
      in ciphertext @ replicate padding (char_of padding))"

definition PKCS7UnPadding :: "string \<Rightarrow> ('e, string) res" where
  "PKCS7UnPadding origData =
     (if origData = [] then Panic ''index out of range [-1]''
      else let unpadding = of_char (last origData)
           in if length origData < unpadding then Panic ''slice bounds out of range''
              else Ok (take (length origData - unpadding) origData))"

subsection \<open>Package util\<close>

definition AesEncrypt :: "(string \<Rightarrow> block_cipher) \<Rightarrow> string \<Rightarrow> string \<Rightarrow> string \<Rightarrow> (string \<Rightarrow> nat \<Rightarrow> string) \<Rightarrow> (crypt_error, string) res" where
  "AesEncrypt aes origData key iv paddingFunc =
     bind_res (NewCipher aes key) (\<lambda>block. CBCEncrypt block iv (paddingFunc origData BlockSize))"

definition AesDecrypt :: "(string \<Rightarrow> block_cipher) \<Rightarrow> string \<Rightarrow> string \<Rightarrow> string \<Rightarrow> (string \<Rightarrow> (crypt_error, string) res) \<Rightarrow> (crypt_error, string) res" where
  "AesDecrypt aes crypted key iv unPaddingFunc =
     bind_res (NewCipher aes key) (\<lambda>block. bind_res (CBCDecrypt block iv crypted) unPaddingFunc)"

definition AesEncryptPkcs5 :: "(string \<Rightarrow> block_cipher) \<Rightarrow> string \<Rightarrow> string \<Rightarrow> string \<Rightarrow> (crypt_error, string) res" where
  "AesEncryptPkcs5 aes origData key iv = AesEncrypt aes origData key iv PKCS5Padding"

definition AesEncryptPkcs7 :: "(string \<Rightarrow> block_cipher) \<Rightarrow> string \<Rightarrow> string \<Rightarrow> string \<Rightarrow> (crypt_error, string) res" where
  "AesEncryptPkcs7 aes origData key iv = AesEncrypt aes origData key iv PKCS7Padding"

definition AesEncryptPkcs7Base64 :: "(string \<Rightarrow> block_cipher) \<Rightarrow> string \<Rightarrow> string \<Rightarrow> string \<Rightarrow> (crypt_error, string) res" where
  "AesEncryptPkcs7Base64 aes origData key iv = map_ok base64 (AesEncrypt aes origData key iv PKCS7Padding)"

definition AesDecryptPkcs5 :: "(string \<Rightarrow> block_cipher) \<Rightarrow> string \<Rightarrow> string \<Rightarrow> string \<Rightarrow> (crypt_error, string) res" where
  "AesDecryptPkcs5 aes crypted key iv = AesDecrypt aes crypted key iv PKCS5UnPadding"

definition AesDecryptPkcs7 :: "(string \<Rightarrow> block_cipher) \<Rightarrow> string \<Rightarrow> string \<Rightarrow> string \<Rightarrow> (crypt_error, string) res" where
  "AesDecryptPkcs7 aes crypted key iv = AesDecrypt aes crypted key iv PKCS7UnPadding"

definition DecodeString :: "string \<Rightarrow> (crypt_error, string) res" where
  "DecodeString s = (case unbase64 s of Some d \<Rightarrow> Ok d | None \<Rightarrow> Err CorruptInput)"

definition AesDecryptPkcs7Base64 :: "(string \<Rightarrow> block_cipher) \<Rightarrow> string \<Rightarrow> string \<Rightarrow> string \<Rightarrow> (crypt_error, string) res" where
  "AesDecryptPkcs7Base64 aes crypted key iv =
     bind_res (DecodeString crypted) (\<lambda>cryptedData. AesDecrypt aes cryptedData key iv PKCS7UnPadding)"

text \<open>\<open>AesEncryptSimple\<close> calls the decryption.\<close>

definition AesEncryptSimple :: "(string \<Rightarrow> block_cipher) \<Rightarrow> string \<Rightarrow> string \<Rightarrow> string \<Rightarrow> (crypt_error, string) res" where
  "AesEncryptSimple aes origData key iv = AesDecryptPkcs5 aes origData key iv"

definition AesDecryptSimple :: "(string \<Rightarrow> block_cipher) \<Rightarrow> string \<Rightarrow> string \<Rightarrow> string \<Rightarrow> (crypt_error, string) res" where
  "AesDecryptSimple aes crypted key iv = AesDecryptPkcs5 aes crypted key iv"

subsection \<open>Package crypt\<close>

text \<open>
  The vector is cut to a block. Of a byte slice, the bytes between its length and its capacity
  count too (\<open>spare\<close>).
\<close>

definition PKCS7Padding_crypt :: "string \<Rightarrow> nat \<Rightarrow> ('e, string) res" where
  "PKCS7Padding_crypt src blockSize =
     (let pSize = blockSize - length src mod blockSize
      in Ok (src @ replicate pSize (char_of pSize)))"

definition PKCS7UnPadding_crypt :: "string \<Rightarrow> ('e, string) res" where
  "PKCS7UnPadding_crypt origData =
     (if origData = [] then Panic ''index out of range [-1]''
      else let unPadding = of_char (last origData)
           in if length origData < unPadding then Panic ''slice bounds out of range''
              else Ok (take (length origData - unPadding) origData))"

definition AesDecrypt_crypt :: "(string \<Rightarrow> block_cipher) \<Rightarrow> string \<Rightarrow> string \<Rightarrow> string \<Rightarrow> (crypt_error, string) res" where
  "AesDecrypt_crypt aes str newKey newIV =
     bind_res (DecodeString str) (\<lambda>decodeBytes.
     bind_res (NewCipher aes newKey) (\<lambda>block.
       if length newIV < BlockSize then Panic ''slice bounds out of range''
       else bind_res (CBCDecrypt block (take BlockSize newIV) decodeBytes) PKCS7UnPadding_crypt))"

definition AseEncrypt :: "(string \<Rightarrow> block_cipher) \<Rightarrow> string \<Rightarrow> string \<Rightarrow> string \<Rightarrow> string \<Rightarrow> (crypt_error, string) res" where
  "AseEncrypt aes str newKey newIV spare =
     bind_res (NewCipher aes newKey) (\<lambda>block.
       if length (newIV @ spare) < BlockSize then Panic ''slice bounds out of range''
       else bind_res (PKCS7Padding_crypt str BlockSize) (\<lambda>src.
         map_ok base64 (CBCEncrypt block (take BlockSize (newIV @ spare)) src)))"

subsection \<open>Decrypting what was encrypted\<close>

text \<open>What is relied on of AES: a block decrypts to the block it was encrypted from.\<close>

definition is_cipher :: "block_cipher \<Rightarrow> bool" where
  "is_cipher b \<longleftrightarrow>
     (\<forall>s. length s = BlockSize \<longrightarrow> length (enc_block b s) = BlockSize \<and> dec_block b (enc_block b s) = s)"

lemma xor_char_twice: "xor_char a (xor_char a b) = b"
proof -
  have t: "take_bit 8 (of_char c :: nat) = of_char c" for c :: char
    by (simp add: take_bit_eq_mod)
  have "take_bit 8 (Bit_Operations.xor (of_char a :: nat) (of_char b)) = Bit_Operations.xor (of_char a) (of_char b)"
    by (simp add: take_bit_xor t)
  then have "(of_char (xor_char a b) :: nat) = Bit_Operations.xor (of_char a) (of_char b)"
    by (simp add: xor_char_def take_bit_eq_mod)
  then show ?thesis by (simp add: xor_char_def [of a "xor_char a b"] flip: xor.assoc)
qed

lemma xor_bytes_twice: "length a = length b \<Longrightarrow> xor_bytes a (xor_bytes a b) = b"
  by (induction a b rule: list_induct2) (simp_all add: xor_bytes_def xor_char_twice)

lemma length_xor_bytes [simp]: "length (xor_bytes a b) = min (length a) (length b)"
  by (simp add: xor_bytes_def)

lemma length_cbc_encrypt:
  "is_cipher c \<Longrightarrow> length iv = BlockSize \<Longrightarrow> length s mod BlockSize = 0 \<Longrightarrow>
   length (cbc_encrypt (enc_block c) iv s) = length s"
proof (induction "enc_block c" iv s rule: cbc_encrypt.induct)
  case (1 iv s)
  show ?case
  proof (cases "length s < BlockSize")
    case True
    then show ?thesis using "1.prems" by (simp add: cbc_encrypt.simps)
  next
    case False
    then show ?thesis
      using 1 by (subst cbc_encrypt.simps) (simp add: Let_def is_cipher_def le_mod_geq not_less)
  qed
qed

lemma cbc_decrypt_encrypt:
  "is_cipher c \<Longrightarrow> length iv = BlockSize \<Longrightarrow> length s mod BlockSize = 0 \<Longrightarrow>
   cbc_decrypt (dec_block c) iv (cbc_encrypt (enc_block c) iv s) = s"
proof (induction "enc_block c" iv s rule: cbc_encrypt.induct)
  case (1 iv s)
  show ?case
  proof (cases "length s < BlockSize")
    case True
    then have "s = []" using "1.prems" by simp
    then show ?thesis by (simp add: cbc_encrypt.simps cbc_decrypt.simps BlockSize_def)
  next
    case False
    define b where "b = enc_block c (xor_bytes iv (take BlockSize s))"
    have l: "length b = BlockSize" and d: "dec_block c b = xor_bytes iv (take BlockSize s)"
      using "1.prems" False by (simp_all add: b_def is_cipher_def)
    have "cbc_encrypt (enc_block c) iv s = b @ cbc_encrypt (enc_block c) b (drop BlockSize s)"
      using False by (subst cbc_encrypt.simps) (simp add: b_def Let_def)
    moreover have "cbc_decrypt (dec_block c) b (cbc_encrypt (enc_block c) b (drop BlockSize s)) = drop BlockSize s"
      using 1 False l by (simp add: b_def le_mod_geq not_less)
    ultimately show ?thesis
      using l d False "1.prems"(2) by (subst cbc_decrypt.simps) (simp add: xor_bytes_twice)
  qed
qed

subsection \<open>Encrypted configuration files\<close>

text \<open>
  Package viper: parsing the text of a file, by its name; the names it includes; merging a text into
  a configuration, where an error changes nothing; and its typed reads.
\<close>

record 'c viper_lib =
  vp_parse :: "string \<Rightarrow> string \<Rightarrow> (crypt_error, 'c) res"
  vp_includes :: "'c \<Rightarrow> string list"
  vp_merge :: "'c \<Rightarrow> string \<Rightarrow> 'c"
  vp_string :: "'c \<Rightarrow> string \<Rightarrow> string"
  vp_int64 :: "'c \<Rightarrow> string \<Rightarrow> int64"
  vp_int :: "'c \<Rightarrow> string \<Rightarrow> int64"
  vp_int32 :: "'c \<Rightarrow> string \<Rightarrow> int32"
  vp_bool :: "'c \<Rightarrow> string \<Rightarrow> bool"
  vp_map :: "'c \<Rightarrow> string \<Rightarrow> (string \<times> string) list"

type_synonym files = "string \<rightharpoonup> string"

definition ReadFile :: "files \<Rightarrow> string \<Rightarrow> (crypt_error, string) res" where
  "ReadFile fs path = (case fs path of Some d \<Rightarrow> Ok d | None \<Rightarrow> Err (FileError path))"

text \<open>An included file that cannot be read ends the process.\<close>

fun merge_includes :: "'c viper_lib \<Rightarrow> files \<Rightarrow> string list \<Rightarrow> 'c \<Rightarrow> (crypt_error, 'c) res" where
  "merge_includes vp fs [] v = Ok v"
| "merge_includes vp fs (i # includes) v =
     (case ReadFile fs i of
        Ok fd \<Rightarrow> merge_includes vp fs includes (vp_merge vp v fd)
      | _ \<Rightarrow> Panic ''os.Exit(1)'')"

text \<open>The new value of \<^verbatim>\<open>conf\<close>; on an error the old one stays.\<close>

definition Load_zconfig :: "'c viper_lib \<Rightarrow> files \<Rightarrow> string \<Rightarrow> (crypt_error, 'c) res" where
  "Load_zconfig vp fs path =
     bind_res (ReadFile fs path) (\<lambda>fd.
     bind_res (vp_parse vp path fd) (\<lambda>v. merge_includes vp fs (vp_includes vp v) v))"

fun merge_encrypted :: "(string \<Rightarrow> block_cipher) \<Rightarrow> 'c viper_lib \<Rightarrow> files \<Rightarrow> string \<Rightarrow> string \<Rightarrow> string list \<Rightarrow> 'c \<Rightarrow> (crypt_error, 'c) res" where
  "merge_encrypted aes vp fs key iv [] v = Ok v"
| "merge_encrypted aes vp fs key iv (i # includes) v =
     (case ReadFile fs i of
        Ok fd \<Rightarrow> bind_res (AesDecrypt_crypt aes fd key iv) (\<lambda>plainText.
          merge_encrypted aes vp fs key iv includes (vp_merge vp v plainText))
      | _ \<Rightarrow> Panic ''os.Exit(1)'')"

definition key_ok :: "string \<Rightarrow> bool" where
  "key_ok secretKey \<longleftrightarrow> length secretKey = 16 \<or> length secretKey = 24 \<or> length secretKey = 32"

definition LoadEncrypt :: "(string \<Rightarrow> block_cipher) \<Rightarrow> 'c viper_lib \<Rightarrow> files \<Rightarrow> string \<Rightarrow> string \<Rightarrow> string \<Rightarrow> (crypt_error, 'c) res" where
  "LoadEncrypt aes vp fs path secretKey iv =
     (if \<not> key_ok secretKey then Err KeyLength
      else bind_res (ReadFile fs path) (\<lambda>fd.
           bind_res (AesDecrypt_crypt aes fd secretKey iv) (\<lambda>plainText.
           bind_res (vp_parse vp path plainText) (\<lambda>v.
             merge_encrypted aes vp fs secretKey iv (vp_includes vp v) v))))"

definition encrypted_name :: "string \<Rightarrow> string" where
  "encrypted_name path =
     (let arr = split_str path ''.''
      in join_str ''.'' (butlast arr) @ ''_encrypt.'' @ last arr)"

text \<open>\<open>unwritable\<close> says which files cannot be written; the vector is copied to a slice with \<open>spare\<close> bytes.\<close>

definition writeEncryptConfigAs :: "(string \<Rightarrow> block_cipher) \<Rightarrow> (string \<Rightarrow> bool) \<Rightarrow> string \<Rightarrow> string \<Rightarrow> string \<Rightarrow> string \<Rightarrow> files \<Rightarrow> (crypt_error, unit) res \<times> files" where
  "writeEncryptConfigAs aes unwritable spare path secretKey iv fs =
     (case bind_res (ReadFile fs path) (\<lambda>fd. AseEncrypt aes fd secretKey iv spare) of
        Err e \<Rightarrow> (Err e, fs)
      | Panic m \<Rightarrow> (Panic m, fs)
      | Ok encrypt \<Rightarrow>
          if unwritable (encrypted_name path) then (Err (FileError (encrypted_name path)), fs)
          else (Ok (), fs(encrypted_name path \<mapsto> encrypt)))"

fun write_includes :: "(string \<Rightarrow> block_cipher) \<Rightarrow> (string \<Rightarrow> bool) \<Rightarrow> string \<Rightarrow> string list \<Rightarrow> string \<Rightarrow> string \<Rightarrow> files \<Rightarrow> (crypt_error, unit) res \<times> files" where
  "write_includes aes unwritable spare [] secretKey iv fs = (Ok (), fs)"
| "write_includes aes unwritable spare (path # paths) secretKey iv fs =
     (case writeEncryptConfigAs aes unwritable spare path secretKey iv fs of
        (Ok _, fs) \<Rightarrow> write_includes aes unwritable spare paths secretKey iv fs
      | r \<Rightarrow> r)"

definition WriteEncryptConfig :: "(string \<Rightarrow> block_cipher) \<Rightarrow> (string \<Rightarrow> bool) \<Rightarrow> string \<Rightarrow> 'c viper_lib \<Rightarrow> string \<Rightarrow> string \<Rightarrow> string \<Rightarrow> files \<Rightarrow> (crypt_error, unit) res \<times> files" where
  "WriteEncryptConfig aes unwritable spare vp path secretKey iv fs =
     (if \<not> key_ok secretKey then (Err KeyLength, fs)
      else case writeEncryptConfigAs aes unwritable spare path secretKey iv fs of
        (Ok _, fs) \<Rightarrow>
          (case bind_res (ReadFile fs path) (vp_parse vp path) of
             Ok v \<Rightarrow> write_includes aes unwritable spare (vp_includes vp v) secretKey iv fs
           | Err e \<Rightarrow> (Err e, fs)
           | Panic m \<Rightarrow> (Panic m, fs))
      | r \<Rightarrow> r)"

text \<open>Reading before a configuration was loaded dereferences nil.\<close>

definition conf_get :: "('c \<Rightarrow> 'a) \<Rightarrow> 'c option \<Rightarrow> (crypt_error, 'a) res" where
  "conf_get f conf = (case conf of Some v \<Rightarrow> Ok (f v) | None \<Rightarrow> Panic ''nil pointer dereference'')"

definition GetString_z :: "'c viper_lib \<Rightarrow> string \<Rightarrow> 'c option \<Rightarrow> (crypt_error, string) res" where
  "GetString_z vp key = conf_get (\<lambda>v. vp_string vp v key)"

definition GetInt64_z :: "'c viper_lib \<Rightarrow> string \<Rightarrow> 'c option \<Rightarrow> (crypt_error, int64) res" where
  "GetInt64_z vp key = conf_get (\<lambda>v. vp_int64 vp v key)"

definition GetInt_z :: "'c viper_lib \<Rightarrow> string \<Rightarrow> 'c option \<Rightarrow> (crypt_error, int64) res" where
  "GetInt_z vp key = conf_get (\<lambda>v. vp_int vp v key)"

definition GetInt32_z :: "'c viper_lib \<Rightarrow> string \<Rightarrow> 'c option \<Rightarrow> (crypt_error, int32) res" where
  "GetInt32_z vp key = conf_get (\<lambda>v. vp_int32 vp v key)"

definition GetBool_z :: "'c viper_lib \<Rightarrow> string \<Rightarrow> 'c option \<Rightarrow> (crypt_error, bool) res" where
  "GetBool_z vp key = conf_get (\<lambda>v. vp_bool vp v key)"

definition GetStringMap_z :: "'c viper_lib \<Rightarrow> string \<Rightarrow> 'c option \<Rightarrow> (crypt_error, (string \<times> string) list) res" where
  "GetStringMap_z vp key = conf_get (\<lambda>v. vp_map vp v key)"

subsection \<open>Properties\<close>

lemma unpad_pad:
  assumes "p = BlockSize - length s mod BlockSize"
  shows "(PKCS5UnPadding (s @ replicate p (char_of p)) :: ('e, string) res) = Ok s"
    and "(PKCS7UnPadding (s @ replicate p (char_of p)) :: ('e, string) res) = Ok s"
    and "(PKCS7UnPadding_crypt (s @ replicate p (char_of p)) :: ('e, string) res) = Ok s"
proof -
  have p: "0 < p" "p < 256" using assms by (auto simp: BlockSize_def)
  then have "last (s @ replicate p (char_of p)) = char_of p" by simp
  then show "(PKCS5UnPadding (s @ replicate p (char_of p)) :: ('e, string) res) = Ok s"
    and "(PKCS7UnPadding (s @ replicate p (char_of p)) :: ('e, string) res) = Ok s"
    and "(PKCS7UnPadding_crypt (s @ replicate p (char_of p)) :: ('e, string) res) = Ok s"
    using p by (simp_all add: PKCS5UnPadding_def PKCS7UnPadding_def PKCS7UnPadding_crypt_def Let_def)
qed

lemma length_padded: "length (s @ replicate (BlockSize - length s mod BlockSize) c) mod BlockSize = 0"
proof -
  have "length s mod BlockSize < BlockSize" by (simp add: BlockSize_def)
  then have "length s + (BlockSize - length s mod BlockSize) = length s div BlockSize * BlockSize + BlockSize"
    using div_mult_mod_eq [of "length s" BlockSize] by linarith
  then show ?thesis by simp
qed

lemma CBC_roundtrip:
  assumes "is_cipher c" "length iv = BlockSize" "length s mod BlockSize = 0"
  shows "\<exists>t. (CBCEncrypt c iv s :: ('e, string) res) = Ok t \<and> (CBCDecrypt c iv t :: ('f, string) res) = Ok s"
  using assms by (simp add: CBCEncrypt_def CBCDecrypt_def length_cbc_encrypt cbc_decrypt_encrypt)

text \<open>C36: With a key of 16, 24 or 32 bytes and a vector of 16, every text encrypts without an error and
  decrypts to itself, with both paddings, with and without base64, and in package \<open>crypt\<close>, which
  also takes longer vectors.
\<close>

theorem aes_roundtrip:
  assumes "is_cipher (aes key)" "length key \<in> {16, 24, 32}" "length iv = 16"
  shows "bind_res (AesEncryptPkcs5 aes s key iv) (\<lambda>t. AesDecryptPkcs5 aes t key iv) = Ok s \<and>
    bind_res (AesEncryptPkcs7 aes s key iv) (\<lambda>t. AesDecryptPkcs7 aes t key iv) = Ok s \<and>
    bind_res (AesEncryptPkcs7Base64 aes s key iv) (\<lambda>t. AesDecryptPkcs7Base64 aes t key iv) = Ok s \<and>
    bind_res (AseEncrypt aes s key (iv @ w) spare) (\<lambda>t. AesDecrypt_crypt aes t key (iv @ w)) = Ok s"
proof -
  let ?p = "BlockSize - length s mod BlockSize"
  obtain t where t: "(CBCEncrypt (aes key) iv (s @ replicate ?p (char_of ?p)) :: (crypt_error, string) res) = Ok t"
      "(CBCDecrypt (aes key) iv t :: (crypt_error, string) res) = Ok (s @ replicate ?p (char_of ?p))"
    using CBC_roundtrip [OF assms(1) _ length_padded, where 'e = crypt_error and 'f = crypt_error] assms(3)
    by (force simp: BlockSize_def)
  have k: "NewCipher aes key = Ok (aes key)" using assms(2) by (simp add: NewCipher_def)
  have v: "take BlockSize (iv @ x) = iv" "\<not> length (iv @ x) < BlockSize" for x
    using assms(3) by (simp_all add: BlockSize_def)
  note defs = AesEncryptPkcs5_def AesDecryptPkcs5_def AesEncryptPkcs7_def AesDecryptPkcs7_def AesEncryptPkcs7Base64_def
    AesDecryptPkcs7Base64_def AesEncrypt_def AesDecrypt_def AseEncrypt_def AesDecrypt_crypt_def DecodeString_def
    PKCS5Padding_def PKCS7Padding_def PKCS7Padding_crypt_def Let_def
  show ?thesis
    using v [of "w @ spare"] v [of w] by (simp add: defs k t unpad_pad)
qed


lemma join_butlast_last:
  "xs \<noteq> [] \<Longrightarrow> length (join_str sep xs) \<le> length (join_str sep (butlast xs)) + length sep + length (last xs)"
proof (induction sep xs rule: join_str.induct)
  case (3 sep x y ys)
  then show ?case by (cases ys) auto
qed auto

lemma encrypted_name_other: "encrypted_name path \<noteq> path"
proof -
  have "length path < length (encrypted_name path)"
    using join_butlast_last [of "split_str path ''.''" "''.''"] join_split [of "''.''" path]
    by (simp add: encrypted_name_def Let_def)
  then show ?thesis by auto
qed

definition swap_cipher :: "string \<Rightarrow> block_cipher" where
  "swap_cipher key = \<lparr>enc_block = rev, dec_block = rev\<rparr>"

lemma swap_is_cipher: "is_cipher (swap_cipher key)"
  by (simp add: is_cipher_def swap_cipher_def)

theorem aes_roundtrip_witness:
  "bind_res (AesEncryptPkcs7 swap_cipher ''secret'' (replicate 16 CHR ''k'') (replicate 16 CHR ''i''))
     (\<lambda>t. AesDecryptPkcs7 swap_cipher t (replicate 16 CHR ''k'') (replicate 16 CHR ''i'')) = Ok ''secret''"
  using aes_roundtrip [of swap_cipher "replicate 16 CHR ''k''" "replicate 16 CHR ''i''" "''secret''"]
  by (simp add: swap_is_cipher)


definition text_lib :: "string viper_lib" where
  "text_lib = \<lparr>vp_parse = (\<lambda>path s. Ok s), vp_includes = (\<lambda>v. []), vp_merge = (\<lambda>v s. v @ s), vp_string = (\<lambda>v k. v),
     vp_int64 = (\<lambda>v k. 0), vp_int = (\<lambda>v k. 0), vp_int32 = (\<lambda>v k. 0), vp_bool = (\<lambda>v k. False), vp_map = (\<lambda>v k. [])\<rparr>"


end
