(* ===== verification/Network.thy ===== *)
theory Network
  imports Json
begin

text \<open>
  The HTTP helpers of \<^verbatim>\<open>pkg/network/network.go\<close>. Package rest, Go's HTTP client and its check of an address
  are parameters; a Go map is a list of its entries in the order the iteration takes them.
\<close>

datatype net_error = Transport string | BadURL string | ReadBody string | StatusCode nat | Decode json_error

datatype http_method = GET | POST | PUT

subsection \<open>Package rest\<close>

record rest_request =
  rq_Method :: http_method
  rq_BaseURL :: string
  rq_Headers :: "(string \<times> string) list"
  rq_QueryParams :: "(string \<times> string) list"
  rq_Body :: string

record rest_response =
  rs_StatusCode :: nat
  rs_Body :: string

type_synonym rest_api = "rest_request \<Rightarrow> (net_error, rest_response) res"

definition RequestBoy :: "rest_api \<Rightarrow> string \<Rightarrow> string \<Rightarrow> (string \<times> string) list \<Rightarrow> http_method \<Rightarrow> (net_error, rest_response) res" where
  "RequestBoy api url body headers m =
     api \<lparr>rq_Method = m, rq_BaseURL = url, rq_Headers = headers, rq_QueryParams = [], rq_Body = body\<rparr>"

definition RequestBoyForQueryParam :: "rest_api \<Rightarrow> string \<Rightarrow> (string \<times> string) list \<Rightarrow> (string \<times> string) list \<Rightarrow> http_method \<Rightarrow> (net_error, rest_response) res" where
  "RequestBoyForQueryParam api url queryParams headers m =
     api \<lparr>rq_Method = m, rq_BaseURL = url, rq_Headers = headers, rq_QueryParams = queryParams, rq_Body = []\<rparr>"

definition Post :: "rest_api \<Rightarrow> string \<Rightarrow> string \<Rightarrow> (string \<times> string) list \<Rightarrow> (net_error, rest_response) res" where
  "Post api url body headers = RequestBoy api url body headers POST"

definition Put :: "rest_api \<Rightarrow> string \<Rightarrow> string \<Rightarrow> (string \<times> string) list \<Rightarrow> (net_error, rest_response) res" where
  "Put api url body headers = RequestBoy api url body headers PUT"

definition PostForQueryParam :: "rest_api \<Rightarrow> string \<Rightarrow> (string \<times> string) list \<Rightarrow> (string \<times> string) list \<Rightarrow> (net_error, rest_response) res" where
  "PostForQueryParam api url queryParams headers = RequestBoyForQueryParam api url queryParams headers POST"

definition Get_net :: "rest_api \<Rightarrow> string \<Rightarrow> (string \<times> string) list \<Rightarrow> (string \<times> string) list \<Rightarrow> (net_error, rest_response) res" where
  "Get_net api url queryParams headers =
     api \<lparr>rq_Method = GET, rq_BaseURL = url, rq_Headers = headers, rq_QueryParams = queryParams, rq_Body = []\<rparr>"

definition GetJson :: "rest_api \<Rightarrow> string \<Rightarrow> (string \<times> string) list \<Rightarrow> (string \<times> string) list \<Rightarrow> (net_error, string) res" where
  "GetJson api url queryParams headers =
     map_ok rs_Body (api \<lparr>rq_Method = GET, rq_BaseURL = url, rq_Headers = headers, rq_QueryParams = queryParams, rq_Body = []\<rparr>)"

subsection \<open>Forms\<close>

text \<open>The name of a header in its canonical form; one with a character no name may have stays.\<close>

definition to_upper :: "char \<Rightarrow> char" where
  "to_upper c = (let n = of_char c :: nat in if 97 \<le> n \<and> n \<le> 122 then char_of (n - 32) else c)"

definition token_char :: "char \<Rightarrow> bool" where
  "token_char c \<longleftrightarrow>
     (let n = of_char c :: nat
      in 48 \<le> n \<and> n \<le> 57 \<or> 65 \<le> n \<and> n \<le> 90 \<or> 97 \<le> n \<and> n \<le> 122 \<or> c \<in> set ''!#$%&*+-.^_`|~'' \<or> n = 39)"

fun canonical_from :: "bool \<Rightarrow> string \<Rightarrow> string" where
  "canonical_from up [] = []"
| "canonical_from up (c # cs) = (if up then to_upper c else to_lower c) # canonical_from (c = CHR ''-'') cs"

definition canonical_header :: "string \<Rightarrow> string" where
  "canonical_header k = (if list_all token_char k then canonical_from True k else k)"

definition set_header :: "(string \<rightharpoonup> string) \<Rightarrow> string \<times> string \<Rightarrow> (string \<rightharpoonup> string)" where
  "set_header h kv = h(canonical_header (fst kv) \<mapsto> snd kv)"

record http_request =
  hr_url :: string
  hr_body :: string
  hr_headers :: "string \<rightharpoonup> string"

record http_response =
  hs_status :: nat
  hs_body :: "(net_error, string) res"

record http_client =
  check_url :: "string \<Rightarrow> net_error option"
  http_Do :: "http_request \<Rightarrow> (net_error, http_response) res"

text \<open>The pairs are written in front of each other; the last ampersand is cut off. Nothing is escaped.\<close>

definition form_text :: "(string \<times> string) list \<Rightarrow> string" where
  "form_text params =
     (let queryStr = foldl (\<lambda>q (k, v). k @ ''='' @ v @ ''&'' @ q) [] params
      in if length queryStr > 0 then take (length queryStr - 1) queryStr else queryStr)"

definition form_request :: "string \<Rightarrow> string \<Rightarrow> (string \<times> string) list \<Rightarrow> http_request" where
  "form_request url body headers =
     \<lparr>hr_url = url, hr_body = body,
      hr_headers = set_header (foldl set_header Map.empty headers) (''Content-Type'', ''application/x-www-form-urlencoded'')\<rparr>"

text \<open>What the three functions share: the response, or an error before it.\<close>

definition send_form :: "http_client \<Rightarrow> string \<Rightarrow> string \<Rightarrow> (string \<times> string) list \<Rightarrow> (net_error, http_response) res" where
  "send_form client url body headers =
     (case check_url client url of
        Some e \<Rightarrow> Err e
      | None \<Rightarrow> http_Do client (form_request url body headers))"

text \<open>A body and an error are returned together; the body is what the caller gets beside a status that is not 200.\<close>

definition PostForWWWFormForBytres :: "http_client \<Rightarrow> string \<Rightarrow> (string \<times> string) list \<Rightarrow> (string \<times> string) list \<Rightarrow> (net_error, string \<times> net_error option) res" where
  "PostForWWWFormForBytres client url params headers =
     bind_res (send_form client url (form_text params) headers) (\<lambda>resp.
     bind_res (hs_body resp) (\<lambda>body.
       if hs_status resp \<noteq> 200 then Ok (body, Some (StatusCode (hs_status resp))) else Ok (body, None)))"

definition PostForWWWForm :: "http_client \<Rightarrow> string \<Rightarrow> (string \<times> string) list \<Rightarrow> (string \<times> string) list \<Rightarrow> (net_error, (string \<rightharpoonup> json) option) res" where
  "PostForWWWForm client url params headers =
     bind_res (PostForWWWFormForBytres client url params headers) (\<lambda>(body, err).
       case err of
         Some e \<Rightarrow> Err e
       | None \<Rightarrow> (case ReadJsonByByte body as_map of Ok m \<Rightarrow> Ok m | Err e \<Rightarrow> Err (Decode e) | Panic m \<Rightarrow> Panic m))"

definition PostForWWWFormForAll :: "http_client \<Rightarrow> string \<Rightarrow> string \<Rightarrow> (string \<times> string) list \<Rightarrow> (net_error, string) res" where
  "PostForWWWFormForAll client url bodyData headers =
     bind_res (send_form client url bodyData headers) (\<lambda>resp.
     bind_res (hs_body resp) (\<lambda>body.
       if hs_status resp \<noteq> 200 then Err (StatusCode (hs_status resp)) else Ok body))"

text \<open>The status is not looked at.\<close>

definition PostForWWWFormReXML :: "http_client \<Rightarrow> string \<Rightarrow> (string \<times> string) list \<Rightarrow> (string \<times> string) list \<Rightarrow> (net_error, string) res" where
  "PostForWWWFormReXML client url params headers =
     bind_res (send_form client url (form_text params) headers) hs_body"

subsection \<open>Properties\<close>

definition pair_text :: "string \<times> string \<Rightarrow> string" where
  "pair_text kv = fst kv @ ''='' @ snd kv"

lemma form_fold:
  "foldl (\<lambda>q (k, v). k @ ''='' @ v @ ''&'' @ q) q params =
     concat (map (\<lambda>kv. pair_text kv @ ''&'') (rev params)) @ q"
  by (induction params arbitrary: q) (auto simp: pair_text_def)

lemma join_concat:
  "xs \<noteq> [] \<Longrightarrow> concat (map (\<lambda>x. x @ [c]) xs) = join_str [c] xs @ [c]"
proof (induction xs)
  case (Cons x xs)
  then show ?case by (cases xs) auto
qed simp

lemma form_text_join: "form_text params = join_str ''&'' (map pair_text (rev params))"
proof (cases params)
  case Nil
  then show ?thesis by (simp add: form_text_def)
next
  case (Cons p ps)
  then have "foldl (\<lambda>q (k, v). k @ ''='' @ v @ ''&'' @ q) [] params = join_str ''&'' (map pair_text (rev params)) @ ''&''"
    using join_concat [of "map pair_text (rev params)" "CHR ''&''"] by (simp only: form_fold) (simp add: comp_def)
  then show ?thesis by (simp add: form_text_def Let_def)
qed

definition form_pair :: "string \<Rightarrow> string \<times> string" where
  "form_pair s = (takeWhile (\<lambda>c. c \<noteq> CHR ''='') s, tl (dropWhile (\<lambda>c. c \<noteq> CHR ''='') s))"

lemma form_pair_text: "CHR ''='' \<notin> set (fst kv) \<Longrightarrow> form_pair (pair_text kv) = kv"
proof -
  assume "CHR ''='' \<notin> set (fst kv)"
  then have "\<forall>c \<in> set (fst kv). c \<noteq> CHR ''=''" by blast
  then show ?thesis
    by (simp add: form_pair_def pair_text_def takeWhile_append2 dropWhile_append2)
qed

text \<open>The body of a form holds the parameters, last first: splitting it at the ampersands and each
  pair at the first equals sign gives them back, as long as no name holds one of the two and no value
  an ampersand. The content type is always that of a form, whatever the headers say. A status other than 200 is an
  error of the two functions for maps and bytes, and none of the one for XML.
\<close>

theorem form_roundtrip:
  assumes "params \<noteq> []" "list_all (\<lambda>(k, v). CHR ''='' \<notin> set k \<and> CHR ''&'' \<notin> set k \<and> CHR ''&'' \<notin> set v) params"
  shows "map form_pair (split_str (form_text params) ''&'') = rev params \<and>
    hr_headers (form_request url body headers) ''Content-Type'' = Some ''application/x-www-form-urlencoded'' \<and>
    (check_url client url = None \<longrightarrow> http_Do client (form_request url (form_text params) headers) = Ok \<lparr>hs_status = st, hs_body = Ok b\<rparr> \<longrightarrow>
       PostForWWWFormReXML client url params headers = Ok b \<and>
       (st \<noteq> 200 \<longrightarrow> PostForWWWForm client url params headers = Err (StatusCode st)))"
proof (intro conjI impI)
  have "CHR ''&'' \<notin> set (pair_text kv)" if "kv \<in> set params" for kv
    using that assms(2) by (auto simp: list_all_iff pair_text_def)
  moreover have "form_pair (pair_text kv) = kv" if "kv \<in> set params" for kv
    using that assms(2) by (cases kv) (auto simp: list_all_iff intro!: form_pair_text)
  ultimately show "map form_pair (split_str (form_text params) ''&'') = rev params"
    using assms(1) by (subst form_text_join, subst split_join) (auto intro!: map_idI simp: comp_def)
next
  have "canonical_header ''Content-Type'' = ''Content-Type''" by code_simp
  then show "hr_headers (form_request url body headers) ''Content-Type'' = Some ''application/x-www-form-urlencoded''"
    by (simp add: form_request_def set_header_def)
qed (simp_all add: PostForWWWFormReXML_def PostForWWWForm_def PostForWWWFormForBytres_def send_form_def)

theorem form_roundtrip_witness:
  "map form_pair (split_str (form_text [(''a'', ''1''), (''b'', ''2=3'')]) ''&'') = [(''b'', ''2=3''), (''a'', ''1'')]"
  using form_roundtrip [of "[(''a'', ''1''), (''b'', ''2=3'')]"] by simp

text \<open>A value with an ampersand is sent as two parameters.\<close>

lemma form_not_escaped: "form_text [(''a'', ''1&b=2'')] = form_text [(''b'', ''2''), (''a'', ''1'')]"
  by (simp add: form_text_def)

end
