(* ===== verification/UrlQuery.thy ===== *)
theory UrlQuery
  imports Json "HOL-Library.List_Lexorder" "HOL-Library.Char_ord" "HOL-Library.AList"
begin

text \<open>
  The query strings of package \<^verbatim>\<open>net/url\<close>, on which the form codec of \<^verbatim>\<open>pkg/encoding/form\<close> rests:
  escaping, \<^verbatim>\<open>Values.Encode\<close> and \<^verbatim>\<open>ParseQuery\<close>, and that reading what was written gives the values back.

  A \<^verbatim>\<open>url.Values\<close> is a list of its entries, with distinct keys, in the order an iteration takes them.
\<close>

type_synonym url_values = "(string \<times> string list) list"

datatype url_error = EscapeError string | SemicolonSeparator

subsection \<open>Escaping\<close>

text \<open>The characters a query component keeps.\<close>

definition query_plain :: "char \<Rightarrow> bool" where
  "query_plain c \<longleftrightarrow>
     (let n = of_char c :: nat
      in 48 \<le> n \<and> n \<le> 57 \<or> 65 \<le> n \<and> n \<le> 90 \<or> 97 \<le> n \<and> n \<le> 122 \<or> c \<in> set ''-_.~'')"

definition upper_hex :: "nat \<Rightarrow> char" where
  "upper_hex n = char_of (if n < 10 then 48 + n else 55 + n)"

definition escape_char :: "char \<Rightarrow> string" where
  "escape_char c =
     (if query_plain c then [c]
      else if c = CHR '' '' then ''+''
      else [CHR ''%'', upper_hex (of_char c div 16), upper_hex (of_char c mod 16)])"

definition QueryEscape :: "string \<Rightarrow> string" where
  "QueryEscape s = concat (map escape_char s)"

fun QueryUnescape :: "string \<Rightarrow> (url_error, string) res" where
  "QueryUnescape [] = Ok []"
| "QueryUnescape (c # s) =
     (if c = CHR ''%'' then
        (case s of
           a # b # t \<Rightarrow>
             (case (hex_val a, hex_val b) of
                (Some x, Some y) \<Rightarrow> map_ok (Cons (char_of (16 * x + y))) (QueryUnescape t)
              | _ \<Rightarrow> Err (EscapeError (take 3 (c # s))))
         | _ \<Rightarrow> Err (EscapeError (c # s)))
      else map_ok (Cons (if c = CHR ''+'' then CHR '' '' else c)) (QueryUnescape s))"

lemma hex_val_upper: "n < 16 \<Longrightarrow> hex_val (upper_hex n) = Some n"
  by (auto simp: hex_val_def upper_hex_def Let_def)

lemma query_plain_not:
  "\<not> query_plain (CHR ''%'')" "\<not> query_plain (CHR ''+'')" "\<not> query_plain (CHR ''&'')"
  "\<not> query_plain (CHR ''='')" "\<not> query_plain (CHR '';'')" "\<not> query_plain (CHR '' '')"
  by (simp_all add: query_plain_def Let_def)

lemma unescape_escape_char: "QueryUnescape (escape_char c @ s) = map_ok (Cons c) (QueryUnescape s)"
proof (cases "query_plain c")
  case True
  then have "c \<noteq> CHR ''%''" "c \<noteq> CHR ''+''" using query_plain_not by metis+
  with True show ?thesis by (simp add: escape_char_def)
next
  case False
  have b: "(of_char c :: nat) < 256" by simp
  then have "(of_char c :: nat) div 16 < 16" by (simp add: less_mult_imp_div_less)
  moreover have "char_of (16 * (of_char c div 16 :: nat) + of_char c mod 16) = c"
    by (simp only: mult_div_mod_eq char_of_char)
  ultimately show ?thesis using False by (simp add: escape_char_def hex_val_upper)
qed

lemma unescape_escape [simp]: "QueryUnescape (QueryEscape s) = Ok s"
  by (induction s) (simp_all add: QueryEscape_def unescape_escape_char)

lemma upper_hex_plain: "n < 16 \<Longrightarrow> query_plain (upper_hex n)"
  by (auto simp: query_plain_def upper_hex_def Let_def)

lemma escaped_chars: "x \<in> set (QueryEscape s) \<Longrightarrow> query_plain x \<or> x \<in> set ''+%''"
proof -
  assume "x \<in> set (QueryEscape s)"
  then obtain c where c: "x \<in> set (escape_char c)" by (auto simp: QueryEscape_def)
  have b: "(of_char c :: nat) < 256" by simp
  then have "(of_char c :: nat) div 16 < 16" by (simp add: less_mult_imp_div_less)
  with c show ?thesis by (auto simp: escape_char_def upper_hex_plain split: if_splits)
qed

lemma escaped_not: "x \<in> set ''&=;'' \<Longrightarrow> x \<notin> set (QueryEscape s)"
  using escaped_chars [of x s] query_plain_not by auto

subsection \<open>Writing and reading values\<close>

text \<open>\<^verbatim>\<open>strings.Cut\<close>: the text before the first such character, and after it.\<close>

definition str_cut :: "char \<Rightarrow> string \<Rightarrow> string \<times> string" where
  "str_cut d s = (takeWhile (\<lambda>c. c \<noteq> d) s, tl (dropWhile (\<lambda>c. c \<noteq> d) s))"

definition query_pair :: "string \<times> string \<Rightarrow> string" where
  "query_pair kv = QueryEscape (fst kv) @ ''='' @ QueryEscape (snd kv)"

definition values_of :: "url_values \<Rightarrow> string \<Rightarrow> string list" where
  "values_of vs k = (case map_of vs k of None \<Rightarrow> [] | Some xs \<Rightarrow> xs)"

text \<open>The keys are written in their order.\<close>

definition Encode_values :: "url_values \<Rightarrow> string" where
  "Encode_values vs =
     join_str ''&'' (concat (map (\<lambda>k. map (\<lambda>v. query_pair (k, v)) (values_of vs k)) (sort (map fst vs))))"

definition add_value :: "url_values \<Rightarrow> string \<Rightarrow> string \<Rightarrow> url_values" where
  "add_value m k v = AList.update k (values_of m k @ [v]) m"

text \<open>One pair of a query; the first error of an escape is kept, a semicolon replaces it.\<close>

definition parse_pair :: "string \<Rightarrow> url_values \<times> url_error option \<Rightarrow> url_values \<times> url_error option" where
  "parse_pair piece r =
     (let (m, err) = r in
      if CHR '';'' \<in> set piece then (m, Some SemicolonSeparator)
      else if piece = [] then (m, err)
      else let (key, val) = str_cut (CHR ''='') piece in
        case QueryUnescape key of
          Ok k \<Rightarrow>
            (case QueryUnescape val of
               Ok v \<Rightarrow> (add_value m k v, err)
             | Err e \<Rightarrow> (m, if err = None then Some e else err)
             | Panic p \<Rightarrow> (m, err))
        | Err e \<Rightarrow> (m, if err = None then Some e else err)
        | Panic p \<Rightarrow> (m, err))"

function parse_query :: "string \<Rightarrow> url_values \<times> url_error option \<Rightarrow> url_values \<times> url_error option" where
  "parse_query q r =
     (if q = [] then r
      else let (piece, rest) = str_cut (CHR ''&'') q in parse_query rest (parse_pair piece r))"
  by pat_completeness auto
termination
proof (relation "measure (\<lambda>(q, r). length q)")
  fix q :: string and r x piece rest
  assume "q \<noteq> []" "x = str_cut (CHR ''&'') q" "(piece, rest) = x"
  then have "rest = tl (dropWhile (\<lambda>c. c \<noteq> CHR ''&'') q)" by (simp add: str_cut_def)
  moreover have "length (dropWhile (\<lambda>c. c \<noteq> CHR ''&'') q) \<le> length q" by (rule length_dropWhile_le)
  ultimately have "length rest < length q" using \<open>q \<noteq> []\<close> by (cases q) auto
  then show "((rest, parse_pair piece r), q, r) \<in> measure (\<lambda>(q, r). length q)" by simp
qed simp

declare parse_query.simps [simp del]

definition ParseQuery :: "string \<Rightarrow> url_values \<times> url_error option" where
  "ParseQuery q = parse_query q ([], None)"

subsection \<open>The round trip\<close>

lemma str_cut_at: "d \<notin> set a \<Longrightarrow> str_cut d (a @ d # b) = (a, b)"
proof -
  assume "d \<notin> set a"
  then have "\<forall>c \<in> set a. c \<noteq> d" by blast
  then show ?thesis by (simp add: str_cut_def takeWhile_append2 dropWhile_append2)
qed

lemma str_cut_none: "d \<notin> set a \<Longrightarrow> str_cut d a = (a, [])"
proof -
  assume "d \<notin> set a"
  then have n: "\<forall>c \<in> set a. c \<noteq> d" by blast
  then have "takeWhile (\<lambda>c. c \<noteq> d) a = a" "dropWhile (\<lambda>c. c \<noteq> d) a = []"
    by (simp_all only: takeWhile_eq_all_conv dropWhile_eq_Nil_conv)
  then show ?thesis by (simp del: dropWhile_eq_Nil_conv takeWhile_eq_all_conv add: str_cut_def)
qed

lemma query_pair_chars: "x \<in> set ''&;'' \<Longrightarrow> x \<notin> set (query_pair kv)"
  using escaped_not [of x] by (auto simp: query_pair_def)

lemma parse_query_pair [simp]: "parse_pair (query_pair (k, v)) (m, err) = (add_value m k v, err)"
proof -
  have "CHR '';'' \<notin> set (query_pair (k, v))" by (rule query_pair_chars) simp
  moreover have "str_cut (CHR ''='') (query_pair (k, v)) = (QueryEscape k, QueryEscape v)"
    unfolding query_pair_def using escaped_not [of "CHR ''=''"] by (simp add: str_cut_at)
  ultimately show ?thesis by (simp add: parse_pair_def query_pair_def)
qed

lemma parse_pairs:
  "parse_query (join_str ''&'' (map query_pair ps)) (m, err) = (foldl (\<lambda>m (k, v). add_value m k v) m ps, err)"
proof (induction ps arbitrary: m)
  case Nil
  then show ?case by (simp add: parse_query.simps)
next
  case (Cons p ps)
  obtain k v where p: "p = (k, v)" by fastforce
  have n: "CHR ''&'' \<notin> set (query_pair p)" by (rule query_pair_chars) simp
  have ne: "query_pair p \<noteq> []" by (simp add: query_pair_def)
  show ?case
  proof (cases ps)
    case Nil
    with n ne p show ?thesis
      by (subst parse_query.simps) (simp add: str_cut_none, simp add: parse_query.simps)
  next
    case (Cons q qs)
    then have j: "join_str ''&'' (map query_pair (p # ps)) = query_pair p @ CHR ''&'' # join_str ''&'' (map query_pair ps)"
      by simp
    show ?thesis
      unfolding j by (subst parse_query.simps) (use str_cut_at [OF n] in \<open>simp add: p Cons.IH\<close>)
  qed
qed

lemma add_values:
  "k \<notin> fst ` set m \<Longrightarrow> foldl (\<lambda>m (k, v). add_value m k v) (m @ [(k, xs)]) (map (Pair k) ys) = m @ [(k, xs @ ys)]"
proof (induction ys arbitrary: xs)
  case (Cons y ys)
  then have "map_of m k = None" by (simp add: map_of_eq_None_iff)
  then have "values_of (m @ [(k, xs)]) k = xs" by (simp add: values_of_def map_add_def)
  moreover have "AList.update k (xs @ [y]) (m @ [(k, xs)]) = m @ [(k, xs @ [y])]"
    using Cons.prems by (induction m) auto
  ultimately have "add_value (m @ [(k, xs)]) k y = m @ [(k, xs @ [y])]" by (simp add: add_value_def)
  then show ?case using Cons.IH [OF Cons.prems, of "xs @ [y]"] by simp
qed simp

lemma add_new_values:
  assumes "k \<notin> fst ` set m" "ys \<noteq> []"
  shows "foldl (\<lambda>m (k, v). add_value m k v) m (map (Pair k) ys) = m @ [(k, ys)]"
proof (cases ys)
  case (Cons y zs)
  have "map_of m k = None" using assms(1) by (simp add: map_of_eq_None_iff)
  then have "values_of m k = []" by (simp add: values_of_def)
  moreover have "AList.update k [y] m = m @ [(k, [y])]" using assms(1) by (induction m) auto
  ultimately have "add_value m k y = m @ [(k, [y])]" by (simp add: add_value_def)
  then show ?thesis using add_values [OF assms(1), of "[y]" zs] Cons by simp
qed (simp add: assms)

lemma add_all_values:
  "distinct (map fst m @ ks) \<Longrightarrow> (\<forall>k \<in> set ks. f k \<noteq> []) \<Longrightarrow>
   foldl (\<lambda>m (k, v). add_value m k v) m (concat (map (\<lambda>k. map (Pair k) (f k)) ks)) = m @ map (\<lambda>k. (k, f k)) ks"
proof (induction ks arbitrary: m)
  case (Cons k ks)
  have "foldl (\<lambda>m (k, v). add_value m k v) m (map (Pair k) (f k)) = m @ [(k, f k)]"
    using Cons.prems by (intro add_new_values) auto
  then show ?case using Cons.IH [of "m @ [(k, f k)]"] Cons.prems by auto
qed simp

lemma ParseQuery_Encode:
  assumes "distinct (map fst vs)" "\<forall>(k, xs) \<in> set vs. xs \<noteq> []"
  shows "ParseQuery (Encode_values vs) = (map (\<lambda>k. (k, values_of vs k)) (sort (map fst vs)), None)"
proof -
  have v: "values_of vs k \<noteq> []" if "k \<in> fst ` set vs" for k
  proof -
    obtain xs where xs: "map_of vs k = Some xs" using \<open>k \<in> fst ` set vs\<close> by (metis map_of_eq_None_iff not_None_eq)
    then have "(k, xs) \<in> set vs" by (rule map_of_SomeD)
    then show ?thesis using assms(2) xs by (auto simp: values_of_def)
  qed
  let ?ps = "concat (map (\<lambda>k. map (Pair k) (values_of vs k)) (sort (map fst vs)))"
  have "Encode_values vs = join_str ''&'' (map query_pair ?ps)"
    by (simp add: Encode_values_def map_concat comp_def)
  then have "ParseQuery (Encode_values vs) = (foldl (\<lambda>m (k, v). add_value m k v) [] ?ps, None)"
    by (simp only: ParseQuery_def parse_pairs)
  also have "foldl (\<lambda>m (k, v). add_value m k v) [] ?ps = [] @ map (\<lambda>k. (k, values_of vs k)) (sort (map fst vs))"
    using assms(1) v by (intro add_all_values) auto
  finally show ?thesis by simp
qed

end
