(* ===== verification/FormCodec.thy ===== *)
theory FormCodec
  imports UrlQuery
begin

text \<open>
  The codec of \<^verbatim>\<open>pkg/encoding/form\<close>: a protobuf message written as a query string, field by field with
  dotted keys for nested messages (\<^verbatim>\<open>proto_encode.go\<close>), and read back (\<^verbatim>\<open>proto_decode.go\<close>); other values
  go through package \<^verbatim>\<open>go-playground/form\<close>, a parameter.

  The reflection of package protobuf is a parameter, the record \<open>proto\<close>: a message of type \<open>'m\<close> is what its
  fields read as, \<open>Mutable\<close> is a nested message and \<open>Put\<close> the message after the nested one changed through it.
\<close>

subsection \<open>Descriptors and values\<close>

datatype kind =
    BoolKind | EnumKind | Int32Kind | Sint32Kind | Sfixed32Kind | Int64Kind | Sint64Kind | Sfixed64Kind
  | Uint32Kind | Fixed32Kind | Uint64Kind | Fixed64Kind | FloatKind | DoubleKind | StringKind | BytesKind
  | MessageKind | GroupKind

record field_desc =
  fd_name :: string
  fd_text_name :: string
  fd_json :: string
  fd_has_json :: bool
  fd_full :: string
  fd_kind :: kind
  fd_list :: bool
  fd_map :: bool
  fd_repeated :: bool
  fd_oneof :: "string option"
  fd_message :: "string option"
  fd_enum :: string

datatype 'm pvalue =
    PBool bool | PEnum int32 | PInt32 int32 | PInt64 int64 | PUint32 uint32 | PUint64 uint64
  | PFloat uint32 | PDouble uint64 | PString string | PBytes string | PMessage 'm

datatype form_error =
    UnsupportedMessage string | NoFieldPath | NoValue | NotAMessage string | OneofSet string
  | TooManyValues string "string list" | ParsingField string form_error | ParsingList string form_error
  | ParsingKey string form_error | ParsingValue string form_error | MapValues string string
  | ParseNumber num_error | ParseBoolean string | ParseBase64 | ParseTime string | EnumNotRegistered string
  | EnumLookup string | NotAValue string | BadQuery url_error | OtherCodec string

type_synonym time = "int \<times> int"

record 'm proto =
  MessageType :: "'m \<Rightarrow> string"
  Fields :: "string \<Rightarrow> field_desc list"
  MapKey :: "field_desc \<Rightarrow> field_desc"
  MapValue :: "field_desc \<Rightarrow> field_desc"
  EnumValues :: "string \<Rightarrow> (string \<times> int32) list"
  FindEnum :: "string \<Rightarrow> (string option, (string \<times> int32) list) res"
  WhichOneof :: "'m \<Rightarrow> string \<Rightarrow> string option"
  Get :: "'m \<Rightarrow> field_desc \<Rightarrow> 'm pvalue"
  GetList :: "'m \<Rightarrow> field_desc \<Rightarrow> 'm pvalue list"
  GetMap :: "'m \<Rightarrow> field_desc \<Rightarrow> ('m pvalue \<times> 'm pvalue) list"
  SetField :: "'m \<Rightarrow> field_desc \<Rightarrow> 'm pvalue \<Rightarrow> 'm"
  AppendList :: "'m \<Rightarrow> field_desc \<Rightarrow> 'm pvalue \<Rightarrow> 'm"
  SetMap :: "'m \<Rightarrow> field_desc \<Rightarrow> 'm pvalue \<Rightarrow> 'm pvalue \<Rightarrow> 'm"
  Mutable :: "'m \<Rightarrow> field_desc \<Rightarrow> 'm"
  Put :: "'m \<Rightarrow> field_desc \<Rightarrow> 'm \<Rightarrow> 'm"
  AsTimestamp :: "'m \<Rightarrow> time option"
  AsDuration :: "'m \<Rightarrow> int64 option"
  AsBytesValue :: "'m \<Rightarrow> string option"
  AsFieldMask :: "'m \<Rightarrow> string list option"
  NewTimestamp :: "time \<Rightarrow> 'm"
  NewDuration :: "int64 \<Rightarrow> 'm"
  NewWrapper :: "'m pvalue \<Rightarrow> 'm"
  NewFieldMask :: "string list \<Rightarrow> 'm"
  message_text :: "'m \<Rightarrow> string"
  float32_text :: "uint32 \<Rightarrow> string"
  float64_text :: "uint64 \<Rightarrow> string"
  parse_float32 :: "string \<Rightarrow> (num_error, uint32) res"
  parse_float64 :: "string \<Rightarrow> (num_error, uint64) res"
  FormatTime :: "time \<Rightarrow> string"
  ParseTimeText :: "string \<Rightarrow> time option"
  FormatDuration :: "int64 \<Rightarrow> string"
  ParseDurationText :: "string \<Rightarrow> int64 option"

text \<open>
  \<open>AsTimestamp\<close> and its kind are the type assertions of \<^verbatim>\<open>value.Interface()\<close>; \<open>NewWrapper\<close> makes the
  wrapper message of a value's type. The accessors of a value panic when it is of another type;
  \<open>value_text\<close> is its text in \<^verbatim>\<open>fmt\<close>, which \<^verbatim>\<open>Value.String\<close> returns too.
\<close>

definition bool_text :: "bool \<Rightarrow> string" where
  "bool_text b = (if b then ''true'' else ''false'')"

fun value_text :: "'m proto \<Rightarrow> 'm pvalue \<Rightarrow> string" where
  "value_text P (PBool b) = bool_text b"
| "value_text P (PEnum n) = show_int (sint n)"
| "value_text P (PInt32 n) = show_int (sint n)"
| "value_text P (PInt64 n) = show_int (sint n)"
| "value_text P (PUint32 n) = show_int (uint n)"
| "value_text P (PUint64 n) = show_int (uint n)"
| "value_text P (PFloat x) = float32_text P x"
| "value_text P (PDouble x) = float64_text P x"
| "value_text P (PString s) = s"
| "value_text P (PBytes b) = ''['' @ join_str '' '' (map (\<lambda>c. show_nat (of_char c)) b) @ '']''"
| "value_text P (PMessage m) = message_text P m"

definition value_Bool :: "'m pvalue \<Rightarrow> (form_error, bool) res" where
  "value_Bool v = (case v of PBool b \<Rightarrow> Ok b | _ \<Rightarrow> Panic ''type mismatch: cannot convert to bool'')"

definition value_Enum :: "'m pvalue \<Rightarrow> (form_error, int32) res" where
  "value_Enum v = (case v of PEnum n \<Rightarrow> Ok n | _ \<Rightarrow> Panic ''type mismatch: cannot convert to enum'')"

definition value_Bytes :: "'m pvalue \<Rightarrow> (form_error, string) res" where
  "value_Bytes v = (case v of PBytes b \<Rightarrow> Ok b | _ \<Rightarrow> Panic ''type mismatch: cannot convert to bytes'')"

definition value_Message :: "'m pvalue \<Rightarrow> (form_error, 'm) res" where
  "value_Message v = (case v of PMessage m \<Rightarrow> Ok m | _ \<Rightarrow> Panic ''type mismatch: cannot convert to message'')"

definition value_as :: "('m \<Rightarrow> 'a option) \<Rightarrow> 'm pvalue \<Rightarrow> 'a option" where
  "value_as f v = (case v of PMessage m \<Rightarrow> f m | _ \<Rightarrow> None)"

definition by_name :: "field_desc list \<Rightarrow> string \<Rightarrow> field_desc option" where
  "by_name fds n = find (\<lambda>fd. fd_name fd = n) fds"

definition by_json :: "field_desc list \<Rightarrow> string \<Rightarrow> field_desc option" where
  "by_json fds n = find (\<lambda>fd. fd_json fd = n) fds"

definition by_number :: "(string \<times> int32) list \<Rightarrow> int32 \<Rightarrow> (string \<times> int32) option" where
  "by_number es n = find (\<lambda>e. snd e = n) es"

definition is_message :: "field_desc \<Rightarrow> bool" where
  "is_message fd \<longleftrightarrow> fd_kind fd = MessageKind \<or> fd_kind fd = GroupKind"

definition base64_url :: "string \<Rightarrow> string" where
  "base64_url s = map (\<lambda>c. if c = CHR ''+'' then CHR ''-'' else if c = CHR ''/'' then CHR ''_'' else c) (base64 s)"

subsection \<open>Encoding\<close>

definition wrapper_types :: "string list" where
  "wrapper_types =
     [''google.protobuf.DoubleValue'', ''google.protobuf.FloatValue'', ''google.protobuf.Int64Value'',
      ''google.protobuf.Int32Value'', ''google.protobuf.UInt64Value'', ''google.protobuf.UInt32Value'',
      ''google.protobuf.BoolValue'', ''google.protobuf.StringValue'']"

definition encodeMessage :: "'m proto \<Rightarrow> string \<Rightarrow> 'm pvalue \<Rightarrow> (form_error, string) res" where
  "encodeMessage P name v =
     (if name = ''google.protobuf.Timestamp'' then
        Ok (case value_as (AsTimestamp P) v of None \<Rightarrow> [] | Some t \<Rightarrow> FormatTime P t)
      else if name = ''google.protobuf.Duration'' then
        Ok (case value_as (AsDuration P) v of None \<Rightarrow> [] | Some d \<Rightarrow> FormatDuration P d)
      else if name = ''google.protobuf.BytesValue'' then
        Ok (case value_as (AsBytesValue P) v of None \<Rightarrow> [] | Some b \<Rightarrow> base64 b)
      else if name \<in> set wrapper_types then
        bind_res (value_Message v) (\<lambda>m.
          case by_name (Fields P name) ''value'' of
            None \<Rightarrow> Panic ''invalid memory address or nil pointer dereference''
          | Some fd \<Rightarrow> map_ok (message_text P) (value_Message (Get P m fd)))
      else if name = ''google.protobuf.FieldMask'' then
        Ok (case value_as (AsFieldMask P) v of None \<Rightarrow> [] | Some ps \<Rightarrow> join_str '','' ps)
      else Err (UnsupportedMessage name))"

definition encode_as_message :: "'m proto \<Rightarrow> field_desc \<Rightarrow> 'm pvalue \<Rightarrow> (form_error, string) res" where
  "encode_as_message P fd v =
     (case fd_message fd of
        None \<Rightarrow> Panic ''invalid memory address or nil pointer dereference''
      | Some name \<Rightarrow> encodeMessage P name v)"

definition encodeField :: "'m proto \<Rightarrow> field_desc \<Rightarrow> 'm pvalue \<Rightarrow> (form_error, string) res" where
  "encodeField P fd v =
     (case fd_kind fd of
        BoolKind \<Rightarrow> map_ok bool_text (value_Bool v)
      | EnumKind \<Rightarrow>
          (if fd_enum fd = ''google.protobuf.NullValue'' then Ok ''null''
           else bind_res (value_Enum v) (\<lambda>n.
             case by_number (EnumValues P (fd_enum fd)) n of
               None \<Rightarrow> Panic ''invalid memory address or nil pointer dereference''
             | Some e \<Rightarrow> Ok (fst e)))
      | StringKind \<Rightarrow> Ok (value_text P v)
      | BytesKind \<Rightarrow> map_ok base64_url (value_Bytes v)
      | MessageKind \<Rightarrow> encode_as_message P fd v
      | GroupKind \<Rightarrow> encode_as_message P fd v
      | _ \<Rightarrow> Ok (value_text P v))"

fun encodeRepeatedField :: "'m proto \<Rightarrow> field_desc \<Rightarrow> 'm pvalue list \<Rightarrow> (form_error, string list) res" where
  "encodeRepeatedField P fd [] = Ok []"
| "encodeRepeatedField P fd (v # vs) =
     bind_res (encodeField P fd v) (\<lambda>t. map_ok (Cons t) (encodeRepeatedField P fd vs))"

text \<open>The descriptor of the values encodes the keys too; an error ends the iteration and is dropped.\<close>

fun encodeMapField :: "'m proto \<Rightarrow> field_desc \<Rightarrow> ('m pvalue \<times> 'm pvalue) list \<Rightarrow> (string \<times> string) list
    \<Rightarrow> (form_error, (string \<times> string) list) res" where
  "encodeMapField P fd [] m = Ok m"
| "encodeMapField P fd ((k, v) # es) m =
     (case encodeField P (MapValue P fd) k of
        Err e \<Rightarrow> Ok m
      | Panic p \<Rightarrow> Panic p
      | Ok key \<Rightarrow>
          (case encodeField P (MapValue P fd) v of
             Err e \<Rightarrow> Ok m
           | Panic p \<Rightarrow> Panic p
           | Ok t \<Rightarrow> encodeMapField P fd es (AList.update key t m)))"

definition field_key :: "field_desc \<Rightarrow> string" where
  "field_key fd = (if fd_has_json fd then fd_json fd else fd_text_name fd)"

definition new_path :: "string \<Rightarrow> string \<Rightarrow> string" where
  "new_path path key = (if path = [] then key else path @ ''.'' @ key)"

definition put_map :: "string \<Rightarrow> (string \<times> string) list \<Rightarrow> url_values \<Rightarrow> url_values" where
  "put_map path m u = foldl (\<lambda>u (k, t). AList.update (path @ ''['' @ k @ '']'') [t] u) u m"

text \<open>
  The loop over the fields, from the list of those left. Both outcomes of the test of a oneof go on to
  the next field. A nested message is asked for its fields again, so the recursion ends only when the
  types are nested finitely deep: not returning is \<open>None\<close>.
\<close>

partial_function (option) encode_fields ::
    "'m proto \<Rightarrow> field_desc list \<Rightarrow> 'm \<Rightarrow> string \<Rightarrow> url_values \<Rightarrow> (form_error, url_values) res option" where
  "encode_fields Q fds v path u =
     (case fds of
        [] \<Rightarrow> Some (Ok u)
      | fd # rest \<Rightarrow>
          (if fd_oneof fd \<noteq> None then encode_fields Q rest v path u
           else if fd_list fd then
             (if GetList Q v fd = [] then encode_fields Q rest v path u
              else case encodeRepeatedField Q fd (GetList Q v fd) of
                Err e \<Rightarrow> Some (Err e)
              | Panic p \<Rightarrow> Some (Panic p)
              | Ok ts \<Rightarrow> encode_fields Q rest v path (AList.update (new_path path (field_key fd)) ts u))
           else if fd_map fd then
             (case encodeMapField Q fd (GetMap Q v fd) [] of
                Err e \<Rightarrow> Some (Err e)
              | Panic p \<Rightarrow> Some (Panic p)
              | Ok m \<Rightarrow> encode_fields Q rest v path (put_map (new_path path (field_key fd)) m u))
           else if is_message fd then
             (case encode_as_message Q fd (Get Q v fd) of
                Ok t \<Rightarrow> encode_fields Q rest v path (AList.update (new_path path (field_key fd)) [t] u)
              | Panic p \<Rightarrow> Some (Panic p)
              | Err e \<Rightarrow>
                  (case value_Message (Get Q v fd) of
                     Ok sub \<Rightarrow>
                       Option.bind (encode_fields Q (Fields Q (MessageType Q sub)) sub (new_path path (field_key fd)) u)
                         (\<lambda>r. case r of
                            Ok u' \<Rightarrow> encode_fields Q rest v path u'
                          | Err e \<Rightarrow> Some (Err e)
                          | Panic p \<Rightarrow> Some (Panic p))
                   | Err e \<Rightarrow> Some (Err e)
                   | Panic p \<Rightarrow> Some (Panic p)))
           else
             (case encodeField Q fd (Get Q v fd) of
                Err e \<Rightarrow> Some (Err e)
              | Panic p \<Rightarrow> Some (Panic p)
              | Ok t \<Rightarrow> encode_fields Q rest v path (AList.update (new_path path (field_key fd)) [t] u))))"

definition encodeByField :: "'m proto \<Rightarrow> url_values \<Rightarrow> string \<Rightarrow> 'm \<Rightarrow> (form_error, url_values) res option" where
  "encodeByField P u path v = encode_fields P (Fields P (MessageType P v)) v path u"

definition EncodeMap :: "'m proto \<Rightarrow> 'm option \<Rightarrow> (form_error, url_values) res option" where
  "EncodeMap P msg = (case msg of None \<Rightarrow> Some (Ok []) | Some m \<Rightarrow> encodeByField P [] [] m)"

subsection \<open>Decoding\<close>

definition parse_bool :: "string \<Rightarrow> (form_error, bool) res" where
  "parse_bool s =
     (if s \<in> set [''1'', ''t'', ''T'', ''TRUE'', ''true'', ''True''] then Ok True
      else if s \<in> set [''0'', ''f'', ''F'', ''FALSE'', ''false'', ''False''] then Ok False
      else Err (ParseBoolean s))"

definition signed :: "nat \<Rightarrow> (int \<Rightarrow> 'a) \<Rightarrow> string \<Rightarrow> (form_error, 'a) res" where
  "signed bits f s = (case parse_int bits s of (n, None) \<Rightarrow> Ok (f n) | (n, Some e) \<Rightarrow> Err (ParseNumber e))"

definition unsigned :: "nat \<Rightarrow> (nat \<Rightarrow> 'a) \<Rightarrow> string \<Rightarrow> (form_error, 'a) res" where
  "unsigned bits f s = (case parse_uint bits s of (n, None) \<Rightarrow> Ok (f n) | (n, Some e) \<Rightarrow> Err (ParseNumber e))"

definition number_res :: "('a \<Rightarrow> 'b) \<Rightarrow> (num_error, 'a) res \<Rightarrow> (form_error, 'b) res" where
  "number_res f r = (case r of Ok x \<Rightarrow> Ok (f x) | Err e \<Rightarrow> Err (ParseNumber e) | Panic p \<Rightarrow> Panic p)"

definition decode_base64 :: "string \<Rightarrow> (form_error, string) res" where
  "decode_base64 s = (case unbase64 s of None \<Rightarrow> Err ParseBase64 | Some b \<Rightarrow> Ok b)"

text \<open>\<open>null\<close> leaves the message nil, whose reflection is asked for at the end.\<close>

definition parseMessage :: "'m proto \<Rightarrow> string \<Rightarrow> string \<Rightarrow> (form_error, 'm) res" where
  "parseMessage P name s =
     (if name = ''google.protobuf.Timestamp'' then
        (if s = ''null'' then Panic ''invalid memory address or nil pointer dereference''
         else case ParseTimeText P s of None \<Rightarrow> Err (ParseTime s) | Some t \<Rightarrow> Ok (NewTimestamp P t))
      else if name = ''google.protobuf.Duration'' then
        (if s = ''null'' then Panic ''invalid memory address or nil pointer dereference''
         else case ParseDurationText P s of None \<Rightarrow> Err (ParseTime s) | Some d \<Rightarrow> Ok (NewDuration P d))
      else if name = ''google.protobuf.DoubleValue'' then number_res (\<lambda>x. NewWrapper P (PDouble x)) (parse_float64 P s)
      else if name = ''google.protobuf.FloatValue'' then number_res (\<lambda>x. NewWrapper P (PFloat x)) (parse_float32 P s)
      else if name = ''google.protobuf.Int64Value'' then signed 64 (\<lambda>n. NewWrapper P (PInt64 (word_of_int n))) s
      else if name = ''google.protobuf.Int32Value'' then signed 32 (\<lambda>n. NewWrapper P (PInt32 (word_of_int n))) s
      else if name = ''google.protobuf.UInt64Value'' then unsigned 64 (\<lambda>n. NewWrapper P (PUint64 (of_nat n))) s
      else if name = ''google.protobuf.UInt32Value'' then unsigned 32 (\<lambda>n. NewWrapper P (PUint32 (of_nat n))) s
      else if name = ''google.protobuf.BoolValue'' then map_ok (\<lambda>b. NewWrapper P (PBool b)) (parse_bool s)
      else if name = ''google.protobuf.StringValue'' then Ok (NewWrapper P (PString s))
      else if name = ''google.protobuf.BytesValue'' then map_ok (\<lambda>b. NewWrapper P (PBytes b)) (decode_base64 s)
      else if name = ''google.protobuf.FieldMask'' then Ok (NewFieldMask P (split_str s '',''))
      else Err (UnsupportedMessage name))"

definition parse_as_message :: "'m proto \<Rightarrow> field_desc \<Rightarrow> string \<Rightarrow> (form_error, 'm pvalue) res" where
  "parse_as_message P fd s =
     (case fd_message fd of
        None \<Rightarrow> Panic ''invalid memory address or nil pointer dereference''
      | Some name \<Rightarrow> map_ok PMessage (parseMessage P name s))"

definition parse_enum :: "'m proto \<Rightarrow> string \<Rightarrow> string \<Rightarrow> (form_error, 'm pvalue) res" where
  "parse_enum P name s =
     (case FindEnum P name of
        Err None \<Rightarrow> Err (EnumNotRegistered name)
      | Err (Some e) \<Rightarrow> Err (EnumLookup e)
      | Panic p \<Rightarrow> Panic p
      | Ok es \<Rightarrow>
          (case map_of es s of
             Some n \<Rightarrow> Ok (PEnum n)
           | None \<Rightarrow>
               (case parse_int 32 s of
                  (i, Some e) \<Rightarrow> Err (NotAValue s)
                | (i, None) \<Rightarrow>
                    (case by_number es (word_of_int i) of
                       None \<Rightarrow> Err (NotAValue s)
                     | Some e \<Rightarrow> Ok (PEnum (snd e))))))"

definition parseField :: "'m proto \<Rightarrow> field_desc \<Rightarrow> string \<Rightarrow> (form_error, 'm pvalue) res" where
  "parseField P fd s =
     (case fd_kind fd of
        BoolKind \<Rightarrow> map_ok PBool (parse_bool s)
      | EnumKind \<Rightarrow> parse_enum P (fd_enum fd) s
      | Int32Kind \<Rightarrow> signed 32 (\<lambda>n. PInt32 (word_of_int n)) s
      | Sint32Kind \<Rightarrow> signed 32 (\<lambda>n. PInt32 (word_of_int n)) s
      | Sfixed32Kind \<Rightarrow> signed 32 (\<lambda>n. PInt32 (word_of_int n)) s
      | Int64Kind \<Rightarrow> signed 64 (\<lambda>n. PInt64 (word_of_int n)) s
      | Sint64Kind \<Rightarrow> signed 64 (\<lambda>n. PInt64 (word_of_int n)) s
      | Sfixed64Kind \<Rightarrow> signed 64 (\<lambda>n. PInt64 (word_of_int n)) s
      | Uint32Kind \<Rightarrow> unsigned 32 (\<lambda>n. PUint32 (of_nat n)) s
      | Fixed32Kind \<Rightarrow> unsigned 32 (\<lambda>n. PUint32 (of_nat n)) s
      | Uint64Kind \<Rightarrow> unsigned 64 (\<lambda>n. PUint64 (of_nat n)) s
      | Fixed64Kind \<Rightarrow> unsigned 64 (\<lambda>n. PUint64 (of_nat n)) s
      | FloatKind \<Rightarrow> number_res PFloat (parse_float32 P s)
      | DoubleKind \<Rightarrow> number_res PDouble (parse_float64 P s)
      | StringKind \<Rightarrow> Ok (PString s)
      | BytesKind \<Rightarrow> map_ok PBytes (decode_base64 s)
      | MessageKind \<Rightarrow> parse_as_message P fd s
      | GroupKind \<Rightarrow> parse_as_message P fd s)"

text \<open>A function that fills a message returns how far it came beside its error.\<close>

type_synonym 'm filled = "'m \<times> (form_error, unit) res"

definition populateField :: "'m proto \<Rightarrow> field_desc \<Rightarrow> 'm \<Rightarrow> string \<Rightarrow> 'm filled" where
  "populateField P fd v s =
     (case parseField P fd s of
        Ok x \<Rightarrow> (SetField P v fd x, Ok ())
      | Err e \<Rightarrow> (v, Err (ParsingField (fd_name fd) e))
      | Panic p \<Rightarrow> (v, Panic p))"

fun populateRepeatedField :: "'m proto \<Rightarrow> field_desc \<Rightarrow> 'm \<Rightarrow> string list \<Rightarrow> 'm filled" where
  "populateRepeatedField P fd v [] = (v, Ok ())"
| "populateRepeatedField P fd v (s # ss) =
     (case parseField P fd s of
        Ok x \<Rightarrow> populateRepeatedField P fd (AppendList P v fd x) ss
      | Err e \<Rightarrow> (v, Err (ParsingList (fd_name fd) e))
      | Panic p \<Rightarrow> (v, Panic p))"

definition populateMapField :: "'m proto \<Rightarrow> field_desc \<Rightarrow> 'm \<Rightarrow> string list \<Rightarrow> 'm filled" where
  "populateMapField P fd v ss =
     (if length ss \<noteq> 2 then (v, Err (MapValues (hd ss) (fd_full fd)))
      else case parseField P (MapKey P fd) (ss ! 0) of
        Err e \<Rightarrow> (v, Err (ParsingKey (fd_name fd) e))
      | Panic p \<Rightarrow> (v, Panic p)
      | Ok k \<Rightarrow>
          (case parseField P (MapValue P fd) (ss ! 1) of
             Err e \<Rightarrow> (v, Err (ParsingValue (fd_name fd) e))
           | Panic p \<Rightarrow> (v, Panic p)
           | Ok x \<Rightarrow> (SetMap P v fd k x, Ok ())))"

definition find_field :: "field_desc list \<Rightarrow> string \<Rightarrow> field_desc option" where
  "find_field fds n = (case by_name fds n of Some fd \<Rightarrow> Some fd | None \<Rightarrow> by_json fds n)"

text \<open>The end of a path: the value is stored in the field found there.\<close>

definition populate_at :: "'m proto \<Rightarrow> field_desc \<Rightarrow> 'm \<Rightarrow> string list \<Rightarrow> 'm filled" where
  "populate_at P fd v ss =
     (case (case fd_oneof fd of None \<Rightarrow> None | Some oo \<Rightarrow> map_option (\<lambda>f. oo) (WhichOneof P v oo)) of
        Some oo \<Rightarrow> (v, Err (OneofSet oo))
      | None \<Rightarrow>
          (if fd_list fd then populateRepeatedField P fd v ss
           else if fd_map fd then populateMapField P fd v ss
           else if length ss > 1 then (v, Err (TooManyValues (fd_name fd) ss))
           else populateField P fd v (hd ss)))"

fun populate_path :: "'m proto \<Rightarrow> 'm \<Rightarrow> string list \<Rightarrow> string list \<Rightarrow> 'm filled" where
  "populate_path P v [] ss = (v, Ok ())"
| "populate_path P v (n # ns) ss =
     (case find_field (Fields P (MessageType P v)) n of
        None \<Rightarrow> (v, Ok ())
      | Some fd \<Rightarrow>
          (if ns = [] then populate_at P fd v ss
           else if fd_message fd = None \<or> fd_repeated fd then (v, Err (NotAMessage n))
           else let (sub, r) = populate_path P (Mutable P v fd) ns ss in (Put P v fd sub, r)))"

definition populateFieldValues :: "'m proto \<Rightarrow> 'm \<Rightarrow> string list \<Rightarrow> string list \<Rightarrow> 'm filled" where
  "populateFieldValues P v path ss =
     (if path = [] then (v, Err NoFieldPath)
      else if ss = [] then (v, Err NoValue)
      else populate_path P v path ss)"

fun MapProto :: "'m proto \<Rightarrow> 'm \<Rightarrow> url_values \<Rightarrow> 'm filled" where
  "MapProto P v [] = (v, Ok ())"
| "MapProto P v ((key, ss) # rest) =
     (case populateFieldValues P v (split_str key ''.'') ss of
        (v', Ok _) \<Rightarrow> MapProto P v' rest
      | (v', r) \<Rightarrow> (v', r))"

subsection \<open>The codec\<close>

text \<open>What is marshalled: a message, a nil one, or a value of another type; and what is filled: a message, a
  pointer to a pointer to one that may be nil, a nil pointer, or a value of another type.\<close>

datatype ('m, 'o) form_source = ProtoMessage 'm | NilMessage | OtherSource 'o

datatype ('m, 'o) form_target = ToMessage 'm | ToPointer "'m option" | ToNil | ToOther 'o

record 'o form_lib =
  form_Encode :: "'o \<Rightarrow> (form_error, url_values) res"
  form_Decode :: "'o \<Rightarrow> url_values \<Rightarrow> 'o \<times> (form_error, unit) res"

definition form_Marshal :: "'m proto \<Rightarrow> 'o form_lib \<Rightarrow> ('m, 'o) form_source \<Rightarrow> (form_error, string) res option" where
  "form_Marshal P F v =
     map_option (map_ok (\<lambda>vs. Encode_values (filter (\<lambda>(k, xs). xs \<noteq> []) vs)))
       (case v of
          ProtoMessage m \<Rightarrow> EncodeMap P (Some m)
        | NilMessage \<Rightarrow> EncodeMap P None
        | OtherSource x \<Rightarrow> Some (form_Encode F x))"

definition form_Unmarshal :: "'m proto \<Rightarrow> 'o form_lib \<Rightarrow> 'm \<Rightarrow> (url_values \<Rightarrow> url_values) \<Rightarrow> string
    \<Rightarrow> ('m, 'o) form_target \<Rightarrow> ('m, 'o) form_target \<times> (form_error, unit) res" where
  "form_Unmarshal P F new order data t =
     (case ParseQuery data of
        (vs, Some e) \<Rightarrow> (t, Err (BadQuery e))
      | (vs, None) \<Rightarrow>
          (case t of
             ToNil \<Rightarrow> (t, Panic ''reflect: reflect.Value.Set using unaddressable value'')
           | ToMessage m \<Rightarrow> apfst ToMessage (MapProto P m (order vs))
           | ToPointer m \<Rightarrow>
               apfst (\<lambda>m'. ToPointer (Some m')) (MapProto P (case m of None \<Rightarrow> new | Some m \<Rightarrow> m) (order vs))
           | ToOther x \<Rightarrow> apfst ToOther (form_Decode F x vs)))"

text \<open>\<open>new\<close> is the empty message a nil pointer is set to, \<open>order\<close> the order in which the map is gone through.\<close>

end
