(* ===== verification/FormRoundtrip.thy ===== *)
theory FormRoundtrip
  imports FormCodec "HOL-Library.Multiset"
begin

text \<open>
  What the codec of \<^verbatim>\<open>pkg/encoding/form\<close> keeps: a message without oneofs, maps and well-known types is
  read back as it was written; and what it loses.
\<close>

subsection \<open>Scalars\<close>

text \<open>A value of its field's kind, one whose text is unique: an enum number with a name, bytes whose text has neither
  of the two digits in which the alphabets of base64 differ.\<close>

definition plain_value :: "'m proto \<Rightarrow> field_desc \<Rightarrow> 'm pvalue \<Rightarrow> bool" where
  "plain_value P fd x \<longleftrightarrow>
     (case fd_kind fd of
        BoolKind \<Rightarrow> (case x of PBool b \<Rightarrow> True | _ \<Rightarrow> False)
      | EnumKind \<Rightarrow>
          (case x of PEnum n \<Rightarrow> fd_enum fd \<noteq> ''google.protobuf.NullValue'' \<and> n \<in> snd ` set (EnumValues P (fd_enum fd)) | _ \<Rightarrow> False)
      | Int32Kind \<Rightarrow> (case x of PInt32 n \<Rightarrow> True | _ \<Rightarrow> False)
      | Sint32Kind \<Rightarrow> (case x of PInt32 n \<Rightarrow> True | _ \<Rightarrow> False)
      | Sfixed32Kind \<Rightarrow> (case x of PInt32 n \<Rightarrow> True | _ \<Rightarrow> False)
      | Int64Kind \<Rightarrow> (case x of PInt64 n \<Rightarrow> True | _ \<Rightarrow> False)
      | Sint64Kind \<Rightarrow> (case x of PInt64 n \<Rightarrow> True | _ \<Rightarrow> False)
      | Sfixed64Kind \<Rightarrow> (case x of PInt64 n \<Rightarrow> True | _ \<Rightarrow> False)
      | Uint32Kind \<Rightarrow> (case x of PUint32 n \<Rightarrow> True | _ \<Rightarrow> False)
      | Fixed32Kind \<Rightarrow> (case x of PUint32 n \<Rightarrow> True | _ \<Rightarrow> False)
      | Uint64Kind \<Rightarrow> (case x of PUint64 n \<Rightarrow> True | _ \<Rightarrow> False)
      | Fixed64Kind \<Rightarrow> (case x of PUint64 n \<Rightarrow> True | _ \<Rightarrow> False)
      | FloatKind \<Rightarrow> (case x of PFloat y \<Rightarrow> parse_float32 P (float32_text P y) = Ok y | _ \<Rightarrow> False)
      | DoubleKind \<Rightarrow> (case x of PDouble y \<Rightarrow> parse_float64 P (float64_text P y) = Ok y | _ \<Rightarrow> False)
      | StringKind \<Rightarrow> (case x of PString s \<Rightarrow> True | _ \<Rightarrow> False)
      | BytesKind \<Rightarrow> (case x of PBytes b \<Rightarrow> CHR ''+'' \<notin> set (base64 b) \<and> CHR ''/'' \<notin> set (base64 b) | _ \<Rightarrow> False)
      | MessageKind \<Rightarrow> False
      | GroupKind \<Rightarrow> False)"

text \<open>Enums are registered under their own values, whose names differ.\<close>

definition enums_registered :: "'m proto \<Rightarrow> bool" where
  "enums_registered P \<longleftrightarrow>
     (\<forall>name. FindEnum P name = Ok (EnumValues P name) \<and> distinct (map fst (EnumValues P name)))"

lemma show_int_pos: "0 \<le> i \<Longrightarrow> show_int i = show_nat (nat i)"
  by (simp add: show_int_def)

lemma show_nat_hd: "hd (show_nat n) \<noteq> CHR ''-''" "hd (show_nat n) \<noteq> CHR ''+''"
proof -
  have "list_all is_digit (show_nat n)" by (rule show_nat_digits)
  then have "is_digit (hd (show_nat n))" by (cases "show_nat n") (auto simp: list_all_iff)
  then show "hd (show_nat n) \<noteq> CHR ''-''" "hd (show_nat n) \<noteq> CHR ''+''"
    using is_digit_chars by metis+
qed

lemma parse_int_show:
  assumes "0 < bits" "- (2 ^ (bits - 1)) \<le> i" "i < 2 ^ (bits - 1)"
  shows "parse_int bits (show_int i) = (i, None)"
proof (cases "i < 0")
  case True
  have "(2::nat) ^ (bits - 1) < 2 ^ bits" using assms(1) by simp
  moreover have "nat (- i) \<le> 2 ^ (bits - 1)"
    using assms(2) by (simp add: nat_le_iff)
  ultimately have l: "nat (- i) < 2 ^ bits" and "\<not> 2 ^ (bits - 1) < nat (- i)" by linarith+
  moreover have "parse_uint bits (show_nat (nat (- i))) = (nat (- i), None)" by (rule parse_uint_show [OF l])
  ultimately have "parse_uint bits (show_nat (nat (- i))) = (nat (- i), None)" "\<not> 2 ^ (bits - 1) < nat (- i)" by blast+
  with True show ?thesis by (simp add: parse_int_def show_int_def)
next
  case False
  have "(2::nat) ^ (bits - 1) < 2 ^ bits" using assms(1) by simp
  moreover have "nat i < 2 ^ (bits - 1)" using assms(3) False by (simp add: nat_less_iff)
  ultimately have l: "nat i < 2 ^ bits" and "\<not> 2 ^ (bits - 1) \<le> nat i" by linarith+
  moreover have "parse_uint bits (show_nat (nat i)) = (nat i, None)" by (rule parse_uint_show [OF l])
  ultimately have "parse_uint bits (show_nat (nat i)) = (nat i, None)" "\<not> 2 ^ (bits - 1) \<le> nat i" by blast+
  with False show ?thesis using show_nat_hd [of "nat i"] by (simp add: parse_int_def show_int_def)
qed

lemma signed_text:
  "signed 32 f (show_int (sint (n :: int32))) = Ok (f (sint n))"
  "signed 64 f (show_int (sint (k :: int64))) = Ok (f (sint k))"
  using sint_ge [of n] sint_lt [of n] sint_ge [of k] sint_lt [of k]
  by (simp_all add: signed_def parse_int_show)

lemma unsigned_text:
  "unsigned 32 f (show_int (uint (n :: uint32))) = Ok (f (unat n))"
  "unsigned 64 f (show_int (uint (k :: uint64))) = Ok (f (unat k))"
proof -
  have "unat n < 2 ^ 32" using unsigned_less [of n] by simp
  then show "unsigned 32 f (show_int (uint n)) = Ok (f (unat n))"
    by (simp add: unsigned_def show_int_pos parse_uint_show)
  have "unat k < 2 ^ 64" using unsigned_less [of k] by simp
  then show "unsigned 64 f (show_int (uint k)) = Ok (f (unat k))"
    by (simp add: unsigned_def show_int_pos parse_uint_show)
qed

lemma base64_url_plain:
  "CHR ''+'' \<notin> set (base64 b) \<Longrightarrow> CHR ''/'' \<notin> set (base64 b) \<Longrightarrow> base64_url b = base64 b"
  unfolding base64_url_def by (rule map_idI) auto

lemma parse_enum_name:
  assumes "enums_registered P" "n \<in> snd ` set (EnumValues P name)"
  shows "\<exists>e. by_number (EnumValues P name) n = Some e \<and> parse_enum P name (fst e) = Ok (PEnum n)"
proof -
  obtain e where e: "by_number (EnumValues P name) n = Some e"
    using assms(2) unfolding by_number_def by (metis (mono_tags, lifting) find_None_iff imageE not_Some_eq)
  then have m: "e \<in> set (EnumValues P name)" "snd e = n"
    unfolding by_number_def by (auto simp: find_Some_iff)
  have "map_of (EnumValues P name) (fst e) = Some (snd e)"
    using assms(1) m(1) unfolding enums_registered_def by (intro map_of_is_SomeI) auto
  with assms(1) m(2) have "parse_enum P name (fst e) = Ok (PEnum n)"
    by (simp add: parse_enum_def enums_registered_def)
  with e show ?thesis by blast
qed

lemma plain_value_roundtrip:
  assumes "enums_registered P" "plain_value P fd x"
  shows "\<exists>t. encodeField P fd x = Ok t \<and> parseField P fd t = Ok x"
proof (cases "fd_kind fd")
  case EnumKind
  with assms obtain n where "x = PEnum n" "fd_enum fd \<noteq> ''google.protobuf.NullValue''" "n \<in> snd ` set (EnumValues P (fd_enum fd))"
    by (auto simp: plain_value_def split: pvalue.splits)
  then show ?thesis using parse_enum_name [OF assms(1), of n "fd_enum fd"] EnumKind
    by (auto simp: encodeField_def parseField_def value_Enum_def)
next
  case BoolKind
  with assms(2) obtain b where "x = PBool b" by (cases x) (simp_all add: plain_value_def)
  with BoolKind show ?thesis
    by (cases b) (simp_all add: encodeField_def parseField_def value_Bool_def bool_text_def parse_bool_def)
next
  case BytesKind
  with assms(2) obtain b where "x = PBytes b" "CHR ''+'' \<notin> set (base64 b)" "CHR ''/'' \<notin> set (base64 b)"
    by (cases x) (simp_all add: plain_value_def)
  with BytesKind show ?thesis
    by (simp add: encodeField_def parseField_def value_Bytes_def base64_url_plain decode_base64_def)
qed (use assms(2) in \<open>cases x; simp add: plain_value_def encodeField_def parseField_def signed_text unsigned_text number_res_def\<close>)+


subsection \<open>Messages as trees\<close>

text \<open>
  The reflection of a field outside oneofs and maps: after it is set it reads as what it was set to, and
  every other field reads as before.
\<close>

definition others_kept :: "'m proto \<Rightarrow> 'm \<Rightarrow> field_desc \<Rightarrow> 'm \<Rightarrow> bool" where
  "others_kept P v fd v' \<longleftrightarrow>
     MessageType P v' = MessageType P v \<and>
     (\<forall>g \<in> set (Fields P (MessageType P v)). g \<noteq> fd \<longrightarrow> Get P v' g = Get P v g \<and> GetList P v' g = GetList P v g)"

definition field_reflected :: "'m proto \<Rightarrow> 'm \<Rightarrow> field_desc \<Rightarrow> bool" where
  "field_reflected P v fd \<longleftrightarrow>
     (fd_repeated fd \<longleftrightarrow> fd_list fd \<or> fd_map fd) \<and>
     (if fd_list fd then
        (\<forall>x. plain_value P fd x \<longrightarrow>
           others_kept P v fd (AppendList P v fd x) \<and> GetList P (AppendList P v fd x) fd = GetList P v fd @ [x])
      else if is_message fd then
        Get P v fd = PMessage (Mutable P v fd) \<and> fd_message fd = Some (MessageType P (Mutable P v fd)) \<and>
        (\<forall>m. fd_message fd = Some (MessageType P m) \<longrightarrow>
           others_kept P v fd (Put P v fd m) \<and> Get P (Put P v fd m) fd = PMessage m)
      else
        (\<forall>x. plain_value P fd x \<longrightarrow>
           others_kept P v fd (SetField P v fd x) \<and> Get P (SetField P v fd x) fd = x))"

definition reflection :: "'m proto \<Rightarrow> bool" where
  "reflection P \<longleftrightarrow>
     enums_registered P \<and>
     (\<forall>v. \<forall>fd \<in> set (Fields P (MessageType P v)). fd_oneof fd = None \<longrightarrow> \<not> fd_map fd \<longrightarrow> field_reflected P v fd)"

definition well_known :: "string list" where
  "well_known =
     [''google.protobuf.Timestamp'', ''google.protobuf.Duration'', ''google.protobuf.BytesValue'', ''google.protobuf.FieldMask'']
       @ wrapper_types"

text \<open>A type nested less than \<open>n\<close> deep, whose fields are found under their keys.\<close>

definition plain_field :: "'m proto \<Rightarrow> string \<Rightarrow> field_desc \<Rightarrow> bool" where
  "plain_field P T fd \<longleftrightarrow>
     field_key fd \<noteq> [] \<and> CHR ''.'' \<notin> set (field_key fd) \<and> find_field (Fields P T) (field_key fd) = Some fd \<and>
     fd_oneof fd = None \<and> \<not> fd_map fd \<and>
     (is_message fd \<longrightarrow> \<not> fd_list fd \<and> fd_message fd \<noteq> None \<and> the (fd_message fd) \<notin> set well_known)"

fun plain_type :: "'m proto \<Rightarrow> nat \<Rightarrow> string \<Rightarrow> bool" where
  "plain_type P 0 T = False"
| "plain_type P (Suc n) T =
     (distinct (Fields P T) \<and>
      list_all (\<lambda>fd. plain_field P T fd \<and> (is_message fd \<longrightarrow> plain_type P n (the (fd_message fd)))) (Fields P T))"

text \<open>The paths to the fields that hold values, and what they hold.\<close>

fun leaves :: "'m proto \<Rightarrow> nat \<Rightarrow> string \<Rightarrow> string list list" where
  "leaves P 0 T = []"
| "leaves P (Suc n) T =
     concat (map (\<lambda>fd. if is_message fd then map (Cons (field_key fd)) (leaves P n (the (fd_message fd)))
                        else [[field_key fd]]) (Fields P T))"

fun leaf :: "'m proto \<Rightarrow> 'm \<Rightarrow> string list \<Rightarrow> 'm pvalue list option" where
  "leaf P v [] = None"
| "leaf P v (c # cs) =
     (case find_field (Fields P (MessageType P v)) c of
        None \<Rightarrow> None
      | Some fd \<Rightarrow>
          (if cs = [] then Some (if fd_list fd then GetList P v fd else [Get P v fd])
           else case Get P v fd of PMessage m \<Rightarrow> leaf P m cs | _ \<Rightarrow> None))"

fun field_at :: "'m proto \<Rightarrow> string \<Rightarrow> string list \<Rightarrow> field_desc option" where
  "field_at P T [] = None"
| "field_at P T (c # cs) =
     (case find_field (Fields P T) c of
        None \<Rightarrow> None
      | Some fd \<Rightarrow> (if cs = [] then Some fd else case fd_message fd of None \<Rightarrow> None | Some T' \<Rightarrow> field_at P T' cs))"

text \<open>A message all of whose values are plain; one whose lists are empty, as a new message's are.\<close>

definition plain_message :: "'m proto \<Rightarrow> nat \<Rightarrow> 'm \<Rightarrow> bool" where
  "plain_message P n v \<longleftrightarrow>
     (\<forall>p \<in> set (leaves P n (MessageType P v)). \<forall>fd. field_at P (MessageType P v) p = Some fd \<longrightarrow>
        list_all (plain_value P fd) (the (leaf P v p)))"

definition fresh_message :: "'m proto \<Rightarrow> nat \<Rightarrow> 'm \<Rightarrow> bool" where
  "fresh_message P n v \<longleftrightarrow>
     (\<forall>p \<in> set (leaves P n (MessageType P v)). \<forall>fd. field_at P (MessageType P v) p = Some fd \<longrightarrow>
        fd_list fd \<longrightarrow> leaf P v p = Some [])"

lemma plain_typeD:
  assumes "plain_type P (Suc n) T" "fd \<in> set (Fields P T)"
  shows "plain_field P T fd" "is_message fd \<Longrightarrow> plain_type P n (the (fd_message fd))"
  using assms by (auto simp: list_all_iff)

lemma plain_fieldD:
  assumes "plain_field P T fd"
  shows "find_field (Fields P T) (field_key fd) = Some fd" "fd_oneof fd = None" "\<not> fd_map fd" "field_key fd \<noteq> []"
    "CHR ''.'' \<notin> set (field_key fd)" "is_message fd \<Longrightarrow> \<not> fd_list fd"
    "is_message fd \<Longrightarrow> \<exists>T'. fd_message fd = Some T' \<and> T' \<notin> set well_known"
  using assms by (auto simp: plain_field_def)

lemma in_leaves:
  assumes "p \<in> set (leaves P (Suc n) T)"
  obtains fd where "fd \<in> set (Fields P T)" "\<not> is_message fd" "p = [field_key fd]"
  | fd q where "fd \<in> set (Fields P T)" "is_message fd" "p = field_key fd # q" "q \<in> set (leaves P n (the (fd_message fd)))"
  using assms by (auto split: if_splits)

lemma leaves_nonempty: "p \<in> set (leaves P n T) \<Longrightarrow> p \<noteq> []"
  by (cases n) (auto split: if_splits)

lemma reflected:
  assumes "reflection P" "plain_field P (MessageType P v) fd" "fd \<in> set (Fields P (MessageType P v))"
  shows "field_reflected P v fd"
  using assms by (auto simp: reflection_def plain_field_def)

lemma leaf_same:
  assumes "others_kept P v fd v'" "plain_field P (MessageType P v) g" "g \<in> set (Fields P (MessageType P v))" "g \<noteq> fd"
  shows "leaf P v' (field_key g # q) = leaf P v (field_key g # q)"
  using assms by (auto simp: others_kept_def plain_field_def)

lemma append_all:
  assumes "field_reflected P v fd" "fd_list fd" "list_all2 (\<lambda>t x. parseField P fd t = Ok x) ts xs" "list_all (plain_value P fd) xs"
    and all: "\<And>w. MessageType P w = MessageType P v \<Longrightarrow> field_reflected P w fd"
  shows "\<exists>v'. populateRepeatedField P fd v ts = (v', Ok ()) \<and> others_kept P v fd v' \<and> GetList P v' fd = GetList P v fd @ xs"
  using assms(3,1,4,5)
proof (induction ts xs arbitrary: v rule: list_all2_induct)
  case Nil
  then show ?case by (simp add: others_kept_def)
next
  case (Cons t ts x xs)
  let ?w = "AppendList P v fd x"
  have w: "others_kept P v fd ?w" "GetList P ?w fd = GetList P v fd @ [x]"
    using Cons.prems assms(2) by (auto simp: field_reflected_def)
  then have ty: "MessageType P ?w = MessageType P v" by (simp add: others_kept_def)
  have "\<exists>v'. populateRepeatedField P fd ?w ts = (v', Ok ()) \<and> others_kept P ?w fd v' \<and> GetList P v' fd = GetList P ?w fd @ xs"
    using Cons.prems ty by (intro Cons.IH) auto
  then obtain v' where "populateRepeatedField P fd ?w ts = (v', Ok ())" "others_kept P ?w fd v'" "GetList P v' fd = GetList P ?w fd @ xs"
    by blast
  with w Cons.hyps show ?case by (auto simp: others_kept_def)
qed


subsection \<open>One value\<close>

definition texts_fit :: "'m proto \<Rightarrow> field_desc \<Rightarrow> string list \<Rightarrow> 'm pvalue list \<Rightarrow> bool" where
  "texts_fit P fd ts xs \<longleftrightarrow>
     ts \<noteq> [] \<and> (\<not> fd_list fd \<longrightarrow> length ts = 1) \<and> list_all2 (\<lambda>t x. parseField P fd t = Ok x) ts xs \<and>
     list_all (plain_value P fd) xs"

lemma populate_scalar:
  assumes "reflection P" "plain_field P (MessageType P v) fd" "fd \<in> set (Fields P (MessageType P v))"
    "\<not> is_message fd" "texts_fit P fd ts xs"
  shows "\<exists>v'. populate_at P fd v ts = (v', Ok ()) \<and> others_kept P v fd v' \<and>
    (if fd_list fd then GetList P v' fd = GetList P v fd @ xs else [Get P v' fd] = xs)"
proof -
  note fd = plain_fieldD [OF assms(2)] and r = reflected [OF assms(1-3)]
  show ?thesis
  proof (cases "fd_list fd")
    case True
    have "field_reflected P w fd" if "MessageType P w = MessageType P v" for w
      using reflected [of P w fd] assms that by simp
    then obtain v' where "populateRepeatedField P fd v ts = (v', Ok ())" "others_kept P v fd v'" "GetList P v' fd = GetList P v fd @ xs"
      using append_all [of P v fd ts xs] r True assms(5) by (auto simp: texts_fit_def)
    with True fd show ?thesis by (simp add: populate_at_def)
  next
    case False
    with assms(5) have "length ts = 1" by (simp add: texts_fit_def)
    then obtain t where ts: "ts = [t]" by (cases ts) auto
    with assms(5) obtain x where x: "xs = [x]" "parseField P fd t = Ok x" "plain_value P fd x"
      by (auto simp: texts_fit_def list_all2_Cons1)
    then have "others_kept P v fd (SetField P v fd x)" "Get P (SetField P v fd x) fd = x"
      using r False assms(4) by (auto simp: field_reflected_def)
    with False fd ts x show ?thesis by (simp add: populate_at_def populateField_def)
  qed
qed

lemma same_field:
  assumes "plain_type P (Suc n) T" "g \<in> set (Fields P T)" "h \<in> set (Fields P T)" "field_key g = field_key h"
  shows "g = h"
  using plain_typeD(1) [OF assms(1,2)] plain_typeD(1) [OF assms(1,3)] assms(4) by (auto simp: plain_field_def)

text \<open>The leaves under a field are its own, and the others read as before when it changes.\<close>

lemma leaf_of_field:
  assumes "plain_type P (Suc n) T" "g \<in> set (Fields P T)" "q \<in> set (leaves P (Suc n) T)" "hd q = field_key g"
  shows "if is_message g then \<exists>q'. q = field_key g # q' \<and> q' \<in> set (leaves P n (the (fd_message g))) else q = [field_key g]"
  using assms(3)
proof (cases rule: in_leaves)
  case (1 h)
  then show ?thesis using same_field [OF assms(1) 1(1) assms(2)] assms(4) by auto
next
  case (2 h q')
  then show ?thesis using same_field [OF assms(1) 2(1) assms(2)] assms(4) by auto
qed

lemma leaf_others:
  assumes "plain_type P (Suc n) (MessageType P v)" "others_kept P v g v'" "q \<in> set (leaves P (Suc n) (MessageType P v))"
    "hd q \<noteq> field_key g"
  shows "leaf P v' q = leaf P v q"
  using assms(3)
proof (cases rule: in_leaves)
  case (1 h)
  with assms(4) show ?thesis using leaf_same [OF assms(2) plain_typeD(1) [OF assms(1) 1(1)] 1(1)] by auto
next
  case (2 h q')
  with assms(4) show ?thesis using leaf_same [OF assms(2) plain_typeD(1) [OF assms(1) 2(1)] 2(1)] by auto
qed

text \<open>\<open>filled v v' p fd xs\<close>: the values \<open>xs\<close> have reached the field \<open>fd\<close> at \<open>p\<close>, and no other.\<close>

definition filled :: "'m proto \<Rightarrow> nat \<Rightarrow> 'm \<Rightarrow> 'm \<Rightarrow> string list \<Rightarrow> field_desc \<Rightarrow> 'm pvalue list \<Rightarrow> bool" where
  "filled P n v v' p fd xs \<longleftrightarrow>
     MessageType P v' = MessageType P v \<and>
     leaf P v' p = Some (if fd_list fd then the (leaf P v p) @ xs else xs) \<and>
     (\<forall>q \<in> set (leaves P n (MessageType P v)). q \<noteq> p \<longrightarrow> leaf P v' q = leaf P v q)"

lemma scalar_filled:
  assumes "plain_type P (Suc n) (MessageType P v)" "fd \<in> set (Fields P (MessageType P v))" "\<not> is_message fd"
    "others_kept P v fd v'" "if fd_list fd then GetList P v' fd = GetList P v fd @ xs else [Get P v' fd] = xs"
  shows "filled P (Suc n) v v' [field_key fd] fd xs"
proof -
  note gd = plain_fieldD [OF plain_typeD(1) [OF assms(1,2)]]
  have ty: "MessageType P v' = MessageType P v" using assms(4) by (simp add: others_kept_def)
  have "leaf P v' q = leaf P v q" if q: "q \<in> set (leaves P (Suc n) (MessageType P v))" "q \<noteq> [field_key fd]" for q
    using leaf_others [OF assms(1,4) q(1)] leaf_of_field [OF assms(1,2) q(1)] assms(3) q(2) by auto
  with ty assms(5) gd(1) show ?thesis by (auto simp: filled_def split: if_splits)
qed

lemma nested_filled:
  assumes "plain_type P (Suc n) (MessageType P v)" "g \<in> set (Fields P (MessageType P v))" "is_message g"
    "Get P v g = PMessage m" "fd_message g = Some (MessageType P m)"
    "others_kept P v g v'" "Get P v' g = PMessage m'" "filled P n m m' p fd xs" "p \<noteq> []"
  shows "filled P (Suc n) v v' (field_key g # p) fd xs"
proof -
  note gd = plain_fieldD [OF plain_typeD(1) [OF assms(1,2)]]
  have ty: "MessageType P v' = MessageType P v" using assms(6) by (simp add: others_kept_def)
  have inside: "leaf P v' (field_key g # q) = leaf P m' q" "leaf P v (field_key g # q) = leaf P m q" if "q \<noteq> []" for q
    using gd(1) assms(4,7) ty that by simp_all
  have "leaf P v' q = leaf P v q" if q: "q \<in> set (leaves P (Suc n) (MessageType P v))" "q \<noteq> field_key g # p" for q
  proof (cases "hd q = field_key g")
    case True
    with leaf_of_field [OF assms(1,2) q(1)] assms(3,5)
    obtain q' where "q = field_key g # q'" "q' \<in> set (leaves P n (MessageType P m))" by auto
    moreover from this have "q' \<noteq> []" "leaf P m' q' = leaf P m q'"
      using leaves_nonempty assms(8) q(2) by (auto simp: filled_def)
    ultimately show ?thesis using inside [of q'] by (simp only: not_False_eq_True)
  qed (rule leaf_others [OF assms(1,6) q(1)])
  with ty inside [OF assms(9)] assms(8) show ?thesis by (simp add: filled_def)
qed

lemma populate_leaf:
  assumes "reflection P"
  shows "plain_type P n (MessageType P v) \<Longrightarrow> p \<in> set (leaves P n (MessageType P v)) \<Longrightarrow>
    field_at P (MessageType P v) p = Some fd \<Longrightarrow> texts_fit P fd ts xs \<Longrightarrow>
    \<exists>v'. populate_path P v p ts = (v', Ok ()) \<and> filled P n v v' p fd xs"
proof (induction n arbitrary: v p)
  case (Suc n)
  note prems = Suc.prems
  from prems(2) show ?case
  proof (cases rule: in_leaves)
    case (1 g)
    note pf = plain_typeD(1) [OF prems(1) 1(1)]
    note gd = plain_fieldD [OF pf]
    have g: "g = fd" using prems(3) 1 gd by simp
    obtain v' where v': "populate_at P fd v ts = (v', Ok ())" "others_kept P v fd v'"
      "if fd_list fd then GetList P v' fd = GetList P v fd @ xs else [Get P v' fd] = xs"
      using populate_scalar [OF assms, of v fd ts xs] pf 1 prems(4) g by auto
    then show ?thesis using scalar_filled [OF prems(1), of fd v' xs] 1 g gd(1) by simp
  next
    case (2 g p')
    note pf = plain_typeD(1) [OF prems(1) 2(1)]
    note gd = plain_fieldD [OF pf]
    have nl: "\<not> fd_list g" "p' \<noteq> []" using gd(6) 2 leaves_nonempty by auto
    let ?m = "Mutable P v g"
    have r: "Get P v g = PMessage ?m" "fd_message g = Some (MessageType P ?m)" "\<not> fd_repeated g"
      "\<And>m. MessageType P m = MessageType P ?m \<Longrightarrow> others_kept P v g (Put P v g m) \<and> Get P (Put P v g m) g = PMessage m"
      using reflected [OF assms pf 2(1)] nl 2(2) gd(3) by (auto simp: field_reflected_def)
    obtain m' where m': "populate_path P ?m p' ts = (m', Ok ())" "filled P n ?m m' p' fd xs"
      using Suc.IH [of ?m p'] prems(3,4) plain_typeD(2) [OF prems(1) 2(1,2)] 2 gd(1) nl(2) r(2) by auto
    have "others_kept P v g (Put P v g m')" "Get P (Put P v g m') g = PMessage m'"
      using r(4) [of m'] m'(2) by (auto simp: filled_def)
    then have "filled P (Suc n) v (Put P v g m') p fd xs"
      unfolding 2(3) by (intro nested_filled [OF prems(1) 2(1,2) r(1,2) _ _ m'(2) nl(2)])
    moreover have "populate_path P v p ts = (Put P v g m', Ok ())"
      using 2 gd(1) nl r(2,3) m'(1) by simp
    ultimately show ?thesis by blast
  qed
qed simp

subsection \<open>What is written\<close>

definition field_paths :: "'m proto \<Rightarrow> nat \<Rightarrow> field_desc \<Rightarrow> string list list" where
  "field_paths P n fd =
     (if is_message fd then map (Cons (field_key fd)) (leaves P n (the (fd_message fd))) else [[field_key fd]])"

definition field_text :: "'m proto \<Rightarrow> field_desc \<Rightarrow> 'm pvalue \<Rightarrow> string" where
  "field_text P fd x = (case encodeField P fd x of Ok t \<Rightarrow> t | _ \<Rightarrow> [])"

definition leaf_texts :: "'m proto \<Rightarrow> 'm \<Rightarrow> string list \<Rightarrow> string list" where
  "leaf_texts P v p = map (field_text P (the (field_at P (MessageType P v) p))) (the (leaf P v p))"

definition entries :: "'m proto \<Rightarrow> 'm \<Rightarrow> string list list \<Rightarrow> (string list \<times> string list) list" where
  "entries P v ps = map (\<lambda>p. (p, leaf_texts P v p)) (filter (\<lambda>p. the (leaf P v p) \<noteq> []) ps)"

definition dotted :: "string \<Rightarrow> string list \<Rightarrow> string" where
  "dotted path p = join_str ''.'' (if path = [] then p else path # p)"

definition put_entries :: "string \<Rightarrow> (string list \<times> string list) list \<Rightarrow> url_values \<Rightarrow> url_values" where
  "put_entries path es u = foldl (\<lambda>u (p, ts). AList.update (dotted path p) ts u) u es"

lemma leaves_paths: "leaves P (Suc n) T = concat (map (field_paths P n) (Fields P T))"
  by (simp add: field_paths_def [abs_def])

lemma entries_append: "entries P v (ps @ qs) = entries P v ps @ entries P v qs"
  by (simp add: entries_def)

lemma put_entries_append: "put_entries path (es @ fs) u = put_entries path fs (put_entries path es u)"
  by (simp add: put_entries_def)

lemma dotted_Cons: "p \<noteq> [] \<Longrightarrow> key \<noteq> [] \<Longrightarrow> dotted (new_path path key) p = dotted path (key # p)"
  by (cases p) (auto simp: dotted_def new_path_def)

lemma dotted_single: "dotted path [key] = new_path path key"
  by (simp add: dotted_def new_path_def)

lemma nested_entries:
  assumes "find_field (Fields P (MessageType P v)) key = Some g" "Get P v g = PMessage m" "fd_message g = Some (MessageType P m)"
    "[] \<notin> set ps"
  shows "entries P v (map (Cons key) ps) = map (apfst (Cons key)) (entries P m ps)"
proof -
  have "leaf P v (key # p) = leaf P m p" "leaf_texts P v (key # p) = leaf_texts P m p" if "p \<in> set ps" for p
  proof -
    have "p \<noteq> []" using that assms(4) by auto
    with assms show "leaf P v (key # p) = leaf P m p" "leaf_texts P v (key # p) = leaf_texts P m p"
      by (simp_all add: leaf_texts_def)
  qed
  then show ?thesis
    using assms(4) by (induction ps) (auto simp: entries_def)
qed

lemma put_nested_entries:
  "key \<noteq> [] \<Longrightarrow> [] \<notin> fst ` set es \<Longrightarrow> put_entries path (map (apfst (Cons key)) es) u = put_entries (new_path path key) es u"
  by (induction es arbitrary: u) (auto simp: put_entries_def dotted_Cons)

lemma encodeMessage_plain: "T \<notin> set well_known \<Longrightarrow> encodeMessage P T v = Err (UnsupportedMessage T)"
  by (simp add: encodeMessage_def well_known_def)

lemma encode_plain:
  assumes "enums_registered P" "plain_value P fd x"
  shows "encodeField P fd x = Ok (field_text P fd x)" "parseField P fd (field_text P fd x) = Ok x"
  using plain_value_roundtrip [OF assms] by (auto simp: field_text_def)

lemma encode_list_plain:
  "enums_registered P \<Longrightarrow> list_all (plain_value P fd) xs \<Longrightarrow> encodeRepeatedField P fd xs = Ok (map (field_text P fd) xs)"
  by (induction xs) (auto simp: encode_plain)

lemma plain_nested:
  assumes "plain_message P (Suc n) v" "g \<in> set (Fields P (MessageType P v))" "is_message g"
    "find_field (Fields P (MessageType P v)) (field_key g) = Some g" "Get P v g = PMessage m" "fd_message g = Some (MessageType P m)"
  shows "plain_message P n m"
  unfolding plain_message_def
proof (intro ballI allI impI)
  fix p fd assume p: "p \<in> set (leaves P n (MessageType P m))" "field_at P (MessageType P m) p = Some fd"
  then have "p \<noteq> []" using leaves_nonempty by blast
  then have "leaf P v (field_key g # p) = leaf P m p" "field_at P (MessageType P v) (field_key g # p) = Some fd"
    using p assms by simp_all
  moreover have "field_key g # p \<in> set (leaves P (Suc n) (MessageType P v))"
    using p assms(2,3,6) by (auto intro!: bexI [of _ g])
  ultimately show "list_all (plain_value P fd) (the (leaf P m p))"
    using assms(1) unfolding plain_message_def by metis
qed

lemma encode_plain_fields:
  assumes "reflection P"
  shows "plain_type P n (MessageType P v) \<Longrightarrow> plain_message P n v \<Longrightarrow>
    set fds \<subseteq> set (Fields P (MessageType P v)) \<Longrightarrow> n = Suc k \<Longrightarrow>
    encode_fields P fds v path u = Some (Ok (put_entries path (entries P v (concat (map (field_paths P k) fds))) u))"
proof (induction n arbitrary: k v fds path u)
  case (Suc n)
  have k: "k = n" using Suc.prems by simp
  show ?case
    using Suc.prems(3)
  proof (induction fds arbitrary: u)
    case Nil
    then show ?case by (subst encode_fields.simps) (simp add: entries_def put_entries_def)
  next
    case (Cons g fds)
    have g: "g \<in> set (Fields P (MessageType P v))" using Cons.prems by simp
    note pf = plain_typeD(1) [OF Suc.prems(1) g]
    note gd = plain_fieldD [OF pf] and r = reflected [OF assms pf g]
    have reg: "enums_registered P" using assms by (simp add: reflection_def)
    have ih: "encode_fields P fds v path u' = Some (Ok (put_entries path (entries P v (concat (map (field_paths P k) fds))) u'))" for u'
      using Cons by simp
    let ?es = "entries P v (field_paths P k g)"
    have goal: "put_entries path (entries P v (concat (map (field_paths P k) (g # fds)))) u
      = put_entries path (entries P v (concat (map (field_paths P k) fds))) (put_entries path ?es u)"
      by (simp add: entries_append put_entries_append)
    show ?case
    proof (cases "is_message g")
      case True
      then obtain T' where T': "fd_message g = Some T'" "T' \<notin> set well_known" "\<not> fd_list g" using gd by blast
      let ?m = "Mutable P v g"
      have m: "Get P v g = PMessage ?m" "T' = MessageType P ?m"
        using r T' True by (auto simp: field_reflected_def)
      have pt: "plain_type P n (MessageType P ?m)" using plain_typeD(2) [OF Suc.prems(1) g True] T' m by simp
      then obtain j where j: "n = Suc j" by (cases n) auto
      have pm: "plain_message P n ?m"
        using plain_nested [OF Suc.prems(2) g True gd(1) m(1)] T' m by simp
      have nn: "[] \<notin> set (leaves P n (MessageType P ?m))" using leaves_nonempty by blast
      then have ne: "[] \<notin> fst ` set (entries P ?m (leaves P n (MessageType P ?m)))" by (auto simp: entries_def)
      have es: "?es = map (apfst (Cons (field_key g))) (entries P ?m (leaves P n (MessageType P ?m)))"
        using nested_entries [OF gd(1) m(1) _ nn] True T' m k by (simp add: field_paths_def)
      have "put_entries path ?es u = put_entries (new_path path (field_key g)) (entries P ?m (leaves P n (MessageType P ?m))) u"
        unfolding es by (rule put_nested_entries [OF gd(4) ne])
      moreover have "encode_fields P (Fields P (MessageType P ?m)) ?m (new_path path (field_key g)) u
        = Some (Ok (put_entries (new_path path (field_key g)) (entries P ?m (leaves P n (MessageType P ?m))) u))"
        using Suc.IH [OF pt pm subset_refl j] j by (simp only: leaves_paths)
      ultimately show ?thesis
        unfolding goal using True T' m gd ih
        by (subst encode_fields.simps) (simp add: encode_as_message_def encodeMessage_plain value_Message_def)
    next
      case False
      have leaf: "field_at P (MessageType P v) [field_key g] = Some g"
        "leaf P v [field_key g] = Some (if fd_list g then GetList P v g else [Get P v g])" using gd by simp_all
      have "[field_key g] \<in> set (leaves P (Suc n) (MessageType P v))" using False g by (auto intro!: bexI [of _ g])
      then have pv: "list_all (plain_value P g) (if fd_list g then GetList P v g else [Get P v g])"
        using Suc.prems(2) leaf unfolding plain_message_def by (metis option.sel)
      show ?thesis
      proof (cases "fd_list g")
        case True
        with False leaf have "put_entries path ?es u = (if GetList P v g = [] then u else
            AList.update (new_path path (field_key g)) (map (field_text P g) (GetList P v g)) u)"
          by (simp add: field_paths_def entries_def put_entries_def leaf_texts_def dotted_single)
        with True pv gd ih show ?thesis
          unfolding goal by (subst encode_fields.simps) (simp add: encode_list_plain [OF reg])
      next
        case nl: False
        with False leaf have "put_entries path ?es u = AList.update (new_path path (field_key g)) [field_text P g (Get P v g)] u"
          by (simp add: field_paths_def entries_def put_entries_def leaf_texts_def dotted_single)
        with nl False pv gd ih show ?thesis
          unfolding goal by (subst encode_fields.simps) (simp add: encode_plain(1) [OF reg])
      qed
    qed
  qed
qed simp


subsection \<open>The round trip\<close>

lemma put_entries_fresh:
  "distinct (map fst u @ map (\<lambda>e. dotted path (fst e)) es) \<Longrightarrow>
   put_entries path es u = u @ map (\<lambda>(p, ts). (dotted path p, ts)) es"
proof (induction es arbitrary: u)
  case (Cons e es)
  obtain p ts where e: "e = (p, ts)" by fastforce
  have "AList.update (dotted path p) ts u = u @ [(dotted path p, ts)]"
    using Cons.prems e by (induction u) auto
  then show ?case using Cons.IH [of "u @ [(dotted path p, ts)]"] Cons.prems e by (simp add: put_entries_def)
qed (simp add: put_entries_def)

lemma leaves_plain:
  "plain_type P n T \<Longrightarrow> p \<in> set (leaves P n T) \<Longrightarrow> list_all (\<lambda>c. CHR ''.'' \<notin> set c) p"
proof (induction n arbitrary: T p)
  case (Suc n)
  from Suc.prems(2) show ?case
  proof (cases rule: in_leaves)
    case (1 fd)
    then show ?thesis using plain_fieldD(5) [OF plain_typeD(1) [OF Suc.prems(1) 1(1)]] by simp
  next
    case (2 fd q)
    then show ?thesis
      using plain_fieldD(5) [OF plain_typeD(1) [OF Suc.prems(1) 2(1)]]
        Suc.IH [OF plain_typeD(2) [OF Suc.prems(1) 2(1,2)] 2(4)] by simp
  qed
qed simp

lemma split_dotted:
  assumes "plain_type P n T" "p \<in> set (leaves P n T)"
  shows "split_str (dotted [] p) ''.'' = p"
  using split_join [of p "CHR ''.''" "[]"] leaves_plain [OF assms] leaves_nonempty [OF assms(2)]
  by (simp add: dotted_def list_all_iff)

lemma distinct_leaves: "plain_type P n T \<Longrightarrow> distinct (leaves P n T)"
proof (induction n arbitrary: T)
  case (Suc n)
  note key = same_field [OF Suc.prems]
  have one: "distinct (field_paths P n g)" if "g \<in> set (Fields P T)" for g
    using Suc.IH plain_typeD(2) [OF Suc.prems that] by (auto simp: field_paths_def distinct_map)
  have hd: "hd p = field_key g" if "p \<in> set (field_paths P n g)" for p g
    using that by (auto simp: field_paths_def split: if_splits)
  have "distinct (concat (map (field_paths P n) fds))" if "distinct fds" "set fds \<subseteq> set (Fields P T)" for fds
    using that
  proof (induction fds)
    case (Cons g fds)
    have "p \<notin> set (field_paths P n h)" if "p \<in> set (field_paths P n g)" "h \<in> set fds" for p h
      using hd [OF that(1)] hd [of p h] key [of g h] Cons.prems that(2) by auto
    then show ?case using Cons one by auto
  qed simp
  then show ?case using Suc.prems unfolding leaves_paths by simp
qed simp

lemma leaf_defined:
  assumes "reflection P"
  shows "plain_type P n (MessageType P v) \<Longrightarrow> p \<in> set (leaves P n (MessageType P v)) \<Longrightarrow>
    \<exists>fd xs. field_at P (MessageType P v) p = Some fd \<and> leaf P v p = Some xs \<and> (fd_list fd \<or> length xs = 1)"
proof (induction n arbitrary: v p)
  case (Suc n)
  from Suc.prems(2) show ?case
  proof (cases rule: in_leaves)
    case (1 g)
    then show ?thesis using plain_fieldD(1) [OF plain_typeD(1) [OF Suc.prems(1) 1(1)]] by simp
  next
    case (2 g q)
    note pf = plain_typeD(1) [OF Suc.prems(1) 2(1)]
    let ?m = "Mutable P v g"
    have m: "Get P v g = PMessage ?m" "fd_message g = Some (MessageType P ?m)"
      using reflected [OF assms pf 2(1)] 2(2) plain_fieldD(6) [OF pf] by (auto simp: field_reflected_def)
    then have "\<exists>fd xs. field_at P (MessageType P ?m) q = Some fd \<and> leaf P ?m q = Some xs \<and> (fd_list fd \<or> length xs = 1)"
      using Suc.IH [of ?m q] plain_typeD(2) [OF Suc.prems(1) 2(1,2)] 2(4) by simp
    then show ?thesis using m 2 plain_fieldD(1) [OF pf] leaves_nonempty [OF 2(4)] by simp
  qed
qed simp

lemma MapProto_fills:
  assumes "reflection P" "plain_type P n T"
    "\<forall>p \<in> set ps. p \<in> set (leaves P n T) \<and> (\<exists>fd. field_at P T p = Some fd \<and> texts_fit P fd (ts p) (xs p))"
  shows "set qs \<subseteq> set ps \<Longrightarrow> distinct qs \<Longrightarrow> MessageType P w = T \<Longrightarrow>
    (\<forall>p \<in> set qs. \<forall>fd. field_at P T p = Some fd \<longrightarrow> fd_list fd \<longrightarrow> leaf P w p = Some []) \<Longrightarrow>
    \<exists>w'. MapProto P w (map (\<lambda>p. (dotted [] p, ts p)) qs) = (w', Ok ()) \<and> MessageType P w' = T \<and>
      (\<forall>p \<in> set (leaves P n T). leaf P w' p = (if p \<in> set qs then Some (xs p) else leaf P w p))"
proof (induction qs arbitrary: w)
  case (Cons q qs)
  then obtain fd where q: "q \<in> set (leaves P n T)" "field_at P T q = Some fd" "texts_fit P fd (ts q) (xs q)"
    using assms(3) by auto
  obtain w1 where w1: "populate_path P w q (ts q) = (w1, Ok ())" "MessageType P w1 = T"
    "leaf P w1 q = Some (xs q)" "\<forall>p \<in> set (leaves P n T). p \<noteq> q \<longrightarrow> leaf P w1 p = leaf P w p"
    using populate_leaf [OF assms(1), of n w q fd "ts q" "xs q"] assms(2) q Cons.prems by (auto simp: filled_def split: if_splits)
  have "populateFieldValues P w (split_str (dotted [] q) ''.'') (ts q) = (w1, Ok ())"
    using w1(1) q(3) leaves_nonempty [OF q(1)] by (simp add: split_dotted [OF assms(2) q(1)] populateFieldValues_def texts_fit_def)
  moreover have "leaf P w1 p = Some []" if "p \<in> set qs" "field_at P T p = Some fd'" "fd_list fd'" for p fd'
  proof -
    have "p \<in> set (leaves P n T)" "p \<noteq> q" using that Cons.prems(1,2) assms(3) by auto
    then have "leaf P w1 p = leaf P w p" using w1(4) by blast
    then show ?thesis using Cons.prems(4) that by simp
  qed
  then obtain w' where "MapProto P w1 (map (\<lambda>p. (dotted [] p, ts p)) qs) = (w', Ok ())" "MessageType P w' = T"
    "\<forall>p \<in> set (leaves P n T). leaf P w' p = (if p \<in> set qs then Some (xs p) else leaf P w1 p)"
    using Cons.IH [of w1] Cons.prems w1(2) by auto
  ultimately show ?case using w1(3,4) by auto
qed simp


lemma encoded_message:
  assumes "reflection P" "plain_type P n (MessageType P v)" "plain_message P n v"
  defines "ps \<equiv> filter (\<lambda>p. the (leaf P v p) \<noteq> []) (leaves P n (MessageType P v))"
  shows "EncodeMap P (Some v) = Some (Ok (map (\<lambda>p. (dotted [] p, leaf_texts P v p)) ps))"
    "distinct (map (dotted []) ps)" "\<forall>p \<in> set ps. leaf_texts P v p \<noteq> []"
    "\<forall>p \<in> set ps. \<exists>fd. field_at P (MessageType P v) p = Some fd \<and> texts_fit P fd (leaf_texts P v p) (the (leaf P v p))"
proof -
  obtain k where k: "n = Suc k" using assms(2) by (cases n) auto
  have inj: "inj_on (dotted []) (set (leaves P n (MessageType P v)))"
    by (rule inj_on_inverseI [where g = "\<lambda>s. split_str s ''.''"]) (rule split_dotted [OF assms(2)])
  then show d: "distinct (map (dotted []) ps)"
    using distinct_leaves [OF assms(2)] by (auto simp: ps_def distinct_map intro: inj_on_subset)
  have "encode_fields P (Fields P (MessageType P v)) v [] [] = Some (Ok (put_entries [] (entries P v (leaves P n (MessageType P v))) []))"
    using encode_plain_fields [OF assms(1-3) subset_refl k] k by (simp only: leaves_paths)
  also have "put_entries [] (entries P v (leaves P n (MessageType P v))) [] = map (\<lambda>p. (dotted [] p, leaf_texts P v p)) ps"
    using put_entries_fresh [of "[]" "[]" "entries P v (leaves P n (MessageType P v))"] d
    by (simp add: entries_def ps_def comp_def)
  finally show "EncodeMap P (Some v) = Some (Ok (map (\<lambda>p. (dotted [] p, leaf_texts P v p)) ps))"
    by (simp add: EncodeMap_def encodeByField_def)
  show "\<forall>p \<in> set ps. leaf_texts P v p \<noteq> []" by (auto simp: ps_def leaf_texts_def)
  show "\<forall>p \<in> set ps. \<exists>fd. field_at P (MessageType P v) p = Some fd \<and> texts_fit P fd (leaf_texts P v p) (the (leaf P v p))"
  proof
    fix p assume "p \<in> set ps"
    then have p: "p \<in> set (leaves P n (MessageType P v))" "the (leaf P v p) \<noteq> []" by (auto simp: ps_def)
    obtain fd xs where fd: "field_at P (MessageType P v) p = Some fd" "leaf P v p = Some xs" "fd_list fd \<or> length xs = 1"
      using leaf_defined [OF assms(1,2) p(1)] by blast
    have pv: "list_all (plain_value P fd) xs" using assms(3) p(1) fd(1,2) unfolding plain_message_def by (metis option.sel)
    moreover have "enums_registered P" using assms(1) by (simp add: reflection_def)
    ultimately have "list_all2 (\<lambda>t x. parseField P fd t = Ok x) (map (field_text P fd) xs) xs"
      by (auto simp: list_all2_map1 list_all_iff encode_plain(2) intro!: list_all2_all_nthI)
    then show "\<exists>fd. field_at P (MessageType P v) p = Some fd \<and> texts_fit P fd (leaf_texts P v p) (the (leaf P v p))"
      using fd p(2) pv by (auto simp: texts_fit_def leaf_texts_def)
  qed
qed

lemma values_of_own: "distinct (map fst vs) \<Longrightarrow> map (\<lambda>k. (k, values_of vs k)) (map fst vs) = vs"
proof -
  assume d: "distinct (map fst vs)"
  have "(fst e, values_of vs (fst e)) = e" if "e \<in> set vs" for e
    using map_of_is_SomeI [OF d, of "fst e" "snd e"] that by (simp add: values_of_def)
  then show ?thesis by (simp add: map_idI comp_def)
qed

lemma reordered:
  assumes "mset L = image_mset f (mset xs)" "\<And>x. x \<in> set xs \<Longrightarrow> g (f x) = x"
  shows "\<exists>ys. map f ys = L \<and> mset ys = mset xs"
proof (intro exI conjI)
  have "set L = f ` set xs" using assms(1) by (metis set_mset_mset set_image_mset)
  then show "map f (map g L) = L" using assms(2) unfolding map_map by (intro map_idI) auto
  have "mset (map g L) = image_mset (\<lambda>x. g (f x)) (mset xs)"
    by (simp only: mset_map assms(1) image_mset.compositionality comp_def)
  also have "\<dots> = image_mset (\<lambda>x. x) (mset xs)" using assms(2) by (intro image_mset_cong) simp
  finally show "mset (map g L) = mset xs" by simp
qed



text \<open>An address book entry: a name, a list of tags and a nested address.\<close>

datatype pmsg = PMsg string "(string \<times> pmsg pvalue list) list"

fun msg_type :: "pmsg \<Rightarrow> string" where "msg_type (PMsg T fs) = T"

fun msg_values :: "pmsg \<Rightarrow> string \<Rightarrow> pmsg pvalue list" where
  "msg_values (PMsg T fs) n = (case map_of fs n of None \<Rightarrow> [] | Some xs \<Rightarrow> xs)"

fun msg_put :: "pmsg \<Rightarrow> string \<Rightarrow> pmsg pvalue list \<Rightarrow> pmsg" where
  "msg_put (PMsg T fs) n xs = PMsg T (AList.update n xs fs)"

fun read_as :: "string option \<Rightarrow> pmsg pvalue list \<Rightarrow> pmsg pvalue" where
  "read_as None [x] = x"
| "read_as None xs = PString []"
| "read_as (Some T) [PMessage m] = (if msg_type m = T then PMessage m else PMessage (PMsg T []))"
| "read_as (Some T) xs = PMessage (PMsg T [])"

definition msg_get :: "pmsg \<Rightarrow> field_desc \<Rightarrow> pmsg pvalue" where
  "msg_get v fd = read_as (fd_message fd) (msg_values v (fd_name fd))"

lemma read_as_message: "\<exists>m. read_as (Some T) xs = PMessage m \<and> msg_type m = T"
  by (induction "Some T" xs rule: read_as.induct) auto

definition example_field :: "string \<Rightarrow> kind \<Rightarrow> bool \<Rightarrow> string option \<Rightarrow> field_desc" where
  "example_field n k l T =
     \<lparr>fd_name = n, fd_text_name = n, fd_json = n, fd_has_json = True, fd_full = n, fd_kind = k, fd_list = l, fd_map = False,
      fd_repeated = l, fd_oneof = None, fd_message = T, fd_enum = []\<rparr>"

definition example_fields :: "string \<Rightarrow> field_desc list" where
  "example_fields T =
     (if T = ''Person'' then
        [example_field ''name'' StringKind False None, example_field ''tags'' StringKind True None,
         example_field ''address'' MessageKind False (Some ''Address'')]
      else if T = ''Address'' then [example_field ''city'' StringKind False None, example_field ''zip'' Int32Kind False None]
      else [])"

definition example_proto :: "pmsg proto" where
  "example_proto =
     \<lparr>MessageType = msg_type, Fields = example_fields, MapKey = \<lambda>fd. fd, MapValue = \<lambda>fd. fd,
      EnumValues = \<lambda>n. [], FindEnum = \<lambda>n. Ok [], WhichOneof = \<lambda>v n. None, Get = msg_get,
      GetList = \<lambda>v fd. msg_values v (fd_name fd), GetMap = \<lambda>v fd. [],
      SetField = \<lambda>v fd x. msg_put v (fd_name fd) [x],
      AppendList = \<lambda>v fd x. msg_put v (fd_name fd) (msg_values v (fd_name fd) @ [x]), SetMap = \<lambda>v fd k x. v,
      Mutable = \<lambda>v fd. (case msg_get v fd of PMessage m \<Rightarrow> m | _ \<Rightarrow> v), Put = \<lambda>v fd m. msg_put v (fd_name fd) [PMessage m],
      AsTimestamp = \<lambda>m. None, AsDuration = \<lambda>m. None, AsBytesValue = \<lambda>m. None, AsFieldMask = \<lambda>m. None,
      NewTimestamp = \<lambda>t. PMsg [] [], NewDuration = \<lambda>d. PMsg [] [], NewWrapper = \<lambda>x. PMsg [] [], NewFieldMask = \<lambda>ps. PMsg [] [],
      message_text = \<lambda>m. [], float32_text = \<lambda>x. [], float64_text = \<lambda>x. [], parse_float32 = \<lambda>s. Err ErrSyntax,
      parse_float64 = \<lambda>s. Err ErrSyntax, FormatTime = \<lambda>t. [], ParseTimeText = \<lambda>s. None, FormatDuration = \<lambda>d. [],
      ParseDurationText = \<lambda>s. None\<rparr>"

definition example_person :: pmsg where
  "example_person =
     PMsg ''Person'' [(''name'', [PString ''A & B'']), (''tags'', [PString ''x'', PString ''y'']),
       (''address'', [PMessage (PMsg ''Address'' [(''city'', [PString ''Z'']), (''zip'', [PInt32 8000])])])]"

lemma msg_put_reads [simp]:
  "msg_type (msg_put v n xs) = msg_type v" "msg_values (msg_put v n xs) m = (if m = n then xs else msg_values v m)"
  by (cases v; simp add: update_conv')+

lemma msg_get_put: "fd_name g \<noteq> n \<Longrightarrow> msg_get (msg_put v n xs) g = msg_get v g"
  by (simp add: msg_get_def)

lemma example_reflection: "reflection example_proto"
proof -
  have "field_reflected example_proto v fd" if fd: "fd \<in> set (example_fields (msg_type v))" for v fd
  proof -
    have names: "g = fd" if "g \<in> set (example_fields (msg_type v))" "fd_name g = fd_name fd" for g
      using fd that by (auto simp: example_fields_def example_field_def split: if_splits)
    have others: "others_kept example_proto v fd (msg_put v (fd_name fd) xs)" for xs
      using names by (auto simp: others_kept_def example_proto_def msg_get_def)
    have set: "msg_get (msg_put v (fd_name fd) [x]) fd = x" if "fd_message fd = None" for x
      using that by (simp add: msg_get_def)
    consider "fd_list fd" "fd_repeated fd" | "\<not> fd_list fd" "\<not> fd_repeated fd" "\<not> fd_map fd" "is_message fd" "fd_message fd = Some ''Address''"
      | "\<not> fd_list fd" "\<not> fd_repeated fd" "\<not> fd_map fd" "\<not> is_message fd" "fd_message fd = None"
      using fd by (auto simp: example_fields_def example_field_def is_message_def split: if_splits)
    then show ?thesis
    proof cases
      case 1
      with others show ?thesis by (simp add: field_reflected_def example_proto_def)
    next
      case 2
      with others show ?thesis
        using read_as_message [of "''Address''" "msg_values v (fd_name fd)"]
        by (auto simp: field_reflected_def example_proto_def msg_get_def)
    next
      case 3
      with others set show ?thesis by (simp add: field_reflected_def example_proto_def)
    qed
  qed
  then show ?thesis by (simp add: reflection_def enums_registered_def, simp add: example_proto_def)
qed

text \<open>A package for other values that refuses them all.\<close>

definition no_form_lib :: "unit form_lib" where
  "no_form_lib = \<lparr>form_Encode = \<lambda>v. Err (OtherCodec ''unsupported type''), form_Decode = \<lambda>v u. (v, Err (OtherCodec ''unsupported type''))\<rparr>"


end
