(* ===== verification/FormLoss.thy ===== *)
theory FormLoss
  imports FormRoundtrip
begin

text \<open>
  What the form codec of \<^verbatim>\<open>pkg/encoding/form\<close> does not carry: recursive types, maps, the wrapper types and the other
  well-known types, and bytes.
\<close>

subsection \<open>Recursive types\<close>

text \<open>A field outside oneofs whose type is the one it belongs to.\<close>

definition recursive_field :: "'m proto \<Rightarrow> string \<Rightarrow> field_desc \<Rightarrow> bool" where
  "recursive_field P T fd \<longleftrightarrow>
     fd \<in> set (Fields P T) \<and> fd_oneof fd = None \<and> \<not> fd_list fd \<and> \<not> fd_map fd \<and> is_message fd \<and>
     fd_message fd = Some T \<and> T \<notin> set well_known"

lemma recursive_field_encoded:
  assumes "recursive_field P T fd" "Get P v fd = PMessage m"
  shows "encode_as_message P fd (Get P v fd) = Err (UnsupportedMessage T)" "value_Message (Get P v fd) = Ok m"
  using assms by (simp_all add: recursive_field_def encode_as_message_def encodeMessage_plain value_Message_def)

lemma recursive_fields_fail:
  assumes "encode_fields P fds v path u = Some r" "recursive_field P T fd"
    and sub: "\<And>v. MessageType P v = T \<Longrightarrow> \<exists>m. Get P v fd = PMessage m \<and> MessageType P m = T"
    and start: "fd \<in> set fds" "MessageType P v = T"
  shows "r \<noteq> Ok u'" "\<not> (hd fds = fd \<and> hd (Fields P T) = fd)"
proof -
  have f: "fd_oneof fd = None" "\<not> fd_list fd" "\<not> fd_map fd" "is_message fd" "fd \<in> set (Fields P T)"
    using assms(2) by (auto simp: recursive_field_def)
  have "fd \<in> set fds \<and> MessageType P v = T \<longrightarrow> (\<forall>u'. r \<noteq> Ok u') \<and> \<not> (hd fds = fd \<and> hd (Fields P T) = fd)"
  proof (rule encode_fields.raw_induct [where P = "\<lambda>Q fds v path u r. Q = P \<longrightarrow>
      fd \<in> set fds \<and> MessageType P v = T \<longrightarrow> (\<forall>u'. r \<noteq> Ok u') \<and> \<not> (hd fds = fd \<and> hd (Fields P T) = fd)",
      OF _ assms(1), THEN mp, OF _ refl])
    fix enc Q fds v path u r
    assume IH: "\<And>Q fds v path u r. enc Q fds v path u = Some r \<Longrightarrow> Q = P \<longrightarrow>
        fd \<in> set fds \<and> MessageType P v = T \<longrightarrow> (\<forall>u'. r \<noteq> Ok u') \<and> \<not> (hd fds = fd \<and> hd (Fields P T) = fd)"
      and body: "     (case fds of
        [] \<Rightarrow> Some (Ok u)
      | fd # rest \<Rightarrow>
          (if fd_oneof fd \<noteq> None then enc Q rest v path u
           else if fd_list fd then
             (if GetList Q v fd = [] then enc Q rest v path u
              else case encodeRepeatedField Q fd (GetList Q v fd) of
                Err e \<Rightarrow> Some (Err e)
              | Panic p \<Rightarrow> Some (Panic p)
              | Ok ts \<Rightarrow> enc Q rest v path (AList.update (new_path path (field_key fd)) ts u))
           else if fd_map fd then
             (case encodeMapField Q fd (GetMap Q v fd) [] of
                Err e \<Rightarrow> Some (Err e)
              | Panic p \<Rightarrow> Some (Panic p)
              | Ok m \<Rightarrow> enc Q rest v path (put_map (new_path path (field_key fd)) m u))
           else if is_message fd then
             (case encode_as_message Q fd (Get Q v fd) of
                Ok t \<Rightarrow> enc Q rest v path (AList.update (new_path path (field_key fd)) [t] u)
              | Panic p \<Rightarrow> Some (Panic p)
              | Err e \<Rightarrow>
                  (case value_Message (Get Q v fd) of
                     Ok sub \<Rightarrow>
                       Option.bind (enc Q (Fields Q (MessageType Q sub)) sub (new_path path (field_key fd)) u)
                         (\<lambda>r. case r of
                            Ok u' \<Rightarrow> enc Q rest v path u'
                          | Err e \<Rightarrow> Some (Err e)
                          | Panic p \<Rightarrow> Some (Panic p))
                   | Err e \<Rightarrow> Some (Err e)
                   | Panic p \<Rightarrow> Some (Panic p)))
           else
             (case encodeField Q fd (Get Q v fd) of
                Err e \<Rightarrow> Some (Err e)
              | Panic p \<Rightarrow> Some (Panic p)
              | Ok t \<Rightarrow> enc Q rest v path (AList.update (new_path path (field_key fd)) [t] u)))) = Some r"
    show "Q = P \<longrightarrow> fd \<in> set fds \<and> MessageType P v = T \<longrightarrow> (\<forall>u'. r \<noteq> Ok u') \<and> \<not> (hd fds = fd \<and> hd (Fields P T) = fd)"
    proof (intro impI, elim conjE)
      assume Q: "Q = P" and fd: "fd \<in> set fds" and ty: "MessageType P v = T"
      then obtain g rest where fds: "fds = g # rest" by (cases fds) auto
      obtain m where m: "Get P v fd = PMessage m" "MessageType P m = T" using sub [OF ty] by blast
      show "(\<forall>u'. r \<noteq> Ok u') \<and> \<not> (hd fds = fd \<and> hd (Fields P T) = fd)"
      proof (cases "g = fd")
        case True
        with body fds Q m(2) f obtain r1 where r1: "enc P (Fields P T) m (new_path path (field_key fd)) u = Some r1"
          "(case r1 of Ok u' \<Rightarrow> enc P rest v path u' | Err e \<Rightarrow> Some (Err e) | Panic p \<Rightarrow> Some (Panic p)) = Some r"
          by (auto simp: recursive_field_encoded [OF assms(2) m(1)] bind_eq_Some_conv)
        with IH [OF r1(1)] f(5) m(2) show ?thesis by (cases r1) auto
      next
        case False
        with fd fds have "fd \<in> set rest" by simp
        then have rest: "\<forall>u'. r' \<noteq> Ok u'" if "enc P rest v path u1 = Some r'" for u1 r' using IH [OF that] ty by blast
        from body False fds Q rest show ?thesis
          by (auto simp: bind_eq_Some_conv split: if_splits res.splits) (metis res.exhaust)
      qed
    qed
  qed
  then show "r \<noteq> Ok u'" "\<not> (hd fds = fd \<and> hd (Fields P T) = fd)" using start by blast+
qed


definition node_field :: field_desc where
  "node_field = example_field ''next'' MessageKind False (Some ''Node'')"

definition node_proto :: "pmsg proto" where
  "node_proto = example_proto\<lparr>Fields := \<lambda>T. if T = ''Node'' then [node_field] else []\<rparr>"



subsection \<open>Maps\<close>

lemma split_hd: "hd (split_str s [c]) = takeWhile (\<lambda>x. x \<noteq> c) s"
proof -
  have "hd (split_acc [c] acc s) = rev acc @ takeWhile (\<lambda>x. x \<noteq> c) s" for acc
    by (induction s arbitrary: acc) auto
  then show ?thesis by (simp add: split_str_def)
qed

lemma MapProto_ignores:
  "\<forall>(key, ss) \<in> set vs. ss \<noteq> [] \<and> find_field (Fields P (MessageType P w)) (hd (split_str key ''.'')) = None \<Longrightarrow>
   MapProto P w vs = (w, Ok ())"
proof (induction vs)
  case (Cons e vs)
  obtain key ss where e: "e = (key, ss)" by fastforce
  obtain c cs where c: "split_str key ''.'' = c # cs" using split_str_nonempty by (metis neq_Nil_conv)
  with Cons e show ?case by (simp add: populateFieldValues_def)
qed simp

lemma encode_string_map:
  assumes "fd_kind (MapValue P fd) = StringKind" "distinct (map fst m @ map fst es)"
  shows "encodeMapField P fd (map (\<lambda>(k, x). (PString k, PString x)) es) m = Ok (m @ es)"
  using assms(2)
proof (induction es arbitrary: m)
  case (Cons e es)
  obtain k x where e: "e = (k, x)" by fastforce
  have "AList.update k x m = m @ [(k, x)]" using Cons.prems e by (induction m) auto
  then show ?case using Cons.IH [of "m @ [(k, x)]"] Cons.prems e assms(1) by (simp add: encodeField_def)
qed simp

definition map_key :: "string \<Rightarrow> string \<Rightarrow> string" where
  "map_key path k = path @ ''['' @ k @ '']''"

lemma put_map_fresh:
  "distinct (map fst u @ map (\<lambda>e. map_key path (fst e)) m) \<Longrightarrow> put_map path m u = u @ map (\<lambda>(k, x). (map_key path k, [x])) m"
proof (induction m arbitrary: u)
  case (Cons e m)
  obtain k x where e: "e = (k, x)" by fastforce
  have "AList.update (map_key path k) [x] u = u @ [(map_key path k, [x])]" using Cons.prems e by (induction u) auto
  then show ?case using Cons.IH [of "u @ [(map_key path k, [x])]"] Cons.prems e by (simp add: put_map_def map_key_def)
qed (simp add: put_map_def)

lemma Encode_nonempty:
  assumes "distinct (map fst vs)" "\<forall>(k, xs) \<in> set vs. xs \<noteq> []" "vs \<noteq> []"
  shows "Encode_values vs \<noteq> []"
proof
  assume "Encode_values vs = []"
  moreover have "ParseQuery [] = ([], None)" by (subst ParseQuery_def, subst parse_query.simps) simp
  ultimately have "sort (map fst vs) = []" using ParseQuery_Encode [OF assms(1,2)] by simp
  then show False using assms(3) by (metis length_sort length_0_conv map_is_Nil_conv)
qed


definition label_field :: field_desc where
  "label_field = (example_field ''labels'' MessageKind False (Some ''LabelsEntry''))\<lparr>fd_map := True, fd_repeated := True\<rparr>"

definition label_proto :: "pmsg proto" where
  "label_proto = example_proto\<lparr>Fields := \<lambda>T. if T = ''Labels'' then [label_field] else [],
     MapValue := \<lambda>fd. example_field ''value'' StringKind False None, GetMap := \<lambda>v fd. [(PString ''a'', PString ''b'')]\<rparr>"


subsection \<open>Well-known types and bytes\<close>

lemma unbase64_loop_digits:
  "unbase64_loop s = Some t \<Longrightarrow> c \<in> set s \<Longrightarrow> c = CHR ''='' \<or> b64_val c \<noteq> None"
proof (induction s arbitrary: t rule: unbase64_loop.induct)
  case (2 p q r u s)
  then show ?case by (auto simp: unbase64_loop.simps(2) split: option.splits if_splits)
qed auto

lemma url_digit_not_read:
  assumes "CHR ''+'' \<in> set (base64 b) \<or> CHR ''/'' \<in> set (base64 b)"
  shows "unbase64 (base64_url b) = None"
proof (rule ccontr)
  assume "unbase64 (base64_url b) \<noteq> None"
  then obtain t where t: "unbase64_loop (filter (\<lambda>c. c \<noteq> CHR 0x0A \<and> c \<noteq> CHR 0x0D) (base64_url b)) = Some t"
    by (auto simp: unbase64_def)
  have "CHR ''-'' \<in> set (base64_url b) \<or> CHR ''_'' \<in> set (base64_url b)"
    using assms by (auto simp: base64_url_def image_iff)
  then obtain c where c: "c \<in> set (base64_url b)" "c \<in> {CHR ''-'', CHR ''_''}" by blast
  then have "b64_val c = None" "c \<noteq> CHR ''=''" "c \<in> set (filter (\<lambda>c. c \<noteq> CHR 0x0A \<and> c \<noteq> CHR 0x0D) (base64_url b))"
    by (auto simp: b64_val_def Let_def)
  then show False using unbase64_loop_digits [OF t] by blast
qed


definition bool_proto :: "pmsg proto" where
  "bool_proto = example_proto\<lparr>Fields := \<lambda>T. [example_field ''value'' BoolKind False None]\<rparr>"


end
