(* ===== verification/Router.thy ===== *)
theory Router
  imports Systems
begin

text \<open>
  The router of \<^verbatim>\<open>pkg/wkhttp/http.go\<close>: the wrapper that runs a handler on a context taken from a pool
  (\<^verbatim>\<open>WKHttpHandler\<close>), and the registration of handlers, which wraps each of them.

  Package gin is a parameter: an engine is the list of calls made on it. A \<^verbatim>\<open>sync.Pool\<close> gives back any context
  put into it, or none, and may drop contexts at any time; \<^verbatim>\<open>New\<close> allocates one then.
\<close>

subsection \<open>Registration\<close>

text \<open>A handler of gin's own, or one of the repository's in the wrapper.\<close>

datatype ('g, 'h) gin_handler = GinHandler 'g | WrappedHandler 'h

datatype ('g, 'h) gin_call =
    GinUse "('g, 'h) gin_handler list"
  | GinHandle string string "('g, 'h) gin_handler list"
  | GinAny string "('g, 'h) gin_handler list"
  | GinStatic string string
  | GinLoadHTMLGlob string
  | GinGroup string "('g, 'h) gin_handler list"
  | GinRun "string list"
  | GinRunTLS string string string
  | GinServeHTTP 'g
  | GinHandleContext 'g

text \<open>Each call with the group of gin it is made on: none for the engine itself, or the number of the group.\<close>

type_synonym ('g, 'h) engine = "(nat list \<times> ('g, 'h) gin_call) list"

definition handlersToGinHandleFuncs :: "'h list option \<Rightarrow> ('g, 'h) gin_handler list" where
  "handlersToGinHandleFuncs handlers =
     (case handlers of None \<Rightarrow> [] | Some hs \<Rightarrow> foldl (\<lambda>new h. new @ [WrappedHandler h]) [] hs)"

definition New_http :: "'g \<Rightarrow> ('g, 'h) engine" where
  "New_http recovery = [([], GinUse [GinHandler recovery])]"

definition on_engine :: "('g, 'h) gin_call \<Rightarrow> ('g, 'h) engine \<Rightarrow> ('g, 'h) engine" where
  "on_engine c l = l @ [([], c)]"

definition Run_http :: "string list \<Rightarrow> ('g, 'h) engine \<Rightarrow> ('g, 'h) engine" where
  "Run_http addr = on_engine (GinRun addr)"

definition RunTLS :: "string \<Rightarrow> string \<Rightarrow> string \<Rightarrow> ('g, 'h) engine \<Rightarrow> ('g, 'h) engine" where
  "RunTLS addr certFile keyFile = on_engine (GinRunTLS addr certFile keyFile)"

definition POST :: "string \<Rightarrow> 'h list option \<Rightarrow> ('g, 'h) engine \<Rightarrow> ('g, 'h) engine" where
  "POST path hs = on_engine (GinHandle ''POST'' path (handlersToGinHandleFuncs hs))"

definition GET :: "string \<Rightarrow> 'h list option \<Rightarrow> ('g, 'h) engine \<Rightarrow> ('g, 'h) engine" where
  "GET path hs = on_engine (GinHandle ''GET'' path (handlersToGinHandleFuncs hs))"

definition Any :: "string \<Rightarrow> 'h list option \<Rightarrow> ('g, 'h) engine \<Rightarrow> ('g, 'h) engine" where
  "Any path hs = on_engine (GinAny path (handlersToGinHandleFuncs hs))"

definition Static :: "string \<Rightarrow> string \<Rightarrow> ('g, 'h) engine \<Rightarrow> ('g, 'h) engine" where
  "Static path dir = on_engine (GinStatic path dir)"

definition LoadHTMLGlob :: "string \<Rightarrow> ('g, 'h) engine \<Rightarrow> ('g, 'h) engine" where
  "LoadHTMLGlob pattern = on_engine (GinLoadHTMLGlob pattern)"

definition UseGin :: "'g list \<Rightarrow> ('g, 'h) engine \<Rightarrow> ('g, 'h) engine" where
  "UseGin hs = on_engine (GinUse (map GinHandler hs))"

definition Use :: "'h list option \<Rightarrow> ('g, 'h) engine \<Rightarrow> ('g, 'h) engine" where
  "Use hs = on_engine (GinUse (handlersToGinHandleFuncs hs))"

definition ServeHTTP :: "'g \<Rightarrow> ('g, 'h) engine \<Rightarrow> ('g, 'h) engine" where
  "ServeHTTP req = on_engine (GinServeHTTP req)"

definition HandleContext :: "'g \<Rightarrow> ('g, 'h) engine \<Rightarrow> ('g, 'h) engine" where
  "HandleContext c = on_engine (GinHandleContext c)"

text \<open>A group knows the gin group it wraps: a number, under the router.\<close>

definition Group :: "nat \<Rightarrow> string \<Rightarrow> 'h list option \<Rightarrow> ('g, 'h) engine \<Rightarrow> nat list \<times> ('g, 'h) engine" where
  "Group n path hs l = ([n], on_engine (GinGroup path (handlersToGinHandleFuncs hs)) l)"

definition group_handle :: "string \<Rightarrow> nat list \<Rightarrow> string \<Rightarrow> 'h list option \<Rightarrow> ('g, 'h) engine \<Rightarrow> ('g, 'h) engine" where
  "group_handle verb r path hs l = l @ [(r, GinHandle verb path (handlersToGinHandleFuncs hs))]"

definition POST_group :: "nat list \<Rightarrow> string \<Rightarrow> 'h list option \<Rightarrow> ('g, 'h) engine \<Rightarrow> ('g, 'h) engine" where
  "POST_group = group_handle ''POST''"

definition GET_group :: "nat list \<Rightarrow> string \<Rightarrow> 'h list option \<Rightarrow> ('g, 'h) engine \<Rightarrow> ('g, 'h) engine" where
  "GET_group = group_handle ''GET''"

definition DELETE_group :: "nat list \<Rightarrow> string \<Rightarrow> 'h list option \<Rightarrow> ('g, 'h) engine \<Rightarrow> ('g, 'h) engine" where
  "DELETE_group = group_handle ''DELETE''"

definition PUT_group :: "nat list \<Rightarrow> string \<Rightarrow> 'h list option \<Rightarrow> ('g, 'h) engine \<Rightarrow> ('g, 'h) engine" where
  "PUT_group = group_handle ''PUT''"

lemma handlers_wrapped: "(handlersToGinHandleFuncs (Some hs) :: ('a, 'b) gin_handler list) = map WrappedHandler hs"
proof -
  have "foldl (\<lambda>new h. new @ [WrappedHandler h]) acc hs = acc @ map WrappedHandler hs" for acc :: "('a, 'b) gin_handler list"
    by (induction hs arbitrary: acc) auto
  from this [of "[]"] show ?thesis by (simp add: handlersToGinHandleFuncs_def)
qed

subsection \<open>The pool of contexts\<close>

text \<open>
  A context is a number; \<open>bound\<close> is its embedded \<^verbatim>\<open>*gin.Context\<close>, nil when reset. \<open>running\<close> holds the
  invocations of wrapped handlers that have not returned: by an identifier, the context each holds and the
  gin context it was called with.
\<close>

record 'c router_pool =
  pooled :: "nat list"
  allocated :: nat
  bound :: "nat \<Rightarrow> 'c option"
  running :: "nat \<rightharpoonup> nat \<times> 'c"

definition allocateContext :: "'c router_pool \<Rightarrow> nat \<times> 'c router_pool" where
  "allocateContext s =
     (allocated s, s\<lparr>allocated := allocated s + 1, bound := (bound s)(allocated s := None)\<rparr>)"

text \<open>\<open>pick\<close> is the context the pool chooses to give, if any.\<close>

definition pool_Get :: "nat option \<Rightarrow> 'c router_pool \<Rightarrow> nat \<times> 'c router_pool" where
  "pool_Get pick s =
     (case pick of
        Some hc \<Rightarrow> (hc, s\<lparr>pooled := remove1 hc (pooled s)\<rparr>)
      | None \<Rightarrow> allocateContext s)"

definition pool_Put :: "nat \<Rightarrow> 'c router_pool \<Rightarrow> 'c router_pool" where
  "pool_Put hc s = s\<lparr>pooled := hc # pooled s\<rparr>"

definition reset_ctx :: "nat \<Rightarrow> 'c router_pool \<Rightarrow> 'c router_pool" where
  "reset_ctx hc s = s\<lparr>bound := (bound s)(hc := None)\<rparr>"

text \<open>The wrapper up to the call of the handler, and after the handler returned or panicked.\<close>

definition enter_handler :: "nat option \<Rightarrow> nat \<Rightarrow> 'c \<Rightarrow> 'c router_pool \<Rightarrow> 'c router_pool" where
  "enter_handler pick i c s =
     (let (hc, s) = pool_Get pick s;
          s = reset_ctx hc s
      in s\<lparr>bound := (bound s)(hc \<mapsto> c), running := (running s)(i \<mapsto> (hc, c))\<rparr>)"

definition leave_handler :: "nat \<Rightarrow> 'c router_pool \<Rightarrow> 'c router_pool" where
  "leave_handler i s =
     (case running s i of
        None \<Rightarrow> s
      | Some (hc, c) \<Rightarrow> pool_Put hc (s\<lparr>running := (running s)(i := None)\<rparr>))"

definition empty_pool :: "'c router_pool" where
  "empty_pool = \<lparr>pooled = [], allocated = 0, bound = \<lambda>hc. None, running = \<lambda>i. None\<rparr>"

datatype 'c pool_label = Enter nat 'c | Leave nat | Drop nat

text \<open>
  Requests are served concurrently, and a handler that calls the next one runs it inside its own invocation:
  invocations enter and leave in any order.
\<close>

inductive pool_step :: "'c router_pool \<Rightarrow> 'c pool_label \<Rightarrow> 'c router_pool \<Rightarrow> bool" where
  step_enter: "running s i = None \<Longrightarrow> (case pick of None \<Rightarrow> True | Some hc \<Rightarrow> hc \<in> set (pooled s)) \<Longrightarrow>
     pool_step s (Enter i c) (enter_handler pick i c s)"
| step_leave: "running s i \<noteq> None \<Longrightarrow> pool_step s (Leave i) (leave_handler i s)"
| step_drop: "hc \<in> set (pooled s) \<Longrightarrow> pool_step s (Drop hc) (s\<lparr>pooled := remove1 hc (pooled s)\<rparr>)"

inductive_cases pool_stepE: "pool_step s l t"

definition pool_inv :: "'c router_pool \<Rightarrow> bool" where
  "pool_inv s \<longleftrightarrow>
     distinct (pooled s) \<and> (\<forall>hc \<in> set (pooled s). hc < allocated s) \<and>
     (\<forall>i hc c. running s i = Some (hc, c) \<longrightarrow> hc < allocated s \<and> hc \<notin> set (pooled s) \<and> bound s hc = Some c) \<and>
     (\<forall>i j hc c d. running s i = Some (hc, c) \<longrightarrow> running s j = Some (hc, d) \<longrightarrow> i = j)"

lemma pool_invI:
  assumes "distinct (pooled s)" "\<And>hc. hc \<in> set (pooled s) \<Longrightarrow> hc < allocated s"
    "\<And>i hc c. running s i = Some (hc, c) \<Longrightarrow> hc < allocated s \<and> hc \<notin> set (pooled s) \<and> bound s hc = Some c"
    "\<And>i j hc c d. running s i = Some (hc, c) \<Longrightarrow> running s j = Some (hc, d) \<Longrightarrow> i = j"
  shows "pool_inv s"
  using assms unfolding pool_inv_def by blast

lemma pool_invD:
  assumes "pool_inv s"
  shows "distinct (pooled s)" "hc \<in> set (pooled s) \<Longrightarrow> hc < allocated s"
    "running s i = Some (hc, c) \<Longrightarrow> hc < allocated s \<and> hc \<notin> set (pooled s) \<and> bound s hc = Some c"
    "running s i = Some (hc, c) \<Longrightarrow> running s j = Some (hc, d) \<Longrightarrow> i = j"
  using assms unfolding pool_inv_def by blast+

lemma enter_inv:
  assumes "pool_inv s" "running s i = None" "case pick of None \<Rightarrow> True | Some hc \<Rightarrow> hc \<in> set (pooled s)"
  shows "pool_inv (enter_handler pick i c s)"
proof -
  note D = pool_invD [OF assms(1)]
  show ?thesis
  proof (cases pick)
    case None
    have "hc \<noteq> allocated s" if "running s j = Some (hc, d)" for j hc d using D(3) [OF that] by auto
    moreover have "allocated s \<notin> set (pooled s)" using D(2) by blast
    ultimately show ?thesis
      using D assms(2) None
      by (intro pool_invI) (fastforce simp: enter_handler_def pool_Get_def allocateContext_def reset_ctx_def split: if_splits)+
  next
    case (Some hc)
    have "hc' \<noteq> hc" if "running s j = Some (hc', d)" for j hc' d using D(3) [OF that] assms(3) Some by auto
    then show ?thesis
      using D assms(2,3) Some
      by (intro pool_invI) (fastforce simp: enter_handler_def pool_Get_def reset_ctx_def split: if_splits)+
  qed
qed

lemma leave_inv:
  assumes "pool_inv s" "running s i \<noteq> None"
  shows "pool_inv (leave_handler i s)"
proof -
  note D = pool_invD [OF assms(1)]
  obtain hc c where r: "running s i = Some (hc, c)" using assms(2) by auto
  then have "hc' \<noteq> hc" if "running s j = Some (hc', d)" "j \<noteq> i" for j hc' d using D(4) [OF r] that by blast
  then show ?thesis
    using D D(3) [OF r] r by (intro pool_invI) (fastforce simp: leave_handler_def pool_Put_def split: if_splits)+
qed

lemma drop_inv: "pool_inv s \<Longrightarrow> pool_inv (s\<lparr>pooled := remove1 hc (pooled s)\<rparr>)"
  using pool_invD [of s] by (intro pool_invI) (auto dest: notin_set_remove1 in_set_remove1 [THEN iffD1])

interpretation pools: invariant_system "\<lambda>s. s = (empty_pool :: 'c router_pool)" pool_step pool_inv
proof unfold_locales
  show "pool_inv s" if "s = empty_pool" for s :: "'c router_pool"
    using that by (simp add: pool_inv_def empty_pool_def)
  show "pool_inv t" if "pool_inv s" "pool_step s l t" for s t :: "'c router_pool" and l
    using that(2,1) by (cases rule: pool_stepE) (auto intro: enter_inv leave_inv drop_inv)
qed

text \<open>C4: However requests overlap, every handler that runs has a context of its own, bound to the gin context it was
  called with; no other running handler holds it and the pool cannot give it away. The handlers registered on
  a route are exactly the wrapped ones, in order.
\<close>

theorem handlers_own_their_context:
  assumes "reach (\<lambda>s. s = empty_pool) pool_step s" "running s i = Some (hc, c)"
  shows "bound s hc = Some c \<and> hc \<notin> set (pooled s) \<and> (\<forall>j d. running s j = Some (hc, d) \<longrightarrow> j = i) \<and>
    last (POST path (Some hs) engine) = ([], GinHandle ''POST'' path (map WrappedHandler hs))"
proof -
  have "pool_inv s" using assms(1) by (rule pools.reach_inv)
  then show ?thesis
    using pool_invD(3,4) [of s, OF _ assms(2)] assms(2) by (auto simp: POST_def on_engine_def handlers_wrapped dest: pool_invD(4))
qed

theorem handlers_own_their_context_witness:
  "let s = enter_handler None 1 ''b'' (enter_handler None 0 ''a'' empty_pool)
   in bound s 1 = Some ''b'' \<and> 1 \<notin> set (pooled s)"
proof -
  let ?a = "enter_handler None 0 ''a'' (empty_pool :: string router_pool)"
  have "reach (\<lambda>s. s = empty_pool) pool_step ?a"
    by (rule reach_step, rule reach_init, rule refl, rule step_enter) (simp_all add: empty_pool_def)
  moreover have "pool_step ?a (Enter 1 ''b'') (enter_handler None 1 ''b'' ?a)"
    by (rule step_enter) (simp_all add: enter_handler_def pool_Get_def allocateContext_def reset_ctx_def empty_pool_def)
  ultimately have "reach (\<lambda>s. s = empty_pool) pool_step (enter_handler None 1 ''b'' ?a)" by (rule reach_step)
  then show ?thesis
    using handlers_own_their_context [of "enter_handler None 1 ''b'' ?a" 1 1 "''b''"]
    by (simp add: Let_def, simp add: enter_handler_def pool_Get_def allocateContext_def reset_ctx_def empty_pool_def)
qed

text \<open>
  A context kept after its handler returned is bound to the next request the pool gives it to: here the one
  of invocation 0, then of invocation 1.
\<close>

lemma kept_context_changes:
  "bound (enter_handler (Some 0) 1 ''b'' (leave_handler 0 (enter_handler None 0 ''a'' empty_pool))) 0 = Some ''b''"
  by (simp add: enter_handler_def leave_handler_def pool_Get_def pool_Put_def allocateContext_def reset_ctx_def empty_pool_def)

end
