(* ===== verification/Query.thy ===== *)
theory Query
  imports Prelude
begin

text \<open>
  The query wrapper of \<^verbatim>\<open>pkg/zdb/db.go\<close>, the errors of \<^verbatim>\<open>error.go\<close>, the transaction context of \<^verbatim>\<open>context.go\<close> and
  the registrations of \<^verbatim>\<open>zdb.go\<close>.

  A \<^verbatim>\<open>*DB\<close> is a number, the store maps it to its name and its \<^verbatim>\<open>*gorm.DB\<close>. Package gorm is a parameter: a call
  turns one value of its own, of type \<open>'o\<close>, into the next; \<open>'v\<close> is what is passed to it as \<^verbatim>\<open>interface{}\<close>.
\<close>

subsection \<open>Errors\<close>

datatype zdb_error =
    ErrRecordNotFound
  | ErrInvalidTransaction
  | ErrNotImplemented
  | ErrMissingWhereClause
  | ErrUnsupportedRelation
  | ErrPrimaryKeyRequired
  | ErrModelValueRequired
  | ErrInvalidData
  | ErrUnsupportedDriver
  | ErrRegistered
  | ErrInvalidField
  | ErrEmptySlice
  | ErrDryRunModeUnsupported
  | ErrInvalidDB
  | ErrInvalidValue
  | ErrInvalidValueOfLength
  | GormError string

fun error_text :: "zdb_error \<Rightarrow> string" where
  "error_text ErrRecordNotFound = ''not found''"
| "error_text ErrInvalidTransaction = ''invalid transaction''"
| "error_text ErrNotImplemented = ''not implemented''"
| "error_text ErrMissingWhereClause = ''WHERE conditions required''"
| "error_text ErrUnsupportedRelation = ''unsupported relations''"
| "error_text ErrPrimaryKeyRequired = ''primary key required''"
| "error_text ErrModelValueRequired = ''model value required''"
| "error_text ErrInvalidData = ''unsupported data''"
| "error_text ErrUnsupportedDriver = ''unsupported driver''"
| "error_text ErrRegistered = ''registered''"
| "error_text ErrInvalidField = ''invalid field''"
| "error_text ErrEmptySlice = ''empty slice found''"
| "error_text ErrDryRunModeUnsupported = ''dry run mode unsupported''"
| "error_text ErrInvalidDB = ''invalid db''"
| "error_text ErrInvalidValue = ''invalid value, should be pointer to struct or slice''"
| "error_text ErrInvalidValueOfLength = ''invalid association values, length doesn't match''"
| "error_text (GormError e) = e"

subsection \<open>Building a query\<close>

record 'o gorm_DB =
  db_name :: string
  db_orm :: 'o

text \<open>The databases made so far, numbered from 0.\<close>

type_synonym 'o stores = "'o gorm_DB list"

definition newDB :: "string \<Rightarrow> 'o \<Rightarrow> 'o stores \<Rightarrow> nat \<times> 'o stores" where
  "newDB name orm s = (length s, s @ [\<lparr>db_name = name, db_orm = orm\<rparr>])"

datatype 'v gorm_call =
    Model 'v
  | Table string "'v list"
  | Select 'v "'v list"
  | Distinct "'v list"
  | Omit "string list"
  | Where 'v "'v list"
  | Not_c 'v "'v list"
  | Or_c 'v "'v list"
  | Joins string "'v list"
  | GroupBy string
  | Having 'v "'v list"
  | OrderBy 'v
  | Limit int64
  | Offset int64
  | Raw string "'v list"
  | Create 'v
  | Save 'v
  | First 'v "'v list"
  | Take 'v "'v list"
  | Last 'v "'v list"
  | Find 'v "'v list"
  | FirstOrCreate 'v "'v list"
  | Update string 'v
  | Updates 'v
  | UpdateColumn string 'v
  | UpdateColumns 'v
  | Delete 'v "'v list"
  | Count 'v
  | Pluck string 'v
  | Exec string "'v list"
  | Begin "'v list"
  | Commit
  | Rollback

text \<open>What every method does: the value is replaced in place, and the same database is returned.\<close>

definition update_orm :: "('v gorm_call \<Rightarrow> 'o \<Rightarrow> 'o) \<Rightarrow> 'v gorm_call \<Rightarrow> nat \<Rightarrow> 'o stores \<Rightarrow> nat \<times> 'o stores" where
  "update_orm G c db s = (db, s[db := (s ! db)\<lparr>db_orm := G c (db_orm (s ! db))\<rparr>])"

definition Model_db :: "('v gorm_call \<Rightarrow> 'o \<Rightarrow> 'o) \<Rightarrow> 'v \<Rightarrow> nat \<Rightarrow> 'o stores \<Rightarrow> nat \<times> 'o stores" where
  "Model_db G val db s = update_orm G (Model val) db s"

definition Table_db :: "('v gorm_call \<Rightarrow> 'o \<Rightarrow> 'o) \<Rightarrow> string \<Rightarrow> 'v list \<Rightarrow> nat \<Rightarrow> 'o stores \<Rightarrow> nat \<times> 'o stores" where
  "Table_db G name args db s = update_orm G (Table name args) db s"

definition Select_db :: "('v gorm_call \<Rightarrow> 'o \<Rightarrow> 'o) \<Rightarrow> 'v \<Rightarrow> 'v list \<Rightarrow> nat \<Rightarrow> 'o stores \<Rightarrow> nat \<times> 'o stores" where
  "Select_db G query args db s = update_orm G (Select query args) db s"

definition Distinct_db :: "('v gorm_call \<Rightarrow> 'o \<Rightarrow> 'o) \<Rightarrow> 'v list \<Rightarrow> nat \<Rightarrow> 'o stores \<Rightarrow> nat \<times> 'o stores" where
  "Distinct_db G args db s = update_orm G (Distinct args) db s"

definition Omit_db :: "('v gorm_call \<Rightarrow> 'o \<Rightarrow> 'o) \<Rightarrow> string list \<Rightarrow> nat \<Rightarrow> 'o stores \<Rightarrow> nat \<times> 'o stores" where
  "Omit_db G columns db s = update_orm G (Omit columns) db s"

definition Where_db :: "('v gorm_call \<Rightarrow> 'o \<Rightarrow> 'o) \<Rightarrow> 'v \<Rightarrow> 'v list \<Rightarrow> nat \<Rightarrow> 'o stores \<Rightarrow> nat \<times> 'o stores" where
  "Where_db G query args db s = update_orm G (Where query args) db s"

definition Not_db :: "('v gorm_call \<Rightarrow> 'o \<Rightarrow> 'o) \<Rightarrow> 'v \<Rightarrow> 'v list \<Rightarrow> nat \<Rightarrow> 'o stores \<Rightarrow> nat \<times> 'o stores" where
  "Not_db G query args db s = update_orm G (Not_c query args) db s"

definition Or_db :: "('v gorm_call \<Rightarrow> 'o \<Rightarrow> 'o) \<Rightarrow> 'v \<Rightarrow> 'v list \<Rightarrow> nat \<Rightarrow> 'o stores \<Rightarrow> nat \<times> 'o stores" where
  "Or_db G query args db s = update_orm G (Or_c query args) db s"

definition Joins_db :: "('v gorm_call \<Rightarrow> 'o \<Rightarrow> 'o) \<Rightarrow> string \<Rightarrow> 'v list \<Rightarrow> nat \<Rightarrow> 'o stores \<Rightarrow> nat \<times> 'o stores" where
  "Joins_db G query args db s = update_orm G (Joins query args) db s"

definition GroupBy_db :: "('v gorm_call \<Rightarrow> 'o \<Rightarrow> 'o) \<Rightarrow> string \<Rightarrow> nat \<Rightarrow> 'o stores \<Rightarrow> nat \<times> 'o stores" where
  "GroupBy_db G name db s = update_orm G (GroupBy name) db s"

definition Having_db :: "('v gorm_call \<Rightarrow> 'o \<Rightarrow> 'o) \<Rightarrow> 'v \<Rightarrow> 'v list \<Rightarrow> nat \<Rightarrow> 'o stores \<Rightarrow> nat \<times> 'o stores" where
  "Having_db G query args db s = update_orm G (Having query args) db s"

definition OrderBy_db :: "('v gorm_call \<Rightarrow> 'o \<Rightarrow> 'o) \<Rightarrow> 'v \<Rightarrow> nat \<Rightarrow> 'o stores \<Rightarrow> nat \<times> 'o stores" where
  "OrderBy_db G val db s = update_orm G (OrderBy val) db s"

definition Limit_db :: "('v gorm_call \<Rightarrow> 'o \<Rightarrow> 'o) \<Rightarrow> int64 \<Rightarrow> nat \<Rightarrow> 'o stores \<Rightarrow> nat \<times> 'o stores" where
  "Limit_db G limit db s = update_orm G (Limit limit) db s"

definition Offset_db :: "('v gorm_call \<Rightarrow> 'o \<Rightarrow> 'o) \<Rightarrow> int64 \<Rightarrow> nat \<Rightarrow> 'o stores \<Rightarrow> nat \<times> 'o stores" where
  "Offset_db G offset db s = update_orm G (Offset offset) db s"

definition Raw_db :: "('v gorm_call \<Rightarrow> 'o \<Rightarrow> 'o) \<Rightarrow> string \<Rightarrow> 'v list \<Rightarrow> nat \<Rightarrow> 'o stores \<Rightarrow> nat \<times> 'o stores" where
  "Raw_db G sql vals db s = update_orm G (Raw sql vals) db s"

definition Create_db :: "('v gorm_call \<Rightarrow> 'o \<Rightarrow> 'o) \<Rightarrow> 'v \<Rightarrow> nat \<Rightarrow> 'o stores \<Rightarrow> nat \<times> 'o stores" where
  "Create_db G val db s = update_orm G (Create val) db s"

definition Save_db :: "('v gorm_call \<Rightarrow> 'o \<Rightarrow> 'o) \<Rightarrow> 'v \<Rightarrow> nat \<Rightarrow> 'o stores \<Rightarrow> nat \<times> 'o stores" where
  "Save_db G val db s = update_orm G (Save val) db s"

definition First_db :: "('v gorm_call \<Rightarrow> 'o \<Rightarrow> 'o) \<Rightarrow> 'v \<Rightarrow> 'v list \<Rightarrow> nat \<Rightarrow> 'o stores \<Rightarrow> nat \<times> 'o stores" where
  "First_db G dest conds db s = update_orm G (First dest conds) db s"

definition Take_db :: "('v gorm_call \<Rightarrow> 'o \<Rightarrow> 'o) \<Rightarrow> 'v \<Rightarrow> 'v list \<Rightarrow> nat \<Rightarrow> 'o stores \<Rightarrow> nat \<times> 'o stores" where
  "Take_db G dest conds db s = update_orm G (Take dest conds) db s"

definition Last_db :: "('v gorm_call \<Rightarrow> 'o \<Rightarrow> 'o) \<Rightarrow> 'v \<Rightarrow> 'v list \<Rightarrow> nat \<Rightarrow> 'o stores \<Rightarrow> nat \<times> 'o stores" where
  "Last_db G dest conds db s = update_orm G (Last dest conds) db s"

definition Find_db :: "('v gorm_call \<Rightarrow> 'o \<Rightarrow> 'o) \<Rightarrow> 'v \<Rightarrow> 'v list \<Rightarrow> nat \<Rightarrow> 'o stores \<Rightarrow> nat \<times> 'o stores" where
  "Find_db G dest conds db s = update_orm G (Find dest conds) db s"

definition FirstOrCreate_db :: "('v gorm_call \<Rightarrow> 'o \<Rightarrow> 'o) \<Rightarrow> 'v \<Rightarrow> 'v list \<Rightarrow> nat \<Rightarrow> 'o stores \<Rightarrow> nat \<times> 'o stores" where
  "FirstOrCreate_db G dest conds db s = update_orm G (FirstOrCreate dest conds) db s"

definition Update_db :: "('v gorm_call \<Rightarrow> 'o \<Rightarrow> 'o) \<Rightarrow> string \<Rightarrow> 'v \<Rightarrow> nat \<Rightarrow> 'o stores \<Rightarrow> nat \<times> 'o stores" where
  "Update_db G column val db s = update_orm G (Update column val) db s"

definition Updates_db :: "('v gorm_call \<Rightarrow> 'o \<Rightarrow> 'o) \<Rightarrow> 'v \<Rightarrow> nat \<Rightarrow> 'o stores \<Rightarrow> nat \<times> 'o stores" where
  "Updates_db G vals db s = update_orm G (Updates vals) db s"

definition UpdateColumn_db :: "('v gorm_call \<Rightarrow> 'o \<Rightarrow> 'o) \<Rightarrow> string \<Rightarrow> 'v \<Rightarrow> nat \<Rightarrow> 'o stores \<Rightarrow> nat \<times> 'o stores" where
  "UpdateColumn_db G column val db s = update_orm G (UpdateColumn column val) db s"

definition UpdateColumns_db :: "('v gorm_call \<Rightarrow> 'o \<Rightarrow> 'o) \<Rightarrow> 'v \<Rightarrow> nat \<Rightarrow> 'o stores \<Rightarrow> nat \<times> 'o stores" where
  "UpdateColumns_db G vals db s = update_orm G (UpdateColumns vals) db s"

definition Delete_db :: "('v gorm_call \<Rightarrow> 'o \<Rightarrow> 'o) \<Rightarrow> 'v \<Rightarrow> 'v list \<Rightarrow> nat \<Rightarrow> 'o stores \<Rightarrow> nat \<times> 'o stores" where
  "Delete_db G val conds db s = update_orm G (Delete val conds) db s"

definition Count_db :: "('v gorm_call \<Rightarrow> 'o \<Rightarrow> 'o) \<Rightarrow> 'v \<Rightarrow> nat \<Rightarrow> 'o stores \<Rightarrow> nat \<times> 'o stores" where
  "Count_db G dest db s = update_orm G (Count dest) db s"

definition Pluck_db :: "('v gorm_call \<Rightarrow> 'o \<Rightarrow> 'o) \<Rightarrow> string \<Rightarrow> 'v \<Rightarrow> nat \<Rightarrow> 'o stores \<Rightarrow> nat \<times> 'o stores" where
  "Pluck_db G column dest db s = update_orm G (Pluck column dest) db s"

definition Exec_db :: "('v gorm_call \<Rightarrow> 'o \<Rightarrow> 'o) \<Rightarrow> string \<Rightarrow> 'v list \<Rightarrow> nat \<Rightarrow> 'o stores \<Rightarrow> nat \<times> 'o stores" where
  "Exec_db G sql vals db s = update_orm G (Exec sql vals) db s"

definition Begin_db :: "('v gorm_call \<Rightarrow> 'o \<Rightarrow> 'o) \<Rightarrow> 'v list \<Rightarrow> nat \<Rightarrow> 'o stores \<Rightarrow> nat \<times> 'o stores" where
  "Begin_db G opts db s = update_orm G (Begin opts) db s"

definition Commit_db :: "('v gorm_call \<Rightarrow> 'o \<Rightarrow> 'o) \<Rightarrow> nat \<Rightarrow> 'o stores \<Rightarrow> nat \<times> 'o stores" where
  "Commit_db G db s = update_orm G Commit db s"

definition Rollback_db :: "('v gorm_call \<Rightarrow> 'o \<Rightarrow> 'o) \<Rightarrow> nat \<Rightarrow> 'o stores \<Rightarrow> nat \<times> 'o stores" where
  "Rollback_db G db s = update_orm G Rollback db s"

definition Scopes_db :: "(nat \<Rightarrow> 'o stores \<Rightarrow> nat \<times> 'o stores) list \<Rightarrow> nat \<Rightarrow> 'o stores \<Rightarrow> nat \<times> 'o stores" where
  "Scopes_db funcs db s = foldl (\<lambda>(db, s) f. f db s) (db, s) funcs"

text \<open>The error and the count of rows gorm's value carries: \<open>not_found\<close> is \<^verbatim>\<open>gorm.ErrRecordNotFound\<close>.\<close>

record 'o gorm_result =
  orm_error :: "'o \<Rightarrow> string option"
  orm_rows :: "'o \<Rightarrow> int64"
  not_found :: string

definition Error_db :: "'o gorm_result \<Rightarrow> nat \<Rightarrow> 'o stores \<Rightarrow> zdb_error option" where
  "Error_db R db s =
     (case orm_error R (db_orm (s ! db)) of
        None \<Rightarrow> None
      | Some e \<Rightarrow> Some (if e = not_found R then ErrRecordNotFound else GormError e))"

definition RowsAffected_db :: "'o gorm_result \<Rightarrow> nat \<Rightarrow> 'o stores \<Rightarrow> int64" where
  "RowsAffected_db R db s = orm_rows R (db_orm (s ! db))"

definition AutoMigrate_db :: "('v list \<Rightarrow> 'o \<Rightarrow> string option) \<Rightarrow> 'v list \<Rightarrow> nat \<Rightarrow> 'o stores \<Rightarrow> string option" where
  "AutoMigrate_db M vals db s = M vals (db_orm (s ! db))"

text \<open>A method by its call.\<close>

fun call_db :: "('v gorm_call \<Rightarrow> 'o \<Rightarrow> 'o) \<Rightarrow> 'v gorm_call \<Rightarrow> nat \<Rightarrow> 'o stores \<Rightarrow> nat \<times> 'o stores" where
  "call_db G (Model val) = Model_db G val"
| "call_db G (Table name args) = Table_db G name args"
| "call_db G (Select query args) = Select_db G query args"
| "call_db G (Distinct args) = Distinct_db G args"
| "call_db G (Omit columns) = Omit_db G columns"
| "call_db G (Where query args) = Where_db G query args"
| "call_db G (Not_c query args) = Not_db G query args"
| "call_db G (Or_c query args) = Or_db G query args"
| "call_db G (Joins query args) = Joins_db G query args"
| "call_db G (GroupBy name) = GroupBy_db G name"
| "call_db G (Having query args) = Having_db G query args"
| "call_db G (OrderBy val) = OrderBy_db G val"
| "call_db G (Limit limit) = Limit_db G limit"
| "call_db G (Offset offset) = Offset_db G offset"
| "call_db G (Raw sql vals) = Raw_db G sql vals"
| "call_db G (Create val) = Create_db G val"
| "call_db G (Save val) = Save_db G val"
| "call_db G (First dest conds) = First_db G dest conds"
| "call_db G (Take dest conds) = Take_db G dest conds"
| "call_db G (Last dest conds) = Last_db G dest conds"
| "call_db G (Find dest conds) = Find_db G dest conds"
| "call_db G (FirstOrCreate dest conds) = FirstOrCreate_db G dest conds"
| "call_db G (Update column val) = Update_db G column val"
| "call_db G (Updates vals) = Updates_db G vals"
| "call_db G (UpdateColumn column val) = UpdateColumn_db G column val"
| "call_db G (UpdateColumns vals) = UpdateColumns_db G vals"
| "call_db G (Delete val conds) = Delete_db G val conds"
| "call_db G (Count dest) = Count_db G dest"
| "call_db G (Pluck column dest) = Pluck_db G column dest"
| "call_db G (Exec sql vals) = Exec_db G sql vals"
| "call_db G (Begin opts) = Begin_db G opts"
| "call_db G Commit = Commit_db G"
| "call_db G Rollback = Rollback_db G"

subsection \<open>Contexts and registrations\<close>

record ('c, 't) tx_context =
  tc_Context :: 'c
  tc_txId :: int64
  tc_sqlOpts :: "'t list"

definition NewTxContext :: "'c \<Rightarrow> int64 \<Rightarrow> 't list \<Rightarrow> ('c, 't) tx_context" where
  "NewTxContext ctx txId opts = \<lparr>tc_Context = ctx, tc_txId = txId, tc_sqlOpts = opts\<rparr>"

definition getTxId :: "('c, 't) tx_context \<Rightarrow> int64" where
  "getTxId tc = tc_txId tc"

definition getContext :: "('c, 't) tx_context \<Rightarrow> 'c" where
  "getContext tc = tc_Context tc"

definition getSQLOpts :: "('c, 't) tx_context \<Rightarrow> 't list" where
  "getSQLOpts tc = tc_sqlOpts tc"

record db_options =
  Dns :: string
  MaxIdleConns :: int64
  MaxOpenConns :: int64
  Mode :: string

definition newOptions :: db_options where
  "newOptions = \<lparr>Dns = [], MaxIdleConns = 0, MaxOpenConns = 0, Mode = []\<rparr>"

definition RegisterAutoMigrate :: "'v \<Rightarrow> 'v list \<Rightarrow> 'v list" where
  "RegisterAutoMigrate val autoMigrate = autoMigrate @ [val]"

text \<open>The arguments of \<^verbatim>\<open>Expr\<close> reach gorm as one argument, the slice of them.\<close>

datatype 'v gorm_arg = Arg 'v | SliceArg "'v list"

definition Expr :: "string \<Rightarrow> 'v list \<Rightarrow> string \<times> 'v gorm_arg list" where
  "Expr expr args = (expr, [SliceArg args])"

subsection \<open>What is built\<close>

text \<open>Every method is its call.\<close>

lemma call_db_update: "call_db G c = update_orm G c"
  by (cases c) (simp_all add: fun_eq_iff Model_db_def Table_db_def Select_db_def Distinct_db_def Omit_db_def Where_db_def Not_db_def Or_db_def Joins_db_def GroupBy_db_def Having_db_def OrderBy_db_def Limit_db_def Offset_db_def Raw_db_def Create_db_def Save_db_def First_db_def Take_db_def Last_db_def Find_db_def FirstOrCreate_db_def Update_db_def Updates_db_def UpdateColumn_db_def UpdateColumns_db_def Delete_db_def Count_db_def Pluck_db_def Exec_db_def Begin_db_def Commit_db_def Rollback_db_def)

definition chain :: "('v gorm_call \<Rightarrow> 'o \<Rightarrow> 'o) \<Rightarrow> 'v gorm_call list \<Rightarrow> nat \<Rightarrow> 'o stores \<Rightarrow> nat \<times> 'o stores" where
  "chain G cs db s = foldl (\<lambda>(db, s) c. call_db G c db s) (db, s) cs"

lemma chain_eq:
  "db < length s \<Longrightarrow> chain G cs db s = (db, s[db := (s ! db)\<lparr>db_orm := fold G cs (db_orm (s ! db))\<rparr>])"
proof (induction cs arbitrary: s)
  case (Cons c cs)
  have "chain G (c # cs) db s = chain G cs db (s[db := (s ! db)\<lparr>db_orm := G c (db_orm (s ! db))\<rparr>])"
    by (simp add: chain_def call_db_update update_orm_def)
  then show ?case using Cons by simp
qed (simp add: chain_def)

text \<open>C11: A chain of calls on a database returns that database with the clauses of all its calls, in order, and leaves every
  other database as it was. So two chains started from the same query do not branch: the query, and both results, are
  one database, which holds the clauses of the first chain and then those of the second; and passing functions to
  \<open>Scopes\<close> is calling them in turn.
\<close>

theorem chains_share_one_query:
  assumes "db < length s" "chain G q db s = (db0, s0)" "chain G a db0 s0 = (db1, s1)" "chain G b db0 s1 = (db2, s2)"
  shows "db0 = db \<and> db1 = db \<and> db2 = db \<and> db_orm (s2 ! db1) = fold G (q @ a @ b) (db_orm (s ! db)) \<and>
    (\<forall>d. d \<noteq> db \<longrightarrow> s2 ! d = s ! d) \<and> db_name (s2 ! db) = db_name (s ! db) \<and>
    Scopes_db (map (call_db G) (q @ a @ b)) db s = (db, s2)"
proof -
  have s0: "db0 = db" "s0 = s[db := (s ! db)\<lparr>db_orm := fold G q (db_orm (s ! db))\<rparr>]"
    using assms(1,2) by (auto simp: chain_eq)
  have s1: "db1 = db" "s1 = s[db := (s ! db)\<lparr>db_orm := fold G (q @ a) (db_orm (s ! db))\<rparr>]"
    using assms(1,3) s0 by (auto simp: chain_eq)
  have s2: "db2 = db" "s2 = s[db := (s ! db)\<lparr>db_orm := fold G (q @ a @ b) (db_orm (s ! db))\<rparr>]"
    using assms(1,4) s0 s1 by (auto simp: chain_eq)
  have "foldl (\<lambda>(db, s) f. f db s) p (map (call_db G) cs) = foldl (\<lambda>(db, s) c. call_db G c db s) p cs" for p cs
    by (induction cs arbitrary: p) (simp_all add: split_beta)
  then have "Scopes_db (map (call_db G) (q @ a @ b)) db s = chain G (q @ a @ b) db s"
    by (simp only: Scopes_db_def chain_def)
  then have "Scopes_db (map (call_db G) (q @ a @ b)) db s = (db, s2)"
    by (simp only: chain_eq [OF assms(1)] s2(2))
  then show ?thesis using s0(1) s1(1) s2 assms(1) by simp
qed

theorem chains_share_one_query_witness:
  "let G = (\<lambda>c x. x @ [c]);
       (q, s) = Where_db G ''company = 1'' [] 0 [\<lparr>db_name = ''default'', db_orm = []\<rparr>];
       (active, s) = Where_db G ''active'' [] q s;
       (banned, s) = Where_db G ''banned'' [] q s
   in db_orm (s ! active) = [Where ''company = 1'' [], Where ''active'' [], Where ''banned'' []]"
  using chains_share_one_query [of 0 "[\<lparr>db_name = ''default'', db_orm = []\<rparr>]" "\<lambda>c x. x @ [c]" "[Where ''company = 1'' []]" 0 _
      "[Where ''active'' []]" 0 _ "[Where ''banned'' []]" 0]
  by (simp add: chain_def Where_db_def update_orm_def)

lemma error_texts_differ: "error_text e = error_text f \<Longrightarrow> (\<forall>t. e \<noteq> GormError t) \<Longrightarrow> (\<forall>t. f \<noteq> GormError t) \<Longrightarrow> e = f"
  by (cases e; cases f) simp_all

end
