(* ===== verification/Constants.thy ===== *)
theory Constants
  imports ImStructs
begin

text \<open>
  The constants and plain data the applications of this library share: the enumerations, sequence keys, cache prefixes and
  commands of \<^verbatim>\<open>common/constant.go\<close>, its QR code types, the event types of \<^verbatim>\<open>pkg/wkevent\<close>, and the
  structs of \<^verbatim>\<open>config/msg.go\<close>, \<^verbatim>\<open>config/msg_group.go\<close>, \<^verbatim>\<open>common/page.go\<close> and \<^verbatim>\<open>model\<close> that nothing here computes with, with the JSON
  they stand for.
\<close>

subsection \<open>Enumerations\<close>

datatype GroupMemberStatus = GroupMemberStatusNormal | GroupMemberStatusBlacklist

fun groupMemberStatus_value :: "GroupMemberStatus \<Rightarrow> int" where
  "groupMemberStatus_value GroupMemberStatusNormal = 1"
| "groupMemberStatus_value GroupMemberStatusBlacklist = 2"

datatype GroupMemberRole = GroupMemberRoleCreater | GroupMemberRoleManager | GroupMemberRoleNormal

fun groupMemberRole_value :: "GroupMemberRole \<Rightarrow> int" where
  "groupMemberRole_value GroupMemberRoleCreater = 1"
| "groupMemberRole_value GroupMemberRoleManager = 2"
| "groupMemberRole_value GroupMemberRoleNormal = 0"

datatype GroupAllowViewHistoryMsgStatus = GroupAllowViewHistoryMsgDisabled | GroupAllowViewHistoryMsgEnabled

fun groupAllowViewHistoryMsgStatus_value :: "GroupAllowViewHistoryMsgStatus \<Rightarrow> int" where
  "groupAllowViewHistoryMsgStatus_value GroupAllowViewHistoryMsgDisabled = 0"
| "groupAllowViewHistoryMsgStatus_value GroupAllowViewHistoryMsgEnabled = 1"

datatype VercodeType = User | GroupMember | QRCode | Friend | MailList | InvitationCode

fun vercodeType_value :: "VercodeType \<Rightarrow> int" where
  "vercodeType_value User = 1"
| "vercodeType_value GroupMember = 2"
| "vercodeType_value QRCode = 3"
| "vercodeType_value Friend = 4"
| "vercodeType_value MailList = 5"
| "vercodeType_value InvitationCode = 6"

datatype UserStatus = UserAvailable | UserDisable

fun userStatus_value :: "UserStatus \<Rightarrow> int" where
  "userStatus_value UserAvailable = 1"
| "userStatus_value UserDisable = 0"

datatype RTCCallType = RTCCallTypeAudio | RTCCallTypeVideo

fun rTCCallType_value :: "RTCCallType \<Rightarrow> int" where
  "rTCCallType_value RTCCallTypeAudio = 0"
| "rTCCallType_value RTCCallTypeVideo = 1"

datatype SequenceKey = GroupMemberSeqKey | GroupSettingSeqKey | GroupSeqKey | UserSettingSeqKey | UserSeqKey | FriendSeqKey | MessageExtraSeqKey | MessageReactionSeqKey | RobotSeqKey | RobotEventSeqKey | SensitiveWordsKey | RemindersKey | SyncConversationExtraKey | ProhibitWordKey

fun sequenceKey_text :: "SequenceKey \<Rightarrow> string" where
  "sequenceKey_text GroupMemberSeqKey = ''groupMember''"
| "sequenceKey_text GroupSettingSeqKey = ''groupSetting''"
| "sequenceKey_text GroupSeqKey = ''group''"
| "sequenceKey_text UserSettingSeqKey = ''userSetting''"
| "sequenceKey_text UserSeqKey = ''user''"
| "sequenceKey_text FriendSeqKey = ''friend''"
| "sequenceKey_text MessageExtraSeqKey = ''messageExtra''"
| "sequenceKey_text MessageReactionSeqKey = ''messageReaction''"
| "sequenceKey_text RobotSeqKey = ''robot''"
| "sequenceKey_text RobotEventSeqKey = ''robotEventSeq:''"
| "sequenceKey_text SensitiveWordsKey = ''sensitiveWords''"
| "sequenceKey_text RemindersKey = ''reminders''"
| "sequenceKey_text SyncConversationExtraKey = ''syncConversationExtra''"
| "sequenceKey_text ProhibitWordKey = ''ProhibitWord''"

datatype CachePrefix = UserDeviceTokenPrefix | UserVoipDeviceTokenPrefix | UserDeviceBadgePrefix | QRCodeCachePrefix | AuthCodeCachePrefix | DeviceCacheUUIDPrefix

fun cachePrefix_text :: "CachePrefix \<Rightarrow> string" where
  "cachePrefix_text UserDeviceTokenPrefix = ''userDeviceToken:''"
| "cachePrefix_text UserVoipDeviceTokenPrefix = ''userVoipDeviceToken:''"
| "cachePrefix_text UserDeviceBadgePrefix = ''userDeviceBadge''"
| "cachePrefix_text QRCodeCachePrefix = ''qrcode:''"
| "cachePrefix_text AuthCodeCachePrefix = ''authcode:''"
| "cachePrefix_text DeviceCacheUUIDPrefix = ''deviceCacheUUID:''"

datatype AuthCodeType = AuthCodeTypeJoinGroup | AuthCodeTypeGroupMemberInvite | AuthCodeTypeScanLogin

fun authCodeType_text :: "AuthCodeType \<Rightarrow> string" where
  "authCodeType_text AuthCodeTypeJoinGroup = ''joinGroup''"
| "authCodeType_text AuthCodeTypeGroupMemberInvite = ''groupMemberInvite''"
| "authCodeType_text AuthCodeTypeScanLogin = ''scanLogin''"

datatype DeviceType = DeviceTypeIOS | DeviceTypeMI | DeviceTypeHMS | DeviceTypeFirebase | DeviceTypeOPPO | DeviceTypeVIVO

fun deviceType_text :: "DeviceType \<Rightarrow> string" where
  "deviceType_text DeviceTypeIOS = ''IOS''"
| "deviceType_text DeviceTypeMI = ''MI''"
| "deviceType_text DeviceTypeHMS = ''HMS''"
| "deviceType_text DeviceTypeFirebase = ''FIREBASE''"
| "deviceType_text DeviceTypeOPPO = ''OPPO''"
| "deviceType_text DeviceTypeVIVO = ''VIVO''"

datatype ScanLoginStatus = ScanLoginStatusExpired | ScanLoginStatusWaitScan | ScanLoginStatusScanned | ScanLoginStatusAuthed

fun scanLoginStatus_text :: "ScanLoginStatus \<Rightarrow> string" where
  "scanLoginStatus_text ScanLoginStatusExpired = ''expired''"
| "scanLoginStatus_text ScanLoginStatusWaitScan = ''waitScan''"
| "scanLoginStatus_text ScanLoginStatusScanned = ''scanned''"
| "scanLoginStatus_text ScanLoginStatusAuthed = ''authed''"

datatype AppLanguage = ChinaLanguage | EnglishLanguage

fun appLanguage_text :: "AppLanguage \<Rightarrow> string" where
  "appLanguage_text ChinaLanguage = ''cn''"
| "appLanguage_text EnglishLanguage = ''en''"

definition AppLanguage_ToString :: "AppLanguage \<Rightarrow> string" where
  "AppLanguage_ToString a = appLanguage_text a"

subsection \<open>Attributes of groups and commands\<close>

definition GroupAttrKeyForbiddenAddFriend :: string where "GroupAttrKeyForbiddenAddFriend = ''forbidden_add_friend''"
definition GroupAllowViewHistoryMsg :: string where "GroupAllowViewHistoryMsg = ''allow_view_history_msg''"
definition GroupAllowMemberPinnedMessage :: string where "GroupAllowMemberPinnedMessage = ''allow_member_pinned_message''"
definition CMDConversationUnreadClear :: string where "CMDConversationUnreadClear = ''unreadClear''"
definition CMDGroupAvatarUpdate :: string where "CMDGroupAvatarUpdate = ''groupAvatarUpdate''"
definition CMDCommunityAvatarUpdate :: string where "CMDCommunityAvatarUpdate = ''communityAvatarUpdate''"
definition CMDCommunityCoverUpdate :: string where "CMDCommunityCoverUpdate = ''communityCoverUpdate''"
definition CMDConversationDelete :: string where "CMDConversationDelete = ''conversationDelete''"
definition CMDFriendRequest :: string where "CMDFriendRequest = ''friendRequest''"
definition CMDFriendAccept :: string where "CMDFriendAccept = ''friendAccept''"
definition CMDUserAvatarUpdate :: string where "CMDUserAvatarUpdate = ''userAvatarUpdate''"
definition CMDOnlineStatus :: string where "CMDOnlineStatus = ''onlineStatus''"
definition CMDMomentMsg :: string where "CMDMomentMsg = ''momentMsg''"
definition CMDSyncMessageExtra :: string where "CMDSyncMessageExtra = ''syncMessageExtra''"
definition CMDSyncMessageReaction :: string where "CMDSyncMessageReaction = ''syncMessageReaction''"
definition CMDPCQuit :: string where "CMDPCQuit = ''pcQuit''"
definition CMDConversationDeleted :: string where "CMDConversationDeleted = ''conversationDeleted''"
definition CMDSyncReminders :: string where "CMDSyncReminders = ''syncReminders''"
definition CMDSyncConversationExtra :: string where "CMDSyncConversationExtra = ''syncConversationExtra''"
definition CMDOrganizationInfoUpdate :: string where "CMDOrganizationInfoUpdate = ''organizationInfoUpdate''"
definition CMDQuitOrganization :: string where "CMDQuitOrganization = ''quitOrganization''"
definition CMDJoinOrganization :: string where "CMDJoinOrganization = ''joinOrganization''"
definition CMDSyncPinnedMessage :: string where "CMDSyncPinnedMessage = ''syncPinnedMessage''"
definition CMDMessageErase :: string where "CMDMessageErase = ''messageEerase''"

definition commands :: "string list" where
  "commands =
     [CMDChannelUpdate, CMDGroupMemberUpdate, CMDConversationUnreadClear, CMDGroupAvatarUpdate, CMDCommunityAvatarUpdate,
      CMDCommunityCoverUpdate, CMDConversationDelete, CMDFriendRequest, CMDFriendAccept, CMDFriendDeleted, CMDUserAvatarUpdate,
      CMDTyping, CMDOnlineStatus, CMDMomentMsg, CMDSyncMessageExtra, CMDSyncMessageReaction, CMDPCQuit, CMDConversationDeleted,
      CMDSyncReminders, CMDSyncConversationExtra, CMDOrganizationInfoUpdate, CMDQuitOrganization, CMDJoinOrganization,
      CMDSyncPinnedMessage, CMDMessageErase]"

text \<open>The devices of \<^verbatim>\<open>config/msg.go\<close> and the states of a token.\<close>

definition DeviceLevelSlave :: byte where "DeviceLevelSlave = 0"
definition DeviceLevelMaster :: byte where "DeviceLevelMaster = 1"
definition APP :: byte where "APP = 0"
definition Web :: byte where "Web = 1"
definition PC :: byte where "PC = 2"
definition DeviceFlag_Uint8 :: "byte \<Rightarrow> byte" where "DeviceFlag_Uint8 d = d"
definition UpdateTokenStatusSuccess :: int64 where "UpdateTokenStatusSuccess = 200"
definition UpdateTokenStatusBan :: int64 where "UpdateTokenStatusBan = 19"
definition PullModeDown :: int64 where "PullModeDown = 0"
definition PullModeUp :: int64 where "PullModeUp = 1"

definition SyncackReq_String :: "SyncackReq \<Rightarrow> string" where
  "SyncackReq_String s = ''UID: '' @ sk_UID s @ '' LastMessageSeq: '' @ show_int (uint (sk_LastMessageSeq s))"

definition MsgSendReq_String :: "MsgSendReq \<Rightarrow> string" where
  "MsgSendReq_String m =
     ''ChannelID:'' @ ms_ChannelID m @ '' ChannelType:'' @ show_int (uint (ms_ChannelType m)) @ '' Payload:''
       @ (case ms_Payload m of None \<Rightarrow> [] | Some p \<Rightarrow> p)"

definition MsgHeader_String :: "MsgHeader \<Rightarrow> string" where
  "MsgHeader_String h =
     ''NoPersist:'' @ show_int (sint (mh_NoPersist h)) @ '' RedDot:'' @ show_int (sint (mh_RedDot h))
       @ '' SyncOnce:'' @ show_int (sint (mh_SyncOnce h))"

subsection \<open>Events\<close>

text \<open>The states of an event are declared with the type of its kinds, so both are one type of integers.\<close>

datatype event_type = None_event | Message_event | CMD_event | Wait_event | Success_event | Fail_event

fun event_type_Int :: "event_type \<Rightarrow> int" where
  "event_type_Int None_event = 0"
| "event_type_Int Message_event = 1"
| "event_type_Int CMD_event = 2"
| "event_type_Int Wait_event = 0"
| "event_type_Int Success_event = 1"
| "event_type_Int Fail_event = 2"

record event_data =
  ed_Event :: string
  ed_Type :: int
  ed_Data :: json

subsection \<open>Structs\<close>

record MessageDeleteReq =
  md_UID :: string
  md_ChannelID :: string
  md_ChannelType :: byte
  md_MessageIDs :: "uint64 list option"

definition json_of_MessageDeleteReq :: "MessageDeleteReq \<Rightarrow> json" where
  "json_of_MessageDeleteReq r =
     JObj [(''uid'', JStr (md_UID r)),
      (''channel_id'', JStr (md_ChannelID r)),
      (''channel_type'', j_byte (md_ChannelType r)),
      (''message_ids'', (jslice j_uint64) (md_MessageIDs r))]"

record CMDGroupAvatarUpdateReq =
  ga_GroupNo :: string
  ga_Members :: "string list option"

definition json_of_CMDGroupAvatarUpdateReq :: "CMDGroupAvatarUpdateReq \<Rightarrow> json" where
  "json_of_CMDGroupAvatarUpdateReq r =
     JObj [(''group_no'', JStr (ga_GroupNo r)),
      (''members'', (jslice JStr) (ga_Members r))]"

record CMDResp =
  cr_CMD :: string
  cr_Param :: json

definition json_of_CMDResp :: "CMDResp \<Rightarrow> json" where
  "json_of_CMDResp r =
     JObj [(''cmd'', JStr (cr_CMD r)),
      (''param'', (\<lambda>v. v) (cr_Param r))]"

record SyncUserConversationRespWrap =
  sw_Conversations :: "SyncUserConversationResp option list option"
  sw_CMDVersion :: int64
  sw_CMDs :: "CMDResp option list option"

definition json_of_SyncUserConversationRespWrap :: "SyncUserConversationRespWrap \<Rightarrow> json" where
  "json_of_SyncUserConversationRespWrap r =
     JObj [(''conversations'', (jslice (j_ptr json_of_SyncUserConversationResp)) (sw_Conversations r)),
      (''cmd_version'', j_int64 (sw_CMDVersion r)),
      (''cmds'', (jslice (j_ptr json_of_CMDResp)) (sw_CMDs r))]"

record Setting_msg =
  se_Receipt :: bool
  se_NoUpdateConversation :: bool
  se_Signal :: bool

definition json_of_Setting :: "Setting_msg \<Rightarrow> json" where
  "json_of_Setting r =
     JObj [(''Receipt'', JBool (se_Receipt r)),
      (''NoUpdateConversation'', JBool (se_NoUpdateConversation r)),
      (''Signal'', JBool (se_Signal r))]"

record UserResp =
  ur_UID :: string
  ur_Name :: string

definition json_of_UserResp :: "UserResp \<Rightarrow> json" where
  "json_of_UserResp r =
     JObj [(''uid'', JStr (ur_UID r)),
      (''name'', JStr (ur_Name r))]"

record ReactionResp =
  rr_Seq :: string
  rr_Users :: "UserResp list option"
  rr_Emoji :: string
  rr_Count :: int64

definition json_of_ReactionResp :: "ReactionResp \<Rightarrow> json" where
  "json_of_ReactionResp r =
     JObj [(''seq'', JStr (rr_Seq r)),
      (''users'', (jslice json_of_UserResp) (rr_Users r)),
      (''emoji'', JStr (rr_Emoji r)),
      (''count'', j_int64 (rr_Count r))]"

record UpdateSearchMessageReq =
  us_ChannelID :: string
  us_MessageIDs :: "string list option"

definition json_of_UpdateSearchMessageReq :: "UpdateSearchMessageReq \<Rightarrow> json" where
  "json_of_UpdateSearchMessageReq r =
     JObj [(''channel_id'', JStr (us_ChannelID r)),
      (''message_ids'', (jslice JStr) (us_MessageIDs r))]"

record MsgGroupDisband =
  gd_GroupNo :: string
  gd_Operator :: string
  gd_OperatorName :: string

definition json_of_MsgGroupDisband :: "MsgGroupDisband \<Rightarrow> json" where
  "json_of_MsgGroupDisband r =
     JObj [(''group_no'', JStr (gd_GroupNo r)),
      (''operator'', JStr (gd_Operator r)),
      (''operator_name'', JStr (gd_OperatorName r))]"

record OrgOrDeptEmployeeVO =
  oe_Operator :: string
  oe_OperatorName :: string
  oe_EmployeeUid :: string
  oe_EmployeeName :: string
  oe_GroupNo :: string
  oe_Action :: string

definition json_of_OrgOrDeptEmployeeVO :: "OrgOrDeptEmployeeVO \<Rightarrow> json" where
  "json_of_OrgOrDeptEmployeeVO r =
     JObj [(''operator'', JStr (oe_Operator r)),
      (''operator_name'', JStr (oe_OperatorName r)),
      (''employee_uid'', JStr (oe_EmployeeUid r)),
      (''employee_name'', JStr (oe_EmployeeName r)),
      (''group_no'', JStr (oe_GroupNo r)),
      (''action'', JStr (oe_Action r))]"

record MsgOrgOrDeptCreateReq =
  oc_GroupNo :: string
  oc_GroupCategory :: string
  oc_Name :: string
  oc_Operator :: string
  oc_OperatorName :: string
  oc_Members :: "OrgOrDeptEmployeeVO option list option"

definition json_of_MsgOrgOrDeptCreateReq :: "MsgOrgOrDeptCreateReq \<Rightarrow> json" where
  "json_of_MsgOrgOrDeptCreateReq r =
     JObj [(''group_no'', JStr (oc_GroupNo r)),
      (''group_category'', JStr (oc_GroupCategory r)),
      (''name'', JStr (oc_Name r)),
      (''operator'', JStr (oc_Operator r)),
      (''operator_name'', JStr (oc_OperatorName r)),
      (''members'', (jslice (j_ptr json_of_OrgOrDeptEmployeeVO)) (oc_Members r))]"

record MsgOrgOrDeptEmployeeUpdateReq =
  ou_Members :: "OrgOrDeptEmployeeVO option list option"

definition json_of_MsgOrgOrDeptEmployeeUpdateReq :: "MsgOrgOrDeptEmployeeUpdateReq \<Rightarrow> json" where
  "json_of_MsgOrgOrDeptEmployeeUpdateReq r =
     JObj [(''members'', (jslice (j_ptr json_of_OrgOrDeptEmployeeVO)) (ou_Members r))]"

record MsgOrgOrDeptEmployeeAddReq =
  oa_GroupNo :: string
  oa_Name :: string
  oa_Members :: "UserBaseVo option list option"

definition json_of_MsgOrgOrDeptEmployeeAddReq :: "MsgOrgOrDeptEmployeeAddReq \<Rightarrow> json" where
  "json_of_MsgOrgOrDeptEmployeeAddReq r =
     JObj [(''group_no'', JStr (oa_GroupNo r)),
      (''name'', JStr (oa_Name r)),
      (''members'', (jslice (j_ptr json_of_UserBaseVo)) (oa_Members r))]"

record OrgEmployeeExitReq =
  ox_Operator :: string
  ox_GroupNos :: "string list option"

definition json_of_OrgEmployeeExitReq :: "OrgEmployeeExitReq \<Rightarrow> json" where
  "json_of_OrgEmployeeExitReq r =
     JObj [(''operator'', JStr (ox_Operator r)),
      (''group_nos'', (jslice JStr) (ox_GroupNos r))]"

record Invite =
  iv_InviteCode :: string
  iv_Vercode :: string
  iv_Uid :: string

definition json_of_Invite :: "Invite \<Rightarrow> json" where
  "json_of_Invite r =
     JObj [(''InviteCode'', JStr (iv_InviteCode r)),
      (''Vercode'', JStr (iv_Vercode r)),
      (''Uid'', JStr (iv_Uid r))]"

record FriendResp =
  fr_Remark :: string
  fr_ToUID :: string
  fr_IsDeleted :: int64
  fr_IsAlone :: int64
  fr_ShortNo :: string

definition json_of_FriendResp :: "FriendResp \<Rightarrow> json" where
  "json_of_FriendResp r =
     JObj [(''Remark'', JStr (fr_Remark r)),
      (''ToUID'', JStr (fr_ToUID r)),
      (''IsDeleted'', j_int64 (fr_IsDeleted r)),
      (''IsAlone'', j_int64 (fr_IsAlone r)),
      (''ShortNo'', JStr (fr_ShortNo r))]"

record GroupMemberResp =
  gm_GroupNo :: string
  gm_UID :: string
  gm_Name :: string
  gm_Remark :: string
  gm_InviteUID :: string
  gm_IsDeleted :: int64
  gm_Role :: int64
  gm_Status :: int64
  gm_CreatedAt :: string
  gm_ForbiddenExpirTime :: int64

definition json_of_GroupMemberResp :: "GroupMemberResp \<Rightarrow> json" where
  "json_of_GroupMemberResp r =
     JObj [(''GroupNo'', JStr (gm_GroupNo r)),
      (''UID'', JStr (gm_UID r)),
      (''Name'', JStr (gm_Name r)),
      (''Remark'', JStr (gm_Remark r)),
      (''InviteUID'', JStr (gm_InviteUID r)),
      (''IsDeleted'', j_int64 (gm_IsDeleted r)),
      (''Role'', j_int64 (gm_Role r)),
      (''Status'', j_int64 (gm_Status r)),
      (''CreatedAt'', JStr (gm_CreatedAt r)),
      (''ForbiddenExpirTime'', j_int64 (gm_ForbiddenExpirTime r))]"

record DeviceResp =
  dr_ID :: int64
  dr_DeviceID :: string
  dr_DeviceName :: string
  dr_UID :: string
  dr_DeviceModel :: string

definition json_of_DeviceResp :: "DeviceResp \<Rightarrow> json" where
  "json_of_DeviceResp r =
     JObj [(''ID'', j_int64 (dr_ID r)),
      (''DeviceID'', JStr (dr_DeviceID r)),
      (''DeviceName'', JStr (dr_DeviceName r)),
      (''UID'', JStr (dr_UID r)),
      (''DeviceModel'', JStr (dr_DeviceModel r))]"

record BaseUserVO =
  bu_UID :: string
  bu_Name :: string

definition json_of_BaseUserVO :: "BaseUserVO \<Rightarrow> json" where
  "json_of_BaseUserVO r =
     JObj [(''UID'', JStr (bu_UID r)),
      (''Name'', JStr (bu_Name r))]"

record CallingChannelResp =
  cc_ChannelID :: string
  cc_ChannelType :: byte
  cc_RoomName :: string
  cc_Participants :: "BaseUserVO option list option"

definition json_of_CallingChannelResp :: "CallingChannelResp \<Rightarrow> json" where
  "json_of_CallingChannelResp r =
     JObj [(''ChannelID'', JStr (cc_ChannelID r)),
      (''ChannelType'', j_byte (cc_ChannelType r)),
      (''RoomName'', JStr (cc_RoomName r)),
      (''Participants'', (jslice (j_ptr json_of_BaseUserVO)) (cc_Participants r))]"

record PageResult =
  pr_PageIndex :: int64
  pr_PageSize :: int64
  pr_Total :: int64
  pr_Data :: json

definition json_of_PageResult :: "PageResult \<Rightarrow> json" where
  "json_of_PageResult r =
     JObj [(''page_index'', j_int64 (pr_PageIndex r)),
      (''page_size'', j_int64 (pr_PageSize r)),
      (''total'', j_int64 (pr_Total r)),
      (''data'', (\<lambda>v. v) (pr_Data r))]"

definition NewPageResult :: "int64 \<Rightarrow> int64 \<Rightarrow> int64 \<Rightarrow> json \<Rightarrow> PageResult" where
  "NewPageResult pageIndex pageSize count data =
     \<lparr>pr_PageIndex = pageIndex, pr_PageSize = pageSize, pr_Total = count, pr_Data = data\<rparr>"

text \<open>A channel as the applications answer it; the parent is left out when nil, the user name when empty.\<close>

record channel_id =
  ci_ChannelID :: string
  ci_ChannelType :: byte

definition json_of_channel_id :: "channel_id \<Rightarrow> json" where
  "json_of_channel_id r = JObj [(''channel_id'', JStr (ci_ChannelID r)), (''channel_type'', j_byte (ci_ChannelType r))]"

record ChannelResp =
  ch_Channel :: channel_id
  ch_ParentChannel :: "channel_id option"
  ch_Username :: string
  ch_Name :: string
  ch_Logo :: string
  ch_Remark :: string
  ch_Status :: int64
  ch_Online :: int64
  ch_LastOffline :: int64
  ch_DeviceFlag :: byte
  ch_Receipt :: int64
  ch_Robot :: int64
  ch_Category :: string
  ch_Stick :: int64
  ch_Mute :: int64
  ch_ShowNick :: int64
  ch_Follow :: int64
  ch_BeDeleted :: int64
  ch_BeBlacklist :: int64
  ch_Notice :: string
  ch_Save :: int64
  ch_Forbidden :: int64
  ch_Invite :: int64
  ch_Flame :: int64
  ch_FlameSecond :: int64
  ch_DeptIds :: string
  ch_Extra :: json

definition json_of_ChannelResp :: "ChannelResp \<Rightarrow> json" where
  "json_of_ChannelResp r =
     JObj ([(''channel'', json_of_channel_id (ch_Channel r))]
       @ (case ch_ParentChannel r of None \<Rightarrow> [] | Some p \<Rightarrow> [(''parent_channel'', json_of_channel_id p)])
       @ (if ch_Username r = [] then [] else [(''username'', JStr (ch_Username r))])
       @ [(''name'', JStr (ch_Name r)), (''logo'', JStr (ch_Logo r)), (''remark'', JStr (ch_Remark r)),
          (''status'', j_int64 (ch_Status r)), (''online'', j_int64 (ch_Online r)), (''last_offline'', j_int64 (ch_LastOffline r)),
          (''device_flag'', j_byte (ch_DeviceFlag r)), (''receipt'', j_int64 (ch_Receipt r)), (''robot'', j_int64 (ch_Robot r)),
          (''category'', JStr (ch_Category r)), (''stick'', j_int64 (ch_Stick r)), (''mute'', j_int64 (ch_Mute r)),
          (''show_nick'', j_int64 (ch_ShowNick r)), (''follow'', j_int64 (ch_Follow r)), (''be_deleted'', j_int64 (ch_BeDeleted r)),
          (''be_blacklist'', j_int64 (ch_BeBlacklist r)), (''notice'', JStr (ch_Notice r)), (''save'', j_int64 (ch_Save r)),
          (''forbidden'', j_int64 (ch_Forbidden r)), (''invite'', j_int64 (ch_Invite r)), (''flame'', j_int64 (ch_Flame r)),
          (''flame_second'', j_int64 (ch_FlameSecond r)), (''dept_ids'', JStr (ch_DeptIds r)), (''extra'', ch_Extra r)])"

subsection \<open>QR codes\<close>

type_synonym QRCodeType = string

definition QRCodeTypeGroup :: QRCodeType where "QRCodeTypeGroup = ''group''"
definition QRCodeTypeScanLogin :: QRCodeType where "QRCodeTypeScanLogin = ''scanLogin''"

record QRCodeModel =
  qr_Type :: QRCodeType
  qr_Data :: json

definition NewQRCodeModel :: "QRCodeType \<Rightarrow> json \<Rightarrow> QRCodeModel" where
  "NewQRCodeModel typ data = \<lparr>qr_Type = typ, qr_Data = data\<rparr>"

text \<open>The type is written between quotes as it is, and read as a JSON string.\<close>

definition QRCodeType_MarshalJSON :: "QRCodeType \<Rightarrow> string" where
  "QRCodeType_MarshalJSON q = CHR 0x22 # q @ [CHR 0x22]"

text \<open>Unlike a decoder, \<^verbatim>\<open>json.Unmarshal\<close> refuses anything after the value.\<close>

definition json_Unmarshal :: "string \<Rightarrow> json option" where
  "json_Unmarshal b =
     (case json_parse b of None \<Rightarrow> None | Some v \<Rightarrow> if lex_json b = json_tokens v then Some v else None)"

definition QRCodeType_UnmarshalJSON :: "string \<Rightarrow> (json_error, QRCodeType) res" where
  "QRCodeType_UnmarshalJSON b = (case json_Unmarshal b of None \<Rightarrow> Err NotJson | Some v \<Rightarrow> d_str v)"

text \<open>Characters JSON writes as they are.\<close>

definition plain_json :: "char \<Rightarrow> bool" where
  "plain_json c \<longleftrightarrow> json_escape c = [c]"

lemma QRCodeType_roundtrip: "list_all plain_json q \<Longrightarrow> QRCodeType_UnmarshalJSON (QRCodeType_MarshalJSON q) = Ok q"
proof -
  assume "list_all plain_json q"
  then have "concat (map json_escape q) = q" by (induction q) (auto simp: plain_json_def)
  then have "QRCodeType_MarshalJSON q = json_text (JStr q)"
    by (simp add: QRCodeType_MarshalJSON_def json_quote_def)
  moreover have "json_parse (json_text (JStr q)) = Some (JStr q)"
    by (rule json_parse_text) (simp_all add: json_max_depth_def)
  moreover have "lex_json (json_text (JStr q)) = json_tokens (JStr q)"
    using lex_json_text [of "JStr q" "[]"] by (simp add: ends_value_def)
  ultimately show ?thesis by (simp add: QRCodeType_UnmarshalJSON_def json_Unmarshal_def d_str_def)
qed

text \<open>A quote in a type ends the text early: what is written is no JSON.\<close>

lemma QRCodeType_quote: "QRCodeType_UnmarshalJSON (QRCodeType_MarshalJSON (CHR ''a'' # CHR 0x22 # ''b'')) = Err NotJson"
  by code_simp

subsection \<open>Names that differ\<close>

text \<open>Two kinds of cached values never share a key, whatever follows their prefixes.\<close>

definition cache_key :: "CachePrefix \<Rightarrow> string \<Rightarrow> string" where
  "cache_key p s = cachePrefix_text p @ s"

lemma cache_keys_differ: "cache_key p s = cache_key q t \<longleftrightarrow> p = q \<and> s = t"
  by (cases p; cases q) (simp_all add: cache_key_def)

lemma sequence_keys_differ: "sequenceKey_text k = sequenceKey_text l \<longleftrightarrow> k = l"
  by (cases k; cases l) simp_all

lemma commands_differ: "distinct commands"
  by (simp add: commands_def CMDChannelUpdate_def CMDGroupMemberUpdate_def CMDFriendDeleted_def CMDTyping_def CMDConversationUnreadClear_def CMDGroupAvatarUpdate_def CMDCommunityAvatarUpdate_def CMDCommunityCoverUpdate_def CMDConversationDelete_def CMDFriendRequest_def CMDFriendAccept_def CMDUserAvatarUpdate_def CMDOnlineStatus_def CMDMomentMsg_def CMDSyncMessageExtra_def CMDSyncMessageReaction_def CMDPCQuit_def CMDConversationDeleted_def CMDSyncReminders_def CMDSyncConversationExtra_def CMDOrganizationInfoUpdate_def CMDQuitOrganization_def CMDJoinOrganization_def CMDSyncPinnedMessage_def CMDMessageErase_def)

end
