(* ===== verification/Tracing.thy ===== *)
theory Tracing
  imports Prelude
begin

text \<open>
  Tracing, \<^verbatim>\<open>config/tracer.go\<close>: a tracer that forwards to package opentracing when tracing is on and does nothing when it
  is off, and the middleware that puts a span around every request.

  The tracer of package jaeger is a parameter: \<open>'t\<close> is its tracer, \<open>'s\<close> a span and \<open>'c\<close> the context of a span. A span or
  span context of the interface type is \<open>Empty\<close> when it is the repository's own.
\<close>

datatype 'a maybe_empty = Empty | Real 'a

record jaeger_config =
  jc_ServiceName :: string
  jc_TraceContextHeaderName :: string
  jc_SamplerType :: string
  jc_SamplerParam :: int
  jc_LogSpans :: bool
  jc_LocalAgentHostPort :: string

record ('t, 's, 'c) tracing_lib =
  lib_New :: "jaeger_config \<Rightarrow> string \<Rightarrow> (string, 't) res"
  lib_StartFromContext :: "string \<Rightarrow> 's"
  lib_StartSpan :: "'t \<Rightarrow> string \<Rightarrow> 'c maybe_empty option \<Rightarrow> 's"
  lib_Inject :: "'t \<Rightarrow> 'c maybe_empty \<Rightarrow> string option"
  lib_Extract :: "'t \<Rightarrow> string + 'c"
  lib_Context :: "'s \<Rightarrow> 'c"
  lib_Close :: "'t \<Rightarrow> string option"

text \<open>\<open>tr_tracer\<close> stands for the fields \<^verbatim>\<open>tracer\<close> and \<^verbatim>\<open>closer\<close>, which are set together.\<close>

record 't Tracer =
  tr_On :: bool
  tr_config :: "jaeger_config option"
  tr_tracer :: "'t option"

definition jaeger_configuration :: "string \<Rightarrow> string \<Rightarrow> jaeger_config" where
  "jaeger_configuration appID addr =
     \<lparr>jc_ServiceName = appID, jc_TraceContextHeaderName = ''wukongchat-trace-id'', jc_SamplerType = ''const'',
      jc_SamplerParam = 1, jc_LogSpans = True, jc_LocalAgentHostPort = addr\<rparr>"

definition NewTracer :: "('t, 's, 'c) tracing_lib \<Rightarrow> bool \<Rightarrow> string \<Rightarrow> string \<Rightarrow> (string, 't Tracer) res" where
  "NewTracer lib on appID addr =
     (if \<not> on then Ok \<lparr>tr_On = on, tr_config = None, tr_tracer = None\<rparr>
      else let cfg = jaeger_configuration appID addr
           in map_ok (\<lambda>t. \<lparr>tr_On = on, tr_config = Some cfg, tr_tracer = Some t\<rparr>) (lib_New lib cfg appID))"

definition Close_tracer :: "('t, 's, 'c) tracing_lib \<Rightarrow> 't Tracer \<Rightarrow> string option" where
  "Close_tracer lib t = (case tr_tracer t of None \<Rightarrow> None | Some c \<Rightarrow> lib_Close lib c)"

text \<open>A call of a method on the tracer that is not there panics.\<close>

definition with_tracer :: "'t Tracer \<Rightarrow> ('t \<Rightarrow> 'a) \<Rightarrow> (string, 'a) res" where
  "with_tracer t f =
     (case tr_tracer t of None \<Rightarrow> Panic ''invalid memory address or nil pointer dereference'' | Some x \<Rightarrow> Ok (f x))"

definition StartSpanFromContext :: "('t, 's, 'c) tracing_lib \<Rightarrow> 't Tracer \<Rightarrow> string \<Rightarrow> 's maybe_empty" where
  "StartSpanFromContext lib t operationName =
     (if \<not> tr_On t then Empty else Real (lib_StartFromContext lib operationName))"

definition StartSpan :: "('t, 's, 'c) tracing_lib \<Rightarrow> 't Tracer \<Rightarrow> string \<Rightarrow> 'c maybe_empty option \<Rightarrow> (string, 's maybe_empty) res" where
  "StartSpan lib t operationName parent =
     (if \<not> tr_On t then Ok Empty else with_tracer t (\<lambda>x. Real (lib_StartSpan lib x operationName parent)))"

definition Inject_tracer :: "('t, 's, 'c) tracing_lib \<Rightarrow> 't Tracer \<Rightarrow> 'c maybe_empty \<Rightarrow> (string, string option) res" where
  "Inject_tracer lib t sm = (if \<not> tr_On t then Ok None else with_tracer t (\<lambda>x. lib_Inject lib x sm))"

definition InjectHTTPHeader :: "('t, 's, 'c) tracing_lib \<Rightarrow> 't Tracer \<Rightarrow> 'c maybe_empty \<Rightarrow> (string, string option) res" where
  "InjectHTTPHeader lib t sm = (if \<not> tr_On t then Ok None else with_tracer t (\<lambda>x. lib_Inject lib x sm))"

definition Extract_tracer :: "('t, 's, 'c) tracing_lib \<Rightarrow> 't Tracer \<Rightarrow> (string, 'c maybe_empty) res" where
  "Extract_tracer lib t =
     (if \<not> tr_On t then Ok Empty
      else bind_res (with_tracer t (lib_Extract lib)) (\<lambda>r. case r of Inl e \<Rightarrow> Err e | Inr c \<Rightarrow> Ok (Real c)))"

definition ExtractHTTPHeader :: "('t, 's, 'c) tracing_lib \<Rightarrow> 't Tracer \<Rightarrow> (string, 'c maybe_empty) res" where
  "ExtractHTTPHeader lib t = Extract_tracer lib t"

subsection \<open>The empty span\<close>

text \<open>Its context and tracer are nil, the methods that return a span return it, the others do nothing.\<close>

definition EmptySpan_Context :: "'c option" where "EmptySpan_Context = None"

definition EmptySpan_SetOperationName :: "string \<Rightarrow> 's maybe_empty" where "EmptySpan_SetOperationName n = Empty"

definition EmptySpan_SetTag :: "string \<Rightarrow> 'v \<Rightarrow> 's maybe_empty" where "EmptySpan_SetTag k v = Empty"

definition EmptySpan_SetBaggageItem :: "string \<Rightarrow> string \<Rightarrow> 's maybe_empty" where
  "EmptySpan_SetBaggageItem k v = Empty"

definition EmptySpan_BaggageItem :: "string \<Rightarrow> string" where "EmptySpan_BaggageItem k = []"

definition EmptySpan_Tracer :: "'t option" where "EmptySpan_Tracer = None"

subsection \<open>The middleware\<close>

text \<open>
  What a request does, in order: the spans it starts and finishes, the context it stores for the handlers,
  the handlers themselves, and the header it writes. \<open>handlers\<close> is a panic of theirs, if any.
\<close>

datatype 'c request_event =
    SpanStarted string | StoredContext "'c maybe_empty" | HandlersRan | HeaderInjected | InjectWarned string | SpanFinished

definition start_request_span :: "('t, 's, 'c) tracing_lib \<Rightarrow> 't Tracer \<Rightarrow> string \<Rightarrow> (string, 's maybe_empty) res" where
  "start_request_span lib t path =
     (case ExtractHTTPHeader lib t of
        Err e \<Rightarrow> Ok (StartSpanFromContext lib t path)
      | Panic p \<Rightarrow> Panic p
      | Ok spCtx \<Rightarrow> StartSpan lib t path (Some spCtx))"

definition span_context :: "('t, 's, 'c) tracing_lib \<Rightarrow> 's maybe_empty \<Rightarrow> 'c maybe_empty option" where
  "span_context lib s = (case s of Empty \<Rightarrow> EmptySpan_Context | Real s \<Rightarrow> Some (Real (lib_Context lib s)))"

definition inject_after :: "('t, 's, 'c) tracing_lib \<Rightarrow> 't Tracer \<Rightarrow> 'c maybe_empty \<Rightarrow> 'c request_event list \<times> string outcome" where
  "inject_after lib t c =
     (case InjectHTTPHeader lib t c of
        Ok None \<Rightarrow> ([HeaderInjected], Returned [])
      | Ok (Some e) \<Rightarrow> ([InjectWarned e], Returned [])
      | Err e \<Rightarrow> ([InjectWarned e], Returned [])
      | Panic p \<Rightarrow> ([], Panicked p))"

definition GinMiddle :: "('t, 's, 'c) tracing_lib \<Rightarrow> 't Tracer \<Rightarrow> string \<Rightarrow> string option \<Rightarrow> 'c request_event list \<times> string outcome" where
  "GinMiddle lib t path handlers =
     (if tr_On t then
        (case start_request_span lib t path of
           Err e \<Rightarrow> ([], Panicked e)
         | Panic p \<Rightarrow> ([], Panicked p)
         | Ok s \<Rightarrow>
             (case span_context lib s of
                None \<Rightarrow> ([SpanStarted path, SpanFinished], Panicked ''nil span context'')
              | Some c \<Rightarrow>
                  (case handlers of
                     Some p \<Rightarrow> ([SpanStarted path, StoredContext c, HandlersRan, SpanFinished], Panicked p)
                   | None \<Rightarrow>
                       let (evs, r) = inject_after lib t c
                       in ([SpanStarted path, StoredContext c, HandlersRan] @ evs @ [SpanFinished], r))))
      else
        ([StoredContext Empty, HandlersRan], (case handlers of None \<Rightarrow> Returned [] | Some p \<Rightarrow> Panicked p)))"

subsection \<open>Properties\<close>

text \<open>A tracer as \<open>NewTracer\<close> makes it.\<close>

lemma NewTracer_on: "NewTracer lib on appID addr = Ok t \<Longrightarrow> tr_On t = on \<and> (tr_tracer t = None \<longleftrightarrow> \<not> on)"
  by (auto simp: NewTracer_def Let_def go_res split: if_splits)

text \<open>C39: Around every request of a tracer that was made without an error, whether tracing is on or off, whether the header
  holds a parent, and whether the handlers panic: the handlers run once, after a span context was stored for them; every span
  started is finished, last of all; and with tracing off no span is started and the stored context is the empty one.
\<close>

theorem request_spans_finish:
  assumes "NewTracer lib on appID addr = Ok t"
  shows "case GinMiddle lib t path handlers of (evs, r) \<Rightarrow>
    filter (\<lambda>e. e = HandlersRan) evs = [HandlersRan] \<and>
    (\<exists>c pre post. evs = pre @ [StoredContext c, HandlersRan] @ post \<and> (pre, c = Empty) = (if on then ([SpanStarted path], False) else ([], True))) \<and>
    (if on then last evs = SpanFinished \<and> length (filter (\<lambda>e. e = SpanFinished) evs) = 1 else evs = [StoredContext Empty, HandlersRan]) \<and>
    (handlers \<noteq> None \<longrightarrow> r = Panicked (the handlers)) \<and> (handlers = None \<longrightarrow> r = Returned [])"
proof (cases on)
  case False
  with NewTracer_on [OF assms] show ?thesis
    by (auto simp: GinMiddle_def split: option.split)
next
  case True
  with NewTracer_on [OF assms] obtain x where x: "tr_On t" "tr_tracer t = Some x" by auto
  obtain s where s: "start_request_span lib t path = Ok (Real s)"
    using x by (cases "lib_Extract lib x")
      (auto simp: start_request_span_def ExtractHTTPHeader_def Extract_tracer_def with_tracer_def StartSpan_def StartSpanFromContext_def)
  let ?c = "Real (lib_Context lib s)"
  obtain evs where i: "inject_after lib t ?c = (evs, Returned [])" "evs = [HeaderInjected] \<or> (\<exists>e. evs = [InjectWarned e])"
    using x by (cases "lib_Inject lib x ?c") (auto simp: inject_after_def InjectHTTPHeader_def with_tracer_def)
  have "GinMiddle lib t path handlers = (case handlers of
      Some p \<Rightarrow> ([SpanStarted path, StoredContext ?c, HandlersRan, SpanFinished], Panicked p)
    | None \<Rightarrow> ([SpanStarted path, StoredContext ?c, HandlersRan] @ evs @ [SpanFinished], Returned []))"
    using x(1) s i(1) by (simp add: GinMiddle_def span_context_def split: option.split)
  with True i(2) show ?thesis
    by (cases handlers) (auto intro!: exI [of _ ?c] exI [of _ "[SpanStarted path]"])
qed

definition example_tracing :: "(unit, string, string) tracing_lib" where
  "example_tracing =
     \<lparr>lib_New = \<lambda>c n. Ok (), lib_StartFromContext = \<lambda>n. n, lib_StartSpan = \<lambda>t n p. n, lib_Inject = \<lambda>t c. None,
      lib_Extract = \<lambda>t. Inl ''no parent'', lib_Context = \<lambda>s. s, lib_Close = \<lambda>t. None\<rparr>"

theorem request_spans_finish_witness:
  "\<exists>t evs. NewTracer example_tracing True ''app'' ''jaeger:6831'' = Ok t \<and>
    GinMiddle example_tracing t ''/v1/user'' (Some ''index out of range'') = (evs, Panicked ''index out of range'') \<and> last evs = SpanFinished"
proof -
  have n: "NewTracer example_tracing True ''app'' ''jaeger:6831''
    = Ok \<lparr>tr_On = True, tr_config = Some (jaeger_configuration ''app'' ''jaeger:6831''), tr_tracer = Some ()\<rparr>"
    by (simp add: NewTracer_def example_tracing_def)
  show ?thesis
    using request_spans_finish [OF n, of "''/v1/user''" "Some ''index out of range''"] n by (auto split: prod.splits)
qed

end
