(* ===== verification/Logging.thy ===== *)
theory Logging
  imports Constants "HOL-Library.AList"
begin

text \<open>
  Logging: the leveled files of \<^verbatim>\<open>pkg/log\<close> and the configurable logger of \<^verbatim>\<open>pkg/zlog\<close> with its writer for
  a log service.

  Of package zap the code relies on: a logger writes an entry to all the sinks of its core when the
  entry's level reaches the core's. How an entry is laid out as text is left out; an entry is its message.
\<close>

subsection \<open>\<^verbatim>\<open>pkg/log\<close>\<close>

definition zap_DebugLevel :: int where "zap_DebugLevel = - 1"
definition zap_InfoLevel :: int where "zap_InfoLevel = 0"
definition zap_WarnLevel :: int where "zap_WarnLevel = 1"
definition zap_ErrorLevel :: int where "zap_ErrorLevel = 2"
definition zap_PanicLevel :: int where "zap_PanicLevel = 4"
definition zap_FatalLevel :: int where "zap_FatalLevel = 5"

record log_options =
  lo_Level :: int
  lo_LogDir :: string
  lo_LineNum :: bool

definition NewOptions_log :: log_options where
  "NewOptions_log = \<lparr>lo_Level = 0, lo_LogDir = [], lo_LineNum = False\<rparr>"

text \<open>A file is the directory and the name joined; the level of a core is fixed or the shared, changeable one.\<close>

datatype sink = Stdout | Stderr | LogFile string string

datatype core_level = Fixed int | Atom

record zap_logger =
  zl_sinks :: "sink list"
  zl_level :: core_level
  zl_caller :: bool

record log_state =
  ls_atom :: int
  ls_logger :: "zap_logger option"
  ls_errorLogger :: "zap_logger option"
  ls_warnLogger :: "zap_logger option"
  ls_testLogger :: "zap_logger option"
  ls_written :: "(sink \<times> int \<times> string) list"

definition log_init :: log_state where
  "log_init = \<lparr>ls_atom = 0, ls_logger = None, ls_errorLogger = None, ls_warnLogger = None, ls_testLogger = None, ls_written = []\<rparr>"

definition file_logger :: "log_options \<Rightarrow> string \<Rightarrow> core_level \<Rightarrow> zap_logger" where
  "file_logger opts name lvl =
     \<lparr>zl_sinks = [Stdout, LogFile (lo_LogDir opts) name], zl_level = lvl, zl_caller = lo_LineNum opts\<rparr>"

definition Configure_log :: "log_options \<Rightarrow> log_state \<Rightarrow> log_state" where
  "Configure_log opts s =
     s\<lparr>ls_atom := lo_Level opts,
       ls_testLogger := Some \<lparr>zl_sinks = [Stdout], zl_level = Atom, zl_caller = lo_LineNum opts\<rparr>,
       ls_logger := Some (file_logger opts ''info.log'' Atom),
       ls_errorLogger := Some (file_logger opts ''error.log'' (Fixed zap_ErrorLevel)),
       ls_warnLogger := Some (file_logger opts ''warn.log'' (Fixed zap_WarnLevel))\<rparr>"

definition zap_log :: "(log_state \<Rightarrow> zap_logger option) \<Rightarrow> int \<Rightarrow> string \<Rightarrow> log_state \<Rightarrow> log_state" where
  "zap_log which lvl msg s =
     (case which s of
        None \<Rightarrow> s
      | Some l \<Rightarrow>
          (if (case zl_level l of Fixed m \<Rightarrow> m | Atom \<Rightarrow> ls_atom s) \<le> lvl
           then s\<lparr>ls_written := ls_written s @ map (\<lambda>k. (k, lvl, msg)) (zl_sinks l)\<rparr> else s))"

text \<open>Each function configures the defaults when its logger is not there yet.\<close>

definition log_with :: "(log_state \<Rightarrow> zap_logger option) \<Rightarrow> int \<Rightarrow> string \<Rightarrow> log_state \<Rightarrow> log_state" where
  "log_with which lvl msg s =
     zap_log which lvl msg (if which s = None then Configure_log NewOptions_log s else s)"

definition Info_log :: "string \<Rightarrow> log_state \<Rightarrow> log_state" where
  "Info_log = log_with ls_logger zap_InfoLevel"

definition Debug_log :: "string \<Rightarrow> log_state \<Rightarrow> log_state" where
  "Debug_log = log_with ls_logger zap_DebugLevel"

definition Error_log :: "string \<Rightarrow> log_state \<Rightarrow> log_state" where
  "Error_log = log_with ls_errorLogger zap_ErrorLevel"

definition Warn_log :: "string \<Rightarrow> log_state \<Rightarrow> log_state" where
  "Warn_log = log_with ls_warnLogger zap_WarnLevel"

definition tlog_text :: "string \<Rightarrow> string \<Rightarrow> string" where
  "tlog_text prefix msg = utf8 [0x3010] @ prefix @ utf8 [0x3011] @ msg"

definition TLog_Info :: "string \<Rightarrow> string \<Rightarrow> log_state \<Rightarrow> log_state" where
  "TLog_Info prefix msg = Info_log (tlog_text prefix msg)"

definition TLog_Debug :: "string \<Rightarrow> string \<Rightarrow> log_state \<Rightarrow> log_state" where
  "TLog_Debug prefix msg = Debug_log (tlog_text prefix msg)"

definition TLog_Error :: "string \<Rightarrow> string \<Rightarrow> log_state \<Rightarrow> log_state" where
  "TLog_Error prefix msg = Error_log (tlog_text prefix msg)"

definition TLog_Warn :: "string \<Rightarrow> string \<Rightarrow> log_state \<Rightarrow> log_state" where
  "TLog_Warn prefix msg = Warn_log (tlog_text prefix msg)"

subsection \<open>What is written where\<close>

datatype log_op =
    DoConfigure log_options | DoInfo string string | DoDebug string string | DoWarn string string | DoError string string

fun do_log :: "log_op \<Rightarrow> log_state \<Rightarrow> log_state" where
  "do_log (DoConfigure opts) = Configure_log opts"
| "do_log (DoInfo p m) = TLog_Info p m"
| "do_log (DoDebug p m) = TLog_Debug p m"
| "do_log (DoWarn p m) = TLog_Warn p m"
| "do_log (DoError p m) = TLog_Error p m"

definition entry_ok :: "sink \<times> int \<times> string \<Rightarrow> bool" where
  "entry_ok e \<longleftrightarrow>
     (case e of (LogFile d n, lvl, m) \<Rightarrow>
        (n = ''error.log'' \<and> lvl = zap_ErrorLevel) \<or> (n = ''warn.log'' \<and> lvl = zap_WarnLevel) \<or>
        (n = ''info.log'' \<and> lvl \<in> {zap_DebugLevel, zap_InfoLevel})
      | (Stdout, _, _) \<Rightarrow> True
      | (Stderr, _, _) \<Rightarrow> False)"

text \<open>All loggers are there or none; each writes to standard output and its own file.\<close>

definition loggers_ok :: "log_state \<Rightarrow> bool" where
  "loggers_ok s \<longleftrightarrow>
     (ls_logger s = None \<and> ls_errorLogger s = None \<and> ls_warnLogger s = None) \<or>
     (\<exists>opts. ls_logger s = Some (file_logger opts ''info.log'' Atom) \<and>
        ls_errorLogger s = Some (file_logger opts ''error.log'' (Fixed zap_ErrorLevel)) \<and>
        ls_warnLogger s = Some (file_logger opts ''warn.log'' (Fixed zap_WarnLevel)) \<and> ls_atom s = lo_Level opts)"

definition log_inv :: "log_state \<Rightarrow> bool" where
  "log_inv s \<longleftrightarrow>
     loggers_ok s \<and> list_all entry_ok (ls_written s) \<and>
     map snd (filter (\<lambda>e. fst e = Stdout) (ls_written s)) = map snd (filter (\<lambda>e. fst e \<noteq> Stdout) (ls_written s))"

lemma Configure_inv: "log_inv s \<Longrightarrow> log_inv (Configure_log opts s)"
  by (auto simp: log_inv_def loggers_ok_def Configure_log_def)

lemma zap_log_inv:
  assumes "log_inv s"
  shows "which = ls_logger \<and> lvl \<in> {zap_DebugLevel, zap_InfoLevel} \<or> which = ls_errorLogger \<and> lvl = zap_ErrorLevel \<or>
    which = ls_warnLogger \<and> lvl = zap_WarnLevel \<Longrightarrow> log_inv (zap_log which lvl msg s)"
  using assms
  by (auto simp: zap_log_def log_inv_def loggers_ok_def file_logger_def entry_ok_def split: option.split)

lemma log_with_inv:
  assumes "log_inv s"
  shows "which = ls_logger \<and> lvl \<in> {zap_DebugLevel, zap_InfoLevel} \<or> which = ls_errorLogger \<and> lvl = zap_ErrorLevel \<or>
    which = ls_warnLogger \<and> lvl = zap_WarnLevel \<Longrightarrow> log_inv (log_with which lvl msg s)"
  unfolding log_with_def by (rule zap_log_inv) (use assms Configure_inv in auto)

lemmas log_defs = TLog_Info_def TLog_Debug_def TLog_Warn_def TLog_Error_def Info_log_def Debug_log_def Warn_log_def Error_log_def

lemma do_log_inv: "log_inv s \<Longrightarrow> log_inv (do_log op s)"
  by (cases op) (auto simp: log_defs intro!: log_with_inv Configure_inv)

lemma run_log_inv: "log_inv s \<Longrightarrow> log_inv (fold do_log ops s)"
  by (induction ops arbitrary: s) (auto intro: do_log_inv)

text \<open>In any sequence of configurations and log calls, also before the first configuration, every line of a file has the
  level the file is for, and standard output holds the same lines as all files together, in order. An error or a warning is
  written whatever the level configured; an information or a debug line when that level lets it pass.
\<close>

theorem log_lines_in_their_files:
  "let s = fold do_log ops log_init in
    list_all entry_ok (ls_written s) \<and>
    map snd (filter (\<lambda>e. fst e = Stdout) (ls_written s)) = map snd (filter (\<lambda>e. fst e \<noteq> Stdout) (ls_written s)) \<and>
    (\<exists>d. ls_written (TLog_Error p m s) = ls_written s @ [(Stdout, 2, tlog_text p m), (LogFile d ''error.log'', 2, tlog_text p m)]) \<and>
    (\<exists>d. ls_written (TLog_Warn p m s) = ls_written s @ [(Stdout, 1, tlog_text p m), (LogFile d ''warn.log'', 1, tlog_text p m)]) \<and>
    (\<exists>d. ls_written (TLog_Info p m s) = ls_written s @
       (if ls_atom s \<le> 0 then [(Stdout, 0, tlog_text p m), (LogFile d ''info.log'', 0, tlog_text p m)] else []))"
proof -
  define s where "s = fold do_log ops log_init"
  have a: "ls_atom log_init = 0" by (simp add: log_init_def)
  have "log_inv log_init" by (simp add: log_inv_def loggers_ok_def log_init_def)
  then have i: "log_inv s" unfolding s_def by (rule run_log_inv)
  have "ls_logger s = None \<longrightarrow> ls_atom s = 0"
  proof -
    have "ls_logger (fold do_log ops t) = None \<longrightarrow> ls_atom (fold do_log ops t) = 0"
      if "ls_logger t = None \<longrightarrow> ls_atom t = 0" for t
      using that
    proof (induction ops arbitrary: t)
      case (Cons op ops)
      have "ls_logger (do_log op t) = None \<longrightarrow> ls_atom (do_log op t) = 0"
        using Cons.prems by (cases op) (auto simp: log_defs log_with_def zap_log_def Configure_log_def NewOptions_log_def split: option.split)
      then show ?case using Cons.IH by simp
    qed simp
    then show ?thesis unfolding s_def using a by blast
  qed
  with i show ?thesis
    unfolding Let_def s_def [symmetric]
    by (auto simp: log_inv_def loggers_ok_def log_defs log_with_def zap_log_def Configure_log_def NewOptions_log_def file_logger_def
        zap_ErrorLevel_def zap_WarnLevel_def zap_InfoLevel_def)
qed


subsection \<open>\<^verbatim>\<open>pkg/zlog\<close>\<close>

record zlog_options =
  zo_Driver :: string
  zo_Format :: string
  zo_Output :: string
  zo_Level :: string
  zo_Filename :: string
  zo_MaxSize :: int
  zo_MaxBackups :: int
  zo_MaxAge :: int
  zo_Compress :: bool
  zo_AccessKey :: string
  zo_AccessKeySecret :: string
  zo_EndPoint :: string
  zo_Project :: string
  zo_LogStore :: string
  zo_Topic :: string

definition default_zlog_options :: zlog_options where
  "default_zlog_options =
     \<lparr>zo_Driver = ''zap'', zo_Format = ''text'', zo_Output = ''console'', zo_Level = ''debug'', zo_Filename = ''./access.log'',
      zo_MaxSize = 10, zo_MaxBackups = 5, zo_MaxAge = 30, zo_Compress = False, zo_AccessKey = [], zo_AccessKeySecret = [],
      zo_EndPoint = [], zo_Project = [], zo_LogStore = [], zo_Topic = []\<rparr>"

text \<open>\<open>unmarshal\<close> fills options from the configuration, and tells whether it failed; what it filled stays.\<close>

definition NewOptionsWithConfig :: "(zlog_options \<Rightarrow> zlog_options \<times> string option) \<Rightarrow> zlog_options" where
  "NewOptionsWithConfig unmarshal = fst (unmarshal default_zlog_options)"

definition Driver_zlog :: "string \<Rightarrow> zlog_options \<Rightarrow> zlog_options" where
  "Driver_zlog x opt = opt\<lparr>zo_Driver := x\<rparr>"

definition Format_zlog :: "string \<Rightarrow> zlog_options \<Rightarrow> zlog_options" where
  "Format_zlog x opt = opt\<lparr>zo_Format := x\<rparr>"

definition Output_zlog :: "string \<Rightarrow> zlog_options \<Rightarrow> zlog_options" where
  "Output_zlog x opt = opt\<lparr>zo_Output := x\<rparr>"

definition Level_zlog :: "string \<Rightarrow> zlog_options \<Rightarrow> zlog_options" where
  "Level_zlog x opt = opt\<lparr>zo_Level := x\<rparr>"

definition Filename_zlog :: "string \<Rightarrow> zlog_options \<Rightarrow> zlog_options" where
  "Filename_zlog x opt = opt\<lparr>zo_Filename := x\<rparr>"

definition MaxSize_zlog :: "int \<Rightarrow> zlog_options \<Rightarrow> zlog_options" where
  "MaxSize_zlog x opt = opt\<lparr>zo_MaxSize := x\<rparr>"

definition MaxBackups_zlog :: "int \<Rightarrow> zlog_options \<Rightarrow> zlog_options" where
  "MaxBackups_zlog x opt = opt\<lparr>zo_MaxBackups := x\<rparr>"

definition MaxAge_zlog :: "int \<Rightarrow> zlog_options \<Rightarrow> zlog_options" where
  "MaxAge_zlog x opt = opt\<lparr>zo_MaxAge := x\<rparr>"

definition Compress_zlog :: "bool \<Rightarrow> zlog_options \<Rightarrow> zlog_options" where
  "Compress_zlog x opt = opt\<lparr>zo_Compress := x\<rparr>"

definition AccessKey_zlog :: "string \<Rightarrow> zlog_options \<Rightarrow> zlog_options" where
  "AccessKey_zlog x opt = opt\<lparr>zo_AccessKey := x\<rparr>"

definition AccessKeySecret_zlog :: "string \<Rightarrow> zlog_options \<Rightarrow> zlog_options" where
  "AccessKeySecret_zlog x opt = opt\<lparr>zo_AccessKeySecret := x\<rparr>"

definition EndPoint_zlog :: "string \<Rightarrow> zlog_options \<Rightarrow> zlog_options" where
  "EndPoint_zlog x opt = opt\<lparr>zo_EndPoint := x\<rparr>"

definition Project_zlog :: "string \<Rightarrow> zlog_options \<Rightarrow> zlog_options" where
  "Project_zlog x opt = opt\<lparr>zo_Project := x\<rparr>"

definition LogStore_zlog :: "string \<Rightarrow> zlog_options \<Rightarrow> zlog_options" where
  "LogStore_zlog x opt = opt\<lparr>zo_LogStore := x\<rparr>"

definition Topic_zlog :: "string \<Rightarrow> zlog_options \<Rightarrow> zlog_options" where
  "Topic_zlog x opt = opt\<lparr>zo_Topic := x\<rparr>"

record zap_options =
  zz_format :: string
  zz_output :: string
  zz_level :: string
  zz_filename :: string
  zz_maxSize :: int
  zz_maxBackups :: int
  zz_maxAge :: int
  zz_compress :: bool
  zz_accessKey :: string
  zz_accessKeySecret :: string
  zz_endPoint :: string
  zz_project :: string
  zz_logStore :: string
  zz_topic :: string

definition Format_zap :: "string \<Rightarrow> zap_options \<Rightarrow> zap_options" where
  "Format_zap x opt = opt\<lparr>zz_format := x\<rparr>"

definition Output_zap :: "string \<Rightarrow> zap_options \<Rightarrow> zap_options" where
  "Output_zap x opt = opt\<lparr>zz_output := x\<rparr>"

definition Level_zap :: "string \<Rightarrow> zap_options \<Rightarrow> zap_options" where
  "Level_zap x opt = opt\<lparr>zz_level := x\<rparr>"

definition Filename_zap :: "string \<Rightarrow> zap_options \<Rightarrow> zap_options" where
  "Filename_zap x opt = opt\<lparr>zz_filename := x\<rparr>"

definition MaxSize_zap :: "int \<Rightarrow> zap_options \<Rightarrow> zap_options" where
  "MaxSize_zap x opt = opt\<lparr>zz_maxSize := x\<rparr>"

definition MaxBackups_zap :: "int \<Rightarrow> zap_options \<Rightarrow> zap_options" where
  "MaxBackups_zap x opt = opt\<lparr>zz_maxBackups := x\<rparr>"

definition MaxAge_zap :: "int \<Rightarrow> zap_options \<Rightarrow> zap_options" where
  "MaxAge_zap x opt = opt\<lparr>zz_maxAge := x\<rparr>"

definition Compress_zap :: "bool \<Rightarrow> zap_options \<Rightarrow> zap_options" where
  "Compress_zap x opt = opt\<lparr>zz_compress := x\<rparr>"

definition AccessKey_zap :: "string \<Rightarrow> zap_options \<Rightarrow> zap_options" where
  "AccessKey_zap x opt = opt\<lparr>zz_accessKey := x\<rparr>"

definition AccessKeySecret_zap :: "string \<Rightarrow> zap_options \<Rightarrow> zap_options" where
  "AccessKeySecret_zap x opt = opt\<lparr>zz_accessKeySecret := x\<rparr>"

definition EndPoint_zap :: "string \<Rightarrow> zap_options \<Rightarrow> zap_options" where
  "EndPoint_zap x opt = opt\<lparr>zz_endPoint := x\<rparr>"

definition Project_zap :: "string \<Rightarrow> zap_options \<Rightarrow> zap_options" where
  "Project_zap x opt = opt\<lparr>zz_project := x\<rparr>"

definition LogStore_zap :: "string \<Rightarrow> zap_options \<Rightarrow> zap_options" where
  "LogStore_zap x opt = opt\<lparr>zz_logStore := x\<rparr>"

definition Topic_zap :: "string \<Rightarrow> zap_options \<Rightarrow> zap_options" where
  "Topic_zap x opt = opt\<lparr>zz_topic := x\<rparr>"

datatype zap_encoder = JsonEncoder | ConsoleEncoder

definition getEncoder :: "zap_options \<Rightarrow> zap_encoder" where
  "getEncoder opts = (if zz_format opts = ''json'' then JsonEncoder else ConsoleEncoder)"

datatype write_syncer =
    StderrSync
  | AliyunSync string string string string string string
  | LumberjackSync string int int int bool

definition getWriteSyncer :: "zap_options \<Rightarrow> write_syncer" where
  "getWriteSyncer opts =
     (if zz_output opts = ''console'' then StderrSync
      else if zz_output opts = ''aliyun'' then
        AliyunSync (zz_accessKey opts) (zz_accessKeySecret opts) (zz_endPoint opts) (zz_project opts) (zz_logStore opts) (zz_topic opts)
      else LumberjackSync (zz_filename opts) (zz_maxSize opts) (zz_maxBackups opts) (zz_maxAge opts) (zz_compress opts))"

definition getLevel :: "string \<Rightarrow> int" where
  "getLevel level =
     (let l = map to_lower level in
      if l = ''debug'' then zap_DebugLevel
      else if l = ''info'' then zap_InfoLevel
      else if l = ''warn'' then zap_WarnLevel
      else if l = ''error'' then zap_ErrorLevel
      else if l = ''panic'' then zap_PanicLevel
      else if l = ''fatal'' then zap_FatalLevel
      else zap_DebugLevel)"

record zlog_logger =
  zg_encoder :: zap_encoder
  zg_writer :: write_syncer
  zg_level :: int

definition zap_defaults :: zap_options where
  "zap_defaults =
     \<lparr>zz_format = ''json'', zz_output = ''console'', zz_level = ''debug'', zz_filename = [], zz_maxSize = 0, zz_maxBackups = 0,
      zz_maxAge = 0, zz_compress = False, zz_accessKey = [], zz_accessKeySecret = [], zz_endPoint = [], zz_project = [],
      zz_logStore = [], zz_topic = []\<rparr>"

definition NewLogger_zap :: "(zap_options \<Rightarrow> zap_options) list \<Rightarrow> zlog_logger" where
  "NewLogger_zap optsFunc =
     (let opts = fold (\<lambda>f opts. f opts) optsFunc zap_defaults
      in \<lparr>zg_encoder = getEncoder opts, zg_writer = getWriteSyncer opts, zg_level = getLevel (zz_level opts)\<rparr>)"

definition SetLevel_zap :: "string \<Rightarrow> zlog_logger \<Rightarrow> zlog_logger" where
  "SetLevel_zap level l = l\<lparr>zg_level := getLevel level\<rparr>"

text \<open>All options are passed on but the driver.\<close>

definition zap_chain :: "zlog_options \<Rightarrow> (zap_options \<Rightarrow> zap_options) list" where
  "zap_chain opts =
     [Format_zap (zo_Format opts),
        Output_zap (zo_Output opts),
        Level_zap (zo_Level opts),
        Filename_zap (zo_Filename opts),
        MaxSize_zap (zo_MaxSize opts),
        MaxBackups_zap (zo_MaxBackups opts),
        MaxAge_zap (zo_MaxAge opts),
        Compress_zap (zo_Compress opts),
        AccessKey_zap (zo_AccessKey opts),
        AccessKeySecret_zap (zo_AccessKeySecret opts),
        EndPoint_zap (zo_EndPoint opts),
        Project_zap (zo_Project opts),
        LogStore_zap (zo_LogStore opts),
        Topic_zap (zo_Topic opts)]"

definition NewLogger_zlog :: "(zlog_options \<Rightarrow> zlog_options \<times> string option) \<Rightarrow> (zlog_options \<Rightarrow> zlog_options) list \<Rightarrow> zlog_logger" where
  "NewLogger_zlog unmarshal optsFunc =
     NewLogger_zap (zap_chain (fold (\<lambda>f opts. f opts) optsFunc (NewOptionsWithConfig unmarshal)))"

definition NewLoggerWithOption :: "(zlog_options \<Rightarrow> zlog_options) list \<Rightarrow> zlog_logger" where
  "NewLoggerWithOption optsFunc = NewLogger_zap (zap_chain (fold (\<lambda>f opts. f opts) optsFunc default_zlog_options))"

text \<open>
  The functions of the package call the logger of \<^verbatim>\<open>Init\<close>, which is nil before: then every call panics. A call that
  reaches the level is written; the panicking and fatal ones end the goroutine or the process whatever the level.
\<close>

datatype zlog_call = LogCall int string | SetLevelCall string

definition zap_call :: "zlog_call \<Rightarrow> zlog_logger \<Rightarrow> zlog_logger \<times> (int \<times> string) list \<times> string outcome" where
  "zap_call c l =
     (case c of
        SetLevelCall level \<Rightarrow> (SetLevel_zap level l, [], Returned [])
      | LogCall lvl msg \<Rightarrow>
          (l, if zg_level l \<le> lvl then [(lvl, msg)] else [],
           if lvl = zap_PanicLevel then Panicked msg else if lvl = zap_FatalLevel then Panicked ''exit 1'' else Returned []))"

definition Init_zlog :: "(zlog_options \<Rightarrow> zlog_options \<times> string option) \<Rightarrow> zlog_logger option" where
  "Init_zlog unmarshal = Some (NewLogger_zlog unmarshal [])"

definition zlog_call :: "zlog_call \<Rightarrow> zlog_logger option \<Rightarrow> zlog_logger option \<times> (int \<times> string) list \<times> string outcome" where
  "zlog_call c lg =
     (case lg of
        None \<Rightarrow> (None, [], Panicked ''invalid memory address or nil pointer dereference'')
      | Some l \<Rightarrow> (case zap_call c l of (l, out, r) \<Rightarrow> (Some l, out, r)))"

subsection \<open>The writer for a log service\<close>

text \<open>
  An entry must be a JSON object of texts (null reads as the empty text, the last of equal keys counts), which package
  jsoniter reads as \<^verbatim>\<open>encoding/json\<close> does; \<open>send\<close> is the producer of the service, whose contents come in any order. The
  number returned beside an error is -1.
\<close>

definition log_contents :: "json \<Rightarrow> (string \<times> string) list option" where
  "log_contents v =
     (case v of
        JNull \<Rightarrow> Some []
      | JObj ms \<Rightarrow>
          (if list_all (\<lambda>(k, x). case x of JStr _ \<Rightarrow> True | JNull \<Rightarrow> True | _ \<Rightarrow> False) ms
           then Some (AList.clearjunk (rev (map (\<lambda>(k, x). (k, case x of JStr t \<Rightarrow> t | _ \<Rightarrow> [])) ms))) else None)
      | _ \<Rightarrow> None)"

definition Write_aliyun :: "((string \<times> string) list \<Rightarrow> string option) \<Rightarrow> string \<Rightarrow> int \<times> string option" where
  "Write_aliyun send p =
     (case json_Unmarshal p of
        None \<Rightarrow> (- 1, Some ''invalid JSON'')
      | Some v \<Rightarrow>
          (case log_contents v of
             None \<Rightarrow> (- 1, Some ''value is not a text'')
           | Some contents \<Rightarrow>
               (case send contents of Some e \<Rightarrow> (- 1, Some e) | None \<Rightarrow> (int (length p), None))))"

text \<open>The level is read in any case of letters; a text that names none is the debug level.\<close>

lemma getLevel_lower: "getLevel (map to_lower l) = getLevel l"
proof -
  have "to_lower (to_lower c) = to_lower c" for c
    by (auto simp: to_lower_def)
  then have "map to_lower (map to_lower l) = map to_lower l" by simp
  then show ?thesis unfolding getLevel_def by (simp only:)
qed

lemma driver_ignored: "NewLoggerWithOption [Driver_zlog d] = NewLoggerWithOption []"
  by (simp add: NewLoggerWithOption_def Driver_zlog_def zap_chain_def)

text \<open>An entry with a number among its fields never reaches the service.\<close>

lemma numbers_not_written: "fst (Write_aliyun send (json_text (JObj [(''msg'', JStr ''slow''), (''ms'', JInt 120)]))) = - 1"
proof -
  have "json_parse (json_text (JObj [(''msg'', JStr ''slow''), (''ms'', JInt 120)])) = Some (JObj [(''msg'', JStr ''slow''), (''ms'', JInt 120)])"
    by (rule json_parse_text) (simp_all add: json_max_depth_def)
  then show ?thesis by (simp add: Write_aliyun_def json_Unmarshal_def log_contents_def)
qed

end
