(* ===== verification/Money.thy ===== *)
theory Money
  imports DecimalText
begin

text \<open>
  Amounts of money, \<^verbatim>\<open>pkg/util/yuan_cent.go\<close>: yuan, as float64, to cents and back, through decimals.

  The text of a float64 with two digits and the float64 nearest to a decimal are parameters; \<open>'f\<close> is float64.
\<close>

text \<open>\<^verbatim>\<open>CheckErr\<close> panics with an error.\<close>

definition CheckErr :: "'a dres \<Rightarrow> 'a dres" where
  "CheckErr r = (case r of Err e \<Rightarrow> Panic ''panic(err)'' | _ \<Rightarrow> r)"

definition YuanToCent :: "('f \<Rightarrow> string) \<Rightarrow> 'f \<Rightarrow> int64 dres" where
  "YuanToCent text_2f yuan =
     bind_res (CheckErr (NewFromString (text_2f yuan))) (\<lambda>dec.
     bind_res (CheckErr (NewFromString ''100'')) (\<lambda>m.
       map_ok IntPart (Mul dec m)))"

definition CentToYuan :: "(decimal \<Rightarrow> 'f) \<Rightarrow> int64 \<Rightarrow> 'f dres" where
  "CentToYuan Float64 cent =
     bind_res (CheckErr (NewFromString (show_int (sint cent)))) (\<lambda>centDec.
     bind_res (CheckErr (NewFromString (show_int 100))) (\<lambda>mDec.
       map_ok (\<lambda>x. Float64 (Round x 2)) (Div DivisionPrecision centDec mDec)))"

lemma show_int_chars: "c \<in> set (show_int i) \<Longrightarrow> is_digit c \<or> c = CHR ''-''"
  using show_nat_digits [of "nat \<bar>i\<bar>"] by (auto simp: show_int_sign sign_str_def list_all_iff split: if_splits)

lemma NewFromString_show_int: "NewFromString (show_int i) = Ok \<lparr>coef = Some i, dexp = 0\<rparr>"
proof -
  have "\<forall>c \<in> set (show_int i). not_exp c"
  proof
    fix c assume "c \<in> set (show_int i)"
    then have "is_digit c \<or> c = CHR ''-''" by (rule show_int_chars)
    then show "not_exp c" unfolding not_exp_def using is_digit_chars by auto
  qed
  then have "takeWhile not_exp (show_int i) = show_int i" by (simp only: takeWhile_eq_all_conv)
  then have "length (takeWhile not_exp (show_int i)) = length (show_int i)" by (rule arg_cong)
  moreover have "CHR ''.'' \<notin> set (show_int i)"
  proof
    assume "CHR ''.'' \<in> set (show_int i)"
    from show_int_chars [OF this] is_digit_chars show False by simp
  qed
  ultimately show ?thesis
    by (simp add: NewFromString_def Let_def parse_mantissa_def split_str_no_sep min_int32_def max_int32_def)
qed

lemma NewFromString_100: "NewFromString ''100'' = Ok \<lparr>coef = Some 100, dexp = 0\<rparr>"
proof -
  have "show_int 100 = ''100''" by code_simp
  then show ?thesis using NewFromString_show_int [of 100] by simp
qed

text \<open>The two digits a number of cents is written with.\<close>

definition cents_text :: "int \<Rightarrow> string" where
  "cents_text c =
     literal (c < 0) (show_nat (nat \<bar>c\<bar> div 100))
       (Some [digit_char (nat \<bar>c\<bar> div 10 mod 10), digit_char (nat \<bar>c\<bar> mod 10)]) None"

lemma CentToYuan_exact: "CentToYuan Float64 cent = Ok (Float64 \<lparr>coef = Some (sint cent), dexp = - 2\<rparr>)"
proof -
  let ?c = "\<lparr>coef = Some (sint cent), dexp = 0 :: int32\<rparr>" and ?h = "\<lparr>coef = Some 100, dexp = 0 :: int32\<rparr>"
  have d: "denote ?c = of_int (sint cent)" "denote ?h = 100" by (simp_all add: denote_def)
  have "sint (16 :: int32) = 16" by simp
  then obtain z where z: "DivRound ?c ?h 16 = Ok z"
    "denote z = of_int (rnear (of_int (sint cent) / 100 * 10 powi 16)) * 10 powi (- 16)"
    using DivRound_spec [of 16 ?c ?h] d by (auto simp: small32_def)
  have "(of_int (sint cent) / 100 * 10 powi 16 :: rat) = of_int (sint cent * 10 ^ 14)"
    by (simp add: power_int_def)
  moreover have r: "rnear (of_int k) = k" for k
    using rnear_error [of "of_int k"] by linarith
  ultimately have "denote z = of_int (sint cent * 10 ^ 14) * 10 powi (- 16)" using z(2) by (simp only:)
  then have dz: "denote z = of_int (sint cent) / 100" by (simp add: power_int_def power_divide)
  have "dval (Round z 2) = rnear (denote z * 10 powi 2)" using dval_Round [of z 2] by simp
  also have "denote z * 10 powi 2 = of_int (sint cent)" by (simp add: dz power_int_def)
  finally have "dval (Round z 2) = sint cent" by (simp only: r)
  moreover have "dexp (Round z 2) = - 2" by (simp add: dexp_Round)
  moreover have "coef (Round z 2) \<noteq> None" by (simp add: Round_def Let_def)
  ultimately have "Round z 2 = \<lparr>coef = Some (sint cent), dexp = - 2\<rparr>"
    by (cases "Round z 2") (auto simp: dval_cases)
  then show ?thesis
    using z(1) by (simp add: CentToYuan_def NewFromString_show_int CheckErr_def Div_def DivisionPrecision_def)
qed

lemma digits_cents:
  "int (digits_val (show_nat (n div 100) @ [digit_char (n div 10 mod 10), digit_char (n mod 10)])) = int n"
proof -
  have "digits_val (show_nat (n div 100) @ [digit_char (n div 10 mod 10), digit_char (n mod 10)])
    = n div 100 * 100 + (n div 10 mod 10 * 10 + n mod 10)"
    by (simp only: digits_val_append digits_val_show_nat) (simp add: digits_val_def)
  also have "\<dots> = n"
  proof -
    have "n div 100 = n div 10 div 10" by (simp flip: div_mult2_eq)
    moreover have "n div 10 = n div 10 div 10 * 10 + n div 10 mod 10" "n = n div 10 * 10 + n mod 10" by simp_all
    ultimately show ?thesis by linarith
  qed
  finally show ?thesis by simp
qed

lemma YuanToCent_text:
  assumes "text_2f yuan = cents_text (sint cent)"
  shows "YuanToCent text_2f yuan = Ok cent"
proof -
  let ?n = "nat \<bar>sint cent\<bar>"
  obtain d where d: "NewFromString (cents_text (sint cent)) = Ok d"
    "denote d = of_int (signed_val (sint cent < 0) (show_nat (?n div 100) @ [digit_char (?n div 10 mod 10), digit_char (?n mod 10)]))
      * 10 powi (- 2)"
    using NewFromString_literal [of "show_nat (?n div 100)" "Some [digit_char (?n div 10 mod 10), digit_char (?n mod 10)]" None
        "sint cent < 0"] show_nat_digits [of "?n div 100"]
    by (auto simp: cents_text_def min_int32_def max_int32_def)
  have "signed_val (sint cent < 0) (show_nat (?n div 100) @ [digit_char (?n div 10 mod 10), digit_char (?n mod 10)]) = sint cent"
    unfolding signed_val_def digits_cents by simp
  then have dd: "denote d = of_int (sint cent) / 100" using d(2) by (simp add: power_int_def power_divide)
  let ?h = "\<lparr>coef = Some 100, dexp = 0 :: int32\<rparr>"
  have "sint (dexp d) + sint (dexp ?h) = sint (dexp d)" by simp
  then obtain p where p: "Mul d ?h = Ok p"
    using sint_range32 [of "dexp d"] by (simp add: Mul_cases)
  have dp: "denote p = of_int (sint cent)" using denote_Mul [OF p] dd by (simp add: denote_def)
  have "dval (rescale p 0) = sint cent"
    by (simp only: dval_rescale dp signed_0 power_int_0_right div_by_1 rtrunc_of_int)
  then have "IntPart p = cent" by (simp add: IntPart_def)
  then show ?thesis using d(1) p assms by (simp add: YuanToCent_def CheckErr_def NewFromString_100)
qed

text \<open>C40: Converting cents to yuan never loses a cent: the decimal that is rounded to a float is exactly the cents over 100, for
  every int64; and converting that float back gives the cents, as long as it prints with the two digits
  they have.
\<close>

theorem cents_survive:
  assumes "text_2f (Float64 \<lparr>coef = Some (sint cent), dexp = - 2\<rparr>) = cents_text (sint cent)"
  shows "CentToYuan Float64 cent = Ok (Float64 \<lparr>coef = Some (sint cent), dexp = - 2\<rparr>) \<and>
    denote \<lparr>coef = Some (sint cent), dexp = - 2\<rparr> = of_int (sint cent) / 100 \<and>
    bind_res (CentToYuan Float64 cent) (YuanToCent text_2f) = Ok cent"
proof (intro conjI)
  show "denote \<lparr>coef = Some (sint cent), dexp = - 2\<rparr> = of_int (sint cent) / 100"
    by (simp add: denote_def power_int_def power2_eq_square power_divide)
  show "bind_res (CentToYuan Float64 cent) (YuanToCent text_2f) = Ok cent"
    using YuanToCent_text [of text_2f "Float64 \<lparr>coef = Some (sint cent), dexp = - 2\<rparr>" cent, OF assms]
    by (simp add: CentToYuan_exact)
qed (rule CentToYuan_exact)

theorem cents_survive_witness:
  "bind_res (CentToYuan (\<lambda>d. d) (- 1205)) (YuanToCent (\<lambda>d. cents_text (dval d))) = Ok (- 1205)"
proof -
  have "(\<lambda>d. cents_text (dval d)) ((\<lambda>d. d) \<lparr>coef = Some (sint (- 1205 :: int64)), dexp = - 2\<rparr>) = cents_text (sint (- 1205 :: int64))"
    by simp
  from cents_survive [of "\<lambda>d. cents_text (dval d)" "\<lambda>d. d" "- 1205", OF this] show ?thesis by blast
qed

text \<open>A text that is no number, such as that of an infinite amount, panics.\<close>

lemma YuanToCent_infinite: "is_panic (YuanToCent (\<lambda>u. ''+Inf'') ())"
  by code_simp

end
