(* ===== verification/UtilRest.thy ===== *)
theory UtilRest
  imports TextUtil Json
begin

text \<open>
  More helpers of \<^verbatim>\<open>pkg/util\<close> and \<^verbatim>\<open>pkg/db\<close>: the append buffer (\<^verbatim>\<open>stringbuffer.go\<close>), names (\<^verbatim>\<open>string.go\<close>), digests
  as text (\<^verbatim>\<open>md5.go\<close>, \<^verbatim>\<open>sha.go\<close>, \<^verbatim>\<open>pkg/wkrsa\<close>), times in the database's format (\<^verbatim>\<open>pkg/db/db.go\<close>) and the addresses looked up over
  HTTP (\<^verbatim>\<open>ip.go\<close>). Hash functions, keys, the format of times and HTTP are parameters.
\<close>

subsection \<open>The buffer\<close>

text \<open>What is appended, by its dynamic type; a value of another type leaves the buffer as it is.\<close>

datatype buf_arg =
    BInt int64 | BInt64 int64 | BUint uint64 | BUint64 uint64 | BString string | BBytes string | BRune int32 | BOther

text \<open>\<^verbatim>\<open>WriteRune\<close>: what is no code point is written as U+FFFD.\<close>

definition rune_text :: "int32 \<Rightarrow> string" where
  "rune_text r =
     (let n = sint r in
      if n < 0 \<or> 0x10FFFF < n \<or> (0xD800 \<le> n \<and> n \<le> 0xDFFF) then utf8_char 0xFFFD else utf8_char (nat n))"

definition NewBuffer :: string where "NewBuffer = []"

definition append_buf :: "string \<Rightarrow> string \<Rightarrow> string" where "append_buf b s = b @ s"

definition Append_buf :: "string \<Rightarrow> buf_arg \<Rightarrow> string" where
  "Append_buf b i =
     (case i of
        BInt n \<Rightarrow> append_buf b (show_int (sint n))
      | BInt64 n \<Rightarrow> append_buf b (show_int (sint n))
      | BUint n \<Rightarrow> append_buf b (show_nat (unat n))
      | BUint64 n \<Rightarrow> append_buf b (show_nat (unat n))
      | BString s \<Rightarrow> append_buf b s
      | BBytes s \<Rightarrow> b @ s
      | BRune r \<Rightarrow> b @ rune_text r
      | BOther \<Rightarrow> b)"

lemma Append_texts: "foldl Append_buf b (map BString ss) = b @ concat ss"
  by (induction ss arbitrary: b) (simp_all add: Append_buf_def append_buf_def)

subsection \<open>Names\<close>

text \<open>
  \<^verbatim>\<open>strings.Replace\<close> of one character, and \<^verbatim>\<open>strings.Title\<close> on ASCII: a letter after a separator becomes upper case, where
  everything but letters, digits and underscores separates.
\<close>

definition replace_char :: "char \<Rightarrow> string \<Rightarrow> string \<Rightarrow> string" where
  "replace_char c t s = concat (map (\<lambda>x. if x = c then t else [x]) s)"

definition is_separator :: "char \<Rightarrow> bool" where
  "is_separator c \<longleftrightarrow> \<not> (isUpper c \<or> isLower c \<or> isDigit c \<or> c = CHR ''_'')"

definition to_title :: "char \<Rightarrow> char" where
  "to_title c = (if isLower c then char_of ((of_char c :: nat) - 32) else c)"

fun title_from :: "char \<Rightarrow> string \<Rightarrow> string" where
  "title_from prev [] = []"
| "title_from prev (c # s) = (if is_separator prev then to_title c else c) # title_from c s"

definition CamelName :: "string \<Rightarrow> string" where
  "CamelName name = replace_char (CHR '' '') [] (title_from (CHR '' '') (replace_char (CHR ''_'') '' '' name))"

definition names :: "string list" where
  "names = map utf8
     [[0x72EC, 0x89D2, 0x738B],
      [0x8001, 0x9F0B],
      [0x7075, 0x611F, 0x5927, 0x738B],
      [0x5982, 0x610F, 0x771F, 0x4ED9],
      [0x874E, 0x5973, 0x5996],
      [0x516D, 0x8033, 0x7315, 0x7334],
      [0x7F57, 0x5239, 0x5973],
      [0x725B, 0x9B54, 0x738B],
      [0x7F8A, 0x529B, 0x5927, 0x4ED9],
      [0x9E7F, 0x529B, 0x5927, 0x4ED9],
      [0x864E, 0x529B, 0x5927, 0x4ED9],
      [0x9CD6, 0x9F99],
      [0x7EA2, 0x5B69, 0x513F],
      [0x9752, 0x72EE, 0x9053, 0x4EBA],
      [0x718A, 0x5C71, 0x541B],
      [0x7279, 0x5904, 0x58EB],
      [0x7389, 0x9762, 0x516C, 0x4E3B],
      [0x4E5D, 0x5934, 0x866B],
      [0x9EC4, 0x7709, 0x8001, 0x7956],
      [0x5927, 0x87D2, 0x7CBE],
      [0x8D5B, 0x592A, 0x5C81],
      [0x8718, 0x86DB, 0x7CBE],
      [0x591A, 0x76EE, 0x602A],
      [0x9752, 0x72EE, 0x9B54, 0x738B],
      [0x767D, 0x8C61, 0x9B54, 0x738B],
      [0x5927, 0x9E4F, 0x9B54, 0x738B],
      [0x864E, 0x5A01, 0x9B54, 0x738B],
      [0x72EE, 0x543C, 0x9B54, 0x738B],
      [0x72EE, 0x6BDB, 0x602A],
      [0x7F8E, 0x540E],
      [0x56FD, 0x4E08],
      [0x5730, 0x6D8C, 0x592B, 0x4EBA],
      [0x91D1, 0x94B1, 0x8C79, 0x738B],
      [0x9EC4, 0x72EE, 0x7CBE],
      [0x4E5D, 0x7075, 0x5143, 0x5723],
      [0x8F9F, 0x5BD2, 0x5927, 0x738B],
      [0x8F9F, 0x6691, 0x5927, 0x738B],
      [0x8F9F, 0x5C18, 0x5927, 0x738B],
      [0x7384, 0x9E64, 0x8001],
      [0x7389, 0x5154, 0x7CBE],
      [0x8839, 0x5996],
      [0x86D9, 0x602A],
      [0x9E8B, 0x5996],
      [0x53E4, 0x67CF, 0x8001],
      [0x7075, 0x9F9F, 0x8001],
      [0x5CF0, 0x4E94, 0x8001],
      [0x8D64, 0x86C7, 0x7CBE],
      [0x867A, 0x5996],
      [0x8696, 0x5996],
      [0x876E, 0x5B50, 0x602A],
      [0x874E, 0x5C0F, 0x5996],
      [0x72D0, 0x5996],
      [0x51E4, 0x7BA1, 0x5A18, 0x5B50],
      [0x9E3E, 0x8427, 0x592B, 0x4EBA],
      [0x4E03, 0x60C5, 0x5927, 0x738B],
      [0x516D, 0x6B32, 0x5927, 0x738B],
      [0x4E09, 0x5C38, 0x9B54, 0x738B],
      [0x9634, 0x6C89, 0x9B54, 0x738B],
      [0x72EC, 0x89D2, 0x9B54, 0x738B],
      [0x5578, 0x98CE, 0x9B54, 0x738B],
      [0x5174, 0x4E91, 0x9B54, 0x738B],
      [0x516D, 0x8033, 0x9B54, 0x738B],
      [0x8FF7, 0x8BC6, 0x9B54, 0x738B],
      [0x6D88, 0x9633, 0x9B54, 0x738B],
      [0x94C4, 0x9634, 0x9B54, 0x738B],
      [0x8017, 0x6C14, 0x9B54, 0x738B],
      [0x9ED1, 0x9C7C, 0x7CBE],
      [0x8702, 0x5996],
      [0x7075, 0x9E4A],
      [0x7384, 0x6B66, 0x7075],
      [0x7F8E, 0x851A, 0x541B],
      [0x798F, 0x7F18, 0x541B],
      [0x5584, 0x5E86, 0x541B],
      [0x5B5F, 0x6D6A, 0x9B54, 0x738B],
      [0x614C, 0x5F20, 0x9B54, 0x738B],
      [0x53F8, 0x89C6, 0x9B54],
      [0x53F8, 0x542C, 0x9B54],
      [0x9010, 0x9999, 0x9B54],
      [0x5177, 0x4F53, 0x9B54],
      [0x9A70, 0x795E, 0x9B54],
      [0x9010, 0x5473, 0x9B54],
      [0x5343, 0x91CC, 0x773C],
      [0x987A, 0x98CE, 0x8033],
      [0x91D1, 0x7AE5],
      [0x7389, 0x5973],
      [0x96F7, 0x516C],
      [0x7535, 0x6BCD],
      [0x98CE, 0x4F2F],
      [0x96E8, 0x5E08],
      [0x6E38, 0x5955, 0x7075, 0x5B98],
      [0x7FCA, 0x5723, 0x771F, 0x541B],
      [0x5927, 0x529B, 0x9B3C, 0x738B],
      [0x4E03, 0x4ED9, 0x5973],
      [0x592A, 0x767D, 0x91D1, 0x661F],
      [0x8D64, 0x811A, 0x5927, 0x4ED9],
      [0x5AE6, 0x5A25],
      [0x7389, 0x5154],
      [0x5434, 0x521A],
      [0x732A, 0x516B, 0x6212],
      [0x5B59, 0x609F, 0x7A7A],
      [0x5510, 0x50E7],
      [0x6C99, 0x609F, 0x51C0],
      [0x767D, 0x9F99, 0x9A6C],
      [0x4E5D, 0x5929, 0x7384, 0x5973],
      [0x4E5D, 0x66DC, 0x661F],
      [0x65E5, 0x6E38, 0x795E],
      [0x591C, 0x6E38, 0x795E],
      [0x592A, 0x9634, 0x661F, 0x541B],
      [0x592A, 0x9633, 0x661F, 0x541B],
      [0x6B66, 0x5FB7, 0x661F, 0x541B],
      [0x4F51, 0x5723, 0x771F, 0x541B],
      [0x674E, 0x9756],
      [0x91D1, 0x5412],
      [0x6728, 0x5412],
      [0x54EA, 0x5412],
      [0x5DE8, 0x7075, 0x795E],
      [0x6708, 0x8001],
      [0x5DE6, 0x8F85, 0x53F3, 0x5F3C],
      [0x4E8C, 0x90CE, 0x795E, 0x6768, 0x622C],
      [0x8428, 0x771F, 0x4EBA],
      [0x6587, 0x660C, 0x5E1D, 0x541B],
      [0x589E, 0x957F, 0x5929, 0x738B],
      [0x6301, 0x56FD, 0x5929, 0x738B],
      [0x591A, 0x95FB, 0x5929, 0x738B],
      [0x5E7F, 0x76EE, 0x5929, 0x738B],
      [0x5F20, 0x9053, 0x9675],
      [0x8BB8, 0x900A],
      [0x90B1, 0x5F18, 0x6D4E],
      [0x845B, 0x6D2A],
      [0x6E14, 0x4EBA],
      [0x6797, 0x9EDB, 0x7389],
      [0x859B, 0x5B9D, 0x9497],
      [0x8D3E, 0x5B9D, 0x7389],
      [0x79E6, 0x53EF, 0x537F],
      [0x8D3E, 0x5DE7, 0x59D0],
      [0x738B, 0x7199, 0x51E4],
      [0x53F2, 0x6E58, 0x4E91],
      [0x5999, 0x7389],
      [0x674E, 0x7EA8],
      [0x8D3E, 0x60DC, 0x6625],
      [0x8D3E, 0x63A2, 0x6625],
      [0x8D3E, 0x8FCE, 0x6625],
      [0x8D3E, 0x5143, 0x6625],
      [0x738B, 0x5988, 0x5988],
      [0x897F, 0x95E8, 0x5E86],
      [0x6B66, 0x677E],
      [0x6B66, 0x5927, 0x90CE],
      [0x5B8B, 0x6C5F],
      [0x9C81, 0x667A, 0x6DF1],
      [0x9AD8, 0x4FC5],
      [0x95FB, 0x592A, 0x5E08],
      [0x5362, 0x4FCA, 0x4E49],
      [0x5434, 0x7528],
      [0x516C, 0x5B59, 0x80DC],
      [0x5173, 0x80DC],
      [0x6797, 0x51B2],
      [0x79E6, 0x660E],
      [0x547C, 0x5EF6, 0x707C],
      [0x82B1, 0x8363],
      [0x962E, 0x5C0F, 0x4E03],
      [0x71D5, 0x9752],
      [0x7687, 0x752B, 0x7AEF],
      [0x6248, 0x4E09, 0x5A18],
      [0x738B, 0x82F1],
      [0x5B89, 0x9053, 0x5168],
      [0x91D1, 0x5927, 0x575A],
      [0x8427, 0x5CF0],
      [0x6BB5, 0x8A89],
      [0x7AE5, 0x731B],
      [0x9676, 0x5B97, 0x65FA],
      [0x90D1, 0x5929, 0x5BFF],
      [0x738B, 0x5B9A, 0x516D],
      [0x6BB5, 0x666F, 0x4F4F],
      [0x5BC5, 0x5C06, 0x519B],
      [0x9ED1, 0x718A, 0x7CBE],
      [0x767D, 0x8863, 0x79C0, 0x58EB],
      [0x51CC, 0x865A, 0x5B50],
      [0x9EC4, 0x98CE, 0x602A],
      [0x767D, 0x9AA8, 0x7CBE],
      [0x594E, 0x6728, 0x72FC],
      [0x91D1, 0x89D2, 0x5927, 0x738B],
      [0x94F6, 0x89D2, 0x5927, 0x738B]]"

text \<open>\<open>intn n\<close> is \<^verbatim>\<open>rand.Intn\<close>: a number below \<open>n\<close>.\<close>

definition GetRandomName :: "(nat \<Rightarrow> nat) \<Rightarrow> string" where
  "GetRandomName intn = names ! intn (length names - 1)"

lemma random_name_among: "(\<And>n. 0 < n \<Longrightarrow> intn n < n) \<Longrightarrow> GetRandomName intn \<in> set (butlast names)"
proof -
  assume intn: "\<And>n. 0 < n \<Longrightarrow> intn n < n"
  have "0 < length names - 1" by (simp add: names_def)
  then have "intn (length names - 1) < length (butlast names)" using intn by simp
  then show ?thesis unfolding GetRandomName_def by (metis nth_butlast nth_mem)
qed

subsection \<open>Digests, times and addresses\<close>

definition hex_text :: "string \<Rightarrow> string" where
  "hex_text b = concat (map (\<lambda>c. [hex_char (of_char c div 16), hex_char (of_char c mod 16)]) b)"

definition MD5 :: "(string \<Rightarrow> string) \<Rightarrow> string \<Rightarrow> string" where
  "MD5 md5 str = hex_text (md5 str)"

definition SHA1 :: "(string \<Rightarrow> string) \<Rightarrow> string \<Rightarrow> string" where
  "SHA1 sha1 str = hex_text (sha1 str)"

text \<open>\<open>hmac key data\<close> is the keyed digest of package hmac with SHA-1, or with SHA-256.\<close>

definition HMACSHA1 :: "(string \<Rightarrow> string \<Rightarrow> string) \<Rightarrow> string \<Rightarrow> string \<Rightarrow> string" where
  "HMACSHA1 hmac keyStr data = base64 (hmac keyStr data)"

definition HmacSha256 :: "(string \<Rightarrow> string \<Rightarrow> string) \<Rightarrow> string \<Rightarrow> string \<Rightarrow> string" where
  "HmacSha256 hmac message secret = base64 (hex_text (hmac secret message))"

text \<open>
  \<^verbatim>\<open>pkg/wkrsa\<close>: the block of a PEM text, if it has one, the key in it, and the signature of a digest under a key with
  an error beside it, are parameters. The signature so far is returned with the error.
\<close>

definition SignWithMD5 ::
    "(string \<Rightarrow> string) \<Rightarrow> (string \<Rightarrow> string option) \<Rightarrow> (string \<Rightarrow> string + 'k) \<Rightarrow> ('k \<Rightarrow> string \<Rightarrow> string \<times> string option)
      \<Rightarrow> string \<Rightarrow> string \<Rightarrow> string \<times> string option" where
  "SignWithMD5 md5 pem_Decode parse_key sign data pemPrivKey =
     (let hashed = md5 data in
      case pem_Decode pemPrivKey of
        None \<Rightarrow> ([], Some ''private key error'')
      | Some block \<Rightarrow>
          (case parse_key block of
             Inl e \<Rightarrow> ([], Some e)
           | Inr privateKey \<Rightarrow> (let (signature, err) = sign privateKey hashed in (base64 signature, err))))"

definition timeFormart :: string where "timeFormart = ''2006-01-02 15:04:05''"

text \<open>\<open>parse\<close> and \<open>fmt\<close> are package time, each by a layout; what a failed parse returns is stored all the same.\<close>

definition Time_UnmarshalJSON :: "(string \<Rightarrow> string \<Rightarrow> 't \<times> string option) \<Rightarrow> string \<Rightarrow> 't \<times> string option" where
  "Time_UnmarshalJSON parse data = parse ([CHR 0x22] @ timeFormart @ [CHR 0x22]) data"

definition Time_MarshalJSON :: "('t \<Rightarrow> string \<Rightarrow> string) \<Rightarrow> 't \<Rightarrow> string" where
  "Time_MarshalJSON fmt t = [CHR 0x22] @ fmt t timeFormart @ [CHR 0x22]"

definition Time_String :: "('t \<Rightarrow> string \<Rightarrow> string) \<Rightarrow> 't \<Rightarrow> string" where
  "Time_String fmt t = fmt t timeFormart"

text \<open>A layout within quotes reads what is written within quotes as the layout alone reads it.\<close>

lemma Time_roundtrip:
  assumes "\<And>l s. parse ([CHR 0x22] @ l @ [CHR 0x22]) ([CHR 0x22] @ s @ [CHR 0x22]) = parse l s"
    "parse timeFormart (fmt t timeFormart) = (t, None)"
  shows "Time_UnmarshalJSON parse (Time_MarshalJSON fmt t) = (t, None)"
  by (simp only: Time_UnmarshalJSON_def Time_MarshalJSON_def assms)

text \<open>
  What the addresses are looked up with: \<open>get\<close> is \<^verbatim>\<open>http.Get\<close>, a failure or a status with the outcome of reading
  the body. Beside its results a function has the number of bodies it left open.
\<close>

type_synonym http_get = "string \<Rightarrow> string + nat \<times> (string + string)"

definition GetExternalIP :: "http_get \<Rightarrow> (string \<times> string option) \<times> nat" where
  "GetExternalIP get =
     (case get ''https://ipw.cn/api/ip/myip'' of
        Inl err \<Rightarrow> (([], Some err), 0)
      | Inr (status, body) \<Rightarrow>
          ((case body of Inl err \<Rightarrow> ([], Some err) | Inr resultBytes \<Rightarrow> (trim_space resultBytes, None)), 0))"

definition text_of :: "json \<Rightarrow> string option" where
  "text_of v = (case v of JStr s \<Rightarrow> Some s | _ \<Rightarrow> None)"

definition province_and_city :: "(string \<Rightarrow> json option) \<Rightarrow> string \<times> string" where
  "province_and_city m =
     (case (m ''province'', m ''city'') of
        (Some p, Some c) \<Rightarrow>
          (if p = JNull \<or> c = JNull then ([], [])
           else case text_of p of
               None \<Rightarrow> ([], [])
             | Some province \<Rightarrow> (province, case text_of c of None \<Rightarrow> [] | Some city \<Rightarrow> city))
      | _ \<Rightarrow> ([], []))"

definition GetIPAddress :: "http_get \<Rightarrow> (json_error \<Rightarrow> string) \<Rightarrow> string \<Rightarrow> ((string \<times> string) \<times> string option) \<times> nat" where
  "GetIPAddress get json_text_of ip =
     (case get (''https://restapi.amap.com/v3/ip?key=7e30415c3e9ce73d93d20189b9539be8&ip='' @ ip) of
        Inl err \<Rightarrow> ((([], []), Some err), 0)
      | Inr (status, body) \<Rightarrow>
          (if status \<noteq> 200 then
             ((([], []), Some (utf8 [0x67E5, 0x8BE2, 0x5730, 0x5740, 0x5931, 0x8D25, 0xFF01])), 1)
           else case body of
             Inl err \<Rightarrow> ((([], []), Some err), 1)
           | Inr data \<Rightarrow>
               (case JsonToMap data of
                  Ok resultMap \<Rightarrow> ((province_and_city (case resultMap of None \<Rightarrow> (\<lambda>_. None) | Some m \<Rightarrow> m), None), 1)
                | Err e \<Rightarrow> ((([], []), Some (json_text_of e)), 1)
                | Panic p \<Rightarrow> ((([], []), Some p), 1))))"

lemma bodies_left_open: "snd (GetExternalIP get) = 0" "(\<And>u. \<exists>r. get u = Inr r) \<Longrightarrow> snd (GetIPAddress get txt ip) = 1"
proof -
  show "snd (GetExternalIP get) = 0" by (auto simp: GetExternalIP_def split: sum.split)
  assume "\<And>u. \<exists>r. get u = Inr r"
  then obtain r where "get (''https://restapi.amap.com/v3/ip?key=7e30415c3e9ce73d93d20189b9539be8&ip='' @ ip) = Inr r" by blast
  then show "snd (GetIPAddress get txt ip) = 1" by (cases r) (auto simp: GetIPAddress_def split: sum.split res.split)
qed

subsection \<open>Names with underscores and back\<close>

lemma UnderscoreName_Nil: "UnderscoreName [] = []"
  by (simp add: UnderscoreName_def)

lemma UnderscoreName_Cons:
  "UnderscoreName (x # s) =
     toLower x # (if s \<noteq> [] \<and> isUpper (hd s) \<and> (isLower x \<or> isDigit x \<or> (1 < length s \<and> isLower (s ! 1))) then ''_'' else [])
       @ UnderscoreName s"
proof -
  let ?f = "\<lambda>name i. toLower (name ! i) #
         (if i \<noteq> length name - 1 \<and> isUpper (name ! (i + 1)) \<and>
             (isLower (name ! i) \<or> isDigit (name ! i) \<or> (i \<noteq> length name - 2 \<and> isLower (name ! (i + 2))))
          then ''_'' else [])"
  have step: "?f (x # s) (Suc i) = ?f s i" if "i < length s" for i
    using that by (cases s) auto
  have "map (\<lambda>i. ?f (x # s) (Suc i)) [0..<length s] = map (?f s) [0..<length s]"
    by (rule map_cong [OF refl]) (rule step, simp)
  moreover have "map (?f (x # s)) [0..<length (x # s)] = ?f (x # s) 0 # map (\<lambda>i. ?f (x # s) (Suc i)) [0..<length s]"
    by (simp only: list.size(4) upt_conv_Cons [of 0 "Suc (length s)"] add_Suc_right add_0_right zero_less_Suc map_Suc_upt [symmetric] map_map comp_def list.map One_nat_def simp_thms)
  ultimately have "UnderscoreName (x # s) = ?f (x # s) 0 @ UnderscoreName s"
    unfolding UnderscoreName_def by (simp only: concat.simps)
  moreover have "?f (x # s) 0 = toLower x # (if s \<noteq> [] \<and> isUpper (hd s) \<and> (isLower x \<or> isDigit x \<or> (1 < length s \<and> isLower (s ! 1))) then ''_'' else [])"
    by (cases s; cases "tl s") auto
  ultimately show ?thesis by simp
qed

text \<open>A word of a name: a letter and at least one more letter or digit, in lower case.\<close>

definition word_ok :: "string \<Rightarrow> bool" where
  "word_ok w \<longleftrightarrow> 1 < length w \<and> isLower (hd w) \<and> list_all (\<lambda>c. isLower c \<or> isDigit c) w"

lemma char_kinds:
  "isLower c \<Longrightarrow> \<not> isUpper c" "isDigit c \<Longrightarrow> \<not> isUpper c" "isLower c \<Longrightarrow> c \<noteq> CHR ''_''" "isDigit c \<Longrightarrow> c \<noteq> CHR ''_''"
  "isLower c \<Longrightarrow> c \<noteq> CHR '' ''" "isDigit c \<Longrightarrow> c \<noteq> CHR '' ''" "is_separator (CHR '' '')"
  "\<not> isLower (CHR '' '')" "\<not> isDigit (CHR '' '')" "\<not> isLower (CHR ''_'')" "\<not> isDigit (CHR ''_'')"
  "isLower c \<Longrightarrow> \<not> is_separator c" "isDigit c \<Longrightarrow> \<not> is_separator c"
  by (auto simp: isLower_def isUpper_def isDigit_def is_separator_def)

lemma to_title_upper: "isLower c \<Longrightarrow> isUpper (to_title c) \<and> toLower (to_title c) = c \<and> to_title c \<noteq> CHR '' ''"
proof -
  assume l: "isLower c"
  then have b: "97 \<le> (of_char c :: nat)" "(of_char c :: nat) \<le> 122" by (simp_all add: isLower_def)
  have "(of_char c - 32 :: nat) mod 256 = of_char c - 32" using b by (intro mod_less) linarith
  then have o: "(of_char (to_title c) :: nat) = of_char c - 32"
    unfolding to_title_def using l by (simp only: if_True of_char_of)
  have "65 \<le> (of_char c - 32 :: nat)" "(of_char c - 32 :: nat) \<le> 90" "of_char c - 32 - 65 + 97 = (of_char c :: nat)"
    using b by linarith+
  then have u: "isUpper (to_title c)" "(of_char (to_title c) :: nat) - 65 + 97 = of_char c"
    unfolding isUpper_def by (simp_all only: o simp_thms)
  then have "toLower (to_title c) = c" unfolding toLower_def by (simp only: if_True char_of_char)
  moreover have "to_title c \<noteq> CHR '' ''" using u by (auto simp: isUpper_def)
  ultimately show ?thesis using u by simp
qed

lemma title_word:
  "list_all (\<lambda>c. isLower c \<or> isDigit c) w \<Longrightarrow> \<not> is_separator p \<Longrightarrow> title_from p (w @ s) = w @ title_from (last (p # w)) s"
proof (induction w arbitrary: p)
  case (Cons c w)
  then have "\<not> is_separator c" using char_kinds(12,13) by auto
  then show ?case using Cons.IH [of c] Cons.prems by simp
qed simp

lemma CamelName_words:
  "list_all word_ok ws \<Longrightarrow> CamelName (join_str ''_'' ws) = concat (map (\<lambda>w. to_title (hd w) # tl w) ws)"
proof -
  let ?r = "replace_char (CHR ''_'') '' ''"
  have word: "?r w = w" "replace_char (CHR '' '') [] w = w" if "list_all (\<lambda>c. isLower c \<or> isDigit c) w" for w
    using that by (induction w) (auto simp: replace_char_def char_kinds)
  have app: "replace_char c t (a @ b) = replace_char c t a @ replace_char c t b" for c t a b
    by (simp add: replace_char_def)
  have titled: "title_from p (w @ s) = to_title (hd w) # tl w @ title_from (last w) s" "\<not> is_separator (last w)"
    if w: "word_ok w" and "is_separator p" for w p s
  proof -
    obtain c cs where c: "w = c # cs" using w by (cases w) (auto simp: word_ok_def)
    have "list_all (\<lambda>c. isLower c \<or> isDigit c) cs" "\<not> is_separator c" using w c by (auto simp: word_ok_def is_separator_def)
    then show "title_from p (w @ s) = to_title (hd w) # tl w @ title_from (last w) s" using c that(2) title_word [of cs c s] by simp
    have "list_all (\<lambda>c. isLower c \<or> isDigit c) w" "w \<noteq> []" using w by (auto simp: word_ok_def)
    then show "\<not> is_separator (last w)" by (auto simp: list_all_iff is_separator_def)
  qed
  assume "list_all word_ok ws"
  then have "replace_char (CHR '' '') [] (title_from p (?r (join_str ''_'' ws))) = concat (map (\<lambda>w. to_title (hd w) # tl w) ws)"
    if "is_separator p" for p
    using that
  proof (induction ws arbitrary: p)
    case Nil
    then show ?case by (simp add: replace_char_def)
  next
    case (Cons w ws)
    have w: "word_ok w" "list_all (\<lambda>c. isLower c \<or> isDigit c) w" "w \<noteq> []" using Cons.prems by (auto simp: word_ok_def)
    then have tl: "list_all (\<lambda>c. isLower c \<or> isDigit c) (tl w)" by (cases w) auto
    have hd: "replace_char (CHR '' '') [] (to_title (hd w) # s) = to_title (hd w) # replace_char (CHR '' '') [] s" for s
      using to_title_upper w(1) by (auto simp: replace_char_def word_ok_def)
    show ?case
    proof (cases ws)
      case Nil
      then show ?thesis using titled(1) [OF w(1) Cons.prems(2), of "[]"] w(2) tl word hd by (simp add: replace_char_def)
    next
      case (Cons v vs)
      have "title_from p (?r (join_str ''_'' (w # ws))) = to_title (hd w) # tl w @ title_from (last w) (CHR '' '' # ?r (join_str ''_'' ws))"
        using titled(1) [OF w(1) Cons.prems(2)] Cons word(1) [OF w(2)] by (simp add: app, simp add: replace_char_def)
      also have "title_from (last w) (CHR '' '' # ?r (join_str ''_'' ws)) = CHR '' '' # title_from (CHR '' '') (?r (join_str ''_'' ws))"
        using titled(2) [OF w(1) Cons.prems(2)] by simp
      finally show ?thesis
        using Cons.IH [of "CHR '' ''"] Cons.prems(1) char_kinds(7) hd word(2) [OF tl] by (simp add: app, simp add: replace_char_def)
    qed
  qed
  then show ?thesis using char_kinds(7) by (simp add: CamelName_def)
qed

lemma UnderscoreName_lower:
  "list_all (\<lambda>c. isLower c \<or> isDigit c) cs \<Longrightarrow> cs \<noteq> [] \<Longrightarrow> r = [] \<or> isUpper (hd r) \<Longrightarrow>
   UnderscoreName (cs @ r) = cs @ (if r = [] then [] else ''_'') @ UnderscoreName r"
proof (induction cs)
  case (Cons c cs)
  have c: "toLower c = c" "isLower c \<or> isDigit c" using Cons.prems(1) char_kinds by (auto simp: toLower_def)
  show ?case
  proof (cases cs)
    case Nil
    then show ?thesis using Cons.prems c by (auto simp: UnderscoreName_Cons UnderscoreName_Nil)
  next
    case (Cons d ds)
    then have "\<not> isUpper d" using Cons.prems(1) char_kinds by auto
    then show ?thesis using Cons.IH Cons.prems Cons c by (simp add: UnderscoreName_Cons [of c])
  qed
qed simp

lemma UnderscoreName_word:
  assumes w: "word_ok w" and r: "r = [] \<or> isUpper (hd r)"
  shows "UnderscoreName (to_title (hd w) # tl w @ r) = w @ (if r = [] then [] else ''_'') @ UnderscoreName r"
proof -
  obtain c d ds where c: "w = c # d # ds" using w by (cases w; cases "tl w") (auto simp: word_ok_def)
  then have l: "isLower c" "list_all (\<lambda>c. isLower c \<or> isDigit c) (d # ds)" using w by (auto simp: word_ok_def)
  then have "\<not> isUpper d" using char_kinds by auto
  then show ?thesis
    using UnderscoreName_lower [OF l(2) _ r] to_title_upper [OF l(1)] c by (simp add: UnderscoreName_Cons [of "to_title c"])
qed

lemma titles_upper: "list_all word_ok ws \<Longrightarrow> concat (map (\<lambda>w. to_title (hd w) # tl w) ws) = [] \<or>
    isUpper (hd (concat (map (\<lambda>w. to_title (hd w) # tl w) ws)))"
  using to_title_upper by (cases ws) (auto simp: word_ok_def)

text \<open>Splitting a camel-case name gives the words it was joined from, when each has at least two letters or digits, in lower case, and begins with a letter.\<close>

theorem camel_names_split_again:
  assumes "list_all word_ok ws"
  shows "UnderscoreName (CamelName (join_str ''_'' ws)) = join_str ''_'' ws"
proof -
  have "UnderscoreName (concat (map (\<lambda>w. to_title (hd w) # tl w) ws)) = join_str ''_'' ws"
    using assms
  proof (induction ws)
    case (Cons w ws)
    then show ?case using UnderscoreName_word [OF _ titles_upper [of ws]] by (cases ws) auto
  qed (simp add: UnderscoreName_Nil)
  then show ?thesis by (simp only: CamelName_words [OF assms])
qed

lemma camel_names_split_again_witness:
  "UnderscoreName (CamelName (join_str ''_'' [''user'', ''id2''])) = join_str ''_'' [''user'', ''id2'']"
  by (rule camel_names_split_again) (simp add: word_ok_def isLower_def isDigit_def)

end
