(* ===== verification/Spec2Isabelle.thy ===== *)
theory Spec2Isabelle
  imports Decimal DecimalText Uuid Systems KeyLock Wait Pool Zdb Seq Redis Cache WkHttp Json ImTypes ImStructs ImMsg
    ImGroup DecimalPow NetIp Settings ErrorCodes TextUtil ConfigValue ConfigResolve ConfigStore Lifecycle Migration
    Crypt Network UrlQuery FormCodec FormRoundtrip FormLoss Router Query Constants Tracing Logging Money UtilRest
begin

text \<open>
  A verification library of JianYuServerLib, the Go library the servers of an instant messaging
  system are built on.

  \<^bold>\<open>The program.\<close> An application makes a \<^verbatim>\<open>config.Context\<close> from a configuration, registers modules, and
  starts a server. The context hands out what the modules share: caches, Redis, sequence numbers,
  worker pools, listeners, and the client of the IM server, which sends messages and manages users,
  channels and conversations over HTTP. The router wraps every handler in a context with the checks
  of the login token. Around this core stand utilities: decimals, UUIDs, encryption, error codes,
  layered configuration files, database transactions and migrations.

  \<^bold>\<open>Conventions.\<close> \<open>Prelude\<close> has the outcomes of a Go call (a value, an error or a panic), strings as bytes,
  and the parts of packages strings and strconv that are used. Integers are words of their width
  where they can wrap, and \<open>int\<close> where Go has big integers or where a bound is stated. A Go map whose
  iteration order shows is a list of entries in that order, so a statement about all lists is one
  about all orders. Concurrent code is a labelled step relation between program points (\<open>Systems\<close>),
  each step a section under a lock; \<open>invariant_system\<close> and its extension \<open>refinement_system\<close> are the
  interfaces its invariants and simulations are proved through.

  \<^bold>\<open>Theories and code.\<close>
  \<^item> \<open>KeyLock\<close>: \<^verbatim>\<open>pkg/keylock\<close>, locks by key with a cleaner. Mutual exclusion, no unlock of an unlocked
    mutex, and progress, by an invariant that counts holders and waiters.
  \<^item> \<open>Wait\<close>: \<^verbatim>\<open>pkg/wait\<close>, channels by request id in 64 shards. The shards refine one table; a value is
    sent once and a trigger never blocks.
  \<^item> \<open>Pool\<close>: \<^verbatim>\<open>pkg/pool\<close>, the queue with its condition variable refines a first-in first-out list.
  \<^item> \<open>Zdb\<close>: \<^verbatim>\<open>pkg/zdb\<close>, a transaction over several databases commits or rolls back all of them; the driver
    is a parameter, and every event of it is recorded.
  \<^item> \<open>Seq\<close>: \<^verbatim>\<open>config/seq.go\<close>, sequence numbers from reserved blocks grow, also over restarts; two callers at
    the first use can get the same number.
  \<^item> \<open>Redis\<close>, \<open>Cache\<close>: \<^verbatim>\<open>pkg/redis\<close>, \<^verbatim>\<open>pkg/cache\<close>, \<^verbatim>\<open>common/cache.go\<close>. The client of Redis is a function from a
    command and a server state to a reply; the interface of a cache is the locale \<open>cache\<close>, interpreted
    on the memory cache. The lock with a token is exclusive.
  \<^item> \<open>Query\<close>: the wrapper of \<^verbatim>\<open>pkg/zdb/db.go\<close> around gorm, with the errors and contexts of the package. A database is
    changed in place, so two chains of calls started from one query end in the same one.
  \<^item> \<open>WkHttp\<close>, \<open>Router\<close>: \<^verbatim>\<open>pkg/wkhttp\<close>, responses, paging, role checks, and the login middleware: which requests reach
    the handler, and as whom. The router's wrapped handlers take their contexts from a pool; overlapping requests,
    as steps, never share one.
  \<^item> \<open>Json\<close>: the text and reader of \<^verbatim>\<open>encoding/json\<close> and base64 that \<^verbatim>\<open>pkg/util/json.go\<close> and the client use. What
    is written is read back, up to the nesting depth of 10000 the package allows.
  \<^item> \<open>ImTypes\<close>, \<open>ImStructs\<close>, \<open>ImMsg\<close>, \<open>ImGroup\<close>: \<^verbatim>\<open>common/msg.go\<close>, \<^verbatim>\<open>common/constant.go\<close>, \<^verbatim>\<open>config/msg*.go\<close>,
    \<^verbatim>\<open>config/stream.go\<close>. The structs of the IM server with their JSON, every operation of the client over a
    network parameter, and the notices of groups. Replies decode to what the server sent, errors of
    the transport are returned, commands and notices carry what they were given.
  \<^item> \<open>Settings\<close>: \<^verbatim>\<open>config/config.go\<close>, the configuration as records with the defaults of \<^verbatim>\<open>New\<close> and every
    assignment of \<^verbatim>\<open>ConfigureWithViper\<close> in order. The assignments equal a table of keys.
  \<^item> \<open>ConfigValue\<close>, \<open>ConfigResolve\<close>, \<open>ConfigStore\<close>: \<^verbatim>\<open>pkg/zconfig/config\<close> and \<^verbatim>\<open>pkg/encoding\<close>. Values with typed views,
    lookup by a dotted path and placeholders; the resolver, which works in place, equals a substitution
    of all texts at once when no placeholder refers to a text with placeholders; loading, caching and
    watching as a state machine whose cached values follow the sources.
  \<^item> \<open>Lifecycle\<close>, \<open>Migration\<close>: \<^verbatim>\<open>pkg/register\<close>, \<^verbatim>\<open>module\<close>, \<^verbatim>\<open>server\<close>, \<^verbatim>\<open>config/context.go\<close>, \<^verbatim>\<open>pkg/db/mysql.go\<close>. The list of
    modules is fixed by its first use; they are set up, started and stopped in order up to the first
    error (the locale \<open>ordered_runner\<close> for both loops); listeners; finding migrations in directories.
  \<^item> \<open>Crypt\<close>: \<^verbatim>\<open>pkg/util/aes.go\<close>, \<^verbatim>\<open>pkg/util/crypt\<close>, \<^verbatim>\<open>pkg/zconfig/zconfig.go\<close>. CBC with padding decrypts what it
    encrypted, for every block cipher that does; encrypted configuration files load as the plain ones.
  \<^item> \<open>Network\<close>: \<^verbatim>\<open>pkg/network\<close>, requests and forms.
  \<^item> \<open>UrlQuery\<close>, \<open>FormCodec\<close>, \<open>FormRoundtrip\<close>, \<open>FormLoss\<close>: \<^verbatim>\<open>pkg/encoding/form\<close>, protobuf messages as query strings, over
    the reflection of protobuf as a parameter (\<open>FormRoundtrip\<close> gives it by messages as trees). Plain and nested
    fields survive; maps, oneofs, well-known types and recursive types do not, each in its way.
  \<^item> \<open>Constants\<close>: enumerations, keys and commands of \<^verbatim>\<open>common/constant.go\<close>, and the structs nothing here computes with
    (\<^verbatim>\<open>config/msg.go\<close>, \<^verbatim>\<open>common/page.go\<close>, \<^verbatim>\<open>model\<close>, \<^verbatim>\<open>pkg/wkevent\<close>). Keys of different kinds and commands differ.
  \<^item> \<open>Tracing\<close>, \<open>Logging\<close>: \<^verbatim>\<open>config/tracer.go\<close>, the spans around a request; \<^verbatim>\<open>pkg/log\<close> and \<^verbatim>\<open>pkg/zlog\<close>, which lines reach
    which file, options, levels, and the writer for a log service.
  \<^item> \<open>Money\<close>: \<^verbatim>\<open>pkg/util/yuan_cent.go\<close>, cents to yuan and back.
  \<^item> \<open>Decimal\<close>, \<open>DecimalText\<close>, \<open>DecimalPow\<close>: \<^verbatim>\<open>pkg/util/decimal.go\<close>. Arithmetic is exact on the rational value,
    rounding goes to the nearest, printing and parsing are inverse, powers end.
  \<^item> \<open>Uuid\<close>: \<^verbatim>\<open>pkg/util/uuid.go\<close>. Every form of text is read back; generators stamp version and variant, and
    version 1 does not repeat while the clock and the sequence do not wrap.
  \<^item> \<open>ErrorCodes\<close>, \<open>TextUtil\<close>, \<open>NetIp\<close>: \<^verbatim>\<open>pkg/errors\<close>, \<^verbatim>\<open>pkg/internal/httputil\<close>, the text helpers and \<^verbatim>\<open>ip.go\<close> of \<^verbatim>\<open>pkg/util\<close>.
  \<^item> \<open>UtilRest\<close>: the append buffer, camel-case and random names, digests and signatures as text, the times of
    \<^verbatim>\<open>pkg/db/db.go\<close>, and addresses looked up over HTTP. Camel-case names split into the words they were joined from.

  \<^bold>\<open>Bounds and termination.\<close> No model has fuel. Loops are structural or have a measure; those whose end
  is not evident are partial functions with None for not returning: powers of decimals (proved to
  end), expansion and resolution of placeholders (proved to end, also for circular ones), the form
  of a message (proved to end for types nested finitely deep, and not to end for some recursive ones), and the
  search for migrations (proved to end for two levels of directories, and not to end for a directory
  that holds one of its own name).

  \<^bold>\<open>Parameters.\<close> What is not in the repository is an argument: clocks, random sources, network
  interfaces, the SQL driver, the Redis server, HTTP transports, viper, mergo, the block cipher, the
  conversions of floating point numbers that print or parse. Theorems state what they need of them.

  \<^bold>\<open>Not modelled.\<close> Wiring of other packages (task queue, search, opening databases, starting a log
  producer), the codecs that only forward (\<^verbatim>\<open>json\<close>, \<^verbatim>\<open>proto\<close>, \<^verbatim>\<open>xml\<close>, \<^verbatim>\<open>yaml\<close>), generated code (\<^verbatim>\<open>pkg/wkhook\<close>,
  \<^verbatim>\<open>errors.pb.go\<close>), key exchange and formats of times (single calls of a package), helpers by reflection outside
  the form codec, the layout of log lines, and Float64 of decimals. Memory is modelled by values: two Go slices
  that share an array are not; where sharing decides a result the state is explicit: the configuration that is resolved in
  place, the databases of \<open>Query\<close>, the contexts of \<open>Router\<close>.
\<close>

end
